(* ===== verification/Prelude.thy ===== *)
theory Prelude
  imports Main "HOL-Library.Word" "HOL-Library.Monad_Syntax"
begin

text \<open>
  Shared vocabulary of the development: the C integer types as machine words, byte
  buffers with the little-endian reads and writes that the sources obtain by casting a
  buffer to a struct pointer, C strings, and the list facts that the component theories
  share.

  Fallible control flow is expressed in the option monad: \<open>None\<close> stands for a call that
  never returns to its caller (an endless loop, \<open>abort\<close> raised by a failed \<open>assert\<close>, or
  \<open>exit\<close>); C error codes are ordinary return values.
\<close>

unbundle bit_operations_syntax

named_theorems hist_simps \<open>what an operation appends to the history of external calls\<close>
named_theorems frame_simps \<open>fields of the state that an operation leaves unchanged\<close>
named_theorems code_consts \<open>values of the constants of the C headers\<close>

section \<open>Integer types and byte buffers\<close>

type_synonym u8 = "8 word"
type_synonym u16 = "16 word"
type_synonym u32 = "32 word"
type_synonym u64 = "64 word"
type_synonym bytes = "u8 list"

text \<open>A bit test \<open>x & m\<close> used as a C condition.\<close>

definition has_flag :: "'a::len word \<Rightarrow> 'a word \<Rightarrow> bool" where
  "has_flag x m \<longleftrightarrow> x AND m \<noteq> 0"

text \<open>Little-endian numbers: the value of a byte list, and the \<open>n\<close> bytes of a number.\<close>

primrec le_nat :: "bytes \<Rightarrow> nat" where
  "le_nat [] = 0"
| "le_nat (b # bs) = unat b + 256 * le_nat bs"

primrec le_bytes :: "nat \<Rightarrow> nat \<Rightarrow> bytes" where
  "le_bytes 0 x = []"
| "le_bytes (Suc n) x = word_of_nat (x mod 256) # le_bytes n (x div 256)"

definition put_u32 :: "u32 \<Rightarrow> bytes" where
  "put_u32 w = le_bytes 4 (unat w)"

definition put_u64 :: "u64 \<Rightarrow> bytes" where
  "put_u64 w = le_bytes 8 (unat w)"

definition get_u32 :: "bytes \<Rightarrow> nat \<Rightarrow> u32" where
  "get_u32 buf off = word_of_nat (le_nat (take 4 (drop off buf)))"

definition get_u64 :: "bytes \<Rightarrow> nat \<Rightarrow> u64" where
  "get_u64 buf off = word_of_nat (le_nat (take 8 (drop off buf)))"

text \<open>\<open>memcpy (buf + off, xs, length xs)\<close>; the target keeps its length when the copy fits.\<close>

definition buf_write :: "nat \<Rightarrow> bytes \<Rightarrow> bytes \<Rightarrow> bytes" where
  "buf_write off xs buf = take off buf @ xs @ drop (off + length xs) buf"

text \<open>C strings: the bytes before the first NUL.\<close>

definition c_str :: "bytes \<Rightarrow> bytes" where
  "c_str bs = takeWhile (\<lambda>b. b \<noteq> 0) bs"

definition c_strlen :: "bytes \<Rightarrow> nat" where
  "c_strlen bs = length (c_str bs)"

text \<open>The bytes of a string literal, without its terminator.\<close>

definition lit :: "string \<Rightarrow> bytes" where
  "lit s = map of_char s"

section \<open>Facts about flags and little-endian numbers\<close>

lemma has_flag_or: "has_flag x (a OR b) \<longleftrightarrow> has_flag x a \<or> has_flag x b"
  by (simp add: has_flag_def bit.conj_disj_distrib or_eq_0_iff)

lemma has_flag_or_left: "has_flag (x OR y) a \<longleftrightarrow> has_flag x a \<or> has_flag y a"
  by (simp add: has_flag_def bit.conj_disj_distrib2 or_eq_0_iff)

lemma unat_word_less: "unat (b :: u8) < 256" "unat (w :: u32) < 2 ^ 32" "unat (v :: u64) < 2 ^ 64"
  using unsigned_less [of b] unsigned_less [of w] unsigned_less [of v] by simp_all

lemma le_nat_bound: "le_nat bs < 256 ^ length bs"
proof (induction bs)
  case (Cons b bs)
  have "unat b < 256" by (rule unat_word_less)
  with Cons show ?case by simp
qed simp

lemma length_le_bytes [simp]: "length (le_bytes n x) = n"
  by (induction n arbitrary: x) simp_all

lemma le_nat_le_bytes: "le_nat (le_bytes n x) = x mod 256 ^ n"
proof (induction n arbitrary: x)
  case (Suc n)
  have "x mod (256 * 256 ^ n) = 256 * (x div 256 mod 256 ^ n) + x mod 256"
    by (rule mod_mult2_eq)
  then show ?case by (simp add: Suc unat_of_nat)
qed simp

lemma le_bytes_le_nat: "le_bytes (length bs) (le_nat bs) = bs"
proof (induction bs)
  case (Cons b bs)
  have "unat b < 256" by (rule unat_word_less)
  with Cons show ?case by simp
qed simp

lemma length_put [simp]: "length (put_u32 w) = 4" "length (put_u64 v) = 8"
  by (simp_all add: put_u32_def put_u64_def)

lemma get_put_u32 [simp]: "get_u32 (put_u32 w @ rest) 0 = w"
  using unat_word_less(2) [of w] by (simp add: get_u32_def put_u32_def le_nat_le_bytes)

lemma get_put_u64 [simp]: "get_u64 (put_u64 w @ rest) 0 = w"
  using unat_word_less(3) [of w] by (simp add: get_u64_def put_u64_def le_nat_le_bytes)

lemma get_append [simp]:
  "length xs \<le> off \<Longrightarrow> get_u32 (xs @ ys) off = get_u32 ys (off - length xs)"
  "length xs \<le> off \<Longrightarrow> get_u64 (xs @ ys) off = get_u64 ys (off - length xs)"
  by (simp_all add: get_u32_def get_u64_def)

lemma put_get_u32:
  assumes "off + 4 \<le> length bs"
  shows "put_u32 (get_u32 bs off) = take 4 (drop off bs)"
proof -
  let ?t = "take 4 (drop off bs)"
  have len: "length ?t = 4" using assms by simp
  have "le_nat ?t < 2 ^ 32" using le_nat_bound [of ?t] len by simp
  then have "unat (get_u32 bs off) = le_nat ?t"
    by (simp add: get_u32_def unat_of_nat take_bit_nat_eq_self_iff)
  then show ?thesis using le_bytes_le_nat [of ?t] len by (simp add: put_u32_def)
qed

section \<open>Computations that return\<close>

definition returns :: "'a option \<Rightarrow> bool" where
  "returns m \<longleftrightarrow> (\<exists>x. m = Some x)"

lemma returns_Some [simp]: "returns (Some x)" "\<not> returns None"
  by (simp_all add: returns_def)

lemma returns_bind [simp]: "returns (Option.bind m f) \<longleftrightarrow> returns m \<and> (\<forall>x. m = Some x \<longrightarrow> returns (f x))"
  by (cases m) simp_all

section \<open>Buffers and C strings\<close>

lemma length_buf_write [simp]:
  "off + length xs \<le> length buf \<Longrightarrow> length (buf_write off xs buf) = length buf"
  by (simp add: buf_write_def)

lemma take_buf_write:
  "off \<le> length buf \<Longrightarrow> take (off + length xs) (buf_write off xs buf) = take off buf @ xs"
  by (simp add: buf_write_def)

lemma c_strlen_le: "c_strlen bs \<le> length bs"
  by (simp add: c_strlen_def c_str_def length_takeWhile_le)

lemma c_str_no_nul: "0 \<notin> set (c_str bs)"
  unfolding c_str_def by (metis set_takeWhileD)

lemma c_str_nul_at:
  assumes "n < length bs" "bs ! n = 0"
  shows "c_strlen bs \<le> n"
proof (rule ccontr)
  assume "\<not> ?thesis"
  then have lt: "n < length (takeWhile (\<lambda>b. b \<noteq> 0) bs)"
    by (simp add: c_strlen_def c_str_def)
  then have "takeWhile (\<lambda>b. b \<noteq> 0) bs ! n \<noteq> 0"
    using nth_mem [OF lt] set_takeWhileD by fastforce
  with lt assms show False by (simp add: takeWhile_nth)
qed

lemma c_str_take: "c_strlen bs = n \<Longrightarrow> c_str bs = take n bs"
  unfolding c_strlen_def c_str_def by (metis takeWhile_eq_take)

end
