(* ===== verification/Posix.thy ===== *)
theory Posix
  imports Prelude
begin

text \<open>
  The boundary between the programs and the operating system. The kernel and the C
  library's memory allocator are not part of the repository: a \<open>kernel\<close> is a parameter
  of the model, a function that answers each external call from the history of all calls
  and answers so far. A process keeps that history (\<open>hist\<close>) and its \<open>errno\<close>; every
  component state extends the record \<open>proc\<close>. What the programs rely on from the
  documented behaviour of the calls is stated as named predicates on kernels
  (\<open>io_bounded\<close>, \<open>eintr_bounded\<close>, \<open>write_progress\<close>), which are hypotheses of the
  theorems that need them.

  The retry macro \<open>TEMP_FAILURE_RETRY\<close> is a \<open>partial_function\<close>, since a kernel may
  interrupt a call for ever; \<open>temp_failure_retry_returns\<close> gives its termination.
\<close>

section \<open>Constants of the platform headers (Linux)\<close>

abbreviation (input) EPERM :: int where "EPERM \<equiv> 1"
abbreviation (input) ENOENT :: int where "ENOENT \<equiv> 2"
abbreviation (input) EINTR :: int where "EINTR \<equiv> 4"
abbreviation (input) EIO :: int where "EIO \<equiv> 5"
abbreviation (input) EBADF :: int where "EBADF \<equiv> 9"
abbreviation (input) ENOMEM :: int where "ENOMEM \<equiv> 12"
abbreviation (input) EACCES :: int where "EACCES \<equiv> 13"
abbreviation (input) EFAULT :: int where "EFAULT \<equiv> 14"
abbreviation (input) EBUSY :: int where "EBUSY \<equiv> 16"
abbreviation (input) EEXIST :: int where "EEXIST \<equiv> 17"
abbreviation (input) ENODEV :: int where "ENODEV \<equiv> 19"
abbreviation (input) ENOTDIR :: int where "ENOTDIR \<equiv> 20"
abbreviation (input) EISDIR :: int where "EISDIR \<equiv> 21"
abbreviation (input) EINVAL :: int where "EINVAL \<equiv> 22"
abbreviation (input) ENAMETOOLONG :: int where "ENAMETOOLONG \<equiv> 36"
abbreviation (input) ENFILE :: int where "ENFILE \<equiv> 23"
abbreviation (input) EOVERFLOW :: int where "EOVERFLOW \<equiv> 75"
abbreviation (input) ECANCELED :: int where "ECANCELED \<equiv> 125"

abbreviation (input) O_RDONLY :: u32 where "O_RDONLY \<equiv> 0"
abbreviation (input) O_WRONLY :: u32 where "O_WRONLY \<equiv> 1"
abbreviation (input) O_RDWR :: u32 where "O_RDWR \<equiv> 2"
abbreviation (input) O_CREAT :: u32 where "O_CREAT \<equiv> 0x40"
abbreviation (input) O_EXCL :: u32 where "O_EXCL \<equiv> 0x80"
abbreviation (input) O_TRUNC :: u32 where "O_TRUNC \<equiv> 0x200"
abbreviation (input) O_SYNC :: u32 where "O_SYNC \<equiv> 0x101000"

text \<open>File modes, octal in C: \<open>S_IRUSR | S_IWUSR\<close> is 0600 and \<open>S_IRWXU\<close> is 0700.\<close>

abbreviation (input) S_IRUSR :: u32 where "S_IRUSR \<equiv> 0x100"
abbreviation (input) S_IWUSR :: u32 where "S_IWUSR \<equiv> 0x80"
abbreviation (input) S_IXUSR :: u32 where "S_IXUSR \<equiv> 0x40"
abbreviation (input) S_IRWXU :: u32 where "S_IRWXU \<equiv> 0x1C0"
abbreviation (input) S_IRWXG :: u32 where "S_IRWXG \<equiv> 0x38"
abbreviation (input) S_IRWXO :: u32 where "S_IRWXO \<equiv> 0x7"

section \<open>External calls\<close>

text \<open>
  The fields of \<open>struct mmc_ioc_cmd\<close> that the sources set. \<open>data_ptr\<close> is what the
  pointer gives access to: the bytes to be written, or a buffer to be filled.
\<close>

datatype mmc_data = To_card bytes | From_card

record mmc_ioc_cmd =
  write_flag :: u32
  opcode :: u32
  mmc_flags :: u32
  blksz :: u32
  blocks :: u32
  data_ptr :: mmc_data

datatype ioctl_req =
    TIPC_IOC_CONNECT bytes
  | MMC_IOC_MULTI_CMD "mmc_ioc_cmd list"
  | TEE_IOC_VERSION \<comment> \<open>answers the twelve bytes of the version data\<close>
  | TEE_IOC_SHM_ALLOC u64 \<comment> \<open>answers the sixteen bytes of the allocation data\<close>
  | TEE_IOC_OPEN_SESSION bytes \<comment> \<open>the argument buffer, which the answer replaces\<close>
  | TEE_IOC_INVOKE bytes
  | TEE_IOC_CANCEL u32 u32 \<comment> \<open>cancel identifier, session\<close>
  | TEE_IOC_CLOSE_SESSION u32
  | TEE_IOC_SET_HOSTNAME bytes
  | TEE_IOC_SHM_RELEASE int
  | TEE_IOC_SHM_ID nat \<comment> \<open>the address of a mapping\<close>
  | TEEI_CONFIG_IOCTL_INIT_TEEI bytes
  | TEEI_CONFIG_IOCTL_UNLOCK u32

datatype syscall =
    Open bytes u32 u32 \<comment> \<open>path, flags, mode\<close>
  | Close int
  | Fsync int
  | Syncfs int
  | Unlink bytes
  | Mkdir bytes u32
  | Umask u32
  | Pread int nat u64 \<comment> \<open>descriptor, size, offset\<close>
  | Pwrite int bytes u64
  | Ftruncate int u64
  | Fstat int \<comment> \<open>answers the eight bytes of \<open>st_size\<close>\<close>
  | Read int nat
  | Write int bytes
  | Readv int "nat list" \<comment> \<open>the sizes of the vectors\<close>
  | Writev int bytes
  | Ioctl int ioctl_req
  | Mmap nat int \<comment> \<open>size and descriptor; answers the address, or \<open>-1\<close>\<close>
  | Munmap nat nat \<comment> \<open>address and size\<close>
  | Malloc nat \<comment> \<open>a negative answer is a \<open>NULL\<close> result\<close>
  | Sleep nat
  | Property_set string string
  | Property_get string \<comment> \<open>answers the value, empty when the property is not set\<close>
  | Usleep nat
  | Access bytes
  | Rename bytes bytes
  | Sem_init
  | Sem_wait
  | Mutex_init
  | Mutex_lock
  | Mutex_unlock
  | Pthread_create string \<comment> \<open>the start routine\<close>
  | Prctl_keepcaps
  | Setgid nat
  | Setuid nat
  | Capset "nat list" \<comment> \<open>the capabilities that stay permitted and effective\<close>

record sysret =
  sr_rc :: int
  sr_err :: int
  sr_out :: bytes

type_synonym event = "syscall \<times> sysret"
type_synonym kernel = "event list \<Rightarrow> syscall \<Rightarrow> sysret"

text \<open>An answer without output data.\<close>

definition ret :: "int \<Rightarrow> sysret" where
  "ret n = \<lparr>sr_rc = n, sr_err = 0, sr_out = []\<rparr>"

definition fail :: "int \<Rightarrow> sysret" where
  "fail e = \<lparr>sr_rc = - 1, sr_err = e, sr_out = []\<rparr>"

definition ret_data :: "bytes \<Rightarrow> sysret" where
  "ret_data bs = \<lparr>sr_rc = int (length bs), sr_err = 0, sr_out = bs\<rparr>"

lemmas answer_defs = ret_def fail_def ret_data_def

section \<open>Processes\<close>

record proc =
  hist :: "event list"
  errno :: int

text \<open>One external call: the answer is recorded and a failure sets \<open>errno\<close>.\<close>

definition sys :: "kernel \<Rightarrow> syscall \<Rightarrow> 'a proc_scheme \<Rightarrow> sysret \<times> 'a proc_scheme" where
  "sys k c s =
     (let r = k (hist s) c in
      (r, s\<lparr>hist := hist s @ [(c, r)], errno := (if sr_rc r < 0 then sr_err r else errno s)\<rparr>))"

definition interrupted :: "sysret \<Rightarrow> bool" where
  "interrupted r \<longleftrightarrow> sr_rc r = - 1 \<and> sr_err r = EINTR"

text \<open>The macro \<open>TEMP_FAILURE_RETRY\<close> of \<open>unistd.h\<close> applied to a call.\<close>

partial_function (option) temp_failure_retry ::
  "kernel \<Rightarrow> syscall \<Rightarrow> 'a proc_scheme \<Rightarrow> (sysret \<times> 'a proc_scheme) option" where
  "temp_failure_retry k c s =
     (let (r, s') = sys k c s in
      if interrupted r then temp_failure_retry k c s' else Some (r, s'))"

text \<open>
  \<open>asprintf\<close> of a formatted string: it allocates the result and gives its length, or
  \<open>-1\<close> when the allocation fails. A \<open>NULL\<close> argument of \<open>%s\<close> prints as \<open>(null)\<close>.
\<close>

definition asprintf :: "kernel \<Rightarrow> bytes \<Rightarrow> 'a proc_scheme \<Rightarrow> int \<times> 'a proc_scheme" where
  "asprintf k str s =
     (let (r, s') = sys k (Malloc (length str + 1)) s in
      (if sr_rc r < 0 then - 1 else int (length str), s'))"

definition fmt_s :: "bytes option \<Rightarrow> bytes" where
  "fmt_s p = (case p of None \<Rightarrow> lit ''(null)'' | Some str \<Rightarrow> str)"

section \<open>Documented behaviour of the kernel\<close>

text \<open>
  Transfers never exceed the size asked for, and deliver the bytes they count; a
  descriptor is a C \<open>int\<close>.
\<close>

fun io_answer_ok :: "syscall \<Rightarrow> sysret \<Rightarrow> bool" where
  "io_answer_ok (Pread fd n off) r \<longleftrightarrow> - 1 \<le> sr_rc r \<and> sr_rc r \<le> int n \<and> length (sr_out r) = nat (sr_rc r)"
| "io_answer_ok (Pwrite fd bs off) r \<longleftrightarrow> - 1 \<le> sr_rc r \<and> sr_rc r \<le> int (length bs)"
| "io_answer_ok (Read fd n) r \<longleftrightarrow> - 1 \<le> sr_rc r \<and> sr_rc r \<le> int n \<and> length (sr_out r) = nat (sr_rc r)"
| "io_answer_ok (Readv fd ns) r \<longleftrightarrow>
     - 1 \<le> sr_rc r \<and> sr_rc r \<le> int (sum_list ns) \<and> length (sr_out r) = nat (sr_rc r)"
| "io_answer_ok (Open path fl m) r \<longleftrightarrow> - 1 \<le> sr_rc r \<and> sr_rc r < 2 ^ 31"
| "io_answer_ok _ r \<longleftrightarrow> True"

definition io_bounded :: "kernel \<Rightarrow> bool" where
  "io_bounded k \<longleftrightarrow> (\<forall>h c. io_answer_ok c (k h c))"

text \<open>A call is interrupted at most \<open>n\<close> times in a row.\<close>

definition trailing_eintr :: "event list \<Rightarrow> nat" where
  "trailing_eintr h = length (takeWhile (\<lambda>(c, r). interrupted r) (rev h))"

definition eintr_bounded :: "nat \<Rightarrow> kernel \<Rightarrow> bool" where
  "eintr_bounded n k \<longleftrightarrow> (\<forall>h c. n \<le> trailing_eintr h \<longrightarrow> \<not> interrupted (k h c))"

text \<open>A positioned write of at least one byte transfers at least one byte or fails.\<close>

definition write_progress :: "kernel \<Rightarrow> bool" where
  "write_progress k \<longleftrightarrow> (\<forall>h fd bs off. bs \<noteq> [] \<longrightarrow> sr_rc (k h (Pwrite fd bs off)) \<noteq> 0)"

text \<open>A call that fails says why.\<close>

definition errno_set :: "kernel \<Rightarrow> bool" where
  "errno_set k \<longleftrightarrow> (\<forall>h c. sr_rc (k h c) < 0 \<longrightarrow> sr_err (k h c) \<noteq> 0)"

text \<open>
  The descriptors a process holds, read off its history (\<open>close\<close> releases the descriptor
  whatever it answers), and that \<open>open\<close> gives a descriptor that is not in use.
\<close>

fun fd_effect :: "event \<Rightarrow> int set \<Rightarrow> int set" where
  "fd_effect (Open path fl mode, r) F = (if 0 \<le> sr_rc r then insert (sr_rc r) F else F)"
| "fd_effect (Close fd, r) F = F - {fd}"
| "fd_effect (_, r) F = F"

definition open_fds :: "event list \<Rightarrow> int set" where
  "open_fds h = fold fd_effect h {}"

definition fresh_fds :: "kernel \<Rightarrow> bool" where
  "fresh_fds k \<longleftrightarrow> (\<forall>h path fl mode. sr_rc (k h (Open path fl mode)) \<notin> open_fds h)"

section \<open>Facts about calls and retries\<close>

lemma open_fds_snoc [simp]: "open_fds (h @ [e]) = fd_effect e (open_fds h)"
  by (simp add: open_fds_def)

lemma open_fds_Nil [simp]: "open_fds [] = {}"
  by (simp add: open_fds_def)

lemma sys_hist [hist_simps]: "hist (snd (sys k c s)) = hist s @ [(c, fst (sys k c s))]"
  by (simp add: sys_def Let_def)

lemma sys_fst: "fst (sys k c s) = k (hist s) c"
  by (simp add: sys_def Let_def)

lemma sys_eqD:
  assumes "sys k c s = (r, s')"
  shows "r = k (hist s) c" and "hist s' = hist s @ [(c, r)]"
    and "s' = s\<lparr>hist := hist s @ [(c, r)], errno := (if sr_rc r < 0 then sr_err r else errno s)\<rparr>"
    and "sr_rc r < 0 \<Longrightarrow> errno s' = sr_err r"
  using assms by (auto simp: sys_def Let_def)

lemma io_boundedD: "io_bounded k \<Longrightarrow> io_answer_ok c (k h c)"
  by (simp add: io_bounded_def)

lemma interrupted_ret [simp]:
  "0 \<le> n \<Longrightarrow> \<not> interrupted (ret n)" "\<not> interrupted (ret_data bs)"
  "interrupted (fail e) \<longleftrightarrow> e = EINTR"
  by (auto simp: interrupted_def answer_defs)

text \<open>
  What a returning retry has done: it appended interrupted attempts of the same call and
  then the answer it returns, and changed nothing else of the process.
\<close>

definition retried :: "kernel \<Rightarrow> syscall \<Rightarrow> 'a proc_scheme \<Rightarrow> sysret \<Rightarrow> 'a proc_scheme \<Rightarrow> bool" where
  "retried k c s r s' \<longleftrightarrow>
     (\<exists>es e. (\<forall>x \<in> set es. fst x = c \<and> interrupted (snd x)) \<and>
        r = k (hist s @ es) c \<and> \<not> interrupted r \<and>
        s' = s\<lparr>hist := hist s @ es @ [(c, r)], errno := e\<rparr> \<and>
        (sr_rc r < 0 \<longrightarrow> e = sr_err r))"

lemma retried_step:
  assumes "sys k c s = (r0, s1)" and "interrupted r0" and "retried k c s1 r s'"
  shows "retried k c s r s'"
proof -
  from assms(3) obtain es e where
    es: "\<forall>x \<in> set es. fst x = c \<and> interrupted (snd x)" "r = k (hist s1 @ es) c" "\<not> interrupted r"
      "s' = s1\<lparr>hist := hist s1 @ es @ [(c, r)], errno := e\<rparr>" "sr_rc r < 0 \<longrightarrow> e = sr_err r"
    unfolding retried_def by blast
  with assms(2) sys_eqD(3) [OF assms(1)] show ?thesis
    unfolding retried_def by (intro exI [of _ "(c, r0) # es"] exI [of _ e]) auto
qed

lemma retried_base: "sys k c s = (r, s') \<Longrightarrow> \<not> interrupted r \<Longrightarrow> retried k c s r s'"
  using sys_eqD [of k c s r s'] unfolding retried_def
  by (intro exI [of _ "[]"] exI [of _ "errno s'"]) auto

lemma temp_failure_retry_retried:
  assumes "temp_failure_retry k c s = Some (r, s')"
  shows "retried k c s r s'"
proof -
  have "(\<lambda>k c s p. retried k c s (fst p) (snd p)) k c s (r, s')"
  proof (rule temp_failure_retry.raw_induct [OF _ assms])
    fix f k c s p
    assume IH: "\<And>k c s p. f k c s = Some p \<Longrightarrow> retried k c s (fst p) (snd p)"
      and eq: "(let (r, s') = sys k c s in if interrupted r then f k c s' else Some (r, s')) = Some p"
    obtain r0 s1 where s1: "sys k c s = (r0, s1)" by fastforce
    show "retried k c s (fst p) (snd p)"
    proof (cases "interrupted r0")
      case True
      with eq s1 have "f k c s1 = Some p" by simp
      from retried_step [OF s1 True IH [OF this]] show ?thesis .
    next
      case False
      with eq s1 have "p = (r0, s1)" by simp
      with retried_base [OF s1 False] show ?thesis by simp
    qed
  qed
  then show ?thesis by simp
qed

lemma trailing_eintr_snoc: "trailing_eintr (h @ [(c, r)]) = (if interrupted r then Suc (trailing_eintr h) else 0)"
  by (simp add: trailing_eintr_def)

lemma temp_failure_retry_returns:
  assumes "eintr_bounded n k"
  shows "\<exists>r s'. temp_failure_retry k c s = Some (r, s')"
proof (induction "n - trailing_eintr (hist s)" arbitrary: s rule: less_induct)
  case less
  obtain r0 s1 where s1: "sys k c s = (r0, s1)" by fastforce
  show ?case
  proof (cases "interrupted r0")
    case True
    have "\<not> n \<le> trailing_eintr (hist s)"
      using assms True sys_eqD(1) [OF s1] unfolding eintr_bounded_def by blast
    moreover have "trailing_eintr (hist s1) = Suc (trailing_eintr (hist s))"
      using True by (simp add: sys_eqD(2) [OF s1] trailing_eintr_snoc)
    ultimately have "\<exists>r s'. temp_failure_retry k c s1 = Some (r, s')"
      by (intro less) simp
    with True s1 show ?thesis by (subst temp_failure_retry.simps) simp
  next
    case False
    with s1 show ?thesis by (subst temp_failure_retry.simps) simp
  qed
qed

lemma temp_failure_retry_once:
  "\<not> interrupted (k (hist s) c) \<Longrightarrow> temp_failure_retry k c s = Some (sys k c s)"
  by (subst temp_failure_retry.simps) (simp add: sys_def Let_def)

lemma retriedE:
  assumes "retried k c s r s'"
  obtains es e where "s' = s\<lparr>hist := hist s @ es @ [(c, r)], errno := e\<rparr>"
    and "\<forall>x \<in> set es. fst x = c \<and> interrupted (snd x)" and "r = k (hist s @ es) c"
    and "\<not> interrupted r" and "sr_rc r < 0 \<longrightarrow> e = sr_err r"
  using assms unfolding retried_def by blast

section \<open>Operations that only make calls\<close>

text \<open>The step from \<open>s\<close> to \<open>s'\<close> makes calls that satisfy \<open>P\<close> and changes nothing else.\<close>

definition calls_only :: "(syscall \<Rightarrow> bool) \<Rightarrow> 'a proc_scheme \<Rightarrow> 'a proc_scheme \<Rightarrow> bool" where
  "calls_only P s s' \<longleftrightarrow>
     (\<exists>es e. s' = s\<lparr>hist := hist s @ es, errno := e\<rparr> \<and> (\<forall>x \<in> set es. P (fst x)))"

lemma calls_only_refl [intro, simp]: "calls_only P s s"
  unfolding calls_only_def by (intro exI [of _ "[]"] exI [of _ "errno s"]) simp

lemma calls_only_trans [trans]:
  assumes "calls_only P s s1" "calls_only P s1 s2"
  shows "calls_only P s s2"
proof -
  from assms obtain es e es' e' where "s1 = s\<lparr>hist := hist s @ es, errno := e\<rparr>" "\<forall>x \<in> set es. P (fst x)"
    "s2 = s1\<lparr>hist := hist s1 @ es', errno := e'\<rparr>" "\<forall>x \<in> set es'. P (fst x)"
    unfolding calls_only_def by blast
  then show ?thesis unfolding calls_only_def by (intro exI [of _ "es @ es'"] exI [of _ e']) auto
qed

lemma calls_only_mono: "calls_only P s s' \<Longrightarrow> (\<And>c. P c \<Longrightarrow> Q c) \<Longrightarrow> calls_only Q s s'"
  unfolding calls_only_def by blast

lemma calls_only_sys: "sys k c s = (r, s') \<Longrightarrow> P c \<Longrightarrow> calls_only P s s'"
  using sys_eqD(3) [of k c s r s'] unfolding calls_only_def by fastforce

lemma calls_only_retry:
  assumes "temp_failure_retry k c s = Some (r, s')" "P c"
  shows "calls_only P s s'"
proof -
  obtain es e where "s' = s\<lparr>hist := hist s @ es @ [(c, r)], errno := e\<rparr>"
    "\<forall>x \<in> set es. fst x = c \<and> interrupted (snd x)"
    using retriedE [OF temp_failure_retry_retried [OF assms(1)]] by metis
  with assms(2) show ?thesis
    unfolding calls_only_def by (intro exI [of _ "es @ [(c, r)]"] exI [of _ e]) auto
qed

lemma calls_only_asprintf:
  "asprintf k str s = (n, s') \<Longrightarrow> (\<And>m. P (Malloc m)) \<Longrightarrow> calls_only P s s'"
  unfolding asprintf_def by (auto simp: Let_def split: prod.splits intro: calls_only_sys)

lemma retry_errno:
  assumes "temp_failure_retry k c s = Some (r, s')" "errno_set k" "sr_rc r < 0"
  shows "errno s' \<noteq> 0"
proof -
  obtain es e where "s' = s\<lparr>hist := hist s @ es @ [(c, r)], errno := e\<rparr>" "r = k (hist s @ es) c"
    "sr_rc r < 0 \<longrightarrow> e = sr_err r"
    using retriedE [OF temp_failure_retry_retried [OF assms(1)]] by metis
  with assms(2,3) show ?thesis by (auto simp: errno_set_def)
qed

section \<open>An obliging kernel\<close>

text \<open>
  A concrete kernel for examples: every call succeeds at once, \<open>open\<close> gives a new
  descriptor, writes are complete and reads deliver as many zero bytes as asked for.
\<close>

definition next_fd :: "event list \<Rightarrow> int" where
  "next_fd h = int (sum_list (map (\<lambda>(c, r). nat (sr_rc r)) h)) + 3"

definition calm :: kernel where
  "calm h c = (case c of
       Open path fl m \<Rightarrow> if next_fd h < 2 ^ 31 then ret (next_fd h) else fail ENFILE
     | Pread fd n off \<Rightarrow> ret_data (replicate n 0)
     | Pwrite fd bs off \<Rightarrow> ret (int (length bs))
     | Read fd n \<Rightarrow> ret_data (replicate n 0)
     | Readv fd ns \<Rightarrow> ret_data (replicate (sum_list ns) 0)
     | Fstat fd \<Rightarrow> \<lparr>sr_rc = 0, sr_err = 0, sr_out = replicate 8 0\<rparr>
     | _ \<Rightarrow> ret 0)"

lemma open_fds_less_next: "fd \<in> open_fds h \<Longrightarrow> fd < next_fd h"
proof (induction h rule: rev_induct)
  case (snoc e h)
  have mono: "next_fd h \<le> next_fd (h @ [e])" by (cases e) (simp add: next_fd_def)
  have new: "sr_rc (snd e) < next_fd (h @ [e])" by (cases e) (auto simp: next_fd_def)
  obtain c r where e: "e = (c, r)" by (cases e)
  from snoc.prems have "fd \<in> open_fds h \<or> fd = sr_rc r"
    unfolding e open_fds_snoc by (cases c) (auto split: if_splits)
  with snoc.IH mono new e show ?case by auto
qed simp

lemma calm_ok [simp]: "fresh_fds calm" "io_bounded calm" "write_progress calm" "eintr_bounded n calm"
  "errno_set calm"
proof -
  have "0 \<le> fd" if "fd \<in> open_fds h" for fd h
    using that
  proof (induction h rule: rev_induct)
    case (snoc e h)
    then show ?case by (cases "fst e"; cases e) (auto split: if_splits)
  qed simp
  then show "fresh_fds calm"
    using open_fds_less_next less_irrefl by (fastforce simp: fresh_fds_def calm_def answer_defs)
  have "io_answer_ok c (calm h c)" for h c
    by (cases c) (auto simp: calm_def answer_defs next_fd_def)
  then show "io_bounded calm" by (simp add: io_bounded_def)
  show "write_progress calm" by (auto simp: write_progress_def calm_def ret_def)
  have "\<not> interrupted (calm h c)" for h c
    by (cases c) (auto simp: calm_def interrupted_def answer_defs next_fd_def)
  then show "eintr_bounded n calm" unfolding eintr_bounded_def by blast
  have "sr_rc (calm h c) < 0 \<longrightarrow> sr_err (calm h c) \<noteq> 0" for h c
    by (cases c) (auto simp: calm_def answer_defs next_fd_def)
  then show "errno_set calm" by (simp add: errno_set_def)
qed

end
