(* ===== verification/Tipc.thy ===== *)
theory Tipc
  imports Posix
begin

text \<open>
  The Trusty IPC client library (\<open>libtrusty/trusty.c\<close>): \<open>tipc_connect\<close> opens the device
  and binds the descriptor to a service port, \<open>tipc_close\<close> closes it. Four programs keep
  a connection in a global handle; what they rely on is the locale \<open>tipc_client\<close>, which
  each of them interprets in its own theory.
\<close>

section \<open>The library\<close>

definition tipc_connect ::
  "kernel \<Rightarrow> bytes \<Rightarrow> bytes \<Rightarrow> 'a proc_scheme \<Rightarrow> int \<times> 'a proc_scheme" where
  "tipc_connect k dev_name srv_name s =
     (let (r, s1) = sys k (Open dev_name O_RDWR 0) s; fd = sr_rc r in
      if fd < 0 then let rc = - errno s1 in (if rc < 0 then rc else - 1, s1)
      else
        let (r2, s2) = sys k (Ioctl fd (TIPC_IOC_CONNECT srv_name)) s1 in
        if sr_rc r2 < 0 then
          let rc = - errno s2; (_, s3) = sys k (Close fd) s2
          in (if rc < 0 then rc else - 1, s3)
        else (fd, s2))"

definition tipc_close :: "kernel \<Rightarrow> int \<Rightarrow> 'a proc_scheme \<Rightarrow> 'a proc_scheme" where
  "tipc_close k fd s = snd (sys k (Close fd) s)"

section \<open>Behaviour\<close>

lemma tipc_connect_cases:
  assumes "tipc_connect k dev srv s = (rc, s')"
  obtains (no_device) r where "sr_rc r < 0" "rc < 0" "hist s' = hist s @ [(Open dev O_RDWR 0, r)]"
    "r = k (hist s) (Open dev O_RDWR 0)"
  | (refused) r r2 r3 where "0 \<le> sr_rc r" "sr_rc r2 < 0" "rc < 0"
    "r = k (hist s) (Open dev O_RDWR 0)"
    "hist s' = hist s @ [(Open dev O_RDWR 0, r), (Ioctl (sr_rc r) (TIPC_IOC_CONNECT srv), r2),
       (Close (sr_rc r), r3)]"
  | (connected) r r2 where "sr_rc r = rc" "0 \<le> rc" "0 \<le> sr_rc r2"
    "r = k (hist s) (Open dev O_RDWR 0)"
    "hist s' = hist s @ [(Open dev O_RDWR 0, r), (Ioctl rc (TIPC_IOC_CONNECT srv), r2)]"
proof -
  let ?r = "k (hist s) (Open dev O_RDWR 0)"
  obtain s1 where s1: "sys k (Open dev O_RDWR 0) s = (?r, s1)"
    by (metis sys_fst prod.collapse)
  let ?io = "Ioctl (sr_rc ?r) (TIPC_IOC_CONNECT srv)"
  obtain r2 s2 where s2: "sys k ?io s1 = (r2, s2)" by fastforce
  obtain r3 s3 where s3: "sys k (Close (sr_rc ?r)) s2 = (r3, s3)" by fastforce
  note h = sys_eqD(2) [OF s1] sys_eqD(2) [OF s2] sys_eqD(2) [OF s3]
  consider "sr_rc ?r < 0" | "0 \<le> sr_rc ?r" "sr_rc r2 < 0" | "0 \<le> sr_rc ?r" "0 \<le> sr_rc r2"
    by linarith
  then show thesis
  proof cases
    case 1
    with assms s1 h no_device [of ?r] show ?thesis
      by (auto simp: tipc_connect_def Let_def split: if_splits)
  next
    case 2
    with assms s1 s2 s3 h refused [of ?r r2 r3] show ?thesis
      by (auto simp: tipc_connect_def Let_def split: if_splits)
  next
    case 3
    with assms s1 s2 h connected [of ?r r2] show ?thesis
      by (auto simp: tipc_connect_def Let_def split: if_splits)
  qed
qed

lemma tipc_connect_frame [frame_simps]:
  "tipc_connect k dev srv s = (rc, s') \<Longrightarrow> proc.more s' = proc.more s"
  by (auto simp: tipc_connect_def sys_def Let_def split: if_splits prod.splits)

lemma tipc_close_frame [frame_simps]: "proc.more (tipc_close k fd s) = proc.more s"
  by (simp add: tipc_close_def sys_def Let_def)

text \<open>A failed connection attempt releases the descriptor it opened.\<close>

lemma tipc_connect_open_fds:
  assumes "tipc_connect k dev srv s = (rc, s')" "fresh_fds k"
  shows "open_fds (hist s') = (if rc < 0 then open_fds (hist s) else insert rc (open_fds (hist s)))"
    and "0 \<le> rc \<Longrightarrow> rc \<notin> open_fds (hist s)"
proof -
  have fresh: "sr_rc (k h (Open dev fl m)) \<notin> open_fds h" for h fl m
    using assms(2) by (auto simp: fresh_fds_def)
  have snoc: "open_fds (h @ [a, b]) = open_fds ((h @ [a]) @ [b])"
    "open_fds (h @ [a, b, c]) = open_fds (((h @ [a]) @ [b]) @ [c])" for h a b c
    by simp_all
  from assms(1) show "open_fds (hist s') = (if rc < 0 then open_fds (hist s) else insert rc (open_fds (hist s)))"
    and "0 \<le> rc \<Longrightarrow> rc \<notin> open_fds (hist s)"
    by (cases rule: tipc_connect_cases; use fresh in \<open>auto simp only: snoc open_fds_snoc\<close>; use fresh in auto)+
qed

section \<open>Programs that keep one connection\<close>

text \<open>
  A program state with a history and a handle. \<open>connect\<close> stores the new descriptor and
  answers 0, or answers a negative number and holds no descriptor for it; \<open>disconnect\<close>
  closes the handle of a state that the program takes for connected. \<open>ready\<close> are the
  states in which the program connects.
\<close>

locale tipc_client =
  fixes connect :: "kernel \<Rightarrow> 's \<Rightarrow> int \<times> 's"
    and disconnect :: "kernel \<Rightarrow> 's \<Rightarrow> 's"
    and handle :: "'s \<Rightarrow> int"
    and log :: "'s \<Rightarrow> event list"
    and ready :: "'s \<Rightarrow> bool"
    and connected :: "'s \<Rightarrow> bool"
  assumes connect_answer: "ready s \<Longrightarrow> connect k s = (rc, s') \<Longrightarrow> rc \<le> 0"
    and connect_ok: "ready s \<Longrightarrow> fresh_fds k \<Longrightarrow> connect k s = (0, s') \<Longrightarrow>
      open_fds (log s') = insert (handle s') (open_fds (log s)) \<and>
      handle s' \<notin> open_fds (log s) \<and> 0 \<le> handle s'"
    and connect_fail: "ready s \<Longrightarrow> fresh_fds k \<Longrightarrow> connect k s = (rc, s') \<Longrightarrow> rc < 0 \<Longrightarrow>
      open_fds (log s') = open_fds (log s) \<and> handle s' = handle s"
    and disconnect_closes: "connected s \<Longrightarrow>
      open_fds (log (disconnect k s)) = open_fds (log s) - {handle s}"
begin

text \<open>A session that is opened and closed leaks no descriptor.\<close>

lemma session_balanced:
  assumes "ready s" "fresh_fds k" "connect k s = (rc, s')"
    and "rc = 0 \<Longrightarrow> connected s'"
  shows "open_fds (log (if rc < 0 then s' else disconnect k s')) = open_fds (log s)"
proof (cases "rc < 0")
  case True
  with connect_fail [OF assms(1-3)] show ?thesis by simp
next
  case False
  with connect_answer [OF assms(1,3)] have "rc = 0" by simp
  with connect_ok [OF assms(1,2)] assms(3,4)
  have "open_fds (log s') = insert (handle s') (open_fds (log s))" "handle s' \<notin> open_fds (log s)"
    "connected s'"
    by simp_all
  then show ?thesis using False disconnect_closes [of s' k] by simp
qed

end

end
