(* ===== verification/Storage_Proto.thy ===== *)
theory Storage_Proto
  imports Prelude
begin

text \<open>
  The wire protocol between the secure world's storage server and the proxy
  (\<open>interface/include/microtrust/interface/storage.h\<close>): command and error codes, the
  flag words, the message header and the request structures. A C struct that a buffer is
  cast to is a record with a reader (\<open>get_\<dots>\<close>) and a writer (\<open>put_\<dots>\<close>) of its layout
  in memory; trailing \<open>char name[0]\<close> and \<open>uint8_t data[0]\<close> members are what follows the
  fixed part. Sizes are those of the LP64 ABI, where \<open>struct storage_file_set_size_req\<close>
  has four bytes of padding at its end.
\<close>

section \<open>Commands, errors and flags\<close>

datatype storage_cmd =
    STORAGE_RESP_MSG_ERR
  | STORAGE_FILE_DELETE
  | STORAGE_FILE_OPEN
  | STORAGE_FILE_CLOSE
  | STORAGE_FILE_READ
  | STORAGE_FILE_WRITE
  | STORAGE_FILE_GET_SIZE
  | STORAGE_FILE_SET_SIZE
  | STORAGE_RPMB_SEND
  | STORAGE_END_TRANSACTION
  | STORAGE_INIT_OK
  | STORAGE_INIT_PROINFO_OK
  | STORAGE_INIT_PERSIST_OK

definition STORAGE_REQ_SHIFT :: nat where "STORAGE_REQ_SHIFT = 1"
definition STORAGE_RESP_BIT :: u32 where "STORAGE_RESP_BIT = 1"

fun storage_cmd_code :: "storage_cmd \<Rightarrow> u32" where
  "storage_cmd_code STORAGE_RESP_MSG_ERR = STORAGE_RESP_BIT"
| "storage_cmd_code STORAGE_FILE_DELETE = push_bit STORAGE_REQ_SHIFT 1"
| "storage_cmd_code STORAGE_FILE_OPEN = push_bit STORAGE_REQ_SHIFT 2"
| "storage_cmd_code STORAGE_FILE_CLOSE = push_bit STORAGE_REQ_SHIFT 3"
| "storage_cmd_code STORAGE_FILE_READ = push_bit STORAGE_REQ_SHIFT 4"
| "storage_cmd_code STORAGE_FILE_WRITE = push_bit STORAGE_REQ_SHIFT 5"
| "storage_cmd_code STORAGE_FILE_GET_SIZE = push_bit STORAGE_REQ_SHIFT 6"
| "storage_cmd_code STORAGE_FILE_SET_SIZE = push_bit STORAGE_REQ_SHIFT 7"
| "storage_cmd_code STORAGE_RPMB_SEND = push_bit STORAGE_REQ_SHIFT 8"
| "storage_cmd_code STORAGE_END_TRANSACTION = push_bit STORAGE_REQ_SHIFT 9"
| "storage_cmd_code STORAGE_INIT_OK = push_bit STORAGE_REQ_SHIFT 20"
| "storage_cmd_code STORAGE_INIT_PROINFO_OK = push_bit STORAGE_REQ_SHIFT 21"
| "storage_cmd_code STORAGE_INIT_PERSIST_OK = push_bit STORAGE_REQ_SHIFT 22"

declare storage_cmd_code.simps [simp del]

lemmas storage_cmd_consts = storage_cmd_code.simps STORAGE_REQ_SHIFT_def STORAGE_RESP_BIT_def

datatype storage_err =
    STORAGE_NO_ERROR
  | STORAGE_ERR_GENERIC
  | STORAGE_ERR_NOT_VALID
  | STORAGE_ERR_UNIMPLEMENTED
  | STORAGE_ERR_ACCESS
  | STORAGE_ERR_NOT_FOUND
  | STORAGE_ERR_EXIST
  | STORAGE_ERR_TRANSACT

fun storage_err_code :: "storage_err \<Rightarrow> u32" where
  "storage_err_code STORAGE_NO_ERROR = 0"
| "storage_err_code STORAGE_ERR_GENERIC = 1"
| "storage_err_code STORAGE_ERR_NOT_VALID = 2"
| "storage_err_code STORAGE_ERR_UNIMPLEMENTED = 3"
| "storage_err_code STORAGE_ERR_ACCESS = 4"
| "storage_err_code STORAGE_ERR_NOT_FOUND = 5"
| "storage_err_code STORAGE_ERR_EXIST = 6"
| "storage_err_code STORAGE_ERR_TRANSACT = 7"

definition STORAGE_FILE_OPEN_CREATE :: u32 where "STORAGE_FILE_OPEN_CREATE = push_bit 0 1"
definition STORAGE_FILE_OPEN_CREATE_EXCLUSIVE :: u32 where
  "STORAGE_FILE_OPEN_CREATE_EXCLUSIVE = push_bit 1 1"
definition STORAGE_FILE_OPEN_TRUNCATE :: u32 where "STORAGE_FILE_OPEN_TRUNCATE = push_bit 2 1"
definition STORAGE_FILE_OPEN_PERSISTENT_FILE :: u32 where
  "STORAGE_FILE_OPEN_PERSISTENT_FILE = push_bit 3 1"
definition STORAGE_FILE_OPEN_PROINFO_FILE :: u32 where "STORAGE_FILE_OPEN_PROINFO_FILE = push_bit 4 1"
definition STORAGE_FILE_OPEN_VFS :: u32 where "STORAGE_FILE_OPEN_VFS = push_bit 5 1"

definition STORAGE_FILE_OPEN_MASK :: u32 where
  "STORAGE_FILE_OPEN_MASK = STORAGE_FILE_OPEN_CREATE OR STORAGE_FILE_OPEN_TRUNCATE OR
     STORAGE_FILE_OPEN_CREATE_EXCLUSIVE OR STORAGE_FILE_OPEN_PERSISTENT_FILE OR
     STORAGE_FILE_OPEN_PROINFO_FILE OR STORAGE_FILE_OPEN_VFS"

definition STORAGE_MSG_FLAG_BATCH :: u32 where "STORAGE_MSG_FLAG_BATCH = 0x1"
definition STORAGE_MSG_FLAG_PRE_COMMIT :: u32 where "STORAGE_MSG_FLAG_PRE_COMMIT = 0x2"
definition STORAGE_MSG_FLAG_POST_COMMIT :: u32 where "STORAGE_MSG_FLAG_POST_COMMIT = 0x4"

definition STORAGE_MSG_FLAG_TRANSACT_COMPLETE :: u32 where
  "STORAGE_MSG_FLAG_TRANSACT_COMPLETE = STORAGE_MSG_FLAG_POST_COMMIT"

lemmas storage_flag_consts =
  STORAGE_FILE_OPEN_CREATE_def STORAGE_FILE_OPEN_CREATE_EXCLUSIVE_def STORAGE_FILE_OPEN_TRUNCATE_def
  STORAGE_FILE_OPEN_PERSISTENT_FILE_def STORAGE_FILE_OPEN_PROINFO_FILE_def STORAGE_FILE_OPEN_VFS_def
  STORAGE_MSG_FLAG_BATCH_def STORAGE_MSG_FLAG_PRE_COMMIT_def STORAGE_MSG_FLAG_POST_COMMIT_def

section \<open>Message header and request structures\<close>

record storage_msg =
  m_cmd :: u32
  m_op_id :: u32
  m_flags :: u32
  m_size :: u32
  m_result :: u32
  m_reserved :: u32

abbreviation sizeof_storage_msg :: nat where "sizeof_storage_msg \<equiv> 24"

definition put_storage_msg :: "storage_msg \<Rightarrow> bytes" where
  "put_storage_msg m = put_u32 (m_cmd m) @ put_u32 (m_op_id m) @ put_u32 (m_flags m) @
     put_u32 (m_size m) @ put_u32 (m_result m) @ put_u32 (m_reserved m)"

definition get_storage_msg :: "bytes \<Rightarrow> storage_msg" where
  "get_storage_msg bs = \<lparr>m_cmd = get_u32 bs 0, m_op_id = get_u32 bs 4, m_flags = get_u32 bs 8,
     m_size = get_u32 bs 12, m_result = get_u32 bs 16, m_reserved = get_u32 bs 20\<rparr>"

text \<open>Requests whose only fixed member is a 32-bit word: \<open>flags\<close> or \<open>handle\<close> at offset 0.\<close>

definition get_delete_req_name :: "bytes \<Rightarrow> bytes" where
  "get_delete_req_name bs = drop 4 bs"

record storage_file_open_req =
  open_flags :: u32
  open_name :: bytes

definition get_open_req :: "bytes \<Rightarrow> storage_file_open_req" where
  "get_open_req bs = \<lparr>open_flags = get_u32 bs 0, open_name = drop 4 bs\<rparr>"

definition get_close_req_handle :: "bytes \<Rightarrow> u32" where
  "get_close_req_handle bs = get_u32 bs 0"

definition get_get_size_req_handle :: "bytes \<Rightarrow> u32" where
  "get_get_size_req_handle bs = get_u32 bs 0"

record storage_file_read_req =
  read_handle :: u32
  read_size :: u32
  read_offset :: u64

definition get_read_req :: "bytes \<Rightarrow> storage_file_read_req" where
  "get_read_req bs = \<lparr>read_handle = get_u32 bs 0, read_size = get_u32 bs 4, read_offset = get_u64 bs 8\<rparr>"

definition put_read_req :: "storage_file_read_req \<Rightarrow> bytes" where
  "put_read_req q = put_u32 (read_handle q) @ put_u32 (read_size q) @ put_u64 (read_offset q)"

record storage_file_write_req =
  write_offset :: u64
  write_handle :: u32
  write_reserved :: u32
  write_data :: bytes

definition get_write_req :: "bytes \<Rightarrow> storage_file_write_req" where
  "get_write_req bs = \<lparr>write_offset = get_u64 bs 0, write_handle = get_u32 bs 8,
     write_reserved = get_u32 bs 12, write_data = drop 16 bs\<rparr>"

definition put_write_req :: "storage_file_write_req \<Rightarrow> bytes" where
  "put_write_req q = put_u64 (write_offset q) @ put_u32 (write_handle q) @
     put_u32 (write_reserved q) @ write_data q"

record storage_file_set_size_req =
  set_size_size :: u64
  set_size_handle :: u32

definition get_set_size_req :: "bytes \<Rightarrow> storage_file_set_size_req" where
  "get_set_size_req bs = \<lparr>set_size_size = get_u64 bs 0, set_size_handle = get_u32 bs 8\<rparr>"

record storage_rpmb_send_req =
  reliable_write_size :: u32
  rpmb_write_size :: u32
  rpmb_read_size :: u32
  rpmb_reserved :: u32
  rpmb_payload :: bytes

text \<open>The responses with a body: the handle of an opened file, and the size of a file.\<close>

definition put_open_resp :: "u32 \<Rightarrow> bytes" where
  "put_open_resp h = put_u32 h"

definition put_get_size_resp :: "u64 \<Rightarrow> bytes" where
  "put_get_size_resp sz = put_u64 sz"

definition put_set_size_req :: "storage_file_set_size_req \<Rightarrow> bytes" where
  "put_set_size_req q = put_u64 (set_size_size q) @ put_u32 (set_size_handle q) @ [0, 0, 0, 0]"

definition get_rpmb_send_req :: "bytes \<Rightarrow> storage_rpmb_send_req" where
  "get_rpmb_send_req bs = \<lparr>reliable_write_size = get_u32 bs 0, rpmb_write_size = get_u32 bs 4,
     rpmb_read_size = get_u32 bs 8, rpmb_reserved = get_u32 bs 12, rpmb_payload = drop 16 bs\<rparr>"

definition put_rpmb_send_req :: "storage_rpmb_send_req \<Rightarrow> bytes" where
  "put_rpmb_send_req q = put_u32 (reliable_write_size q) @ put_u32 (rpmb_write_size q) @
     put_u32 (rpmb_read_size q) @ put_u32 (rpmb_reserved q) @ rpmb_payload q"

section \<open>Properties of the encoding\<close>

lemma length_put_storage_msg [simp]: "length (put_storage_msg m) = sizeof_storage_msg"
  by (simp add: put_storage_msg_def)

lemma get_put_storage_msg: "get_storage_msg (put_storage_msg m @ rest) = m"
  by (simp add: get_storage_msg_def put_storage_msg_def)

lemma get_put_requests:
  "get_read_req (put_read_req rq @ rest) = rq"
  "get_write_req (put_write_req wq) = wq"
  "get_rpmb_send_req (put_rpmb_send_req pq) = pq"
  by (simp_all add: get_read_req_def put_read_req_def get_write_req_def put_write_req_def
      get_rpmb_send_req_def put_rpmb_send_req_def)

lemma put_get_storage_msg:
  assumes "sizeof_storage_msg \<le> length bs"
  shows "put_storage_msg (get_storage_msg bs) = take sizeof_storage_msg bs"
proof -
  have "take 24 bs = take 4 bs @ take 4 (drop 4 bs) @ take 4 (drop 8 bs) @ take 4 (drop 12 bs) @
      take 4 (drop 16 bs) @ take 4 (drop 20 bs)"
    using take_add [of 4 20 bs] take_add [of 4 16 "drop 4 bs"] take_add [of 4 12 "drop 8 bs"]
      take_add [of 4 8 "drop 12 bs"] take_add [of 4 4 "drop 16 bs"] by simp
  then show ?thesis
    using assms put_get_u32 [of 0 bs] put_get_u32 [of 4 bs] put_get_u32 [of 8 bs] put_get_u32 [of 12 bs]
      put_get_u32 [of 16 bs] put_get_u32 [of 20 bs]
    by (simp add: put_storage_msg_def get_storage_msg_def)
qed

lemma storage_err_code_inj: "storage_err_code e = storage_err_code e' \<longleftrightarrow> e = e'"
  by (cases e; cases e') simp_all

lemma no_error_code [simp]: "storage_err_code e = 0 \<longleftrightarrow> e = STORAGE_NO_ERROR"
  by (cases e) simp_all

lemma storage_cmd_code_inj: "storage_cmd_code c = storage_cmd_code c' \<longleftrightarrow> c = c'"
  by (cases c; cases c') (simp_all add: storage_cmd_consts)

section \<open>Properties\<close>



end
