(* ===== verification/Proxy_Ipc.thy ===== *)
theory Proxy_Ipc
  imports Tipc Storage_Proto
begin

text \<open>
  The storage proxy's connection to the secure world (\<open>storage/proxy/ipc.c\<close>): connecting
  with a bounded number of retries, receiving and checking a request, and sending a
  response. The file's global \<open>tipc_fd\<close> is a field of the state record \<open>ipc\<close>. A failed
  \<open>assert\<close> aborts the process: the operation is then \<open>None\<close>.
\<close>

record ipc = proc +
  tipc_fd :: int

definition MAX_RECONNECT_RETRY_COUNT :: nat where "MAX_RECONNECT_RETRY_COUNT = 5"
definition TRUSTY_RECONNECT_TIMEOUT_SEC :: nat where "TRUSTY_RECONNECT_TIMEOUT_SEC = 5"

section \<open>Connecting\<close>

text \<open>The \<open>while (true)\<close> loop of \<open>ipc_connect\<close> with its counter of failed attempts.\<close>

function ipc_connect_loop ::
  "kernel \<Rightarrow> bytes \<Rightarrow> bytes \<Rightarrow> nat \<Rightarrow> 'a ipc_scheme \<Rightarrow> int \<times> 'a ipc_scheme" where
  "ipc_connect_loop k device port retry_cnt s =
     (let (rc, s1) = tipc_connect k device port s in
      if 0 \<le> rc then (0, s1\<lparr>tipc_fd := rc\<rparr>)
      else if retry_cnt + 1 > MAX_RECONNECT_RETRY_COUNT then (- 1, s1)
      else ipc_connect_loop k device port (retry_cnt + 1)
             (snd (sys k (Sleep TRUSTY_RECONNECT_TIMEOUT_SEC) s1)))"
  by pat_completeness auto
termination
  by (relation "measure (\<lambda>(k, d, p, n, s). MAX_RECONNECT_RETRY_COUNT - n)") auto

declare ipc_connect_loop.simps [simp del]

definition ipc_connect ::
  "kernel \<Rightarrow> bytes \<Rightarrow> bytes \<Rightarrow> 'a ipc_scheme \<Rightarrow> (int \<times> 'a ipc_scheme) option" where
  "ipc_connect k device port s =
     (if tipc_fd s \<noteq> - 1 then None else Some (ipc_connect_loop k device port 0 s))"

definition ipc_disconnect :: "kernel \<Rightarrow> 'a ipc_scheme \<Rightarrow> 'a ipc_scheme option" where
  "ipc_disconnect k s =
     (if tipc_fd s < 0 then None else Some ((tipc_close k (tipc_fd s) s)\<lparr>tipc_fd := - 1\<rparr>))"

section \<open>Messages\<close>

text \<open>
  \<open>readv\<close> scatters the received bytes over the header and the request buffer; a short
  message overwrites a part of the header only. The answer is the length of the request
  that follows the header, or a negative number.
\<close>

definition ipc_get_msg ::
  "kernel \<Rightarrow> storage_msg \<Rightarrow> bytes \<Rightarrow> nat \<Rightarrow> 'a ipc_scheme \<Rightarrow>
   (int \<times> storage_msg \<times> bytes \<times> 'a ipc_scheme) option" where
  "ipc_get_msg k msg req_buf req_buf_len s =
     (if tipc_fd s < 0 then None
      else
        let (r, s1) = sys k (Readv (tipc_fd s) [sizeof_storage_msg, req_buf_len]) s;
            rc = sr_rc r;
            msg1 = get_storage_msg (buf_write 0 (take sizeof_storage_msg (sr_out r)) (put_storage_msg msg));
            buf1 = buf_write 0 (drop sizeof_storage_msg (sr_out r)) req_buf in
        if rc < 0 then Some (rc, msg, req_buf, s1)
        else if rc < int sizeof_storage_msg then Some (- 1, msg1, buf1, s1)
        else if m_size msg1 \<noteq> word_of_int rc then Some (- 1, msg1, buf1, s1)
        else Some (rc - int sizeof_storage_msg, msg1, buf1, s1))"

definition ipc_respond ::
  "kernel \<Rightarrow> storage_msg \<Rightarrow> bytes \<Rightarrow> 'a ipc_scheme \<Rightarrow> (int \<times> storage_msg \<times> 'a ipc_scheme) option" where
  "ipc_respond k msg out s =
     (if tipc_fd s < 0 then None
      else
        let msg1 = msg\<lparr>m_cmd := m_cmd msg OR STORAGE_RESP_BIT\<rparr>;
            (r, s1) = sys k (Writev (tipc_fd s) (put_storage_msg msg1 @ out)) s in
        Some (if sr_rc r < 0 then - 1 else 0, msg1, s1))"

section \<open>Behaviour of the connection\<close>

text \<open>
  One iteration of the loop that ends unsuccessfully: a failed connection attempt and,
  unless it was the last one, a pause.
\<close>

lemma tipc_connect_tipc_fd [frame_simps]:
  "tipc_connect k dev srv s = (rc, s') \<Longrightarrow> tipc_fd s' = tipc_fd s"
  using tipc_connect_frame [of k dev srv s rc s'] by (cases s; cases s') simp

lemma sys_tipc_fd [frame_simps]: "tipc_fd (snd (sys k c s)) = tipc_fd s"
  by (simp add: sys_def Let_def)

lemma sys_other_open_fds:
  assumes "\<And>r F. fd_effect (c, r) F = F"
  shows "open_fds (hist (snd (sys k c s))) = open_fds (hist s)"
  by (simp add: sys_hist assms)

text \<open>The calls an operation adds to the history.\<close>

definition new_calls :: "'a proc_scheme \<Rightarrow> 'a proc_scheme \<Rightarrow> syscall list" where
  "new_calls s s' = map fst (drop (length (hist s)) (hist s'))"

definition is_open :: "syscall \<Rightarrow> bool" where
  "is_open c = (case c of Open _ _ _ \<Rightarrow> True | _ \<Rightarrow> False)"

definition is_sleep :: "syscall \<Rightarrow> bool" where
  "is_sleep c = (case c of Sleep _ \<Rightarrow> True | _ \<Rightarrow> False)"

definition count_calls :: "(syscall \<Rightarrow> bool) \<Rightarrow> 'a proc_scheme \<Rightarrow> 'a proc_scheme \<Rightarrow> nat" where
  "count_calls P s s' = length (filter P (new_calls s s'))"

lemma count_calls_append:
  "hist s' = hist s @ es \<Longrightarrow> count_calls P s s' = length (filter P (map fst es))"
  by (simp add: count_calls_def new_calls_def)

lemma count_calls_trans:
  assumes "hist s1 = hist s @ es" "hist s2 = hist s1 @ es'"
  shows "count_calls P s s2 = count_calls P s s1 + count_calls P s1 s2"
  using assms by (simp add: count_calls_def new_calls_def)

lemma tipc_connect_counts:
  assumes "tipc_connect k dev srv s = (rc, s')"
  obtains es where "hist s' = hist s @ es" "count_calls is_open s s' = 1" "count_calls is_sleep s s' = 0"
  using assms
  by (cases rule: tipc_connect_cases) (auto simp: count_calls_append is_open_def is_sleep_def)

lemma ipc_connect_loop_cases:
  assumes "ipc_connect_loop k dev srv n s = (rc, s')" "n \<le> MAX_RECONNECT_RETRY_COUNT"
  obtains (connected) fd s1 where "tipc_connect k dev srv s = (fd, s1)" "0 \<le> fd" "rc = 0"
    "s' = s1\<lparr>tipc_fd := fd\<rparr>"
  | (gave_up) e where "tipc_connect k dev srv s = (e, s')" "e < 0" "rc = - 1" "n = MAX_RECONNECT_RETRY_COUNT"
  | (again) e s1 where "tipc_connect k dev srv s = (e, s1)" "e < 0" "n < MAX_RECONNECT_RETRY_COUNT"
    "ipc_connect_loop k dev srv (n + 1) (snd (sys k (Sleep TRUSTY_RECONNECT_TIMEOUT_SEC) s1)) = (rc, s')"
proof -
  obtain r1 s1 where c: "tipc_connect k dev srv s = (r1, s1)" by fastforce
  with assms(1) have eq: "(if 0 \<le> r1 then (0, s1\<lparr>tipc_fd := r1\<rparr>)
      else if n + 1 > MAX_RECONNECT_RETRY_COUNT then (- 1, s1)
      else ipc_connect_loop k dev srv (n + 1)
             (snd (sys k (Sleep TRUSTY_RECONNECT_TIMEOUT_SEC) s1))) = (rc, s')"
    by (subst (asm) ipc_connect_loop.simps) simp
  consider "0 \<le> r1" | "r1 < 0" "n = MAX_RECONNECT_RETRY_COUNT" | "r1 < 0" "n < MAX_RECONNECT_RETRY_COUNT"
    using assms(2) by linarith
  then show thesis
    using eq connected [OF c] gave_up [of r1] again [OF c] c by cases auto
qed

text \<open>What the loop did when \<open>n\<close> attempts had failed before it was entered.\<close>

definition connect_bounded :: "nat \<Rightarrow> int \<Rightarrow> 'a ipc_scheme \<Rightarrow> 'a ipc_scheme \<Rightarrow> bool" where
  "connect_bounded n rc s s' \<longleftrightarrow>
     (\<exists>es. hist s' = hist s @ es) \<and> rc \<in> {0, - 1} \<and>
     count_calls is_open s s' \<le> MAX_RECONNECT_RETRY_COUNT + 1 - n \<and>
     count_calls is_sleep s s' + 1 = count_calls is_open s s' \<and>
     (rc < 0 \<longrightarrow> tipc_fd s' = tipc_fd s \<and> count_calls is_open s s' = MAX_RECONNECT_RETRY_COUNT + 1 - n)"

lemma connect_bounded_again:
  assumes c: "tipc_connect k dev srv s = (e, s1)" and n: "n < MAX_RECONNECT_RETRY_COUNT"
    and b: "connect_bounded (n + 1) rc (snd (sys k (Sleep t) s1)) s'"
  shows "connect_bounded n rc s s'"
proof -
  let ?s2 = "snd (sys k (Sleep t) s1)"
  obtain es where es: "hist s1 = hist s @ es" "count_calls is_open s s1 = 1" "count_calls is_sleep s s1 = 0"
    using tipc_connect_counts [OF c] .
  have h2: "hist ?s2 = hist s1 @ [(Sleep t, k (hist s1) (Sleep t))]" by (simp add: sys_hist sys_fst)
  from b obtain es' where es': "hist s' = hist ?s2 @ es'" unfolding connect_bounded_def by blast
  have "count_calls P s s' = count_calls P s s1 + count_calls P s1 ?s2 + count_calls P ?s2 s'" for P
    using count_calls_trans [OF es(1) h2, of P] count_calls_trans [of ?s2 s _ s' es' P] es(1) h2 es' by simp
  moreover have "count_calls is_open s1 ?s2 = 0" "count_calls is_sleep s1 ?s2 = 1"
    by (simp_all add: count_calls_append [OF h2] is_open_def is_sleep_def)
  moreover have "tipc_fd ?s2 = tipc_fd s" by (simp add: sys_tipc_fd tipc_connect_tipc_fd [OF c])
  ultimately show ?thesis using b es es' h2 n unfolding connect_bounded_def by auto
qed

lemma ipc_connect_loop_bounded:
  "ipc_connect_loop k dev srv n s = (rc, s') \<Longrightarrow> n \<le> MAX_RECONNECT_RETRY_COUNT \<Longrightarrow> connect_bounded n rc s s'"
proof (induction "MAX_RECONNECT_RETRY_COUNT - n" arbitrary: n s rule: less_induct)
  case less
  from less.prems show ?case
  proof (cases rule: ipc_connect_loop_cases)
    case (connected fd s1)
    obtain es where "hist s1 = hist s @ es" "count_calls is_open s s1 = 1" "count_calls is_sleep s s1 = 0"
      using tipc_connect_counts [OF connected(1)] .
    with connected less.prems(2) show ?thesis
      by (simp add: connect_bounded_def count_calls_def new_calls_def)
  next
    case (gave_up e)
    obtain es where "hist s' = hist s @ es" "count_calls is_open s s' = 1" "count_calls is_sleep s s' = 0"
      using tipc_connect_counts [OF gave_up(1)] .
    with gave_up tipc_connect_tipc_fd [OF gave_up(1)] show ?thesis
      by (simp add: connect_bounded_def)
  next
    case (again e s1)
    then show ?thesis
      by (intro connect_bounded_again [OF again(1,3)] less.hyps) auto
  qed
qed

text \<open>The loop leaks no descriptor: what it holds at the end is the connection, if any.\<close>

lemma ipc_connect_loop_open_fds:
  "ipc_connect_loop k dev srv n s = (rc, s') \<Longrightarrow> n \<le> MAX_RECONNECT_RETRY_COUNT \<Longrightarrow> fresh_fds k \<Longrightarrow>
   (if rc < 0 then open_fds (hist s') = open_fds (hist s)
    else open_fds (hist s') = insert (tipc_fd s') (open_fds (hist s)) \<and>
      tipc_fd s' \<notin> open_fds (hist s) \<and> 0 \<le> tipc_fd s')"
proof (induction "MAX_RECONNECT_RETRY_COUNT - n" arbitrary: n s rule: less_induct)
  case less
  from less.prems(1,2) show ?case
  proof (cases rule: ipc_connect_loop_cases)
    case (connected fd s1)
    with tipc_connect_open_fds [OF connected(1) less.prems(3)] show ?thesis by simp
  next
    case (gave_up e)
    with tipc_connect_open_fds [OF gave_up(1) less.prems(3)] show ?thesis by simp
  next
    case (again e s1)
    have fds: "open_fds (hist (snd (sys k (Sleep TRUSTY_RECONNECT_TIMEOUT_SEC) s1))) = open_fds (hist s)"
      using tipc_connect_open_fds(1) [OF again(1) less.prems(3)] again(2)
      by (simp add: sys_other_open_fds)
    have "MAX_RECONNECT_RETRY_COUNT - (n + 1) < MAX_RECONNECT_RETRY_COUNT - n"
      "n + 1 \<le> MAX_RECONNECT_RETRY_COUNT" using again(3) by auto
    from less.hyps [OF this(1) again(4) this(2) less.prems(3)] show ?thesis by (simp only: fds)
  qed
qed

section \<open>The proxy as a client of the IPC library\<close>

text \<open>
  \<open>ipc_connect\<close> is used in states without a connection, where its \<open>assert\<close> holds;
  \<open>ipc_disconnect\<close> in states with one.
\<close>

definition proxy_connect :: "bytes \<Rightarrow> bytes \<Rightarrow> kernel \<Rightarrow> 'a ipc_scheme \<Rightarrow> int \<times> 'a ipc_scheme" where
  "proxy_connect dev srv k s = the (ipc_connect k dev srv s)"

definition proxy_disconnect :: "kernel \<Rightarrow> 'a ipc_scheme \<Rightarrow> 'a ipc_scheme" where
  "proxy_disconnect k s = the (ipc_disconnect k s)"

lemma proxy_connect_loop:
  "tipc_fd s = - 1 \<Longrightarrow> proxy_connect dev srv k s = ipc_connect_loop k dev srv 0 s"
  by (simp add: proxy_connect_def ipc_connect_def)

interpretation proxy_client: tipc_client "proxy_connect dev srv" proxy_disconnect tipc_fd hist
  "\<lambda>s. tipc_fd s = - 1" "\<lambda>s. 0 \<le> tipc_fd s"
proof unfold_locales
  fix s k rc s'
  assume s: "tipc_fd s = - 1" and c: "proxy_connect dev srv k s = (rc, s')"
  then have l: "ipc_connect_loop k dev srv 0 s = (rc, s')" by (simp add: proxy_connect_loop)
  with ipc_connect_loop_bounded [OF l] show "rc \<le> 0" unfolding connect_bounded_def by auto
next
  fix s k s'
  assume s: "tipc_fd s = - 1" and f: "fresh_fds k" and c: "proxy_connect dev srv k s = (0, s')"
  then show "open_fds (hist s') = insert (tipc_fd s') (open_fds (hist s)) \<and>
      tipc_fd s' \<notin> open_fds (hist s) \<and> 0 \<le> tipc_fd s'"
    using ipc_connect_loop_open_fds [of k dev srv 0 s 0 s'] by (simp add: proxy_connect_loop)
next
  fix s k rc s'
  assume s: "tipc_fd s = - 1" and f: "fresh_fds k" and c: "proxy_connect dev srv k s = (rc, s')" and "rc < 0"
  then have l: "ipc_connect_loop k dev srv 0 s = (rc, s')" by (simp add: proxy_connect_loop)
  with ipc_connect_loop_open_fds [OF l _ f] ipc_connect_loop_bounded [OF l] \<open>rc < 0\<close>
  show "open_fds (hist s') = open_fds (hist s) \<and> tipc_fd s' = tipc_fd s"
    unfolding connect_bounded_def by simp
next
  fix s k
  assume "0 \<le> tipc_fd s"
  then show "open_fds (hist (proxy_disconnect k s)) = open_fds (hist s) - {tipc_fd s}"
    by (simp add: proxy_disconnect_def ipc_disconnect_def tipc_close_def sys_hist)
qed

section \<open>Received messages\<close>

lemma take_of_long: "24 \<le> length xs \<Longrightarrow> buf_write 0 (take 24 xs) (put_storage_msg m) = take 24 xs"
  by (simp add: buf_write_def)

lemma ipc_get_msg_returns: "0 \<le> tipc_fd s \<Longrightarrow> returns (ipc_get_msg k msg buf n s)"
  by (simp add: ipc_get_msg_def Let_def case_prod_unfold)

lemma ipc_get_msg_spec:
  assumes io: "io_bounded k" and fits: "n \<le> length buf"
    and g: "ipc_get_msg k msg buf n s = Some (rc, msg', buf', s')"
  defines "r \<equiv> k (hist s) (Readv (tipc_fd s) [sizeof_storage_msg, n])"
  shows "rc \<le> int n" and "length buf' = length buf" and "0 \<le> tipc_fd s"
    and "\<exists>e. s' = s\<lparr>hist := hist s @ [(Readv (tipc_fd s) [sizeof_storage_msg, n], r)], errno := e\<rparr>"
    and "0 \<le> rc \<Longrightarrow> sr_out r = put_storage_msg msg' @ take (nat rc) buf' \<and>
      m_size msg' = word_of_int (rc + int sizeof_storage_msg) \<and> drop (nat rc) buf' = drop (nat rc) buf"
proof -
  let ?c = "Readv (tipc_fd s) [sizeof_storage_msg, n]"
  have ok: "sr_rc r \<le> int (24 + n)" "length (sr_out r) = nat (sr_rc r)"
    using io_boundedD [OF io, of ?c "hist s"] by (simp_all add: r_def)
  obtain s1 where s1: "sys k ?c s = (r, s1)" unfolding r_def by (metis sys_fst prod.collapse)
  have len: "length (buf_write 0 (drop 24 (sr_out r)) buf) = length buf"
    using ok fits by (auto simp: buf_write_def)
  from g s1 have f: "0 \<le> tipc_fd s" "s' = s1" by (auto simp: ipc_get_msg_def Let_def split: if_splits)
  then show "0 \<le> tipc_fd s" by simp
  show "\<exists>e. s' = s\<lparr>hist := hist s @ [(?c, r)], errno := e\<rparr>" using sys_eqD(3) [OF s1] f(2) by blast
  show "rc \<le> int n" using g s1 ok by (auto simp: ipc_get_msg_def Let_def split: if_splits)
  show "length buf' = length buf" using g s1 len by (auto simp: ipc_get_msg_def Let_def split: if_splits)
  assume "0 \<le> rc"
  with g s1 have a: "24 \<le> sr_rc r" "rc = sr_rc r - 24" "buf' = buf_write 0 (drop 24 (sr_out r)) buf"
    "msg' = get_storage_msg (take 24 (sr_out r))" "m_size msg' = word_of_int (sr_rc r)"
    using ok(2) by (auto simp: ipc_get_msg_def Let_def take_of_long split: if_splits)
  have "put_storage_msg msg' = take 24 (sr_out r)" using a ok(2) by (simp add: put_get_storage_msg)
  moreover have "nat rc = length (drop 24 (sr_out r))" using a ok(2) by simp
  ultimately show "sr_out r = put_storage_msg msg' @ take (nat rc) buf' \<and>
      m_size msg' = word_of_int (rc + int sizeof_storage_msg) \<and> drop (nat rc) buf' = drop (nat rc) buf"
    using a by (simp add: buf_write_def)
qed

section \<open>Properties\<close>

text \<open>C12. Connecting ends: \<open>ipc_connect\<close> always returns when no connection exists, with 0 or
  \<open>-1\<close>, after at most six attempts with one pause of five seconds between two attempts;
  when it fails it has made all six attempts and still has no connection.\<close>

theorem ipc_connect_returns:
  assumes "tipc_fd s = - 1"
  shows "\<exists>rc s'. ipc_connect k dev srv s = Some (rc, s') \<and> rc \<in> {0, - 1} \<and>
    count_calls is_open s s' \<le> 6 \<and> count_calls is_sleep s s' + 1 = count_calls is_open s s' \<and>
    (rc < 0 \<longrightarrow> tipc_fd s' = - 1 \<and> count_calls is_open s s' = 6)"
proof -
  obtain rc s' where l: "ipc_connect_loop k dev srv 0 s = (rc, s')" by fastforce
  from ipc_connect_loop_bounded [OF l] assms l show ?thesis
    by (simp add: ipc_connect_def connect_bounded_def MAX_RECONNECT_RETRY_COUNT_def)
qed

definition start_ipc :: ipc where
  "start_ipc = \<lparr>hist = [], errno = 0, tipc_fd = - 1\<rparr>"

theorem ipc_connect_returns_witness:
  "\<exists>rc s'. ipc_connect (\<lambda>h c. fail ENOENT) (lit ''/dev/x'') (lit ''port'') start_ipc = Some (rc, s') \<and>
     rc \<in> {0, - 1} \<and> count_calls is_open start_ipc s' \<le> 6"
  using ipc_connect_returns [of start_ipc "\<lambda>h c. fail ENOENT" "lit ''/dev/x''" "lit ''port''"]
  by (auto simp: start_ipc_def)

text \<open>A session of the proxy with the secure world leaks no descriptor: failed attempts
  release the device, and disconnecting releases the connection.\<close>

theorem ipc_session_no_leak:
  assumes "tipc_fd s = - 1" "fresh_fds k" "ipc_connect k dev srv s = Some (rc, s')"
  shows "if rc < 0 then open_fds (hist s') = open_fds (hist s)
    else \<exists>s''. ipc_disconnect k s' = Some s'' \<and> tipc_fd s'' = - 1 \<and> open_fds (hist s'') = open_fds (hist s)"
proof -
  from assms(3) have c: "proxy_connect dev srv k s = (rc, s')" by (simp add: proxy_connect_def)
  have ok: "rc = 0 \<Longrightarrow> 0 \<le> tipc_fd s'" using proxy_client.connect_ok [OF assms(1,2)] c by blast
  have neg: "rc \<le> 0" using proxy_client.connect_answer [OF assms(1) c] .
  from proxy_client.session_balanced [OF assms(1,2) c ok] ok neg show ?thesis
    by (cases "rc < 0") (simp_all add: proxy_disconnect_def ipc_disconnect_def)
qed

definition connected_ipc :: ipc where
  "connected_ipc = snd (the (ipc_connect calm (lit ''/dev/x'') (lit ''port'') start_ipc))"

lemma connected_ipc_eq:
  "ipc_connect calm (lit ''/dev/x'') (lit ''port'') start_ipc = Some (0, connected_ipc)"
  by (simp add: connected_ipc_def ipc_connect_def start_ipc_def ipc_connect_loop.simps tipc_connect_def
      sys_def calm_def ret_def next_fd_def Let_def)

theorem ipc_session_no_leak_witness:
  "\<exists>s''. ipc_disconnect calm connected_ipc = Some s'' \<and> tipc_fd s'' = - 1 \<and> open_fds (hist s'') = {}"
  using ipc_session_no_leak [OF _ calm_ok(1) connected_ipc_eq] by (simp add: start_ipc_def)

text \<open>C8. A message is accepted only when it is intact: whatever the kernel delivers within the
  bounds of the vectors, \<open>ipc_get_msg\<close> writes inside the request buffer; when it accepts,
  the received bytes are exactly the header and the request, the header's \<open>size\<close> field is
  the number of received bytes, and the rest of the buffer is untouched.\<close>

theorem ipc_get_msg_accepts:
  assumes "io_bounded k" "n \<le> length buf" "ipc_get_msg k msg buf n s = Some (rc, msg', buf', s')"
  shows "rc \<le> int n \<and> length buf' = length buf \<and>
    (0 \<le> rc \<longrightarrow>
       sr_out (k (hist s) (Readv (tipc_fd s) [sizeof_storage_msg, n])) = put_storage_msg msg' @ take (nat rc) buf' \<and>
       m_size msg' = word_of_int (rc + int sizeof_storage_msg) \<and> drop (nat rc) buf' = drop (nat rc) buf)"
  using ipc_get_msg_spec [OF assms] by blast

definition sample_msg :: storage_msg where
  "sample_msg = \<lparr>m_cmd = 4, m_op_id = 9, m_flags = 0, m_size = 26, m_result = 0, m_reserved = 0\<rparr>"

definition sending_kernel :: "bytes \<Rightarrow> kernel" where
  "sending_kernel bs h c = (case c of Readv fd ns \<Rightarrow>
     if length bs \<le> sum_list ns then ret_data bs else fail EINVAL | _ \<Rightarrow> calm h c)"

lemma sending_kernel_io: "io_bounded (sending_kernel bs)"
proof -
  have "io_answer_ok c (sending_kernel bs h c)" for h c
    using io_boundedD [OF calm_ok(2), of c h]
    by (cases c) (auto simp: sending_kernel_def answer_defs)
  then show ?thesis by (simp add: io_bounded_def)
qed

theorem ipc_get_msg_accepts_witness:
  "\<exists>s'. ipc_get_msg (sending_kernel (put_storage_msg sample_msg @ [1, 2])) sample_msg [0, 0, 0] 3
      (start_ipc\<lparr>tipc_fd := 3\<rparr>) = Some (2, sample_msg, [1, 2, 0], s') \<and>
    sr_out (sending_kernel (put_storage_msg sample_msg @ [1, 2]) [] (Readv 3 [24, 3])) =
      put_storage_msg sample_msg @ [1, 2]"
proof -
  let ?k = "sending_kernel (put_storage_msg sample_msg @ [1, 2])"
  have "\<exists>s'. ipc_get_msg ?k sample_msg [0, 0, 0] 3 (start_ipc\<lparr>tipc_fd := 3\<rparr>) =
      Some (2, sample_msg, [1, 2, 0], s')"
    using get_put_storage_msg [of sample_msg "[]"]
    by (simp add: ipc_get_msg_def start_ipc_def sys_def Let_def sending_kernel_def ret_data_def take_of_long
        sample_msg_def) (simp add: buf_write_def)
  with ipc_get_msg_accepts [OF sending_kernel_io, of 3 "[0, 0, 0]" _ sample_msg "start_ipc\<lparr>tipc_fd := 3\<rparr>"]
  show ?thesis by (fastforce simp: start_ipc_def)
qed

end
