(* ===== verification/Storage.thy ===== *)
theory Storage
  imports Proxy_Ipc
begin

text \<open>
  The file operations of the storage proxy (\<open>storage/proxy/storage.c\<close>). The globals of the
  file are the fields of the record \<open>storage\<close>, which extends the state of \<open>ipc.c\<close>. Every
  request handler takes the kernel, the message header, the request buffer with its length
  and the state, and gives the return code of \<open>ipc_respond\<close>, the header as it was sent and
  the new state; \<open>None\<close> means that the handler does not return.

  Logging has no effect on the state and is left out; so is \<open>free\<close>.
\<close>

definition FD_TBL_SIZE :: nat where "FD_TBL_SIZE = 64"
definition MAX_READ_SIZE :: nat where "MAX_READ_SIZE = 4096"

datatype sync_state = SS_UNUSED | SS_CLEAN | SS_DIRTY

record storage = ipc +
  ssdir_fd :: int
  ssdir_name :: "bytes option"
  ss_persistent_dir_fd :: int
  ss_persistent_dir_name :: "bytes option"
  ss_proinfo_node_fd :: int
  fs_state :: sync_state
  dir_state :: sync_state
  fd_state :: "sync_state list"
  read_rsp :: bytes

definition ss_proinfo_name :: bytes where
  "ss_proinfo_name = lit ''/dev/block/platform/bootdevice/by-name/proinfo''"

section \<open>The table of descriptors\<close>

definition insert_fd :: "u32 \<Rightarrow> int \<Rightarrow> 'a storage_scheme \<Rightarrow> u32 \<times> 'a storage_scheme" where
  "insert_fd flags fd s =
     (let handle = word_of_int fd :: u32;
          s1 = (if has_flag flags O_CREAT then s\<lparr>dir_state := SS_DIRTY\<rparr> else s) in
      if unat handle < FD_TBL_SIZE then
        (handle, s1\<lparr>fd_state := (fd_state s1)
           [unat handle := (if has_flag flags O_TRUNC then SS_DIRTY else SS_CLEAN)]\<rparr>)
      else (handle, if has_flag flags (O_TRUNC OR O_CREAT) then s1\<lparr>fs_state := SS_DIRTY\<rparr> else s1))"

definition lookup_fd :: "u32 \<Rightarrow> bool \<Rightarrow> 'a storage_scheme \<Rightarrow> int \<times> 'a storage_scheme" where
  "lookup_fd handle dirty s =
     (sint handle,
      if dirty then
        if unat handle < FD_TBL_SIZE then s\<lparr>fd_state := (fd_state s)[unat handle := SS_DIRTY]\<rparr>
        else s\<lparr>fs_state := SS_DIRTY\<rparr>
      else s)"

definition remove_fd :: "u32 \<Rightarrow> 'a storage_scheme \<Rightarrow> int \<times> 'a storage_scheme" where
  "remove_fd handle s =
     (sint handle,
      if unat handle < FD_TBL_SIZE then s\<lparr>fd_state := (fd_state s)[unat handle := SS_UNUSED]\<rparr> else s)"

definition translate_errno :: "int \<Rightarrow> storage_err" where
  "translate_errno e =
     (if e = 0 then STORAGE_NO_ERROR
      else if e \<in> {EBADF, EINVAL, ENOTDIR, EISDIR, ENAMETOOLONG} then STORAGE_ERR_NOT_VALID
      else if e = ENOENT then STORAGE_ERR_NOT_FOUND
      else if e = EEXIST then STORAGE_ERR_EXIST
      else if e \<in> {EPERM, EACCES} then STORAGE_ERR_ACCESS
      else STORAGE_ERR_GENERIC)"

section \<open>Positioned transfers that hide short counts\<close>

partial_function (option) write_with_retry ::
  "kernel \<Rightarrow> int \<Rightarrow> bytes \<Rightarrow> u64 \<Rightarrow> 'a proc_scheme \<Rightarrow> (int \<times> 'a proc_scheme) option" where
  "write_with_retry k fd buf offset s =
     (if buf = [] then Some (0, s)
      else Option.bind (temp_failure_retry k (Pwrite fd buf offset) s)
        (\<lambda>(r, s1). if sr_rc r < 0 then Some (sr_rc r, s1)
           else write_with_retry k fd (drop (nat (sr_rc r)) buf) (offset + word_of_int (sr_rc r)) s1))"

text \<open>The buffer and the count of bytes read so far are loop variables, as in the source.\<close>

partial_function (option) read_with_retry_loop ::
  "kernel \<Rightarrow> int \<Rightarrow> nat \<Rightarrow> u64 \<Rightarrow> nat \<Rightarrow> bytes \<Rightarrow> 'a proc_scheme \<Rightarrow> (int \<times> bytes \<times> 'a proc_scheme) option" where
  "read_with_retry_loop k fd sz offset rcnt buf s =
     (if sz = 0 then Some (int rcnt, buf, s)
      else Option.bind (temp_failure_retry k (Pread fd sz offset) s)
        (\<lambda>(r, s1). if sr_rc r < 0 then Some (sr_rc r, buf, s1)
           else if sr_rc r = 0 then Some (int rcnt, buf, s1)
           else read_with_retry_loop k fd (sz - nat (sr_rc r)) (offset + word_of_int (sr_rc r))
                  (rcnt + nat (sr_rc r)) (buf_write rcnt (sr_out r) buf) s1))"

definition read_with_retry ::
  "kernel \<Rightarrow> int \<Rightarrow> bytes \<Rightarrow> nat \<Rightarrow> u64 \<Rightarrow> 'a proc_scheme \<Rightarrow> (int \<times> bytes \<times> 'a proc_scheme) option" where
  "read_with_retry k fd buf sz offset s = read_with_retry_loop k fd sz offset 0 buf s"

section \<open>Request handlers\<close>

text \<open>The two ways a handler ends: \<open>msg->result = e\<close> followed by \<open>ipc_respond\<close>.\<close>

definition reply ::
  "kernel \<Rightarrow> storage_msg \<Rightarrow> storage_err \<Rightarrow> bytes \<Rightarrow> 'a storage_scheme \<Rightarrow>
   (int \<times> storage_msg \<times> 'a storage_scheme) option" where
  "reply k msg e out s = ipc_respond k (msg\<lparr>m_result := storage_err_code e\<rparr>) out s"

definition storage_file_delete ::
  "kernel \<Rightarrow> storage_msg \<Rightarrow> bytes \<Rightarrow> nat \<Rightarrow> 'a storage_scheme \<Rightarrow>
   (int \<times> storage_msg \<times> 'a storage_scheme) option" where
  "storage_file_delete k msg r req_len s =
     (if req_len < 4 then reply k msg STORAGE_ERR_NOT_VALID [] s
      else if c_strlen (get_delete_req_name r) \<noteq> req_len - 4 then reply k msg STORAGE_ERR_NOT_VALID [] s
      else
        let path = fmt_s (ssdir_name s) @ lit ''/'' @ c_str (get_delete_req_name r);
            (rc, s1) = asprintf k path s in
        if rc < 0 then reply k msg STORAGE_ERR_GENERIC [] s1
        else
          let (u, s2) = sys k (Unlink path) (s1\<lparr>dir_state := SS_DIRTY\<rparr>) in
          if sr_rc u < 0 then reply k msg (translate_errno (errno s2)) [] s2
          else reply k msg STORAGE_NO_ERROR [] s2)"

text \<open>The last position of a slash; \<open>end\<close> of the source, with \<open>-1\<close> when there is none.\<close>

fun last_slash :: "nat \<Rightarrow> int \<Rightarrow> bytes \<Rightarrow> int" where
  "last_slash i e [] = e"
| "last_slash i e (b # bs) = last_slash (Suc i) (if b = of_char (CHR ''/'') then int i else e) bs"

definition prepare_floder ::
  "kernel \<Rightarrow> bytes option \<Rightarrow> bytes \<Rightarrow> 'a storage_scheme \<Rightarrow> int \<times> 'a storage_scheme" where
  "prepare_floder k root_dir path s =
     (let e = last_slash 0 (- 1) path in
      if e > 0 then
        let (m, s1) = sys k (Malloc (nat e + 1)) s in
        if sr_rc m \<ge> 0 then
          let full = fmt_s root_dir @ lit ''/'' @ take (nat e) path;
              (rc, s2) = asprintf k full s1;
              s3 = (if rc \<ge> 0 then snd (sys k (Mkdir full S_IRWXU) (snd (sys k (Umask 0x10) s2))) else s2)
          in (0, s3)
        else (- 1, s1)
      else (- 1, s))"

text \<open>The path a request to open names, and the directory made for it in the VFS case.\<close>

definition open_path ::
  "kernel \<Rightarrow> u32 \<Rightarrow> bytes \<Rightarrow> 'a storage_scheme \<Rightarrow> bytes \<times> int \<times> 'a storage_scheme" where
  "open_path k flags name s =
     (if has_flag flags STORAGE_FILE_OPEN_PERSISTENT_FILE then
        let path = fmt_s (ss_persistent_dir_name s) @ lit ''/'' @ name in (path, asprintf k path s)
      else if has_flag flags STORAGE_FILE_OPEN_PROINFO_FILE then
        (ss_proinfo_name, asprintf k ss_proinfo_name s)
      else if has_flag flags STORAGE_FILE_OPEN_VFS then
        let path = fmt_s (ssdir_name s) @ lit ''/'' @ name; (rc, s1) = asprintf k path s
        in (path, rc, snd (prepare_floder k (ssdir_name s) name s1))
      else
        let path = fmt_s (ssdir_name s) @ lit ''/'' @ name in (path, asprintf k path s))"

text \<open>The calls of \<open>open\<close> and the flags of the last one.\<close>

definition open_mode :: u32 where "open_mode = S_IRUSR OR S_IWUSR"

definition open_base :: "u32 \<Rightarrow> u32" where
  "open_base flags = (if has_flag flags STORAGE_FILE_OPEN_TRUNCATE then (O_RDWR OR O_SYNC) OR O_TRUNC
     else O_RDWR OR O_SYNC)"

definition do_open ::
  "kernel \<Rightarrow> u32 \<Rightarrow> bytes \<Rightarrow> 'a storage_scheme \<Rightarrow> (sysret \<times> u32 \<times> 'a storage_scheme) option" where
  "do_open k flags path s =
     (let fl1 = open_base flags in
      if has_flag flags STORAGE_FILE_OPEN_CREATE then
        if has_flag flags STORAGE_FILE_OPEN_CREATE_EXCLUSIVE then
          let fl2 = fl1 OR (O_CREAT OR O_EXCL) in
          Option.bind (temp_failure_retry k (Open path fl2 open_mode) s) (\<lambda>(r, s1). Some (r, fl2, s1))
        else
          Option.bind (temp_failure_retry k (Open path fl1 open_mode) s) (\<lambda>(r, s1).
            if sr_rc r = - 1 \<and> errno s1 = ENOENT then
              let fl2 = fl1 OR O_CREAT in
              Option.bind (temp_failure_retry k (Open path fl2 open_mode) s1) (\<lambda>(r2, s2). Some (r2, fl2, s2))
            else Some (r, fl1, s1))
      else Option.bind (temp_failure_retry k (Open path fl1 open_mode) s) (\<lambda>(r, s1). Some (r, fl1, s1)))"

definition storage_file_open ::
  "kernel \<Rightarrow> storage_msg \<Rightarrow> bytes \<Rightarrow> nat \<Rightarrow> 'a storage_scheme \<Rightarrow>
   (int \<times> storage_msg \<times> 'a storage_scheme) option" where
  "storage_file_open k msg r req_len s =
     (if req_len < 4 then reply k msg STORAGE_ERR_NOT_VALID [] s
      else
        let req = get_open_req r in
        if c_strlen (open_name req) \<noteq> req_len - 4 then reply k msg STORAGE_ERR_NOT_VALID [] s
        else
          let (path, rc, s1) = open_path k (open_flags req) (c_str (open_name req)) s in
          if rc < 0 then reply k msg STORAGE_ERR_GENERIC [] s1
          else Option.bind (do_open k (open_flags req) path s1) (\<lambda>(o_r, fl, s2).
            if sr_rc o_r < 0 then reply k msg (translate_errno (errno s2)) [] s2
            else
              let (handle, s3) = insert_fd fl (sr_rc o_r) s2
              in reply k msg STORAGE_NO_ERROR (put_open_resp handle) s3))"

definition storage_file_close ::
  "kernel \<Rightarrow> storage_msg \<Rightarrow> bytes \<Rightarrow> nat \<Rightarrow> 'a storage_scheme \<Rightarrow>
   (int \<times> storage_msg \<times> 'a storage_scheme) option" where
  "storage_file_close k msg r req_len s =
     (if req_len \<noteq> 4 then reply k msg STORAGE_ERR_NOT_VALID [] s
      else
        let (fd, s1) = remove_fd (get_close_req_handle r) s;
            (f, s2) = sys k (Fsync fd) s1 in
        if sr_rc f < 0 then reply k msg (translate_errno (errno s2)) [] s2
        else
          let (c, s3) = sys k (Close fd) s2 in
          if sr_rc c < 0 then reply k msg (translate_errno (errno s3)) [] s3
          else reply k msg STORAGE_NO_ERROR [] s3)"

definition storage_file_write ::
  "kernel \<Rightarrow> storage_msg \<Rightarrow> bytes \<Rightarrow> nat \<Rightarrow> 'a storage_scheme \<Rightarrow>
   (int \<times> storage_msg \<times> 'a storage_scheme) option" where
  "storage_file_write k msg r req_len s =
     (if req_len < 16 then reply k msg STORAGE_ERR_NOT_VALID [] s
      else
        let req = get_write_req r; (fd, s1) = lookup_fd (write_handle req) True s in
        Option.bind (write_with_retry k fd (take (req_len - 16) (write_data req)) (write_offset req) s1)
          (\<lambda>(rc, s2). if rc < 0 then reply k msg (translate_errno (errno s2)) [] s2
             else reply k msg STORAGE_NO_ERROR [] s2))"

definition storage_file_read ::
  "kernel \<Rightarrow> storage_msg \<Rightarrow> bytes \<Rightarrow> nat \<Rightarrow> 'a storage_scheme \<Rightarrow>
   (int \<times> storage_msg \<times> 'a storage_scheme) option" where
  "storage_file_read k msg r req_len s =
     (if req_len \<noteq> 16 then reply k msg STORAGE_ERR_NOT_VALID [] s
      else
        let req = get_read_req r in
        if unat (read_size req) > MAX_READ_SIZE then reply k msg STORAGE_ERR_NOT_VALID [] s
        else
          let (fd, s1) = lookup_fd (read_handle req) False s in
          Option.bind (read_with_retry k fd (read_rsp s1) (unat (read_size req)) (read_offset req) s1)
            (\<lambda>(read_res, buf, s2).
               let s3 = s2\<lparr>read_rsp := buf\<rparr> in
               if read_res < 0 then reply k msg (translate_errno (errno s3)) [] s3
               else reply k msg STORAGE_NO_ERROR (take (nat read_res) buf) s3))"

definition storage_file_get_size ::
  "kernel \<Rightarrow> storage_msg \<Rightarrow> bytes \<Rightarrow> nat \<Rightarrow> 'a storage_scheme \<Rightarrow>
   (int \<times> storage_msg \<times> 'a storage_scheme) option" where
  "storage_file_get_size k msg r req_len s =
     (if req_len \<noteq> 4 then reply k msg STORAGE_ERR_NOT_VALID [] s
      else
        let (fd, s1) = lookup_fd (get_get_size_req_handle r) False s;
            (st, s2) = sys k (Fstat fd) s1 in
        if sr_rc st < 0 then reply k msg (translate_errno (errno s2)) [] s2
        else reply k msg STORAGE_NO_ERROR (put_get_size_resp (get_u64 (sr_out st) 0)) s2)"

definition storage_file_set_size ::
  "kernel \<Rightarrow> storage_msg \<Rightarrow> bytes \<Rightarrow> nat \<Rightarrow> 'a storage_scheme \<Rightarrow>
   (int \<times> storage_msg \<times> 'a storage_scheme) option" where
  "storage_file_set_size k msg r req_len s =
     (if req_len \<noteq> 16 then reply k msg STORAGE_ERR_NOT_VALID [] s
      else
        let req = get_set_size_req r; (fd, s1) = lookup_fd (set_size_handle req) True s in
        Option.bind (temp_failure_retry k (Ftruncate fd (set_size_size req)) s1)
          (\<lambda>(t, s2). if sr_rc t < 0 then reply k msg (translate_errno (errno s2)) [] s2
             else reply k msg STORAGE_NO_ERROR [] s2))"

text \<open>
  The three notifications check the length of a write request, although they read none of
  its fields, and set a system property.
\<close>

definition notify_ok ::
  "string \<Rightarrow> kernel \<Rightarrow> storage_msg \<Rightarrow> bytes \<Rightarrow> nat \<Rightarrow> 'a storage_scheme \<Rightarrow>
   (int \<times> storage_msg \<times> 'a storage_scheme) option" where
  "notify_ok prop k msg r req_len s =
     (if req_len < 16 then reply k msg STORAGE_ERR_NOT_VALID [] s
      else reply k msg STORAGE_NO_ERROR [] (snd (sys k (Property_set prop ''INIT_OK'') s)))"

definition storage_init_ok ::
  "kernel \<Rightarrow> storage_msg \<Rightarrow> bytes \<Rightarrow> nat \<Rightarrow> 'a storage_scheme \<Rightarrow>
   (int \<times> storage_msg \<times> 'a storage_scheme) option" where
  "storage_init_ok = notify_ok ''vendor.soter.teei.init''"

definition storage_init_persist_ok ::
  "kernel \<Rightarrow> storage_msg \<Rightarrow> bytes \<Rightarrow> nat \<Rightarrow> 'a storage_scheme \<Rightarrow>
   (int \<times> storage_msg \<times> 'a storage_scheme) option" where
  "storage_init_persist_ok = notify_ok ''vendor.soter.teei.persist''"

definition storage_init_proinfo_ok ::
  "kernel \<Rightarrow> storage_msg \<Rightarrow> bytes \<Rightarrow> nat \<Rightarrow> 'a storage_scheme \<Rightarrow>
   (int \<times> storage_msg \<times> 'a storage_scheme) option" where
  "storage_init_proinfo_ok = notify_ok ''vendor.soter.teei.proinfo''"

section \<open>Initialisation and checkpoints\<close>

definition storage_init :: "kernel \<Rightarrow> bytes \<Rightarrow> 'a storage_scheme \<Rightarrow> int \<times> 'a storage_scheme" where
  "storage_init k dirname s =
     (let s1 = s\<lparr>fs_state := SS_CLEAN, dir_state := SS_CLEAN, fd_state := replicate FD_TBL_SIZE SS_UNUSED\<rparr>;
          (r, s2) = sys k (Open dirname O_RDONLY 0) s1;
          s3 = s2\<lparr>ssdir_fd := sr_rc r\<rparr> in
      if sr_rc r < 0 then (- 1, s3) else (0, s3\<lparr>ssdir_name := Some dirname\<rparr>))"

definition storage_persistent_init :: "kernel \<Rightarrow> bytes \<Rightarrow> 'a storage_scheme \<Rightarrow> int \<times> 'a storage_scheme" where
  "storage_persistent_init k dirname s =
     (let (r, s1) = sys k (Open dirname O_RDONLY 0) s;
          s2 = s1\<lparr>ss_persistent_dir_fd := sr_rc r\<rparr> in
      if sr_rc r < 0 then (- 1, s2) else (0, s2\<lparr>ss_persistent_dir_name := Some dirname\<rparr>))"

definition storage_proinfo_init :: "kernel \<Rightarrow> bytes \<Rightarrow> 'a storage_scheme \<Rightarrow> int \<times> 'a storage_scheme" where
  "storage_proinfo_init k nodename s =
     (let (r, s1) = sys k (Open nodename O_RDONLY 0) s;
          s2 = s1\<lparr>ss_proinfo_node_fd := sr_rc r\<rparr> in
      if sr_rc r < 0 then (- 1, s2) else (0, s2))"

text \<open>The loop over the table of descriptors, from a given list of its indices on.\<close>

fun sync_fd_table :: "kernel \<Rightarrow> nat list \<Rightarrow> 'a storage_scheme \<Rightarrow> int \<times> 'a storage_scheme" where
  "sync_fd_table k [] s = (0, s)"
| "sync_fd_table k (fd # fds) s =
     (if fd_state s ! fd = SS_DIRTY then
        if fs_state s = SS_CLEAN then
          let (r, s1) = sys k (Fsync (int fd)) s in
          if sr_rc r < 0 then (sr_rc r, s1)
          else sync_fd_table k fds (s1\<lparr>fd_state := (fd_state s1)[fd := SS_CLEAN]\<rparr>)
        else sync_fd_table k fds (s\<lparr>fd_state := (fd_state s)[fd := SS_CLEAN]\<rparr>)
      else sync_fd_table k fds s)"

text \<open>
  The directories to be synchronised, in the order of the source, and a sequence of
  \<open>fsync\<close> or \<open>syncfs\<close> calls that stops at the first failure.
\<close>

definition sync_roots :: "'a storage_scheme \<Rightarrow> int list" where
  "sync_roots s = ssdir_fd s #
     (if ss_persistent_dir_fd s > 0 then [ss_persistent_dir_fd s] else []) @
     (if ss_proinfo_node_fd s > 0 then [ss_proinfo_node_fd s] else [])"

fun sync_calls :: "kernel \<Rightarrow> syscall list \<Rightarrow> 'a storage_scheme \<Rightarrow> int \<times> 'a storage_scheme" where
  "sync_calls k [] s = (0, s)"
| "sync_calls k (c # cs) s =
     (let (r, s1) = sys k c s in if sr_rc r < 0 then (sr_rc r, s1) else sync_calls k cs s1)"

text \<open>A checkpoint: the table, then the directories, then whole file systems.\<close>

definition sync_dirs :: "kernel \<Rightarrow> 'a storage_scheme \<Rightarrow> int \<times> 'a storage_scheme" where
  "sync_dirs k s =
     (if dir_state s = SS_DIRTY then
        let (rc, s') = (if fs_state s = SS_CLEAN then sync_calls k (map Fsync (sync_roots s)) s else (0, s))
        in if rc < 0 then (rc, s') else (0, s'\<lparr>dir_state := SS_CLEAN\<rparr>)
      else (0, s))"

definition sync_fs :: "kernel \<Rightarrow> 'a storage_scheme \<Rightarrow> int \<times> 'a storage_scheme" where
  "sync_fs k s =
     (if fs_state s = SS_DIRTY then
        let (rc, s') = sync_calls k (map Syncfs (sync_roots s)) s in
        if rc < 0 then (rc, s') else (0, s'\<lparr>fs_state := SS_CLEAN\<rparr>)
      else (0, s))"

definition storage_sync_checkpoint :: "kernel \<Rightarrow> 'a storage_scheme \<Rightarrow> int \<times> 'a storage_scheme" where
  "storage_sync_checkpoint k s =
     (let (rc1, s1) = sync_fd_table k [0..<FD_TBL_SIZE] s in
      if rc1 < 0 then (rc1, s1)
      else let (rc2, s2) = sync_dirs k s1 in if rc2 < 0 then (rc2, s2) else sync_fs k s2)"

end
