(* ===== verification/Storage_Transfer.thy ===== *)
theory Storage_Transfer
  imports Storage
begin

text \<open>
  Correctness of the two transfer loops of \<open>storage.c\<close>. \<open>write_with_retry\<close> returns under
  the documented behaviour of \<open>pwrite\<close> and, when it answers 0, the pieces that the kernel
  accepted are contiguous and add up to the whole buffer. \<open>read_with_retry\<close> returns, stays
  inside its buffer, and on a file that is not modified meanwhile delivers exactly the
  bytes of the file at the offset, however short the single reads are.
\<close>

section \<open>Histories of writes\<close>

text \<open>The parts of a descriptor's file that were written, with their offsets.\<close>

fun accepted :: "int \<Rightarrow> event \<Rightarrow> (u64 \<times> bytes) list" where
  "accepted fd (Pwrite f bs off, r) = (if f = fd \<and> 0 \<le> sr_rc r then [(off, take (nat (sr_rc r)) bs)] else [])"
| "accepted fd _ = []"

definition pieces :: "int \<Rightarrow> event list \<Rightarrow> (u64 \<times> bytes) list" where
  "pieces fd es = concat (map (accepted fd) es)"

fun contiguous :: "u64 \<Rightarrow> (u64 \<times> bytes) list \<Rightarrow> bool" where
  "contiguous off [] \<longleftrightarrow> True"
| "contiguous off ((o1, bs) # ps) \<longleftrightarrow> o1 = off \<and> contiguous (off + word_of_nat (length bs)) ps"

definition payload :: "(u64 \<times> bytes) list \<Rightarrow> bytes" where
  "payload ps = concat (map snd ps)"

lemma pieces_append [simp]: "pieces fd (es @ es') = pieces fd es @ pieces fd es'"
  by (simp add: pieces_def)

lemma payload_simps [simp]: "payload [] = []" "payload (p # ps) = snd p @ payload ps"
  by (simp_all add: payload_def)

lemma accepted_failed: "sr_rc r < 0 \<Longrightarrow> accepted fd (c, r) = []"
  by (cases c) auto

lemma pieces_interrupted:
  "\<forall>x \<in> set es. fst x = c \<and> interrupted (snd x) \<Longrightarrow> pieces fd es = []"
  by (induction es) (auto simp: pieces_def interrupted_def accepted_failed)

section \<open>write_with_retry\<close>

lemma write_with_retry_returns:
  assumes "eintr_bounded n k" "write_progress k"
  shows "\<exists>rc s'. write_with_retry k fd buf off s = Some (rc, s')"
proof (induction buf arbitrary: off s rule: length_induct)
  case (1 buf)
  obtain r s1 where r: "temp_failure_retry k (Pwrite fd buf off) s = Some (r, s1)"
    using temp_failure_retry_returns [OF assms(1)] by blast
  show ?case
  proof (cases "buf = [] \<or> sr_rc r < 0")
    case True
    with r show ?thesis by (subst write_with_retry.simps) auto
  next
    case False
    obtain h where "r = k h (Pwrite fd buf off)"
      using temp_failure_retry_retried [OF r] unfolding retried_def by blast
    with False assms(2) have "0 < sr_rc r" by (auto simp: write_progress_def less_le)
    with False have "length (drop (nat (sr_rc r)) buf) < length buf" by (cases buf) auto
    with "1" r False show ?thesis by (subst write_with_retry.simps) simp
  qed
qed

text \<open>What a returning write loop has done; \<open>rc\<close> is 0 or the failing answer.\<close>

definition wrote :: "int \<Rightarrow> bytes \<Rightarrow> u64 \<Rightarrow> 'a proc_scheme \<Rightarrow> int \<Rightarrow> 'a proc_scheme \<Rightarrow> bool" where
  "wrote fd buf off s rc s' \<longleftrightarrow>
     (\<exists>es e. s' = s\<lparr>hist := hist s @ es, errno := e\<rparr> \<and>
        (\<forall>x \<in> set es. \<exists>b off'. fst x = Pwrite fd b off') \<and>
        contiguous off (pieces fd es) \<and>
        (\<exists>rest. buf = payload (pieces fd es) @ rest \<and> (rc = 0 \<longrightarrow> rest = [])) \<and> rc \<le> 0)"

lemma wrote_done: "wrote fd [] off s 0 s"
  unfolding wrote_def by (intro exI [of _ "[]"] exI [of _ "errno s"]) (simp add: pieces_def)

lemma retried_pwrite:
  assumes "retried k (Pwrite fd buf off) s r s1"
  obtains es e where "s1 = s\<lparr>hist := hist s @ es, errno := e\<rparr>"
    "\<forall>x \<in> set es. fst x = Pwrite fd buf off"
    "pieces fd es = (if 0 \<le> sr_rc r then [(off, take (nat (sr_rc r)) buf)] else [])"
proof -
  from assms obtain es e where es: "\<forall>x \<in> set es. fst x = Pwrite fd buf off \<and> interrupted (snd x)"
    "s1 = s\<lparr>hist := hist s @ es @ [(Pwrite fd buf off, r)], errno := e\<rparr>"
    unfolding retried_def by blast
  show thesis
  proof (rule that)
    show "s1 = s\<lparr>hist := hist s @ (es @ [(Pwrite fd buf off, r)]), errno := e\<rparr>" using es(2) by simp
    show "\<forall>x \<in> set (es @ [(Pwrite fd buf off, r)]). fst x = Pwrite fd buf off" using es(1) by auto
    show "pieces fd (es @ [(Pwrite fd buf off, r)]) =
        (if 0 \<le> sr_rc r then [(off, take (nat (sr_rc r)) buf)] else [])"
      using pieces_interrupted [OF es(1)] by (simp add: pieces_def)
  qed
qed

lemma wrote_failed:
  assumes "retried k (Pwrite fd buf off) s r s1" "sr_rc r < 0"
  shows "wrote fd buf off s (sr_rc r) s1"
proof -
  from assms(1) obtain es e where "s1 = s\<lparr>hist := hist s @ es, errno := e\<rparr>"
    "\<forall>x \<in> set es. fst x = Pwrite fd buf off"
    "pieces fd es = (if 0 \<le> sr_rc r then [(off, take (nat (sr_rc r)) buf)] else [])"
    by (rule retried_pwrite)
  with assms(2) show ?thesis unfolding wrote_def
    by (intro exI [of _ es] exI [of _ e]) auto
qed

lemma wrote_step:
  assumes r: "retried k (Pwrite fd buf off) s r s1" and "0 \<le> sr_rc r" "sr_rc r \<le> int (length buf)"
    and w: "wrote fd (drop (nat (sr_rc r)) buf) (off + word_of_int (sr_rc r)) s1 rc s'"
  shows "wrote fd buf off s rc s'"
proof -
  from r obtain es e where es: "s1 = s\<lparr>hist := hist s @ es, errno := e\<rparr>"
    "\<forall>x \<in> set es. fst x = Pwrite fd buf off" "pieces fd es = [(off, take (nat (sr_rc r)) buf)]"
    using assms(2) by (metis retried_pwrite)
  from w obtain es' e' rest where es': "s' = s1\<lparr>hist := hist s1 @ es', errno := e'\<rparr>"
    "\<forall>x \<in> set es'. \<exists>b off'. fst x = Pwrite fd b off'"
    "contiguous (off + word_of_int (sr_rc r)) (pieces fd es')"
    "drop (nat (sr_rc r)) buf = payload (pieces fd es') @ rest" "rc = 0 \<longrightarrow> rest = []" "rc \<le> 0"
    unfolding wrote_def by blast
  have "word_of_nat (length (take (nat (sr_rc r)) buf)) = (word_of_int (sr_rc r) :: u64)"
  proof -
    obtain m where "sr_rc r = int m" using assms(2) by (metis nonneg_int_cases)
    with assms(3) show ?thesis by simp
  qed
  moreover have "buf = take (nat (sr_rc r)) buf @ payload (pieces fd es') @ rest"
    using es'(4) by (metis append_take_drop_id)
  ultimately show ?thesis unfolding wrote_def
    using es es' by (intro exI [of _ "es @ es'"] exI [of _ e']) auto
qed

lemma write_with_retry_wrote:
  assumes ret: "write_with_retry k fd buf off s = Some (rc, s')" and io: "io_bounded k"
  shows "wrote fd buf off s rc s'"
proof -
  have "(\<lambda>k fd buf off s p. io_bounded k \<longrightarrow> wrote fd buf off s (fst p) (snd p)) k fd buf off s (rc, s')"
  proof (rule write_with_retry.raw_induct [OF _ ret], rule impI)
    fix f k fd buf off s p
    assume IH: "\<And>k fd buf off s p. f k fd buf off s = Some p \<Longrightarrow>
        io_bounded k \<longrightarrow> wrote fd buf off s (fst p) (snd p)"
      and eq: "(if buf = [] then Some (0, s)
        else Option.bind (temp_failure_retry k (Pwrite fd buf off) s)
          (\<lambda>(r, s1). if sr_rc r < 0 then Some (sr_rc r, s1)
             else f k fd (drop (nat (sr_rc r)) buf) (off + word_of_int (sr_rc r)) s1)) = Some p"
      and io: "io_bounded k"
    show "wrote fd buf off s (fst p) (snd p)"
    proof (cases "buf = []")
      case True
      with eq wrote_done show ?thesis by auto
    next
      case False
      with eq obtain r s1 where r: "temp_failure_retry k (Pwrite fd buf off) s = Some (r, s1)"
        and nxt: "(if sr_rc r < 0 then Some (sr_rc r, s1)
             else f k fd (drop (nat (sr_rc r)) buf) (off + word_of_int (sr_rc r)) s1) = Some p"
        by (auto simp: bind_eq_Some_conv)
      note rt = temp_failure_retry_retried [OF r]
      from rt obtain h where "r = k h (Pwrite fd buf off)" unfolding retried_def by blast
      with io_boundedD [OF io, of "Pwrite fd buf off" h] have len: "sr_rc r \<le> int (length buf)" by simp
      show ?thesis
      proof (cases "sr_rc r < 0")
        case True
        with nxt wrote_failed [OF rt True] show ?thesis by auto
      next
        case False
        with nxt IH io
        have "wrote fd (drop (nat (sr_rc r)) buf) (off + word_of_int (sr_rc r)) s1 (fst p) (snd p)" by simp
        with wrote_step [OF rt _ len] False show ?thesis by simp
      qed
    qed
  qed
  with io show ?thesis by simp
qed

lemma write_with_retry_errno:
  assumes "write_with_retry k fd buf off s = Some (rc, s')" "errno_set k" "rc < 0"
  shows "errno s' \<noteq> 0"
proof -
  have "(\<lambda>k fd buf off s p. errno_set k \<longrightarrow> fst p < 0 \<longrightarrow> errno (snd p) \<noteq> 0) k fd buf off s (rc, s')"
    by (rule write_with_retry.raw_induct [OF _ assms(1)])
      (auto simp: bind_eq_Some_conv dest: retry_errno split: if_splits)
  with assms(2,3) show ?thesis by simp
qed

section \<open>read_with_retry\<close>

text \<open>
  A descriptor on a regular file whose content does not change: a read may be
  interrupted or short, but gives a byte unless it starts at the end of the file.
\<close>

definition reads_file :: "kernel \<Rightarrow> int \<Rightarrow> bytes \<Rightarrow> bool" where
  "reads_file k fd f \<longleftrightarrow>
     (\<forall>h n off. let r = k h (Pread fd n off) in
        interrupted r \<or>
        (0 \<le> sr_rc r \<and> nat (sr_rc r) \<le> n \<and> sr_out r = take (nat (sr_rc r)) (drop (unat off) f) \<and>
         length (sr_out r) = nat (sr_rc r) \<and> (sr_rc r = 0 \<longrightarrow> n = 0 \<or> length f \<le> unat off)))"

lemma retried_pread:
  assumes "retried k (Pread fd n off) s r s1" "reads_file k fd f"
  obtains m where "sr_rc r = int m" "m \<le> n" "sr_out r = take m (drop (unat off) f)"
    "m \<le> length f - unat off" "m = 0 \<longrightarrow> n = 0 \<or> length f \<le> unat off"
proof -
  from assms(1) obtain h where h: "r = k h (Pread fd n off)" "\<not> interrupted r"
    unfolding retried_def by blast
  with assms(2) have *: "0 \<le> sr_rc r" "nat (sr_rc r) \<le> n" "sr_out r = take (nat (sr_rc r)) (drop (unat off) f)"
    "length (sr_out r) = nat (sr_rc r)" "sr_rc r = 0 \<longrightarrow> n = 0 \<or> length f \<le> unat off"
    unfolding reads_file_def Let_def by blast+
  show thesis
  proof (rule that [of "nat (sr_rc r)"])
    show "nat (sr_rc r) \<le> length f - unat off" using *(3,4) by (metis length_drop length_take min.cobounded1)
  qed (use * in auto)
qed

lemma read_loop_file:
  assumes "eintr_bounded b k" "reads_file k fd f"
  shows "rcnt + sz \<le> length buf \<Longrightarrow> unat off + sz < 2 ^ 64 \<Longrightarrow>
    \<exists>es e. read_with_retry_loop k fd sz off rcnt buf s =
      Some (int (rcnt + length (take sz (drop (unat off) f))),
            buf_write rcnt (take sz (drop (unat off) f)) buf,
            s\<lparr>hist := hist s @ es, errno := e\<rparr>)"
proof (induction sz arbitrary: off rcnt buf s rule: less_induct)
  case (less sz)
  let ?want = "\<lambda>sz off. take sz (drop (unat off) f)"
  show ?case
  proof (cases "sz = 0")
    case True
    then have "read_with_retry_loop k fd sz off rcnt buf s = Some (int rcnt, buf, s)"
      by (subst read_with_retry_loop.simps) simp
    with True show ?thesis
      by (intro exI [of _ "[]"] exI [of _ "errno s"]) (simp add: buf_write_def)
  next
    case False
    obtain r s1 where r: "temp_failure_retry k (Pread fd sz off) s = Some (r, s1)"
      using temp_failure_retry_returns [OF assms(1)] by blast
    note rt = temp_failure_retry_retried [OF r]
    obtain m where m: "sr_rc r = int m" "m \<le> sz" "sr_out r = take m (drop (unat off) f)"
      "m \<le> length f - unat off" "m = 0 \<longrightarrow> sz = 0 \<or> length f \<le> unat off"
      using retried_pread [OF rt assms(2)] by metis
    from rt obtain es e where s1: "s1 = s\<lparr>hist := hist s @ es, errno := e\<rparr>"
      unfolding retried_def by auto
    show ?thesis
    proof (cases "m = 0")
      case True
      with m(5) False have "length f \<le> unat off" by simp
      moreover have "read_with_retry_loop k fd sz off rcnt buf s = Some (int rcnt, buf, s1)"
        using False r m(1) True by (subst read_with_retry_loop.simps) simp
      ultimately show ?thesis using s1
        by (intro exI [of _ es] exI [of _ e]) (simp add: buf_write_def)
    next
      case m0: False
      let ?buf = "buf_write rcnt (sr_out r) buf" and ?off = "off + word_of_nat m"
      have len: "length (sr_out r) = m" using m(3,4) by simp
      have buf: "length ?buf = length buf" using less.prems(1) m(2) len by simp
      have off: "unat ?off = unat off + m"
        using less.prems(2) m(2) by (simp add: unat_word_ariths unat_of_nat take_bit_nat_eq_self_iff)
      have step: "read_with_retry_loop k fd sz off rcnt buf s =
          read_with_retry_loop k fd (sz - m) ?off (rcnt + m) ?buf s1"
        using False r m(1) m0 by (subst read_with_retry_loop.simps) simp
      have want: "?want sz off = sr_out r @ ?want (sz - m) ?off"
        using m(2,3) take_add [of m "sz - m" "drop (unat off) f"] by (simp add: off add.commute)
      obtain es' e' where "read_with_retry_loop k fd (sz - m) ?off (rcnt + m) ?buf s1 =
        Some (int (rcnt + m + length (?want (sz - m) ?off)), buf_write (rcnt + m) (?want (sz - m) ?off) ?buf,
              s1\<lparr>hist := hist s1 @ es', errno := e'\<rparr>)"
        using less.IH [of "sz - m" "rcnt + m" ?buf ?off s1] less.prems m(2) m0 False buf off by auto
      moreover have "buf_write (rcnt + m) (?want (sz - m) ?off) ?buf = buf_write rcnt (?want sz off) buf"
        using less.prems(1) m(2) len by (simp add: buf_write_def want ac_simps)
      ultimately show ?thesis
        using step want len s1 by (intro exI [of _ "es @ es'"] exI [of _ e']) (simp add: add.assoc)
    qed
  qed
qed

text \<open>Whatever the kernel does within \<open>io_bounded\<close>, the loop stays inside its buffer.\<close>

definition read_safely :: "int \<Rightarrow> nat \<Rightarrow> bytes \<Rightarrow> 'a proc_scheme \<Rightarrow> int \<times> bytes \<times> 'a proc_scheme \<Rightarrow> bool" where
  "read_safely fd limit buf s p \<longleftrightarrow> (case p of (rc, buf', s') \<Rightarrow>
     length buf' = length buf \<and> rc \<le> int limit \<and>
     (\<exists>es e. s' = s\<lparr>hist := hist s @ es, errno := e\<rparr> \<and> (\<forall>x \<in> set es. \<exists>n off'. fst x = Pread fd n off')))"

lemma read_safely_stop: "rc \<le> int limit \<Longrightarrow> read_safely fd limit buf s (rc, buf, s)"
  unfolding read_safely_def by (auto intro!: exI [of _ "[]"] exI [of _ "errno s"])

lemma read_safely_step:
  assumes "retried k (Pread fd n off) s r s1" "read_safely fd limit buf1 s1 p" "length buf1 = length buf"
  shows "read_safely fd limit buf s p"
proof -
  from assms(1) obtain es e where s1: "s1 = s\<lparr>hist := hist s @ es, errno := e\<rparr>"
    and es: "\<forall>x \<in> set es. \<exists>n off'. fst x = Pread fd n off'"
    unfolding retried_def by fastforce
  obtain rc buf' s' where p: "p = (rc, buf', s')" by (cases p)
  with assms(2) obtain es' e' where s': "s' = s1\<lparr>hist := hist s1 @ es', errno := e'\<rparr>"
    and es': "\<forall>x \<in> set es'. \<exists>n off'. fst x = Pread fd n off'"
    and rc: "length buf' = length buf1" "rc \<le> int limit"
    unfolding read_safely_def by auto
  have "\<forall>x \<in> set (es @ es'). \<exists>n off'. fst x = Pread fd n off'" using es es' by (simp add: ball_Un)
  moreover have "s' = s\<lparr>hist := hist s @ (es @ es'), errno := e'\<rparr>" using s1 s' by simp
  ultimately show ?thesis using p rc assms(3) unfolding read_safely_def by (simp only: prod.case) blast
qed

lemma read_loop_bounds:
  assumes ret: "read_with_retry_loop k fd sz off rcnt buf s = Some p"
    and "io_bounded k" "rcnt + sz \<le> length buf"
  shows "read_safely fd (rcnt + sz) buf s p"
proof -
  have "(\<lambda>k fd sz off rcnt buf s p. io_bounded k \<longrightarrow> rcnt + sz \<le> length buf \<longrightarrow>
    read_safely fd (rcnt + sz) buf s p) k fd sz off rcnt buf s p"
  proof (rule read_with_retry_loop.raw_induct [OF _ ret], intro impI)
    fix f k fd sz off rcnt buf s p
    assume IH: "\<And>k fd sz off rcnt buf s p. f k fd sz off rcnt buf s = Some p \<Longrightarrow>
        io_bounded k \<longrightarrow> rcnt + sz \<le> length buf \<longrightarrow> read_safely fd (rcnt + sz) buf s p"
      and eq: "(if sz = 0 then Some (int rcnt, buf, s)
        else Option.bind (temp_failure_retry k (Pread fd sz off) s)
        (\<lambda>(r, s1). if sr_rc r < 0 then Some (sr_rc r, buf, s1)
           else if sr_rc r = 0 then Some (int rcnt, buf, s1)
           else f k fd (sz - nat (sr_rc r)) (off + word_of_int (sr_rc r))
                  (rcnt + nat (sr_rc r)) (buf_write rcnt (sr_out r) buf) s1)) = Some p"
      and io: "io_bounded k" and fits: "rcnt + sz \<le> length buf"
    show "read_safely fd (rcnt + sz) buf s p"
    proof (cases "sz = 0")
      case True
      with eq show ?thesis by (auto intro!: read_safely_stop)
    next
      case False
      with eq obtain r s1 where r: "temp_failure_retry k (Pread fd sz off) s = Some (r, s1)"
        and nxt: "(if sr_rc r < 0 then Some (sr_rc r, buf, s1)
           else if sr_rc r = 0 then Some (int rcnt, buf, s1)
           else f k fd (sz - nat (sr_rc r)) (off + word_of_int (sr_rc r))
                  (rcnt + nat (sr_rc r)) (buf_write rcnt (sr_out r) buf) s1) = Some p"
        by (auto simp: bind_eq_Some_conv)
      note rt = temp_failure_retry_retried [OF r]
      then obtain h where h: "r = k h (Pread fd sz off)" unfolding retried_def by blast
      have ok: "sr_rc r \<le> int sz" "length (sr_out r) = nat (sr_rc r)"
        using io_boundedD [OF io, of "Pread fd sz off" h] h by auto
      show ?thesis
      proof (cases "sr_rc r \<le> 0")
        case True
        with nxt have "p = (if sr_rc r < 0 then sr_rc r else int rcnt, buf, s1)"
          by (auto split: if_splits)
        with True show ?thesis by (intro read_safely_step [OF rt, of _ buf]) (auto intro!: read_safely_stop)
      next
        case False
        with nxt have "f k fd (sz - nat (sr_rc r)) (off + word_of_int (sr_rc r))
            (rcnt + nat (sr_rc r)) (buf_write rcnt (sr_out r) buf) s1 = Some p" by simp
        from IH [OF this] io fits ok False
        have "read_safely fd (rcnt + nat (sr_rc r) + (sz - nat (sr_rc r))) (buf_write rcnt (sr_out r) buf) s1 p"
          by simp
        with False fits ok show ?thesis
          by (intro read_safely_step [OF rt, of _ "buf_write rcnt (sr_out r) buf"]) auto
      qed
    qed
  qed
  with assms(2,3) show ?thesis by simp
qed

end
