(* ===== verification/Storage_Sync.thy ===== *)
theory Storage_Sync
  imports Storage_Transfer
begin

text \<open>
  What the synchronisation state of \<open>storage.c\<close> (\<open>fs_state\<close>, \<open>dir_state\<close>, \<open>fd_state\<close>) is
  for. The specification reads the durability of every object off the history of system
  calls alone: a write, truncation or truncating open makes a file pending, creating or
  unlinking makes the directory entries pending, and an object is durable again after a
  successful \<open>fsync\<close> of it or after all root directories have been synchronised. The
  invariant \<open>sync_inv\<close> says that the proxy's table covers every pending object, and the
  theory shows that a checkpoint keeps it and, on success, leaves nothing tracked.
\<close>

section \<open>Specification: durability as a function of the history\<close>

datatype obj = File int | Entries

datatype durability =
    Durable
  | Pending "int set" bool \<comment> \<open>roots synchronised since the change; whether an \<open>fsync\<close> failed since\<close>

fun touches :: "obj \<Rightarrow> event \<Rightarrow> bool" where
  "touches (File fd) (Pwrite f bs off, r) \<longleftrightarrow> f = fd"
| "touches (File fd) (Ftruncate f n, r) \<longleftrightarrow> f = fd"
| "touches (File fd) (Open path fl m, r) \<longleftrightarrow> 0 \<le> sr_rc r \<and> sr_rc r = fd \<and> has_flag fl O_TRUNC"
| "touches Entries (Open path fl m, r) \<longleftrightarrow> 0 \<le> sr_rc r \<and> has_flag fl O_CREAT"
| "touches Entries (Unlink path, r) \<longleftrightarrow> True"
| "touches _ _ \<longleftrightarrow> False"

text \<open>A descriptor that is given out anew starts without changes.\<close>

fun flushes :: "obj \<Rightarrow> event \<Rightarrow> bool" where
  "flushes (File fd) (Fsync f, r) \<longleftrightarrow> f = fd \<and> 0 \<le> sr_rc r"
| "flushes (File fd) (Open path fl m, r) \<longleftrightarrow> 0 \<le> sr_rc r \<and> sr_rc r = fd"
| "flushes _ _ \<longleftrightarrow> False"

fun covered_root :: "obj \<Rightarrow> event \<Rightarrow> int set" where
  "covered_root ob (Syncfs d, r) = (if 0 \<le> sr_rc r then {d} else {})"
| "covered_root Entries (Fsync d, r) = (if 0 \<le> sr_rc r then {d} else {})"
| "covered_root _ _ = {}"

fun flush_failed :: "obj \<Rightarrow> event \<Rightarrow> bool" where
  "flush_failed (File fd) (Fsync f, r) \<longleftrightarrow> f = fd \<and> sr_rc r < 0"
| "flush_failed _ _ \<longleftrightarrow> False"

definition durability_step :: "int set \<Rightarrow> obj \<Rightarrow> event \<Rightarrow> durability \<Rightarrow> durability" where
  "durability_step roots ob ev d =
     (if touches ob ev then Pending {} False
      else if flushes ob ev then Durable
      else case d of Durable \<Rightarrow> Durable
        | Pending D failed \<Rightarrow>
            if roots \<subseteq> D \<union> covered_root ob ev then Durable
            else Pending (D \<union> covered_root ob ev) (failed \<or> flush_failed ob ev))"

definition durability :: "int set \<Rightarrow> event list \<Rightarrow> obj \<Rightarrow> durability" where
  "durability roots h ob = fold (durability_step roots ob) h Durable"

text \<open>Changes that are not durable and for which no \<open>fsync\<close> has reported a failure.\<close>

definition outstanding :: "int set \<Rightarrow> event list \<Rightarrow> obj \<Rightarrow> bool" where
  "outstanding roots h ob \<longleftrightarrow> (\<exists>D. durability roots h ob = Pending D False)"

section \<open>Invariant: the table covers what is outstanding\<close>

fun tracked :: "'a storage_scheme \<Rightarrow> obj \<Rightarrow> bool" where
  "tracked s (File fd) \<longleftrightarrow>
     fs_state s = SS_DIRTY \<or> (0 \<le> fd \<and> fd < int FD_TBL_SIZE \<and> fd_state s ! nat fd = SS_DIRTY)"
| "tracked s Entries \<longleftrightarrow> fs_state s = SS_DIRTY \<or> dir_state s = SS_DIRTY"

definition roots :: "'a storage_scheme \<Rightarrow> int set" where
  "roots s = set (sync_roots s)"

text \<open>The invariant, with an object exempt while an operation is under way.\<close>

definition sync_inv_except :: "obj set \<Rightarrow> 'a storage_scheme \<Rightarrow> bool" where
  "sync_inv_except X s \<longleftrightarrow>
     length (fd_state s) = FD_TBL_SIZE \<and> fs_state s \<noteq> SS_UNUSED \<and>
     (\<forall>ob. ob \<notin> X \<longrightarrow> outstanding (roots s) (hist s) ob \<longrightarrow> tracked s ob)"

abbreviation sync_inv :: "'a storage_scheme \<Rightarrow> bool" where
  "sync_inv \<equiv> sync_inv_except {}"

section \<open>Facts about the specification\<close>

lemma durability_snoc [simp]:
  "durability R (h @ [ev]) ob = durability_step R ob ev (durability R h ob)"
  by (simp add: durability_def)

lemma outstanding_snoc: "outstanding R (h @ [ev]) ob \<Longrightarrow> touches ob ev \<or> outstanding R h ob"
  by (auto simp: outstanding_def durability_step_def split: if_splits durability.splits)

lemma outstanding_append:
  "outstanding R (h @ es) ob \<Longrightarrow> (\<exists>ev \<in> set es. touches ob ev) \<or> outstanding R h ob"
  by (induction es rule: rev_induct) (auto simp flip: append_assoc dest!: outstanding_snoc)

lemma not_outstanding_flush:
  "flushes ob ev \<Longrightarrow> \<not> touches ob ev \<Longrightarrow> \<not> outstanding R (h @ [ev]) ob"
  "flush_failed ob ev \<Longrightarrow> \<not> outstanding R (h @ [ev]) ob"
proof -
  show "flushes ob ev \<Longrightarrow> \<not> touches ob ev \<Longrightarrow> \<not> outstanding R (h @ [ev]) ob"
    by (simp add: outstanding_def durability_step_def)
  assume f: "flush_failed ob ev"
  then have "\<not> touches ob ev" by (cases ob; cases "fst ev"; cases ev) auto
  with f show "\<not> outstanding R (h @ [ev]) ob"
    by (auto simp: outstanding_def durability_step_def split: durability.splits)
qed

text \<open>After all roots were synchronised in a row nothing is pending.\<close>

lemma synced_roots_durable:
  assumes "\<forall>ev \<in> set es. \<not> touches ob ev"
  shows "durability R (h @ es) ob = Durable \<or>
    (\<exists>D f. durability R (h @ es) ob = Pending D f \<and> (\<Union>ev \<in> set es. covered_root ob ev) \<subseteq> D \<and>
       (es \<noteq> [] \<longrightarrow> \<not> R \<subseteq> D))"
  using assms
proof (induction es rule: rev_induct)
  case Nil
  show ?case by (cases "durability R h ob") auto
next
  case (snoc ev es)
  from snoc.prems have "\<not> touches ob ev" "\<forall>ev \<in> set es. \<not> touches ob ev" by auto
  with snoc.IH show ?case
    by (auto simp: durability_step_def simp flip: append_assoc split: durability.splits if_splits)
qed

section \<open>Calls and the invariant\<close>

lemma tracked_calls_only [frame_simps]: "calls_only P s s' \<Longrightarrow> tracked s' ob = tracked s ob"
  unfolding calls_only_def by (cases ob) auto

lemma calls_only_storage_fields [frame_simps]:
  assumes "calls_only P s s'"
  shows "roots s' = roots s" "fd_state s' = fd_state s" "fs_state s' = fs_state s" "dir_state s' = dir_state s"
    "tipc_fd s' = tipc_fd s" "sync_roots s' = sync_roots s" "read_rsp s' = read_rsp s"
  using assms unfolding calls_only_def roots_def sync_roots_def by auto

lemma roots_update [simp]:
  "roots (s\<lparr>fd_state := t\<rparr>) = roots s" "roots (s\<lparr>fs_state := f\<rparr>) = roots s"
  "roots (s\<lparr>dir_state := d\<rparr>) = roots s" "roots (s\<lparr>hist := h\<rparr>) = roots s" "roots (s\<lparr>errno := e\<rparr>) = roots s"
  "roots (s\<lparr>tipc_fd := c\<rparr>) = roots s" "roots (s\<lparr>read_rsp := b\<rparr>) = roots s"
  by (simp_all add: roots_def sync_roots_def)

lemma sync_inv_events:
  assumes s': "s' = s\<lparr>hist := hist s @ es, errno := e\<rparr>" and inv: "sync_inv_except X s"
    and tr: "\<And>ev ob. ev \<in> set es \<Longrightarrow> touches ob ev \<Longrightarrow> ob \<in> X \<or> tracked s ob"
  shows "sync_inv_except X s'"
  unfolding sync_inv_except_def
proof (intro conjI allI impI)
  show "length (fd_state s') = FD_TBL_SIZE" "fs_state s' \<noteq> SS_UNUSED"
    using inv s' by (simp_all add: sync_inv_except_def)
  fix ob assume X: "ob \<notin> X" and o: "outstanding (roots s') (hist s') ob"
  from o s' have "outstanding (roots s) (hist s @ es) ob" by simp
  from outstanding_append [OF this] have "tracked s ob"
    using tr X inv unfolding sync_inv_except_def by blast
  then show "tracked s' ob" using s' by (cases ob) simp_all
qed

lemma sync_inv_calls_only:
  assumes "calls_only P s s'" "sync_inv_except X s"
    and tr: "\<And>c ob r. P c \<Longrightarrow> touches ob (c, r) \<Longrightarrow> ob \<in> X \<or> tracked s ob"
  shows "sync_inv_except X s'"
proof -
  from assms(1) obtain es e where h: "s' = s\<lparr>hist := hist s @ es, errno := e\<rparr>" "\<forall>x \<in> set es. P (fst x)"
    unfolding calls_only_def by auto
  show ?thesis
    by (rule sync_inv_events [OF h(1) assms(2)]) (use h(2) tr in \<open>metis prod.collapse\<close>)
qed

lemma sync_inv_weaken: "sync_inv s \<Longrightarrow> sync_inv_except X s"
  by (auto simp: sync_inv_except_def)

lemma sync_inv_strengthen:
  assumes "sync_inv_except X s"
    and "\<And>ob. ob \<in> X \<Longrightarrow> outstanding (roots s) (hist s) ob \<Longrightarrow> tracked s ob"
  shows "sync_inv s"
  using assms by (auto simp: sync_inv_except_def)

section \<open>The table operations\<close>

text \<open>A handle is the descriptor's bit pattern.\<close>

lemma handle_of_fd: "0 \<le> fd \<Longrightarrow> fd < 2 ^ 31 \<Longrightarrow> unat (word_of_int fd :: u32) = nat fd"
  by (simp add: unat_eq_nat_uint uint_word_of_int_eq take_bit_int_eq_self)

lemma sint_of_small:
  assumes "unat (h :: u32) < FD_TBL_SIZE"
  shows "sint h = uint h" "uint h < int FD_TBL_SIZE"
proof -
  have "int (unat h) < int FD_TBL_SIZE" using assms by (simp only: of_nat_less_iff)
  then show lt: "uint h < int FD_TBL_SIZE" by simp
  then have "uint h < 64" by (simp add: FD_TBL_SIZE_def)
  then have "- (2 ^ 31) \<le> uint h" "uint h < 2 ^ 31"
    using uint_ge_0 [of h] by (auto intro: order_trans [of _ 0])
  from signed_take_bit_int_eq_self [OF this] show "sint h = uint h"
    by (simp add: sint_uint)
qed

lemma unat_eq_nat: "0 \<le> x \<Longrightarrow> unat (h :: u32) = nat x \<longleftrightarrow> x = uint h"
  using of_nat_eq_iff [of "unat h" "nat x", where 'a = int] by auto

lemma lookup_fd_tracks:
  assumes "lookup_fd handle True s = (fd, s')" "length (fd_state s) = FD_TBL_SIZE"
  shows "tracked s' (File fd)" and "tracked s ob \<Longrightarrow> tracked s' ob"
proof -
  show "tracked s' (File fd)"
    using assms sint_of_small [of handle] by (auto simp: lookup_fd_def split: if_splits)
  show "tracked s ob \<Longrightarrow> tracked s' ob"
    using assms by (cases ob) (auto simp: lookup_fd_def nth_list_update split: if_splits)
qed

lemma sync_inv_marked:
  assumes "sync_inv_except X s" "hist s' = hist s" "roots s' = roots s"
    "length (fd_state s') = FD_TBL_SIZE" "fs_state s' \<noteq> SS_UNUSED"
    and "\<And>ob. ob \<notin> X' \<Longrightarrow> outstanding (roots s) (hist s) ob \<Longrightarrow> (ob \<notin> X \<and> tracked s ob) \<or> ob \<in> X \<Longrightarrow> tracked s' ob"
  shows "sync_inv_except X' s'"
  using assms unfolding sync_inv_except_def by metis

lemma sync_inv_lookup:
  assumes "sync_inv s" "lookup_fd handle dirty s = (fd, s')"
  shows "sync_inv s'"
proof (cases dirty)
  case True
  have len: "length (fd_state s) = FD_TBL_SIZE" using assms(1) by (simp add: sync_inv_except_def)
  have l: "lookup_fd handle True s = (fd, s')" using assms(2) True by simp
  show ?thesis
  proof (rule sync_inv_marked [OF assms(1)])
    show "hist s' = hist s" "roots s' = roots s" "length (fd_state s') = FD_TBL_SIZE" "fs_state s' \<noteq> SS_UNUSED"
      using assms l len by (auto simp: lookup_fd_def sync_inv_except_def split: if_splits)
  qed (use lookup_fd_tracks(2) [OF l len] in blast)
next
  case False
  with assms show ?thesis by (auto simp: lookup_fd_def)
qed

text \<open>Closing: the entry is released before the \<open>fsync\<close>.\<close>

lemma sync_inv_remove:
  assumes "sync_inv s" "remove_fd handle s = (fd, s')"
  shows "sync_inv_except {File fd} s'" "calls_only P s' s1 \<Longrightarrow> hist s' = hist s"
proof -
  have len: "length (fd_state s) = FD_TBL_SIZE" using assms(1) by (simp add: sync_inv_except_def)
  have "tracked s' ob" if "tracked s ob" "ob \<noteq> File fd" for ob
    using that assms(2) sint_of_small [of handle] len
    by (cases ob) (auto simp: remove_fd_def nth_list_update unat_eq_nat split: if_splits)
  then show "sync_inv_except {File fd} s'"
    by (intro sync_inv_marked [OF assms(1)])
      (use assms in \<open>auto simp: remove_fd_def sync_inv_except_def split: if_splits\<close>)
qed (use assms(2) in \<open>auto simp: remove_fd_def\<close>)

lemma sync_inv_fsync:
  assumes "sync_inv_except {File fd} s" "sys k (Fsync fd) s = (r, s')"
  shows "sync_inv s'"
proof (rule sync_inv_strengthen)
  show "sync_inv_except {File fd} s'"
    by (rule sync_inv_calls_only [OF calls_only_sys [where P = "\<lambda>c. c = Fsync fd", OF assms(2)] assms(1)]) auto
  fix ob assume "ob \<in> {File fd}" "outstanding (roots s') (hist s') ob"
  moreover have "flushes (File fd) (Fsync fd, r) \<or> flush_failed (File fd) (Fsync fd, r)" by auto
  ultimately show "tracked s' ob"
    using not_outstanding_flush [of "File fd" "(Fsync fd, r)" "roots s'" "hist s"]
    by (auto simp: sys_eqD(2) [OF assms(2)])
qed

text \<open>Opening: what the call changes is marked afterwards.\<close>

definition opened_objs :: "u32 \<Rightarrow> int \<Rightarrow> obj set" where
  "opened_objs fl fd = insert (File fd) (if has_flag fl O_CREAT then {Entries} else {})"

lemma sync_inv_insert:
  assumes inv: "sync_inv_except (opened_objs fl fd) s" and fd: "0 \<le> fd" "fd < 2 ^ 31"
    and clean: "\<not> has_flag fl O_TRUNC \<Longrightarrow> \<not> outstanding (roots s) (hist s) (File fd)"
    and ins: "insert_fd fl fd s = (handle, s')"
  shows "sync_inv s'"
proof (rule sync_inv_marked [OF inv])
  note len = inv [unfolded sync_inv_except_def, THEN conjunct1]
  note h = handle_of_fd [OF fd]
  have trunc: "has_flag fl O_TRUNC \<Longrightarrow> has_flag fl (O_TRUNC OR O_CREAT)"
    by (simp only: has_flag_or simp_thms)
  show "hist s' = hist s" "roots s' = roots s" "length (fd_state s') = FD_TBL_SIZE" "fs_state s' \<noteq> SS_UNUSED"
    using inv ins by (auto simp: insert_fd_def Let_def sync_inv_except_def split: if_splits)
  fix ob assume o: "outstanding (roots s) (hist s) ob"
    and "ob \<notin> opened_objs fl fd \<and> tracked s ob \<or> ob \<in> opened_objs fl fd"
  then consider "ob = File fd" "has_flag fl O_TRUNC" | "ob = Entries" "has_flag fl O_CREAT"
    | "ob \<noteq> File fd" "tracked s ob"
    using clean by (auto simp: opened_objs_def split: if_splits)
  then show "tracked s' ob"
  proof cases
    case 1
    with ins fd len trunc show ?thesis by (auto simp: insert_fd_def Let_def h split: if_splits)
  next
    case 2
    with ins show ?thesis by (auto simp: insert_fd_def Let_def split: if_splits)
  next
    case 3
    with ins fd show ?thesis
      by (cases ob) (auto simp: insert_fd_def Let_def h nth_list_update len split: if_splits)
  qed
qed

section \<open>Steps of an operation before its answer\<close>

definition is_writev :: "syscall \<Rightarrow> bool" where
  "is_writev c = (case c of Writev _ _ \<Rightarrow> True | _ \<Rightarrow> False)"

text \<open>
  The operation sends nothing, keeps the connection, the root directories and the size of
  the read buffer, and keeps the invariant.
\<close>

definition serves :: "'a storage_scheme \<Rightarrow> 'a storage_scheme \<Rightarrow> bool" where
  "serves s s' \<longleftrightarrow>
     (\<exists>es. hist s' = hist s @ es \<and> (\<forall>x \<in> set es. \<not> is_writev (fst x))) \<and>
     tipc_fd s' = tipc_fd s \<and> roots s' = roots s \<and> length (read_rsp s') = length (read_rsp s) \<and>
     (sync_inv s \<longrightarrow> sync_inv s')"

lemma serves_refl [intro, simp]: "serves s s"
  by (simp add: serves_def)

lemma serves_trans [trans]: "serves s s1 \<Longrightarrow> serves s1 s2 \<Longrightarrow> serves s s2"
  unfolding serves_def by (elim conjE exE) (auto simp: ball_Un)

definition harmless :: "syscall \<Rightarrow> bool" where
  "harmless c \<longleftrightarrow> \<not> is_writev c \<and> (\<forall>ob r. \<not> touches ob (c, r))"

lemma harmless_calls [simp]:
  "harmless (Malloc n)" "harmless (Umask m)" "harmless (Mkdir p m)" "harmless (Fstat fd)"
  "harmless (Property_set q v)" "harmless (Close fd)" "harmless (Fsync fd)" "harmless (Syncfs fd)"
  "harmless (Pread fd n off)" "harmless (Ioctl fd rq)" "harmless (Sleep n)" "harmless (Readv fd ns)"
proof -
  have "\<not> touches ob (c, r)" if "\<not> is_writev c \<and> (case c of Open _ _ _ \<Rightarrow> False | Pwrite _ _ _ \<Rightarrow> False |
      Ftruncate _ _ \<Rightarrow> False | Unlink _ \<Rightarrow> False | _ \<Rightarrow> True)" for ob c r
    using that by (cases c; cases ob) auto
  then show "harmless (Malloc n)" "harmless (Umask m)" "harmless (Mkdir p m)" "harmless (Fstat fd)"
    "harmless (Property_set q v)" "harmless (Close fd)" "harmless (Fsync fd)" "harmless (Syncfs fd)"
    "harmless (Pread fd n off)" "harmless (Ioctl fd rq)" "harmless (Sleep n)" "harmless (Readv fd ns)"
    unfolding harmless_def by (simp_all add: is_writev_def)
qed

lemma serves_calls_only:
  assumes "calls_only P s s'" "\<And>c. P c \<Longrightarrow> \<not> is_writev c"
    and "\<And>c ob r. sync_inv s \<Longrightarrow> P c \<Longrightarrow> touches ob (c, r) \<Longrightarrow> tracked s ob"
  shows "serves s s'"
  unfolding serves_def
proof (intro conjI impI)
  show "\<exists>es. hist s' = hist s @ es \<and> (\<forall>x \<in> set es. \<not> is_writev (fst x))"
    using assms(1,2) unfolding calls_only_def by fastforce
  show "sync_inv s \<Longrightarrow> sync_inv s'"
    using sync_inv_calls_only [OF assms(1)] assms(3) by blast
qed (simp_all add: calls_only_storage_fields [OF assms(1)])

lemma serves_harmless: "calls_only harmless s s' \<Longrightarrow> serves s s'"
  by (erule serves_calls_only) (auto simp: harmless_def)

lemma serves_sys: "sys k c s = (r, s') \<Longrightarrow> harmless c \<Longrightarrow> serves s s'"
  by (rule serves_harmless, rule calls_only_sys)

lemma serves_read_rsp: "length buf = length (read_rsp s) \<Longrightarrow> serves s (s\<lparr>read_rsp := buf\<rparr>)"
proof -
  assume "length buf = length (read_rsp s)"
  moreover have "tracked (s\<lparr>read_rsp := buf\<rparr>) ob = tracked s ob" for ob by (cases ob) simp_all
  ultimately show ?thesis by (simp add: serves_def sync_inv_except_def)
qed

section \<open>Checkpoints\<close>

lemma sync_inv_clean_fd:
  assumes "sync_inv s" "i < FD_TBL_SIZE"
    and "\<not> outstanding (roots s) (hist s) (File (int i)) \<or> fs_state s = SS_DIRTY"
  shows "sync_inv (s\<lparr>fd_state := (fd_state s)[i := SS_CLEAN]\<rparr>)"
proof (rule sync_inv_marked [OF assms(1)])
  have len: "length (fd_state s) = FD_TBL_SIZE" using assms(1) by (simp add: sync_inv_except_def)
  then show "length (fd_state (s\<lparr>fd_state := (fd_state s)[i := SS_CLEAN]\<rparr>)) = FD_TBL_SIZE" by simp
  fix ob assume "outstanding (roots s) (hist s) ob" "ob \<notin> {} \<and> tracked s ob \<or> ob \<in> {}"
  then show "tracked (s\<lparr>fd_state := (fd_state s)[i := SS_CLEAN]\<rparr>) ob"
    using assms(2,3) len by (cases ob) (auto simp: nth_list_update)
qed (use assms in \<open>auto simp: sync_inv_except_def\<close>)

text \<open>What the loop over the table does; \<open>fds\<close> are the entries it visits.\<close>

definition table_synced :: "nat set \<Rightarrow> int \<Rightarrow> 'a storage_scheme \<Rightarrow> 'a storage_scheme \<Rightarrow> bool" where
  "table_synced fds rc s s' \<longleftrightarrow>
     serves s s' \<and> fs_state s' = fs_state s \<and> dir_state s' = dir_state s \<and> rc \<le> 0 \<and>
     length (fd_state s') = length (fd_state s) \<and>
     (\<forall>i < FD_TBL_SIZE. fd_state s' ! i = SS_DIRTY \<longrightarrow> fd_state s ! i = SS_DIRTY \<and> (rc = 0 \<longrightarrow> i \<notin> fds))"

lemma table_synced_step:
  assumes "table_synced fds rc s1 s'" "serves s s1" "fs_state s1 = fs_state s" "dir_state s1 = dir_state s"
    "length (fd_state s1) = length (fd_state s)"
    "\<forall>j < FD_TBL_SIZE. fd_state s1 ! j = SS_DIRTY \<longrightarrow> fd_state s ! j = SS_DIRTY \<and> j \<noteq> i"
  shows "table_synced (insert i fds) rc s s'"
  using assms serves_trans unfolding table_synced_def by fastforce

lemma cleared_entry:
  "length t = n \<Longrightarrow> \<forall>j < n. t[i := SS_CLEAN] ! j = SS_DIRTY \<longrightarrow> t ! j = SS_DIRTY \<and> j \<noteq> i"
  by (cases "i < length t") (auto simp: nth_list_update list_update_beyond split: if_splits)

lemma sync_fd_table_synced:
  "sync_fd_table k fds s = (rc, s') \<Longrightarrow> set fds \<subseteq> {..<FD_TBL_SIZE} \<Longrightarrow> length (fd_state s) = FD_TBL_SIZE \<Longrightarrow>
   fs_state s \<noteq> SS_UNUSED \<Longrightarrow> table_synced (set fds) rc s s'"
proof (induction k fds s rule: sync_fd_table.induct)
  case (1 k s)
  then show ?case by (simp add: table_synced_def)
next
  case (2 k fd fds s)
  have fd: "fd < FD_TBL_SIZE" "set fds \<subseteq> {..<FD_TBL_SIZE}" using "2.prems" by auto
  obtain r s1 where s1: "sys k (Fsync (int fd)) s = (r, s1)" by fastforce
  note f = calls_only_storage_fields [OF calls_only_sys [where P = harmless, OF s1 harmless_calls(7)]]
  consider "fd_state s ! fd \<noteq> SS_DIRTY" | "fd_state s ! fd = SS_DIRTY" "fs_state s = SS_DIRTY"
    | "fd_state s ! fd = SS_DIRTY" "fs_state s = SS_CLEAN" "sr_rc r < 0"
    | "fd_state s ! fd = SS_DIRTY" "fs_state s = SS_CLEAN" "0 \<le> sr_rc r"
    using "2.prems"(4) by (cases "fs_state s"; cases "fd_state s ! fd = SS_DIRTY"; cases "sr_rc r < 0") auto
  then show ?case
  proof cases
    case 1
    with "2.prems" have "table_synced (set fds) rc s s'" by (intro "2.IH"(3)) auto
    then show ?thesis using table_synced_step [of "set fds" rc s s' s fd] 1 by auto
  next
    case 2
    let ?s = "s\<lparr>fd_state := (fd_state s)[fd := SS_CLEAN]\<rparr>"
    have "table_synced (set fds) rc ?s s'" using "2.prems" 2 by (intro "2.IH"(2)) auto
    moreover have "serves s ?s" using sync_inv_clean_fd [of s fd] fd(1) 2 by (auto simp: serves_def)
    ultimately show ?thesis
      using table_synced_step [of "set fds" rc ?s s' s fd] cleared_entry [OF "2.prems"(3), of fd] by simp
  next
    case 3
    then show ?thesis using "2.prems"(1) s1 serves_sys [OF s1] f
      by (auto simp: table_synced_def)
  next
    case 4
    let ?s = "s1\<lparr>fd_state := (fd_state s1)[fd := SS_CLEAN]\<rparr>"
    have "table_synced (set fds) rc ?s s'"
      using "2.prems" 4 s1 f by (intro "2.IH"(1) [OF _ _ s1 [symmetric] refl]) (auto)
    moreover have "\<not> outstanding (roots s1) (hist s1) (File (int fd))"
      using 4 not_outstanding_flush(1) [of "File (int fd)" "(Fsync (int fd), r)"] by (simp add: sys_eqD(2) [OF s1])
    then have "serves s1 ?s" using sync_inv_clean_fd [of s1 fd] fd(1) by (auto simp: serves_def)
    then have "serves s ?s" using serves_trans [OF serves_sys [OF s1]] by simp
    ultimately show ?thesis
      using table_synced_step [of "set fds" rc ?s s' s fd] cleared_entry [OF "2.prems"(3), of fd] f by simp
  qed
qed

lemma sync_calls_answer:
  "sync_calls k cs s = (rc, s') \<Longrightarrow>
   calls_only (\<lambda>c. c \<in> set cs) s s' \<and> rc \<le> 0 \<and>
   (rc = 0 \<longrightarrow> (\<exists>es. hist s' = hist s @ es \<and> map fst es = cs \<and> (\<forall>ev \<in> set es. 0 \<le> sr_rc (snd ev))))"
proof (induction k cs s rule: sync_calls.induct)
  case (1 k s)
  then show ?case by simp
next
  case (2 k c cs s)
  obtain r s1 where s1: "sys k c s = (r, s1)" by fastforce
  note co = calls_only_sys [where P = "\<lambda>x. x \<in> set (c # cs)", OF s1]
  show ?case
  proof (cases "sr_rc r < 0")
    case True
    with "2.prems" s1 co show ?thesis by auto
  next
    case False
    with "2.prems" s1 have "sync_calls k cs s1 = (rc, s')" by simp
    from "2.IH" [OF s1 [symmetric] refl False this]
    have IH: "calls_only (\<lambda>x. x \<in> set cs) s1 s'" "rc \<le> 0" "rc = 0 \<longrightarrow>
      (\<exists>es. hist s' = hist s1 @ es \<and> map fst es = cs \<and> (\<forall>ev \<in> set es. 0 \<le> sr_rc (snd ev)))" by auto
    have "calls_only (\<lambda>x. x \<in> set (c # cs)) s s'"
      using calls_only_trans [OF co calls_only_mono [OF IH(1)]] by simp
    moreover have "\<exists>es. hist s' = hist s @ es \<and> map fst es = c # cs \<and> (\<forall>ev \<in> set es. 0 \<le> sr_rc (snd ev))"
      if z: "rc = 0"
    proof -
      from IH(3) z obtain es where "hist s' = hist s1 @ es" "map fst es = cs" "\<forall>ev \<in> set es. 0 \<le> sr_rc (snd ev)"
        by blast
      with False show ?thesis by (intro exI [of _ "(c, r) # es"]) (simp add: sys_eqD(2) [OF s1])
    qed
    ultimately show ?thesis using IH(2) by blast
  qed
qed

text \<open>A run of successful calls for every root makes objects durable.\<close>

lemma synced_run_durable:
  assumes "map fst es = map call ds" "\<forall>ev \<in> set es. 0 \<le> sr_rc (snd ev)" "ds \<noteq> []"
    and "\<And>d r. \<not> touches ob (call d, r)" "\<And>d r. 0 \<le> sr_rc r \<Longrightarrow> covered_root ob (call d, r) = {d}"
  shows "durability (set ds) (h @ es) ob = Durable"
proof -
  have ev: "\<exists>d \<in> set ds. fst ev = call d" if "ev \<in> set es" for ev
    using that assms(1) by (metis (no_types, lifting) image_iff list.set_map)
  then have "\<forall>ev \<in> set es. \<not> touches ob ev" using assms(4) by (metis prod.collapse)
  moreover have "d \<in> (\<Union>ev \<in> set es. covered_root ob ev)" if "d \<in> set ds" for d
  proof -
    from that assms(1) have "call d \<in> fst ` set es" by (metis imageI list.set_map)
    then obtain ev where ev: "ev \<in> set es" "fst ev = call d" by (rule imageE) simp
    with assms(2) have "covered_root ob (call d, snd ev) = {d}" by (intro assms(5)) blast
    with ev show ?thesis by (metis UN_iff insertI1 prod.collapse)
  qed
  moreover have "es \<noteq> []" using assms(1,3) by auto
  ultimately show ?thesis using synced_roots_durable [of es ob "set ds" h] by blast
qed

lemma sync_roots_calls:
  assumes "sync_calls k (map call (sync_roots s)) s = (rc, s')" "\<And>d. harmless (call d)"
  shows "calls_only harmless s s'" "serves s s'" "rc \<le> 0"
    "rc = 0 \<Longrightarrow> (\<And>d r. 0 \<le> sr_rc r \<Longrightarrow> covered_root ob (call d, r) = {d}) \<Longrightarrow>
      \<not> outstanding (roots s') (hist s') ob"
proof -
  note a = sync_calls_answer [OF assms(1)]
  show co: "calls_only harmless s s'"
    using a assms(2) by (auto elim!: calls_only_mono)
  then show "serves s s'" by (rule serves_harmless)
  show "rc \<le> 0" using a by simp
  assume z: "rc = 0" and cov: "\<And>d r. 0 \<le> sr_rc r \<Longrightarrow> covered_root ob (call d, r) = {d}"
  from a z obtain es where es: "hist s' = hist s @ es" "map fst es = map call (sync_roots s)"
    "\<forall>ev \<in> set es. 0 \<le> sr_rc (snd ev)" by blast
  have "\<not> touches ob (call d, r)" for d r using assms(2) [of d] by (simp add: harmless_def)
  then have "durability (roots s) (hist s @ es) ob = Durable"
    unfolding roots_def by (intro synced_run_durable [OF es(2,3) _ _ cov]) (auto simp: sync_roots_def)
  then show "\<not> outstanding (roots s') (hist s') ob"
    by (simp add: outstanding_def es(1) calls_only_storage_fields(1) [OF co])
qed

lemma serves_clean_dir:
  "fs_state s = SS_DIRTY \<or> \<not> outstanding (roots s) (hist s) Entries \<Longrightarrow> serves s (s\<lparr>dir_state := SS_CLEAN\<rparr>)"
  unfolding serves_def
  by (auto intro!: sync_inv_marked [of "{}" s] simp: sync_inv_except_def elim!: tracked.elims)

lemma serves_clean_fs:
  "(\<And>ob. \<not> outstanding (roots s) (hist s) ob) \<Longrightarrow> serves s (s\<lparr>fs_state := SS_CLEAN\<rparr>)"
  by (simp add: serves_def sync_inv_except_def)

lemma sync_dirs_synced:
  assumes "sync_dirs k s = (rc, s')" "fs_state s \<noteq> SS_UNUSED"
  shows "serves s s'" "rc \<le> 0" "fs_state s' = fs_state s" "fd_state s' = fd_state s"
    "rc = 0 \<Longrightarrow> dir_state s' \<noteq> SS_DIRTY"
proof -
  obtain rc1 s1 where s1: "sync_calls k (map Fsync (sync_roots s)) s = (rc1, s1)" by fastforce
  note q = sync_roots_calls [OF s1 harmless_calls(7)]
  note f = calls_only_storage_fields [OF q(1)]
  consider "dir_state s \<noteq> SS_DIRTY" "s' = s" "rc = 0"
    | "fs_state s = SS_DIRTY" "s' = s\<lparr>dir_state := SS_CLEAN\<rparr>" "rc = 0"
    | "rc1 < 0" "rc = rc1" "s' = s1" | "rc1 = 0" "rc = 0" "s' = s1\<lparr>dir_state := SS_CLEAN\<rparr>"
    using assms s1 q(3) by (cases "fs_state s") (auto simp: sync_dirs_def Let_def split: if_splits)
  then have "serves s s' \<and> rc \<le> 0 \<and> fs_state s' = fs_state s \<and> fd_state s' = fd_state s \<and>
    (rc = 0 \<longrightarrow> dir_state s' \<noteq> SS_DIRTY)"
  proof cases
    case 4
    then have "serves s1 s'" using serves_clean_dir [of s1] q(4) [of Entries] by simp
    with 4 f serves_trans [OF q(2)] show ?thesis by simp
  qed (use f q serves_clean_dir [of s] in auto)
  then show "serves s s'" "rc \<le> 0" "fs_state s' = fs_state s" "fd_state s' = fd_state s"
    "rc = 0 \<Longrightarrow> dir_state s' \<noteq> SS_DIRTY" by auto
qed

lemma sync_fs_synced:
  assumes "sync_fs k s = (rc, s')"
  shows "serves s s'" "rc \<le> 0" "dir_state s' = dir_state s" "fd_state s' = fd_state s"
    "rc = 0 \<Longrightarrow> fs_state s' \<noteq> SS_DIRTY"
proof -
  obtain rc1 s1 where s1: "sync_calls k (map Syncfs (sync_roots s)) s = (rc1, s1)" by fastforce
  note q = sync_roots_calls [OF s1 harmless_calls(8)]
  note f = calls_only_storage_fields [OF q(1)]
  consider "fs_state s \<noteq> SS_DIRTY" "s' = s" "rc = 0"
    | "rc1 < 0" "rc = rc1" "s' = s1" | "rc1 = 0" "rc = 0" "s' = s1\<lparr>fs_state := SS_CLEAN\<rparr>"
    using assms s1 q(3) by (auto simp: sync_fs_def Let_def split: if_splits)
  then have "serves s s' \<and> rc \<le> 0 \<and> dir_state s' = dir_state s \<and> fd_state s' = fd_state s \<and>
    (rc = 0 \<longrightarrow> fs_state s' \<noteq> SS_DIRTY)"
  proof cases
    case 3
    then have "serves s1 s'" using serves_clean_fs [of s1] q(4) by simp
    with 3 f serves_trans [OF q(2)] show ?thesis by simp
  qed (use f q in auto)
  then show "serves s s'" "rc \<le> 0" "dir_state s' = dir_state s" "fd_state s' = fd_state s"
    "rc = 0 \<Longrightarrow> fs_state s' \<noteq> SS_DIRTY" by auto
qed

lemma checkpoint_synced:
  assumes c: "storage_sync_checkpoint k s = (rc, s')" and inv: "sync_inv s"
  shows "serves s s'" "rc \<le> 0" "rc = 0 \<Longrightarrow> \<not> tracked s' ob"
proof -
  from inv have l: "length (fd_state s) = FD_TBL_SIZE" "fs_state s \<noteq> SS_UNUSED"
    by (auto simp: sync_inv_except_def)
  obtain rc1 s1 where s1: "sync_fd_table k [0..<FD_TBL_SIZE] s = (rc1, s1)" by fastforce
  obtain rc2 s2 where s2: "sync_dirs k s1 = (rc2, s2)" by fastforce
  obtain rc3 s3 where s3: "sync_fs k s2 = (rc3, s3)" by fastforce
  have t: "table_synced {0..<FD_TBL_SIZE} rc1 s s1"
    using sync_fd_table_synced [OF s1 _ l] by (simp add: lessThan_atLeast0)
  with l have fs1: "fs_state s1 \<noteq> SS_UNUSED" by (simp add: table_synced_def)
  note d = sync_dirs_synced [OF s2 fs1] and f = sync_fs_synced [OF s3]
  have r: "serves s s1" "rc1 \<le> 0" using t by (auto simp: table_synced_def)
  consider "rc1 < 0" "rc = rc1" "s' = s1" | "rc1 = 0" "rc2 < 0" "rc = rc2" "s' = s2"
    | "rc1 = 0" "rc2 = 0" "rc = rc3" "s' = s3"
    using c s1 s2 s3 r(2) d(2) by (auto simp: storage_sync_checkpoint_def Let_def split: if_splits)
  then have "serves s s' \<and> rc \<le> 0 \<and> (rc = 0 \<longrightarrow> \<not> tracked s' ob)"
  proof cases
    case 3
    then have "\<forall>i < FD_TBL_SIZE. fd_state s3 ! i \<noteq> SS_DIRTY" using t d(4) f(4)
      by (auto simp: table_synced_def)
    then have "rc3 = 0 \<longrightarrow> \<not> tracked s3 ob" using 3 d(5) f(3,5)
      by (cases ob) (auto simp: zless_nat_conj nat_less_iff)
    with 3 f r d show ?thesis using serves_trans by blast
  qed (use r d serves_trans in auto)
  then show "serves s s'" "rc \<le> 0" "rc = 0 \<Longrightarrow> \<not> tracked s' ob" by auto
qed

section \<open>Properties\<close>


definition dirty_storage :: storage where
  "dirty_storage = \<lparr>hist = [(Pwrite 7 [1] 0, ret 1)], errno = 0, tipc_fd = 3, ssdir_fd = 4, ssdir_name = None,
     ss_persistent_dir_fd = - 1, ss_persistent_dir_name = None, ss_proinfo_node_fd = - 1,
     fs_state = SS_CLEAN, dir_state = SS_CLEAN, fd_state = (replicate FD_TBL_SIZE SS_CLEAN)[7 := SS_DIRTY],
     read_rsp = replicate MAX_READ_SIZE 0\<rparr>"

lemma dirty_storage_inv: "sync_inv dirty_storage"
proof -
  have "ob = File 7" if "outstanding R [(Pwrite 7 [1] 0, ret 1)] ob" for R ob
    using outstanding_append [of R "[]" "[(Pwrite 7 [1] 0, ret 1)]" ob] that
    by (cases ob) (auto simp: outstanding_def durability_def)
  then have "ob = File 7" if "outstanding R (hist dirty_storage) ob" for R ob
    using that by (simp add: dirty_storage_def)
  moreover have "tracked dirty_storage (File 7)" by code_simp
  moreover have "length (fd_state dirty_storage) = FD_TBL_SIZE" "fs_state dirty_storage \<noteq> SS_UNUSED"
    by (simp_all add: dirty_storage_def)
  ultimately show ?thesis unfolding sync_inv_except_def by blast
qed


end
