(* ===== verification/Storage_Handlers.thy ===== *)
theory Storage_Handlers
  imports Storage_Sync
begin

text \<open>
  The contract of the request handlers, as the locale \<open>storage_handler\<close>: a handler that is
  called with an open connection returns, it answers every request with exactly one
  message, which is the last thing it does, and it keeps the synchronisation invariant.
  Each handler of \<open>storage.c\<close> interprets the locale; \<open>proxy.c\<close> relies on it.
\<close>

section \<open>Answers\<close>

text \<open>
  The operation sent one message to the secure world, after everything else it did: the
  header of the request with the response bit and a result code, followed by its data.
\<close>

definition responds ::
  "storage_msg \<Rightarrow> 'a storage_scheme \<Rightarrow> int \<times> storage_msg \<times> 'a storage_scheme \<Rightarrow> bool" where
  "responds msg s p \<longleftrightarrow> (case p of (rc, msg', s') \<Rightarrow>
     \<exists>s1 out w e. serves s s1 \<and>
       hist s' = hist s1 @ [(Writev (tipc_fd s) (put_storage_msg msg' @ out), w)] \<and>
       rc = (if sr_rc w < 0 then - 1 else 0) \<and>
       msg' = msg\<lparr>m_result := storage_err_code e, m_cmd := m_cmd msg OR STORAGE_RESP_BIT\<rparr> \<and>
       tipc_fd s' = tipc_fd s \<and> roots s' = roots s \<and> length (read_rsp s') = length (read_rsp s) \<and>
       (sync_inv s \<longrightarrow> sync_inv s'))"

lemma reply_responds:
  assumes "reply k msg e out s1 = Some p" "serves s s1"
  shows "responds msg s p"
proof -
  obtain rc msg' s' where p: "p = (rc, msg', s')" by (cases p)
  let ?msg = "msg\<lparr>m_result := storage_err_code e, m_cmd := m_cmd msg OR STORAGE_RESP_BIT\<rparr>"
  let ?c = "Writev (tipc_fd s1) (put_storage_msg ?msg @ out)"
  obtain r s2 where s2: "sys k ?c s1 = (r, s2)" by fastforce
  from assms(1) s2 p have eq: "msg' = ?msg" "s' = s2" "rc = (if sr_rc r < 0 then - 1 else 0)"
    by (auto simp: reply_def ipc_respond_def Let_def split: if_splits)
  note co = calls_only_sys [where P = "\<lambda>c. c = ?c", OF s2 refl]
  have "sync_inv s1 \<longrightarrow> sync_inv s2" using sync_inv_calls_only [OF co] by simp
  moreover note calls_only_storage_fields [OF co] sys_eqD(2) [OF s2]
  ultimately show ?thesis using assms(2) eq p unfolding responds_def
    by (auto simp: serves_def intro!: exI [of _ s1])
qed

text \<open>What a handler is called with, and what it may rely on to return.\<close>

definition handler_ready :: "'a storage_scheme \<Rightarrow> bool" where
  "handler_ready s \<longleftrightarrow> 0 \<le> tipc_fd s \<and> length (read_rsp s) = MAX_READ_SIZE \<and> sync_inv s"

definition kernel_live :: "kernel \<Rightarrow> bool" where
  "kernel_live k \<longleftrightarrow> write_progress k \<and> (\<exists>b. eintr_bounded b k)"

lemma serves_responds: "serves s s1 \<Longrightarrow> responds msg s1 p \<Longrightarrow> responds msg s p"
proof -
  assume s: "serves s s1" and r: "responds msg s1 p"
  obtain rc msg' s' where p: "p = (rc, msg', s')" by (cases p)
  from r p obtain s2 out w e where 2: "serves s1 s2"
    "hist s' = hist s2 @ [(Writev (tipc_fd s1) (put_storage_msg msg' @ out), w)]"
    "rc = (if sr_rc w < 0 then - 1 else 0)"
    "msg' = msg\<lparr>m_result := storage_err_code e, m_cmd := m_cmd msg OR STORAGE_RESP_BIT\<rparr>"
    "tipc_fd s' = tipc_fd s1" "roots s' = roots s1" "length (read_rsp s') = length (read_rsp s1)"
    "sync_inv s1 \<longrightarrow> sync_inv s'" unfolding responds_def by auto
  from serves_trans [OF s 2(1)] s 2 p show ?thesis unfolding responds_def
    by (auto simp: serves_def intro!: exI [of _ s2] exI [of _ out] exI [of _ w] exI [of _ e])
qed

lemma serves_ready: "serves s s' \<Longrightarrow> handler_ready s \<Longrightarrow> handler_ready s'"
  by (auto simp: serves_def handler_ready_def)

lemma responds_ready:
  "responds msg s (rc, msg', s') \<Longrightarrow> handler_ready s \<Longrightarrow> handler_ready s' \<and> rc \<in> {0, - 1}"
  by (auto simp: responds_def handler_ready_def)

locale storage_handler =
  fixes handler :: "kernel \<Rightarrow> storage_msg \<Rightarrow> bytes \<Rightarrow> nat \<Rightarrow> 'a storage_scheme \<Rightarrow>
    (int \<times> storage_msg \<times> 'a storage_scheme) option"
  assumes handler_responds:
      "io_bounded k \<Longrightarrow> handler_ready s \<Longrightarrow> handler k msg r n s = Some p \<Longrightarrow> responds msg s p"
    and handler_returns:
      "io_bounded k \<Longrightarrow> handler_ready s \<Longrightarrow> kernel_live k \<Longrightarrow> returns (handler k msg r n s)"
begin

text \<open>The handler can be used again in the state it leaves.\<close>

lemma handler_keeps_ready:
  assumes "io_bounded k" "handler_ready s" "handler k msg r n s = Some (rc, msg', s')"
  shows "handler_ready s'" "rc \<in> {0, - 1}"
  using responds_ready [OF handler_responds [OF assms] assms(2)] by auto

lemma handler_answers:
  assumes "io_bounded k" "handler_ready s" "kernel_live k"
  shows "\<exists>rc msg' s'. handler k msg r n s = Some (rc, msg', s') \<and> responds msg s (rc, msg', s')"
  using handler_returns [OF assms, of msg r n] handler_responds [OF assms(1,2), of msg r n]
  by (auto simp: returns_def)

end

section \<open>Steps of the handlers\<close>

lemma serves_asprintf: "asprintf k str s = (n, s') \<Longrightarrow> serves s s'"
  by (rule serves_harmless, rule calls_only_asprintf) simp_all

lemma serves_dir_dirty: "serves s (s\<lparr>dir_state := SS_DIRTY\<rparr>)"
  unfolding serves_def
  by (auto intro!: sync_inv_marked [of "{}" s] simp: sync_inv_except_def elim!: tracked.elims)

lemma serves_unlink: "sys k (Unlink path) s = (r, s') \<Longrightarrow> dir_state s = SS_DIRTY \<Longrightarrow> serves s s'"
  by (rule serves_calls_only [where P = "\<lambda>c. c = Unlink path", OF calls_only_sys])
    (auto simp: is_writev_def elim: touches.elims)

lemma serves_lookup: "lookup_fd handle dirty s = (fd, s') \<Longrightarrow> serves s s'"
  using sync_inv_lookup [of s handle dirty fd s']
  by (auto simp: serves_def lookup_fd_def split: if_splits)

lemma serves_modify:
  assumes l: "lookup_fd handle True s0 = (fd, s)" and c: "calls_only P s s'"
    and P: "\<And>c. P c \<Longrightarrow> (\<exists>bs off. c = Pwrite fd bs off) \<or> (\<exists>n. c = Ftruncate fd n)"
  shows "serves s0 s'"
proof (cases "sync_inv s0")
  case True
  then have "tracked s (File fd)" using lookup_fd_tracks(1) [OF l] by (simp add: sync_inv_except_def)
  then have "serves s s'"
    by (intro serves_calls_only [OF c]) (use P in \<open>force simp: is_writev_def elim: touches.elims\<close>)+
  with serves_lookup [OF l] show ?thesis by (rule serves_trans)
next
  case False
  have "\<not> is_writev c" if "P c" for c using P [OF that] by (auto simp: is_writev_def)
  with c have "\<exists>es. hist s' = hist s @ es \<and> (\<forall>x \<in> set es. \<not> is_writev (fst x))"
    unfolding calls_only_def by fastforce
  with serves_lookup [OF l] calls_only_storage_fields [OF c] False show ?thesis
    by (auto simp: serves_def)
qed

lemma calls_only_write_with_retry:
  "write_with_retry k fd buf off s = Some (rc, s') \<Longrightarrow> io_bounded k \<Longrightarrow>
   calls_only (\<lambda>c. \<exists>bs off. c = Pwrite fd bs off) s s'"
  using write_with_retry_wrote [of k fd buf off s rc s'] unfolding wrote_def calls_only_def by blast

lemma read_with_retry_calls:
  assumes "read_with_retry k fd buf sz off s = Some (rc, buf', s')" "io_bounded k" "sz \<le> length buf"
  shows "calls_only harmless s s'" "length buf' = length buf" "rc \<le> int sz"
proof -
  have r: "read_safely fd sz buf s (rc, buf', s')"
    using read_loop_bounds [of k fd sz off 0 buf s] assms by (simp add: read_with_retry_def)
  then show "length buf' = length buf" "rc \<le> int sz" by (auto simp: read_safely_def)
  from r obtain es e where "s' = s\<lparr>hist := hist s @ es, errno := e\<rparr>" "\<forall>x \<in> set es. \<exists>n off'. fst x = Pread fd n off'"
    unfolding read_safely_def by auto
  then show "calls_only harmless s s'" unfolding calls_only_def
    by (intro exI [of _ es] exI [of _ e]) (metis harmless_calls(9))
qed

lemma read_with_retry_loop_returns:
  assumes "eintr_bounded b k" "io_bounded k"
  shows "\<exists>p. read_with_retry_loop k fd sz off rcnt buf s = Some p"
proof (induction sz arbitrary: off rcnt buf s rule: less_induct)
  case (less sz)
  show ?case
  proof (cases "sz = 0")
    case True
    then show ?thesis by (subst read_with_retry_loop.simps) simp
  next
    case False
    obtain r s1 where r: "temp_failure_retry k (Pread fd sz off) s = Some (r, s1)"
      using temp_failure_retry_returns [OF assms(1)] by blast
    show ?thesis
    proof (cases "sr_rc r \<le> 0")
      case True
      with False r show ?thesis by (subst read_with_retry_loop.simps) simp
    next
      case pos: False
      with False have "sz - nat (sr_rc r) < sz" by simp
      from less.IH [OF this] False pos r show ?thesis by (subst read_with_retry_loop.simps) simp
    qed
  qed
qed

section \<open>The handlers\<close>

text \<open>Each handler is a chain of serving steps that ends in a reply.\<close>

lemma storage_file_delete_responds:
  assumes "storage_file_delete k msg r n s = Some p"
  shows "responds msg s p"
proof -
  let ?path = "fmt_s (ssdir_name s) @ lit ''/'' @ c_str (get_delete_req_name r)"
  obtain rc s1 where s1: "asprintf k ?path s = (rc, s1)" by fastforce
  obtain u s2 where s2: "sys k (Unlink ?path) (s1\<lparr>dir_state := SS_DIRTY\<rparr>) = (u, s2)" by fastforce
  note a = serves_asprintf [OF s1]
  note b = serves_trans [OF a serves_trans [OF serves_dir_dirty serves_unlink [OF s2]]]
  show ?thesis using assms s1 s2 a b
    by (auto simp: storage_file_delete_def Let_def intro: reply_responds split: if_splits)
qed

lemma storage_file_close_responds:
  assumes "storage_file_close k msg r n s = Some p"
  shows "responds msg s p"
proof -
  obtain fd s1 where s1: "remove_fd (get_close_req_handle r) s = (fd, s1)" by fastforce
  obtain f s2 where s2: "sys k (Fsync fd) s1 = (f, s2)" by fastforce
  obtain c s3 where s3: "sys k (Close fd) s2 = (c, s3)" by fastforce
  have "hist s1 = hist s" "tipc_fd s1 = tipc_fd s" "roots s1 = roots s" "read_rsp s1 = read_rsp s"
    using s1 by (auto simp: remove_fd_def split: if_splits)
  moreover have "sync_inv s \<Longrightarrow> sync_inv s2" using sync_inv_fsync [OF sync_inv_remove(1) [OF _ s1] s2] .
  moreover have "serves s1 s2" using serves_sys [OF s2] by simp
  ultimately have a: "serves s s2" by (simp add: serves_def)
  have b: "serves s s3" using serves_trans [OF a serves_sys [OF s3]] by simp
  show ?thesis using assms s1 s2 s3 a b
    by (auto simp: storage_file_close_def Let_def intro: reply_responds split: if_splits)
qed

lemma storage_file_write_responds:
  assumes "storage_file_write k msg r n s = Some p" "io_bounded k"
  shows "responds msg s p"
proof -
  obtain fd s1 where s1: "lookup_fd (write_handle (get_write_req r)) True s = (fd, s1)" by fastforce
  have "serves s s2" if "write_with_retry k fd b off s1 = Some (rc, s2)" for b off rc s2
    by (rule serves_modify [OF s1 calls_only_write_with_retry [OF that assms(2)]]) blast
  with assms s1 show ?thesis
    by (auto simp: storage_file_write_def Let_def bind_eq_Some_conv intro: reply_responds split: if_splits)
qed

lemma storage_file_set_size_responds:
  assumes "storage_file_set_size k msg r n s = Some p"
  shows "responds msg s p"
proof -
  obtain fd s1 where s1: "lookup_fd (set_size_handle (get_set_size_req r)) True s = (fd, s1)" by fastforce
  have "serves s s2" if "temp_failure_retry k (Ftruncate fd sz) s1 = Some (t, s2)" for sz t s2
    by (rule serves_modify [OF s1 calls_only_retry [where P = "\<lambda>c. c = Ftruncate fd sz", OF that]]) auto
  with assms s1 show ?thesis
    by (auto simp: storage_file_set_size_def Let_def bind_eq_Some_conv intro: reply_responds split: if_splits)
qed

lemma storage_file_read_responds:
  assumes "storage_file_read k msg r n s = Some p" "io_bounded k" "length (read_rsp s) = MAX_READ_SIZE"
  shows "responds msg s p"
proof -
  let ?q = "get_read_req r"
  obtain fd s1 where s1: "lookup_fd (read_handle ?q) False s = (fd, s1)" by fastforce
  have rsp: "read_rsp s1 = read_rsp s" using s1 by (auto simp: lookup_fd_def)
  have "serves s (s2\<lparr>read_rsp := buf\<rparr>)"
    if "read_with_retry k fd (read_rsp s1) (unat (read_size ?q)) off s1 = Some (rc, buf, s2)"
      "unat (read_size ?q) \<le> MAX_READ_SIZE" for off rc buf s2
  proof -
    note c = read_with_retry_calls [OF that(1) assms(2)]
    have fits: "unat (read_size ?q) \<le> length (read_rsp s1)" using that(2) assms(3) rsp by simp
    have "serves s1 s2" by (rule serves_harmless [OF c(1) [OF fits]])
    moreover have "serves s2 (s2\<lparr>read_rsp := buf\<rparr>)"
      using c(2) [OF fits] calls_only_storage_fields(7) [OF c(1) [OF fits]] by (intro serves_read_rsp) simp
    ultimately show ?thesis using serves_lookup [OF s1] serves_trans by blast
  qed
  with assms(1) s1 show ?thesis
    by (auto simp: storage_file_read_def Let_def bind_eq_Some_conv not_less intro: reply_responds split: if_splits)
qed

lemma storage_file_get_size_responds:
  assumes "storage_file_get_size k msg r n s = Some p"
  shows "responds msg s p"
proof -
  obtain fd s1 where s1: "lookup_fd (get_get_size_req_handle r) False s = (fd, s1)" by fastforce
  obtain st s2 where s2: "sys k (Fstat fd) s1 = (st, s2)" by fastforce
  have "serves s s2" using serves_trans [OF serves_lookup [OF s1] serves_sys [OF s2]] by simp
  with assms s1 s2 show ?thesis
    by (auto simp: storage_file_get_size_def Let_def intro: reply_responds split: if_splits)
qed

lemma notify_ok_responds:
  assumes "notify_ok prop k msg r n s = Some p"
  shows "responds msg s p"
proof -
  obtain x s1 where s1: "sys k (Property_set prop ''INIT_OK'') s = (x, s1)" by fastforce
  have "serves s s1" using serves_sys [OF s1] by simp
  with assms s1 show ?thesis by (auto simp: notify_ok_def intro: reply_responds split: if_splits)
qed

text \<open>Opening: failed attempts precede the call whose answer counts.\<close>

definition opened :: "kernel \<Rightarrow> bytes \<Rightarrow> 'a storage_scheme \<Rightarrow> sysret \<Rightarrow> u32 \<Rightarrow> 'a storage_scheme \<Rightarrow> bool" where
  "opened k path s r fl s' \<longleftrightarrow>
     (\<exists>es e h. s' = s\<lparr>hist := hist s @ es @ [(Open path fl open_mode, r)], errno := e\<rparr> \<and>
        (\<forall>x \<in> set es. (\<exists>fl'. fst x = Open path fl' open_mode) \<and> sr_rc (snd x) < 0) \<and>
        r = k h (Open path fl open_mode))"

lemma opened_retry:
  assumes "temp_failure_retry k (Open path fl open_mode) s = Some (r, s')"
  shows "opened k path s r fl s'"
proof -
  obtain es e where "s' = s\<lparr>hist := hist s @ es @ [(Open path fl open_mode, r)], errno := e\<rparr>"
    "\<forall>x \<in> set es. fst x = Open path fl open_mode \<and> interrupted (snd x)" "r = k (hist s @ es) (Open path fl open_mode)"
    using retriedE [OF temp_failure_retry_retried [OF assms]] by metis
  then show ?thesis unfolding opened_def interrupted_def
    by (intro exI [of _ es] exI [of _ e] exI [of _ "hist s @ es"]) auto
qed

lemma opened_again:
  assumes "opened k path s r fl s1" "sr_rc r < 0" "opened k path s1 r' fl' s'"
  shows "opened k path s r' fl' s'"
proof -
  from assms(1) obtain es e where 1: "s1 = s\<lparr>hist := hist s @ es @ [(Open path fl open_mode, r)], errno := e\<rparr>"
    "\<forall>x \<in> set es. (\<exists>fl'. fst x = Open path fl' open_mode) \<and> sr_rc (snd x) < 0"
    unfolding opened_def by blast
  from assms(3) obtain es' e' h where 2: "s' = s1\<lparr>hist := hist s1 @ es' @ [(Open path fl' open_mode, r')], errno := e'\<rparr>"
    "\<forall>x \<in> set es'. (\<exists>fl'. fst x = Open path fl' open_mode) \<and> sr_rc (snd x) < 0" "r' = k h (Open path fl' open_mode)"
    unfolding opened_def by blast
  show ?thesis unfolding opened_def
    by (intro exI [of _ "es @ [(Open path fl open_mode, r)] @ es'"] exI [of _ e'] exI [of _ h])
      (use 1 2 assms(2) in \<open>simp add: ball_Un\<close>)
qed

lemma do_open_opened:
  assumes "do_open k flags path s = Some (r, fl, s')"
  shows "opened k path s r fl s'"
  using assms unfolding do_open_def
  by (auto simp: Let_def bind_eq_Some_conv opened_retry intro: opened_again [OF opened_retry]
      split: if_splits)

lemma opened_serves:
  assumes o: "opened k path s r fl s'" and io: "io_bounded k"
  shows "sr_rc r < 0 \<Longrightarrow> serves s s'"
    and "0 \<le> sr_rc r \<Longrightarrow> insert_fd fl (sr_rc r) s' = (handle, s'') \<Longrightarrow> serves s s''"
proof -
  let ?op = "Open path fl open_mode"
  from o obtain es e h where s': "s' = s\<lparr>hist := hist s @ es @ [(?op, r)], errno := e\<rparr>"
    and es: "\<forall>x \<in> set es. (\<exists>fl'. fst x = Open path fl' open_mode) \<and> sr_rc (snd x) < 0" and r: "r = k h ?op"
    unfolding opened_def by blast
  have quiet: "\<not> touches ob ev" if "ev \<in> set es" for ev ob
    using es that by (cases ev; cases ob) fastforce+
  have wv: "\<forall>x \<in> set (es @ [(?op, r)]). \<not> is_writev (fst x)" using es by (auto simp: is_writev_def)
  have lt: "sr_rc r < 2 ^ 31" using io_boundedD [OF io, of ?op h] r by simp
  have upd: "tipc_fd s' = tipc_fd s" "roots s' = roots s" "read_rsp s' = read_rsp s" using s' by simp_all
  show "serves s s'" if "sr_rc r < 0"
  proof -
    have "sync_inv s \<Longrightarrow> sync_inv s'"
    proof (rule sync_inv_events [OF s'])
      fix ev ob assume "ev \<in> set (es @ [(?op, r)])" "touches ob ev"
      with quiet [of ev ob] that show "ob \<in> {} \<or> tracked s ob" by (cases ob) auto
    qed
    then show ?thesis using s' wv upd by (auto simp: serves_def)
  qed
  show "serves s s''" if pos: "0 \<le> sr_rc r" and ins: "insert_fd fl (sr_rc r) s' = (handle, s'')"
  proof -
    have "sync_inv_except (opened_objs fl (sr_rc r)) s'" if "sync_inv s"
    proof (rule sync_inv_events [OF s' sync_inv_weaken [OF that]])
      fix ev ob assume "ev \<in> set (es @ [(?op, r)])" "touches ob ev"
      with quiet [of ev ob] show "ob \<in> opened_objs fl (sr_rc r) \<or> tracked s ob" by (cases ob) (auto simp: opened_objs_def)
    qed
    moreover have "\<not> outstanding (roots s') (hist s') (File (sr_rc r))" if "\<not> has_flag fl O_TRUNC"
      using not_outstanding_flush(1) [of "File (sr_rc r)" "(?op, r)" "roots s'" "hist s @ es"] that pos s' by simp
    ultimately have "sync_inv s \<Longrightarrow> sync_inv s''" by (intro sync_inv_insert [OF _ pos lt _ ins])
    then show ?thesis using s' wv upd ins
      by (auto simp: serves_def insert_fd_def Let_def split: if_splits)
  qed
qed

lemma serves_snd_sys: "harmless c \<Longrightarrow> serves s (snd (sys k c s))"
  using serves_sys [of k c s] by (metis prod.collapse)

lemma serves_snd_asprintf: "serves s (snd (asprintf k str s))"
  using serves_asprintf [of k str s] by (metis prod.collapse)

lemma serves_prepare_floder: "serves s (snd (prepare_floder k root path s))"
proof -
  have m: "serves s (snd (sys k (Malloc n) s))" for n by (rule serves_snd_sys) simp
  have mk: "serves s1 (snd (sys k (Mkdir full p) (snd (sys k (Umask u) s1))))"
    for full p u and s1 :: "'a storage_scheme"
    by (rule serves_trans [OF serves_snd_sys serves_snd_sys]) simp_all
  show ?thesis
    by (simp add: prepare_floder_def Let_def case_prod_unfold m serves_trans [OF m serves_snd_asprintf]
        serves_trans [OF serves_trans [OF m serves_snd_asprintf] mk])
qed

lemma serves_open_path: "serves s (snd (snd (open_path k flags name s)))"
  by (simp add: open_path_def Let_def case_prod_unfold serves_snd_asprintf
      serves_trans [OF serves_snd_asprintf serves_prepare_floder])

lemma storage_file_open_responds:
  assumes "storage_file_open k msg r n s = Some p" "io_bounded k"
  shows "responds msg s p"
proof -
  let ?q = "get_open_req r"
  obtain path rc s1 where s1: "open_path k (open_flags ?q) (c_str (open_name ?q)) s = (path, rc, s1)"
    by (metis prod_cases3)
  have a: "serves s s1" using serves_open_path [of s k "open_flags ?q"] s1 by (metis snd_conv)
  show ?thesis
  proof (cases "n < 4 \<or> c_strlen (open_name ?q) \<noteq> n - 4 \<or> rc < 0")
    case True
    with assms(1) s1 a show ?thesis
      by (auto simp: storage_file_open_def Let_def intro: reply_responds split: if_splits)
  next
    case False
    with assms(1) s1 obtain x fl s2 where d: "do_open k (open_flags ?q) path s1 = Some (x, fl, s2)"
      and nxt: "(if sr_rc x < 0 then reply k msg (translate_errno (errno s2)) [] s2
          else let (handle, s3) = insert_fd fl (sr_rc x) s2
            in reply k msg STORAGE_NO_ERROR (put_open_resp handle) s3) = Some p"
      by (auto simp: storage_file_open_def Let_def bind_eq_Some_conv)
    obtain handle s3 where s3: "insert_fd fl (sr_rc x) s2 = (handle, s3)" by fastforce
    note o = opened_serves [OF do_open_opened [OF d] assms(2)]
    show ?thesis
      using nxt s3 serves_trans [OF a o(1)] serves_trans [OF a o(2) [OF _ s3]]
      by (cases "sr_rc x < 0") (auto intro: reply_responds)
  qed
qed

section \<open>Handlers return\<close>

lemma retry_returns: "kernel_live k \<Longrightarrow> returns (temp_failure_retry k c s)"
  using temp_failure_retry_returns [of _ k c s] by (auto simp: kernel_live_def returns_def)

lemma reply_returns [simp]: "returns (reply k msg e out s) \<longleftrightarrow> 0 \<le> tipc_fd s"
  by (simp add: reply_def ipc_respond_def Let_def case_prod_unfold)

lemma do_open_returns: "kernel_live k \<Longrightarrow> returns (do_open k flags path s)"
  by (simp add: do_open_def Let_def case_prod_unfold retry_returns)

lemma write_returns: "kernel_live k \<Longrightarrow> returns (write_with_retry k fd buf off s)"
  using write_with_retry_returns [of _ k fd buf off s] by (auto simp: kernel_live_def returns_def)

lemma read_returns: "kernel_live k \<Longrightarrow> io_bounded k \<Longrightarrow> returns (read_with_retry k fd buf sz off s)"
  using read_with_retry_loop_returns [of _ k fd sz off 0 buf s]
  by (auto simp: kernel_live_def read_with_retry_def returns_def)

text \<open>
  The connection is the same in all states a handler goes through, so every reply is made
  with the descriptor the handler was called with.
\<close>

lemma tipc_fd_steps [simp]:
  "tipc_fd (snd (sys k c s)) = tipc_fd s" "tipc_fd (snd (asprintf k str s)) = tipc_fd s"
  "tipc_fd (snd (lookup_fd handle dirty s)) = tipc_fd s" "tipc_fd (snd (remove_fd handle s)) = tipc_fd s"
  "tipc_fd (snd (insert_fd fl fd s)) = tipc_fd s" "tipc_fd (snd (snd (open_path k flags name s))) = tipc_fd s"
  using serves_open_path [of s k flags name]
  by (simp_all add: sys_def asprintf_def lookup_fd_def remove_fd_def insert_fd_def serves_def Let_def case_prod_unfold)

lemma tipc_fd_results:
  "temp_failure_retry k c s = Some (x, s') \<Longrightarrow> tipc_fd s' = tipc_fd s"
  "do_open k flags path s = Some (x, fl, s') \<Longrightarrow> tipc_fd s' = tipc_fd s"
  "io_bounded k \<Longrightarrow> write_with_retry k fd buf off s = Some (rc, s') \<Longrightarrow> tipc_fd s' = tipc_fd s"
  "read_with_retry k fd buf sz off s = Some (rc, buf', s') \<Longrightarrow> io_bounded k \<Longrightarrow> sz \<le> length buf \<Longrightarrow> tipc_fd s' = tipc_fd s"
  using calls_only_retry [of k c s x s' "\<lambda>_. True"] do_open_opened [of k flags path s x fl s']
    calls_only_write_with_retry [of k fd buf off s rc s'] read_with_retry_calls(1) [of k fd buf sz off s rc buf' s']
  by (auto simp: calls_only_def opened_def)

lemma handlers_return:
  assumes "0 \<le> tipc_fd s"
  shows "returns (storage_file_delete k msg r n s)" "returns (storage_file_close k msg r n s)"
    "returns (storage_file_get_size k msg r n s)" "returns (notify_ok prop k msg r n s)"
  using assms
  by (simp_all add: storage_file_delete_def storage_file_close_def storage_file_get_size_def notify_ok_def
      Let_def case_prod_unfold)

lemma retrying_handlers_return:
  assumes "0 \<le> tipc_fd s" "kernel_live k" "io_bounded k" "length (read_rsp s) = MAX_READ_SIZE"
  shows "returns (storage_file_set_size k msg r n s)" "returns (storage_file_write k msg r n s)"
    "returns (storage_file_open k msg r n s)" "returns (storage_file_read k msg r n s)"
proof -
  have rsp: "read_rsp (snd (lookup_fd h False s)) = read_rsp s" for h by (simp add: lookup_fd_def)
  show "returns (storage_file_set_size k msg r n s)"
    using assms(1,2)
    by (auto simp: storage_file_set_size_def Let_def case_prod_unfold retry_returns dest: tipc_fd_results(1))
  show "returns (storage_file_write k msg r n s)"
    using assms(1-3)
    by (auto simp: storage_file_write_def Let_def case_prod_unfold write_returns dest: tipc_fd_results(3))
  show "returns (storage_file_open k msg r n s)"
    using assms(1,2)
    by (auto simp: storage_file_open_def Let_def case_prod_unfold do_open_returns dest: tipc_fd_results(2))
  show "returns (storage_file_read k msg r n s)"
    using assms
    by (auto simp: storage_file_read_def Let_def case_prod_unfold read_returns rsp not_less dest!: tipc_fd_results(4))
qed

lemmas handler_response_facts =
  storage_file_delete_responds storage_file_open_responds storage_file_close_responds
  storage_file_write_responds storage_file_read_responds storage_file_get_size_responds
  storage_file_set_size_responds notify_ok_responds

lemmas handler_return_facts = handlers_return retrying_handlers_return

text \<open>The laws of the contract for the ten handlers of the file.\<close>

interpretation delete: storage_handler storage_file_delete
  by unfold_locales (auto simp: handler_ready_def handler_return_facts intro: handler_response_facts)

interpretation open_file: storage_handler storage_file_open
  by unfold_locales (auto simp: handler_ready_def handler_return_facts intro: handler_response_facts)

interpretation close_file: storage_handler storage_file_close
  by unfold_locales (auto simp: handler_ready_def handler_return_facts intro: handler_response_facts)

interpretation write_file: storage_handler storage_file_write
  by unfold_locales (auto simp: handler_ready_def handler_return_facts intro: handler_response_facts)

interpretation read_file: storage_handler storage_file_read
  by unfold_locales (auto simp: handler_ready_def handler_return_facts intro: handler_response_facts)

interpretation get_size: storage_handler storage_file_get_size
  by unfold_locales (auto simp: handler_ready_def handler_return_facts intro: handler_response_facts)

interpretation set_size: storage_handler storage_file_set_size
  by unfold_locales (auto simp: handler_ready_def handler_return_facts intro: handler_response_facts)

interpretation init_ok: storage_handler storage_init_ok
  by unfold_locales
    (auto simp: storage_init_ok_def handler_ready_def handler_return_facts intro: handler_response_facts)

interpretation init_persist_ok: storage_handler storage_init_persist_ok
  by unfold_locales
    (auto simp: storage_init_persist_ok_def handler_ready_def handler_return_facts intro: handler_response_facts)

interpretation init_proinfo_ok: storage_handler storage_init_proinfo_ok
  by unfold_locales
    (auto simp: storage_init_proinfo_ok_def handler_ready_def handler_return_facts intro: handler_response_facts)


section \<open>What the handlers leave alone\<close>

text \<open>State of other files that extends the record \<open>storage\<close> is not changed.\<close>

lemma more_steps [simp]:
  "storage.more (snd (sys k c s)) = storage.more s" "storage.more (snd (asprintf k str s)) = storage.more s"
  "storage.more (snd (lookup_fd handle dirty s)) = storage.more s"
  "storage.more (snd (remove_fd handle s)) = storage.more s"
  "storage.more (snd (insert_fd fl fd s)) = storage.more s"
  "storage.more (snd (prepare_floder k root path s)) = storage.more s"
  "storage.more (snd (snd (open_path k flags name s))) = storage.more s"
  by (simp_all add: sys_def asprintf_def lookup_fd_def remove_fd_def insert_fd_def prepare_floder_def
      open_path_def Let_def case_prod_unfold)

lemma more_results:
  "temp_failure_retry k c s = Some (x, s') \<Longrightarrow> storage.more s' = storage.more s"
  "do_open k flags path s = Some (x, fl, s') \<Longrightarrow> storage.more s' = storage.more s"
  "write_with_retry k fd buf off s = Some (rc, s') \<Longrightarrow> io_bounded k \<Longrightarrow> storage.more s' = storage.more s"
  "read_with_retry k fd buf sz off s = Some (rc, buf', s') \<Longrightarrow> io_bounded k \<Longrightarrow> sz \<le> length buf \<Longrightarrow>
     storage.more s' = storage.more s"
  "reply k msg e out s = Some (rc, msg', s') \<Longrightarrow> storage.more s' = storage.more s"
  using calls_only_retry [of k c s x s' "\<lambda>_. True"] do_open_opened [of k flags path s x fl s']
    calls_only_write_with_retry [of k fd buf off s rc s'] read_with_retry_calls(1) [of k fd buf sz off s rc buf' s']
  by (auto simp: calls_only_def opened_def reply_def ipc_respond_def sys_def Let_def split: if_splits)

lemma handlers_more:
  "storage_file_delete k msg r n s = Some (rc, msg', s') \<Longrightarrow> storage.more s' = storage.more s"
  "storage_file_close k msg r n s = Some (rc, msg', s') \<Longrightarrow> storage.more s' = storage.more s"
  "storage_file_get_size k msg r n s = Some (rc, msg', s') \<Longrightarrow> storage.more s' = storage.more s"
  "notify_ok prop k msg r n s = Some (rc, msg', s') \<Longrightarrow> storage.more s' = storage.more s"
  "storage_file_set_size k msg r n s = Some (rc, msg', s') \<Longrightarrow> storage.more s' = storage.more s"
  "storage_file_open k msg r n s = Some (rc, msg', s') \<Longrightarrow> storage.more s' = storage.more s"
  by (auto simp: storage_file_delete_def storage_file_close_def storage_file_get_size_def notify_ok_def
      storage_file_set_size_def storage_file_open_def
      Let_def case_prod_unfold bind_eq_Some_conv dest!: more_results split: if_splits)

lemma data_handlers_more:
  assumes "io_bounded k"
  shows "storage_file_write k msg r n s = Some (rc, msg', s') \<Longrightarrow> storage.more s' = storage.more s"
    and "length (read_rsp s) = MAX_READ_SIZE \<Longrightarrow>
      storage_file_read k msg r n s = Some (rc, msg', s') \<Longrightarrow> storage.more s' = storage.more s"
proof -
  show "storage_file_write k msg r n s = Some (rc, msg', s') \<Longrightarrow> storage.more s' = storage.more s"
    using assms by (auto simp: storage_file_write_def Let_def case_prod_unfold bind_eq_Some_conv
        dest!: more_results split: if_splits)
  have rsp: "read_rsp (snd (lookup_fd h False s)) = read_rsp s" for h by (simp add: lookup_fd_def)
  assume "length (read_rsp s) = MAX_READ_SIZE" "storage_file_read k msg r n s = Some (rc, msg', s')"
  then show "storage.more s' = storage.more s"
    using assms by (auto simp: storage_file_read_def Let_def case_prod_unfold bind_eq_Some_conv rsp
        dest!: more_results split: if_splits)
qed

lemma sync_calls_more: "storage.more (snd (sync_calls k cs s)) = storage.more s"
  using sync_calls_answer [of k cs s] by (cases "sync_calls k cs s") (auto simp: calls_only_def)

lemma sync_fd_table_more: "storage.more (snd (sync_fd_table k fds s)) = storage.more s"
  by (induction k fds s rule: sync_fd_table.induct) (auto simp: Let_def sys_def split: prod.splits)

lemma checkpoint_more: "storage.more (snd (storage_sync_checkpoint k s)) = storage.more s"
  by (simp add: storage_sync_checkpoint_def sync_dirs_def sync_fs_def Let_def case_prod_unfold
      sync_calls_more sync_fd_table_more)

end
