(* ===== verification/Rpmb.thy ===== *)
theory Rpmb
  imports Storage_Handlers
begin

text \<open>
  The access to the replay-protected memory block of an eMMC device
  (\<open>storage/proxy/rpmb.c\<close>). A request carries the sizes of a reliable write, a write and a
  read, and the data of the two writes; \<open>rpmb_send\<close> turns it into at most three commands of
  one \<open>ioctl\<close>. The globals \<open>rpmb_fd\<close> and \<open>read_buf\<close> extend the state of the storage
  handlers. \<open>print_buf\<close>, which prints the transferred data, has no effect on the state.
\<close>

definition MMC_READ_MULTIPLE_BLOCK :: u32 where "MMC_READ_MULTIPLE_BLOCK = 18"
definition MMC_WRITE_MULTIPLE_BLOCK :: u32 where "MMC_WRITE_MULTIPLE_BLOCK = 25"
definition MMC_RELIABLE_WRITE_FLAG :: u32 where "MMC_RELIABLE_WRITE_FLAG = push_bit 31 1"

definition MMC_RSP_PRESENT :: u32 where "MMC_RSP_PRESENT = push_bit 0 1"
definition MMC_RSP_CRC :: u32 where "MMC_RSP_CRC = push_bit 2 1"
definition MMC_RSP_OPCODE :: u32 where "MMC_RSP_OPCODE = push_bit 4 1"
definition MMC_CMD_ADTC :: u32 where "MMC_CMD_ADTC = push_bit 5 1"
definition MMC_RSP_SPI_S1 :: u32 where "MMC_RSP_SPI_S1 = push_bit 7 1"
definition MMC_RSP_R1 :: u32 where "MMC_RSP_R1 = MMC_RSP_PRESENT OR MMC_RSP_CRC OR MMC_RSP_OPCODE"
definition MMC_RSP_SPI_R1 :: u32 where "MMC_RSP_SPI_R1 = MMC_RSP_SPI_S1"

definition MMC_WRITE_FLAG_R :: u32 where "MMC_WRITE_FLAG_R = 0"
definition MMC_WRITE_FLAG_W :: u32 where "MMC_WRITE_FLAG_W = 1"
definition MMC_WRITE_FLAG_RELW :: u32 where "MMC_WRITE_FLAG_RELW = MMC_WRITE_FLAG_W OR MMC_RELIABLE_WRITE_FLAG"

definition MMC_BLOCK_SIZE :: nat where "MMC_BLOCK_SIZE = 512"
definition READ_BUF_SIZE :: nat where "READ_BUF_SIZE = 4096"

record rpmb = storage +
  rpmb_fd :: int
  read_buf :: bytes

section \<open>Building the commands\<close>

definition mmc_cmd :: "u32 \<Rightarrow> u32 \<Rightarrow> u32 \<Rightarrow> mmc_data \<Rightarrow> mmc_ioc_cmd" where
  "mmc_cmd wflag op sz data = \<lparr>write_flag = wflag, opcode = op,
     mmc_flags = MMC_RSP_SPI_R1 OR MMC_RSP_R1 OR MMC_CMD_ADTC,
     blksz = word_of_nat MMC_BLOCK_SIZE, blocks = sz div word_of_nat MMC_BLOCK_SIZE, data_ptr = data\<rparr>"

text \<open>
  The three blocks of \<open>rpmb_send\<close> that fill \<open>mmc.multi.cmds\<close>, with \<open>write_buf\<close> advancing over
  the payload; \<open>None\<close> is the jump to \<open>err_response\<close> after an invalid size.
\<close>

definition rpmb_cmds :: "storage_rpmb_send_req \<Rightarrow> mmc_ioc_cmd list option" where
  "rpmb_cmds req =
     (let rw = unat (reliable_write_size req); w = unat (rpmb_write_size req); rd = unat (rpmb_read_size req);
          write_buf = rpmb_payload req in
      if rw \<noteq> 0 \<and> rw mod MMC_BLOCK_SIZE \<noteq> 0 then None
      else
        let cmds1 = (if rw \<noteq> 0 then [mmc_cmd MMC_WRITE_FLAG_RELW MMC_WRITE_MULTIPLE_BLOCK
                        (reliable_write_size req) (To_card (take rw write_buf))] else []);
            write_buf1 = drop rw write_buf in
        if w \<noteq> 0 \<and> w mod MMC_BLOCK_SIZE \<noteq> 0 then None
        else
          let cmds2 = (if w \<noteq> 0 then cmds1 @ [mmc_cmd MMC_WRITE_FLAG_W MMC_WRITE_MULTIPLE_BLOCK
                          (rpmb_write_size req) (To_card (take w write_buf1))] else cmds1) in
          if rd \<noteq> 0 \<and> (rd mod MMC_BLOCK_SIZE \<noteq> 0 \<or> rd > READ_BUF_SIZE) then None
          else Some (if rd \<noteq> 0 then cmds2 @ [mmc_cmd MMC_WRITE_FLAG_R MMC_READ_MULTIPLE_BLOCK
                       (rpmb_read_size req) From_card] else cmds2))"

definition rpmb_send ::
  "kernel \<Rightarrow> storage_msg \<Rightarrow> bytes \<Rightarrow> nat \<Rightarrow> 'a rpmb_scheme \<Rightarrow>
   (int \<times> storage_msg \<times> 'a rpmb_scheme) option" where
  "rpmb_send k msg r req_len s =
     (if req_len < 16 then reply k msg STORAGE_ERR_NOT_VALID [] s
      else
        let req = get_rpmb_send_req r;
            expected_len = 16 + unat (reliable_write_size req) + unat (rpmb_write_size req) in
        if req_len \<noteq> expected_len then reply k msg STORAGE_ERR_NOT_VALID [] s
        else case rpmb_cmds req of
          None \<Rightarrow> reply k msg STORAGE_ERR_NOT_VALID [] s
        | Some cmds \<Rightarrow>
            let (io, s1) = sys k (Ioctl (rpmb_fd s) (MMC_IOC_MULTI_CMD cmds)) s;
                rd = unat (rpmb_read_size req);
                s2 = s1\<lparr>read_buf := buf_write 0 (take rd (sr_out io)) (read_buf s1)\<rparr> in
            if sr_rc io < 0 then reply k msg STORAGE_ERR_GENERIC [] s2
            else reply k msg STORAGE_NO_ERROR (take rd (read_buf s2)) s2)"

definition rpmb_open :: "kernel \<Rightarrow> bytes \<Rightarrow> 'a rpmb_scheme \<Rightarrow> int \<times> 'a rpmb_scheme" where
  "rpmb_open k rpmb_devname s =
     (let (r, s1) = sys k (Open rpmb_devname O_RDWR 0) s in
      if sr_rc r < 0 then (sr_rc r, s1) else (0, s1\<lparr>rpmb_fd := sr_rc r\<rparr>))"

definition rpmb_close :: "kernel \<Rightarrow> 'a rpmb_scheme \<Rightarrow> 'a rpmb_scheme" where
  "rpmb_close k s = (snd (sys k (Close (rpmb_fd s)) s))\<lparr>rpmb_fd := - 1\<rparr>"

section \<open>The commands of a valid request\<close>

lemma mmc_blocks_exact:
  assumes "unat sz mod MMC_BLOCK_SIZE = 0"
  shows "unat (blocks (mmc_cmd f op sz d)) * unat (blksz (mmc_cmd f op sz d)) = unat sz"
  using assms div_mult_mod_eq [of "unat sz" 512] by (simp add: mmc_cmd_def MMC_BLOCK_SIZE_def unat_div_distrib)

text \<open>What the device may rely on: as many bytes as the blocks of the command say.\<close>

definition cmd_exact :: "mmc_ioc_cmd \<Rightarrow> bool" where
  "cmd_exact c \<longleftrightarrow> (case data_ptr c of
       To_card bs \<Rightarrow> length bs = unat (blocks c) * unat (blksz c)
     | From_card \<Rightarrow> unat (blocks c) * unat (blksz c) \<le> READ_BUF_SIZE)"

fun sent_bytes :: "mmc_ioc_cmd list \<Rightarrow> bytes" where
  "sent_bytes [] = []"
| "sent_bytes (c # cs) = (case data_ptr c of To_card bs \<Rightarrow> bs | From_card \<Rightarrow> []) @ sent_bytes cs"

lemma sent_bytes_append [simp]: "sent_bytes (xs @ ys) = sent_bytes xs @ sent_bytes ys"
  by (induction xs) (simp_all split: mmc_data.split)

lemma rpmb_cmds_valid:
  assumes "rpmb_cmds req = Some cmds"
    and "unat (reliable_write_size req) + unat (rpmb_write_size req) \<le> length (rpmb_payload req)"
  shows "length cmds \<le> 3" "\<forall>c \<in> set cmds. cmd_exact c"
    "sent_bytes cmds = take (unat (reliable_write_size req) + unat (rpmb_write_size req)) (rpmb_payload req)"
proof -
  note s = assms(1) [unfolded rpmb_cmds_def Let_def]
  show "length cmds \<le> 3" using s by (auto split: if_splits)
  show "sent_bytes cmds = take (unat (reliable_write_size req) + unat (rpmb_write_size req)) (rpmb_payload req)"
    using s assms(2) by (auto simp: mmc_cmd_def take_add split: if_splits)
  have "cmd_exact (mmc_cmd f op sz (To_card bs))" if "unat sz mod MMC_BLOCK_SIZE = 0" "length bs = unat sz" for f op sz bs
    using mmc_blocks_exact [OF that(1), of f op "To_card bs"] that(2) by (simp add: cmd_exact_def) (simp add: mmc_cmd_def)
  moreover have "cmd_exact (mmc_cmd f op sz From_card)" if "unat sz mod MMC_BLOCK_SIZE = 0" "unat sz \<le> READ_BUF_SIZE" for f op sz
    using mmc_blocks_exact [OF that(1), of f op From_card] that(2) by (simp add: cmd_exact_def) (simp add: mmc_cmd_def)
  ultimately show "\<forall>c \<in> set cmds. cmd_exact c"
    using s assms(2) by (auto split: if_splits)
qed

section \<open>The handler\<close>

lemma serves_read_buf: "serves s (s\<lparr>read_buf := b\<rparr>)"
proof -
  have "tracked (s\<lparr>read_buf := b\<rparr>) ob = tracked s ob" for ob by (cases ob) simp_all
  then show ?thesis by (simp add: serves_def sync_inv_except_def roots_def sync_roots_def)
qed

lemma rpmb_send_cases:
  assumes "rpmb_send k msg r n s = Some p"
  defines "req \<equiv> get_rpmb_send_req r"
  obtains (invalid) "reply k msg STORAGE_ERR_NOT_VALID [] s = Some p"
      "n < 16 \<or> n \<noteq> 16 + unat (reliable_write_size req) + unat (rpmb_write_size req) \<or> rpmb_cmds req = None"
  | (sent) cmds io s1 s2 where "n = 16 + unat (reliable_write_size req) + unat (rpmb_write_size req)"
      "rpmb_cmds req = Some cmds" "sys k (Ioctl (rpmb_fd s) (MMC_IOC_MULTI_CMD cmds)) s = (io, s1)"
      "s2 = s1\<lparr>read_buf := buf_write 0 (take (unat (rpmb_read_size req)) (sr_out io)) (read_buf s1)\<rparr>"
      "(if sr_rc io < 0 then reply k msg STORAGE_ERR_GENERIC [] s2
        else reply k msg STORAGE_NO_ERROR (take (unat (rpmb_read_size req)) (read_buf s2)) s2) = Some p"
proof (cases "n < 16 \<or> n \<noteq> 16 + unat (reliable_write_size req) + unat (rpmb_write_size req) \<or> rpmb_cmds req = None")
  case True
  with assms invalid show thesis by (auto simp: rpmb_send_def Let_def split: if_splits)
next
  case False
  then obtain cmds where c: "rpmb_cmds req = Some cmds" by auto
  obtain io s1 where s1: "sys k (Ioctl (rpmb_fd s) (MMC_IOC_MULTI_CMD cmds)) s = (io, s1)" by fastforce
  show thesis
    by (rule sent [OF _ c s1 refl]) (use False assms(1) c s1 in \<open>auto simp: rpmb_send_def Let_def req_def split: if_splits\<close>)
qed

lemma rpmb_send_responds:
  assumes "rpmb_send k msg r n s = Some p"
  shows "responds msg s p"
  using assms
proof (cases rule: rpmb_send_cases)
  case invalid
  then show ?thesis by (auto intro: reply_responds)
next
  case (sent cmds io s1 s2)
  have "serves s s2" using serves_trans [OF serves_sys [OF sent(3)] serves_read_buf] sent(4) by simp
  with sent(5) show ?thesis by (auto intro: reply_responds split: if_splits)
qed

lemma rpmb_send_returns: "0 \<le> tipc_fd s \<Longrightarrow> returns (rpmb_send k msg r n s)"
  by (simp add: rpmb_send_def Let_def case_prod_unfold split: option.split)

interpretation rpmb: storage_handler rpmb_send
  by unfold_locales (auto simp: handler_ready_def rpmb_send_returns intro: rpmb_send_responds)

section \<open>Properties\<close>

text \<open>C7. An RPMB request reaches the device only when it is well formed, and then as one
  \<open>ioctl\<close> with at most three commands whose block counts are exactly the bytes they
  transfer: the data of the two writes is the request's payload in order, and a read never
  exceeds the read buffer. The buffer given to the handler holds the request it was told
  the length of, and the rest of it does not matter.\<close>

theorem rpmb_send_commands:
  assumes "rpmb_send k msg (req_bytes @ rest) (length req_bytes) s = Some (rc, msg', s')"
    and "Ioctl fd q \<in> set (new_calls s s')"
  shows "\<exists>cmds. fd = rpmb_fd s \<and> q = MMC_IOC_MULTI_CMD cmds \<and> length cmds \<le> 3 \<and>
    (\<forall>c \<in> set cmds. cmd_exact c) \<and> sent_bytes cmds = drop 16 req_bytes"
  using assms(1)
proof (cases rule: rpmb_send_cases)
  case invalid
  then show ?thesis using assms(2)
    by (auto simp: reply_def ipc_respond_def sys_def Let_def new_calls_def split: if_splits)
next
  case (sent cmds io s1 s2)
  let ?req = "get_rpmb_send_req (req_bytes @ rest)"
  from sent(1) have len: "16 \<le> length req_bytes"
    "unat (reliable_write_size ?req) + unat (rpmb_write_size ?req) = length req_bytes - 16" by simp_all
  moreover have pay: "rpmb_payload ?req = drop 16 req_bytes @ rest" using len(1) by (simp add: get_rpmb_send_req_def)
  ultimately have v: "length cmds \<le> 3" "\<forall>c \<in> set cmds. cmd_exact c" "sent_bytes cmds = drop 16 req_bytes"
    using rpmb_cmds_valid [OF sent(2)] by simp_all
  have "new_calls s s' = [Ioctl (rpmb_fd s) (MMC_IOC_MULTI_CMD cmds),
      Writev (tipc_fd s2) (put_storage_msg msg' @ (if sr_rc io < 0 then [] else take (unat (rpmb_read_size ?req)) (read_buf s2)))]"
    using sent(3-5) by (auto simp: reply_def ipc_respond_def sys_def Let_def new_calls_def split: if_splits)
  with assms(2) v show ?thesis by auto
qed

definition rpmb_sample :: "unit rpmb_scheme" where
  "rpmb_sample = \<lparr>hist = [], errno = 0, tipc_fd = 3, ssdir_fd = 4, ssdir_name = Some (lit ''/data/vendor/ss''),
     ss_persistent_dir_fd = - 1, ss_persistent_dir_name = None, ss_proinfo_node_fd = - 1,
     fs_state = SS_CLEAN, dir_state = SS_CLEAN, fd_state = replicate FD_TBL_SIZE SS_UNUSED,
     read_rsp = replicate MAX_READ_SIZE 0, rpmb_fd = 5, read_buf = replicate READ_BUF_SIZE 0\<rparr>"

text \<open>A request to read one block.\<close>

definition rpmb_read_one :: bytes where
  "rpmb_read_one = put_rpmb_send_req \<lparr>reliable_write_size = 0, rpmb_write_size = 0, rpmb_read_size = 512,
     rpmb_reserved = 0, rpmb_payload = []\<rparr>"

theorem rpmb_send_commands_witness:
  "\<exists>rc msg' s' fd q cmds. rpmb_send calm sample_msg (rpmb_read_one @ []) (length rpmb_read_one) rpmb_sample =
       Some (rc, msg', s') \<and> Ioctl fd q \<in> set (new_calls rpmb_sample s') \<and>
     q = MMC_IOC_MULTI_CMD cmds \<and> sent_bytes cmds = []"
proof -
  have len: "length rpmb_read_one = 16" by (simp add: rpmb_read_one_def put_rpmb_send_req_def)
  have "get_rpmb_send_req (rpmb_read_one @ []) = \<lparr>reliable_write_size = 0, rpmb_write_size = 0, rpmb_read_size = 512,
     rpmb_reserved = 0, rpmb_payload = []\<rparr>" by (simp add: rpmb_read_one_def get_put_requests)
  then have "\<exists>rc msg' s' cmds. rpmb_send calm sample_msg (rpmb_read_one @ []) (length rpmb_read_one) rpmb_sample =
       Some (rc, msg', s') \<and> Ioctl 5 (MMC_IOC_MULTI_CMD cmds) \<in> set (new_calls rpmb_sample s')"
    by (simp add: len rpmb_send_def rpmb_cmds_def MMC_BLOCK_SIZE_def READ_BUF_SIZE_def rpmb_sample_def sys_def
        calm_def ret_def reply_def ipc_respond_def new_calls_def Let_def)
  then show ?thesis using rpmb_send_commands [of calm sample_msg rpmb_read_one "[]" rpmb_sample] len by fastforce
qed

end
