(* ===== verification/Proxy.thy ===== *)
theory Proxy
  imports Rpmb "HOL-Library.Sublist"
begin

text \<open>
  The daemon itself (\<open>storage/proxy/proxy.c\<close>): command line, dropping of privileges, the
  dispatch of a request to its handler and the message loop. The globals of the file extend
  the state of \<open>rpmb.c\<close>; \<open>getopt_long\<close> is modelled for the option table of the file.
\<close>

definition REQ_BUFFER_SIZE :: nat where "REQ_BUFFER_SIZE = 4096 * 16"

record proxy = rpmb +
  ss_data_root :: "bytes option"
  trusty_devname :: "bytes option"
  rpmb_devname :: "bytes option"
  ss_srv_name :: "bytes option"
  ss_persistent_root :: "bytes option"
  init_proinfo :: "bytes option"
  req_buffer :: bytes

section \<open>Privileges\<close>

definition AID_SYSTEM :: nat where "AID_SYSTEM = 1000"
definition CAP_SYS_RAWIO :: nat where "CAP_SYS_RAWIO = 17"

definition drop_privs :: "kernel \<Rightarrow> 'a proc_scheme \<Rightarrow> int \<times> 'a proc_scheme" where
  "drop_privs k s =
     (let (p, s1) = sys k Prctl_keepcaps s in
      if sr_rc p < 0 then (- 1, s1)
      else let (g, s2) = sys k (Setgid AID_SYSTEM) s1 in
      if sr_rc g \<noteq> 0 then (- 1, s2)
      else let (u, s3) = sys k (Setuid AID_SYSTEM) s2 in
      if sr_rc u \<noteq> 0 then (- 1, s3)
      else let (c, s4) = sys k (Capset [CAP_SYS_RAWIO]) s3 in
      if sr_rc c < 0 then (- 1, s4)
      else (0, snd (sys k (Umask (S_IXUSR OR S_IRWXG OR S_IRWXO)) s4)))"

section \<open>Requests\<close>

text \<open>The \<open>switch\<close> over the commands; a positive answer means that no response was sent.\<close>

definition dispatch ::
  "kernel \<Rightarrow> storage_msg \<Rightarrow> bytes \<Rightarrow> nat \<Rightarrow> 'a rpmb_scheme \<Rightarrow>
   (int \<times> storage_msg \<times> 'a rpmb_scheme) option" where
  "dispatch k msg req req_len s =
     (if m_cmd msg = storage_cmd_code STORAGE_FILE_DELETE then storage_file_delete k msg req req_len s
      else if m_cmd msg = storage_cmd_code STORAGE_FILE_OPEN then storage_file_open k msg req req_len s
      else if m_cmd msg = storage_cmd_code STORAGE_FILE_CLOSE then storage_file_close k msg req req_len s
      else if m_cmd msg = storage_cmd_code STORAGE_FILE_WRITE then storage_file_write k msg req req_len s
      else if m_cmd msg = storage_cmd_code STORAGE_FILE_READ then storage_file_read k msg req req_len s
      else if m_cmd msg = storage_cmd_code STORAGE_FILE_GET_SIZE then storage_file_get_size k msg req req_len s
      else if m_cmd msg = storage_cmd_code STORAGE_FILE_SET_SIZE then storage_file_set_size k msg req req_len s
      else if m_cmd msg = storage_cmd_code STORAGE_RPMB_SEND then rpmb_send k msg req req_len s
      else if m_cmd msg = storage_cmd_code STORAGE_INIT_OK then storage_init_ok k msg req req_len s
      else if m_cmd msg = storage_cmd_code STORAGE_INIT_PROINFO_OK then storage_init_proinfo_ok k msg req req_len s
      else if m_cmd msg = storage_cmd_code STORAGE_INIT_PERSIST_OK then storage_init_persist_ok k msg req req_len s
      else Some (1, msg\<lparr>m_result := storage_err_code STORAGE_ERR_UNIMPLEMENTED\<rparr>, s))"

definition handle_req ::
  "kernel \<Rightarrow> storage_msg \<Rightarrow> bytes \<Rightarrow> nat \<Rightarrow> 'a rpmb_scheme \<Rightarrow>
   (int \<times> storage_msg \<times> 'a rpmb_scheme) option" where
  "handle_req k msg req req_len s =
     (if has_flag (m_flags msg) STORAGE_MSG_FLAG_POST_COMMIT \<and> m_cmd msg \<noteq> storage_cmd_code STORAGE_RPMB_SEND
      then reply k msg STORAGE_ERR_UNIMPLEMENTED [] s
      else
        let (rc, s1) = (if has_flag (m_flags msg) STORAGE_MSG_FLAG_PRE_COMMIT
                        then storage_sync_checkpoint k s else (0, s)) in
        if rc < 0 then reply k msg STORAGE_ERR_GENERIC [] s1
        else Option.bind (dispatch k msg req req_len s1) (\<lambda>(rc, msg', s2).
          if rc > 0 then ipc_respond k msg' [] s2 else Some (rc, msg', s2)))"

section \<open>The message loop\<close>

text \<open>One iteration. The header \<open>msg\<close> is a local variable that keeps its last content.\<close>

definition proxy_step ::
  "kernel \<Rightarrow> storage_msg \<Rightarrow> 'a proxy_scheme \<Rightarrow> (int \<times> storage_msg \<times> 'a proxy_scheme) option" where
  "proxy_step k msg s =
     Option.bind (ipc_get_msg k msg (req_buffer s) REQ_BUFFER_SIZE s) (\<lambda>(rc, msg', buf, s1).
       if rc < 0 then Some (rc, msg', s1\<lparr>req_buffer := buf\<rparr>)
       else
         let buf' = buf[nat rc := 0]
         in handle_req k msg' buf' (nat rc) (s1\<lparr>req_buffer := buf'\<rparr>))"

partial_function (option) proxy_loop ::
  "kernel \<Rightarrow> storage_msg \<Rightarrow> 'a proxy_scheme \<Rightarrow> (int \<times> 'a proxy_scheme) option" where
  "proxy_loop k msg s =
     Option.bind (proxy_step k msg s) (\<lambda>(rc, msg', s').
       if rc \<noteq> 0 then Some (rc, s') else proxy_loop k msg' s')"

section \<open>Command line\<close>

definition short_opt :: "char \<Rightarrow> bool option" where
  "short_opt c = (if c = CHR ''h'' then Some False else if c \<in> set ''pdrvfi'' then Some True else None)"

definition lopts :: "(string \<times> bool \<times> char) list" where
  "lopts = [(''help'', False, CHR ''h''), (''trusty_dev'', True, CHR ''d''), (''data_path'', True, CHR ''f''),
     (''rpmb_dev'', True, CHR ''r''), (''ss_srv_name'', True, CHR ''p''), (''init_proinfo'', True, CHR ''i''),
     (''persistent_data_path'', True, CHR ''v'')]"

text \<open>A long option by its name or an unambiguous abbreviation.\<close>

definition find_lopt :: "string \<Rightarrow> (bool \<times> char) option" where
  "find_lopt name =
     (case filter (\<lambda>opt. fst opt = name) lopts of
        opt # _ \<Rightarrow> Some (snd opt)
      | [] \<Rightarrow> (case filter (\<lambda>opt. prefix name (fst opt)) lopts of [opt] \<Rightarrow> Some (snd opt) | _ \<Rightarrow> None))"

text \<open>
  The options that successive calls of \<open>getopt_long\<close> report, each with its argument; the
  first parameter is the unread rest of a group of short options. Other arguments are
  skipped, as \<open>getopt_long\<close> moves them to the end.
\<close>

function getopt_long :: "string \<Rightarrow> string list \<Rightarrow> (char \<times> string option) list" where
  "getopt_long (c # cs) as =
     (case short_opt c of
        None \<Rightarrow> (CHR ''?'', None) # getopt_long cs as
      | Some False \<Rightarrow> (c, None) # getopt_long cs as
      | Some True \<Rightarrow>
          if cs \<noteq> [] then (c, Some cs) # getopt_long [] as
          else (case as of [] \<Rightarrow> [(CHR ''?'', None)] | a # as' \<Rightarrow> (c, Some a) # getopt_long [] as'))"
| "getopt_long [] [] = []"
| "getopt_long [] (a # as) =
     (if a = ''--'' then []
      else if prefix ''--'' a then
        let body = drop 2 a; name = takeWhile (\<lambda>c. c \<noteq> CHR ''='') body;
            val = (if CHR ''='' \<in> set body then Some (drop (length name + 1) body) else None) in
        case find_lopt name of
          None \<Rightarrow> (CHR ''?'', None) # getopt_long [] as
        | Some (False, c) \<Rightarrow> (if val = None then c else CHR ''?'', None) # getopt_long [] as
        | Some (True, c) \<Rightarrow>
            (case val of Some v \<Rightarrow> (c, Some v) # getopt_long [] as
             | None \<Rightarrow> (case as of [] \<Rightarrow> [(CHR ''?'', None)] | b # as' \<Rightarrow> (c, Some b) # getopt_long [] as'))
      else if prefix ''-'' a then getopt_long (tl a) as
      else getopt_long [] as)"
  by pat_completeness auto
termination
  by (relation "measure (\<lambda>(cs, as). length cs + sum_list (map (\<lambda>a. length a + 1) as))") auto

definition strdup :: "kernel \<Rightarrow> string \<Rightarrow> 'a proc_scheme \<Rightarrow> bytes option \<times> 'a proc_scheme" where
  "strdup k str s =
     (let (r, s1) = sys k (Malloc (length str + 1)) s in (if sr_rc r < 0 then None else Some (lit str), s1))"

text \<open>The loop over the options; \<open>Inl\<close> is the exit of \<open>show_usage_and_exit\<close>.\<close>

fun apply_opts :: "kernel \<Rightarrow> (char \<times> string option) list \<Rightarrow> 'a proxy_scheme \<Rightarrow> 'a proxy_scheme + 'a proxy_scheme" where
  "apply_opts k [] s = Inr s"
| "apply_opts k ((opt, arg) # os) s =
     (case arg of
        None \<Rightarrow> Inl s
      | Some optarg \<Rightarrow>
          let (v, s1) = strdup k optarg s in
          if opt = CHR ''d'' then apply_opts k os (s1\<lparr>trusty_devname := v\<rparr>)
          else if opt = CHR ''f'' then apply_opts k os (s1\<lparr>ss_data_root := v\<rparr>)
          else if opt = CHR ''r'' then apply_opts k os (s1\<lparr>rpmb_devname := v\<rparr>)
          else if opt = CHR ''v'' then apply_opts k os (s1\<lparr>ss_persistent_root := v\<rparr>)
          else if opt = CHR ''i'' then apply_opts k os (s1\<lparr>init_proinfo := v\<rparr>)
          else if opt = CHR ''p'' then apply_opts k os (s1\<lparr>ss_srv_name := v\<rparr>)
          else Inl s)"

definition parse_args :: "kernel \<Rightarrow> string list \<Rightarrow> 'a proxy_scheme \<Rightarrow> 'a proxy_scheme + 'a proxy_scheme" where
  "parse_args k args s =
     (case apply_opts k (getopt_long [] args) s of
        Inl s1 \<Rightarrow> Inl s1
      | Inr s1 \<Rightarrow> if ss_srv_name s1 = None \<or> trusty_devname s1 = None then Inl s1 else Inr s1)"

section \<open>The program\<close>

definition EXIT_SUCCESS :: int where "EXIT_SUCCESS = 0"
definition EXIT_FAILURE :: int where "EXIT_FAILURE = 1"

text \<open>The initialisation between the command line and the connection; a flag says whether it succeeded.\<close>

definition init_storage :: "kernel \<Rightarrow> 'a proxy_scheme \<Rightarrow> bool \<times> 'a proxy_scheme" where
  "init_storage k s =
     (let (rc1, s1) = (case ss_data_root s of Some d \<Rightarrow> storage_init k d s | None \<Rightarrow> (0, s)) in
      if rc1 < 0 then (False, s1)
      else let (rc2, s2) = (case ss_persistent_root s1 of Some d \<Rightarrow> storage_persistent_init k d s1 | None \<Rightarrow> (0, s1)) in
      if rc2 < 0 then (False, s2)
      else let (rc3, s3) = (if init_proinfo s2 \<noteq> None then storage_proinfo_init k ss_proinfo_name s2 else (0, s2)) in
      if rc3 < 0 then (False, s3)
      else let (rc4, s4) = (case rpmb_devname s3 of Some d \<Rightarrow> rpmb_open k d s3 | None \<Rightarrow> (0, s3)) in
      (0 \<le> rc4, s4))"

text \<open>\<open>main\<close> with the arguments after the program name and the undefined content of \<open>msg\<close>.\<close>

definition main :: "kernel \<Rightarrow> string list \<Rightarrow> storage_msg \<Rightarrow> 'a proxy_scheme \<Rightarrow> (int \<times> 'a proxy_scheme) option" where
  "main k args msg s =
     (let (rc, s1) = drop_privs k s in
      if rc < 0 then Some (EXIT_FAILURE, s1)
      else case parse_args k args s1 of
        Inl s2 \<Rightarrow> Some (EXIT_FAILURE, s2)
      | Inr s2 \<Rightarrow>
          let (ok, s3) = init_storage k s2 in
          if \<not> ok then Some (EXIT_FAILURE, s3)
          else Option.bind (ipc_connect k (the (trusty_devname s3)) (the (ss_srv_name s3)) s3) (\<lambda>(rc, s4).
            if rc < 0 then Some (EXIT_FAILURE, s4)
            else Option.bind (proxy_loop k msg s4) (\<lambda>(rc, s5).
              Option.bind (ipc_disconnect k s5) (\<lambda>s6.
                let s7 = (if rpmb_devname s6 \<noteq> None then rpmb_close k s6 else s6)
                in Some (if rc < 0 then EXIT_FAILURE else EXIT_SUCCESS, s7)))))"

text \<open>The state in which the program starts: static initialisers and zeroed memory.\<close>

definition start_state :: proxy where
  "start_state = \<lparr>hist = [], errno = 0, tipc_fd = - 1, ssdir_fd = - 1, ssdir_name = None,
     ss_persistent_dir_fd = - 1, ss_persistent_dir_name = None, ss_proinfo_node_fd = - 1,
     fs_state = SS_CLEAN, dir_state = SS_CLEAN, fd_state = replicate FD_TBL_SIZE SS_CLEAN,
     read_rsp = replicate MAX_READ_SIZE 0, rpmb_fd = - 1, read_buf = replicate READ_BUF_SIZE 0,
     ss_data_root = None, trusty_devname = None, rpmb_devname = None, ss_srv_name = None,
     ss_persistent_root = None, init_proinfo = None, req_buffer = replicate (REQ_BUFFER_SIZE + 1) 0\<rparr>"

section \<open>Requests are answered\<close>

lemmas handler_contracts =
  delete.handler_responds open_file.handler_responds close_file.handler_responds write_file.handler_responds
  read_file.handler_responds get_size.handler_responds set_size.handler_responds rpmb.handler_responds
  init_ok.handler_responds init_proinfo_ok.handler_responds init_persist_ok.handler_responds

lemmas handler_termination =
  delete.handler_returns open_file.handler_returns close_file.handler_returns write_file.handler_returns
  read_file.handler_returns get_size.handler_returns set_size.handler_returns rpmb.handler_returns
  init_ok.handler_returns init_proinfo_ok.handler_returns init_persist_ok.handler_returns

lemma dispatch_responds:
  assumes "io_bounded k" "handler_ready s" "dispatch k msg req n s = Some (rc, msg', s')"
  shows "responds msg s (rc, msg', s') \<or>
    (rc = 1 \<and> msg' = msg\<lparr>m_result := storage_err_code STORAGE_ERR_UNIMPLEMENTED\<rparr> \<and> s' = s)"
proof -
  note c = handler_contracts [OF assms(1,2)]
  show ?thesis using assms(3) unfolding dispatch_def by (auto split: if_splits intro: c)
qed

lemma dispatch_returns:
  assumes "io_bounded k" "handler_ready s" "kernel_live k"
  shows "returns (dispatch k msg req n s)"
  using handler_termination [OF assms] by (simp add: dispatch_def)

lemma pre_commit_serves:
  assumes "(if b then storage_sync_checkpoint k s else (0, s)) = (rc, s1)" "sync_inv s"
  shows "serves s s1" "storage.more s1 = storage.more s"
  using assms checkpoint_synced(1) [of k s rc s1] checkpoint_more [of k s] by (auto split: if_splits)

lemma handle_req_cases:
  assumes "handle_req k msg r n s = Some p" "sync_inv s"
  obtains (replied) e s' where "reply k msg e [] s' = Some p" "serves s s'" "storage.more s' = storage.more s"
  | (dispatched) rc2 msg2 s1 s2 where "serves s s1" "dispatch k msg r n s1 = Some (rc2, msg2, s2)"
      "(if rc2 > 0 then ipc_respond k msg2 [] s2 else Some (rc2, msg2, s2)) = Some p"
      "storage.more s1 = storage.more s"
proof -
  obtain rc s1 where s1: "(if has_flag (m_flags msg) STORAGE_MSG_FLAG_PRE_COMMIT
      then storage_sync_checkpoint k s else (0, s)) = (rc, s1)" by fastforce
  note sv = pre_commit_serves [OF s1 assms(2)]
  show thesis
    using assms(1) s1 sv replied [of _ s] replied [of _ s1] dispatched [OF sv(1)]
    by (auto simp: handle_req_def bind_eq_Some_conv split: if_splits)
qed

lemma handle_req_responds:
  assumes io: "io_bounded k" and ready: "handler_ready s" and h: "handle_req k msg r n s = Some p"
  shows "responds msg s p"
proof -
  have "sync_inv s" using ready by (simp add: handler_ready_def)
  with h show ?thesis
  proof (cases rule: handle_req_cases)
    case replied
    then show ?thesis by (intro reply_responds)
  next
    case (dispatched rc2 msg2 s1 s2)
    note ready1 = serves_ready [OF dispatched(1) ready]
    from dispatch_responds [OF io ready1 dispatched(2)] show ?thesis
    proof
      assume r: "responds msg s1 (rc2, msg2, s2)"
      with responds_ready [OF r ready1] dispatched(3) have "p = (rc2, msg2, s2)" by auto
      with serves_responds [OF dispatched(1) r] show ?thesis by simp
    next
      assume "rc2 = 1 \<and> msg2 = msg\<lparr>m_result := storage_err_code STORAGE_ERR_UNIMPLEMENTED\<rparr> \<and> s2 = s1"
      with dispatched(3) have "reply k msg STORAGE_ERR_UNIMPLEMENTED [] s1 = Some p" by (simp add: reply_def)
      then show ?thesis using dispatched(1) by (rule reply_responds)
    qed
  qed
qed

lemma handle_req_returns:
  assumes io: "io_bounded k" and ready: "handler_ready s" and live: "kernel_live k"
  shows "returns (handle_req k msg r n s)"
proof -
  obtain rc s1 where s1: "(if has_flag (m_flags msg) STORAGE_MSG_FLAG_PRE_COMMIT
      then storage_sync_checkpoint k s else (0, s)) = (rc, s1)" by fastforce
  have "serves s s1" using pre_commit_serves [OF s1] ready by (simp add: handler_ready_def)
  note ready1 = serves_ready [OF this ready]
  have conn: "0 \<le> tipc_fd s" "0 \<le> tipc_fd s1" using ready ready1 by (auto simp: handler_ready_def)
  have "0 \<le> tipc_fd s2" if "dispatch k msg r n s1 = Some (rc2, msg2, s2)" for rc2 msg2 s2
    using dispatch_responds [OF io ready1 that] conn(2) by (auto simp: responds_def)
  then show ?thesis
    using s1 conn dispatch_returns [OF io ready1 live]
    by (auto simp: handle_req_def ipc_respond_def Let_def case_prod_unfold)
qed

interpretation requests: storage_handler handle_req
  by unfold_locales (auto intro: handle_req_responds handle_req_returns)

section \<open>The loop\<close>

text \<open>Handling a request keeps the globals of \<open>proxy.c\<close>.\<close>

lemma storage_more_rpmb: "storage.more s' = storage.more s \<Longrightarrow> rpmb.more s' = rpmb.more s"
  by (cases s; cases s') simp

lemma rpmb_send_more: "rpmb_send k msg r n s = Some (rc, msg', s') \<Longrightarrow> rpmb.more s' = rpmb.more s"
  by (auto simp: rpmb_send_def reply_def ipc_respond_def sys_def Let_def case_prod_unfold
      split: if_splits option.splits)

lemma dispatch_more:
  assumes "io_bounded k" "handler_ready s" "dispatch k msg r n s = Some (rc, msg', s')"
  shows "rpmb.more s' = rpmb.more s"
proof -
  have "length (read_rsp s) = MAX_READ_SIZE" using assms(2) by (simp add: handler_ready_def)
  note m = handlers_more data_handlers_more(1) [OF assms(1)] data_handlers_more(2) [OF assms(1) this]
  show ?thesis using assms(3) unfolding dispatch_def
    by (auto simp: storage_init_ok_def storage_init_persist_ok_def storage_init_proinfo_ok_def
        split: if_splits dest: rpmb_send_more m [THEN storage_more_rpmb])
qed

lemma ipc_respond_more: "ipc_respond k m out s = Some (rc, m', s') \<Longrightarrow> storage.more s' = storage.more s"
  by (auto simp: ipc_respond_def sys_def Let_def split: if_splits)

lemma handle_req_more:
  assumes io: "io_bounded k" and ready: "handler_ready s" and h: "handle_req k msg r n s = Some (rc, msg', s')"
  shows "rpmb.more s' = rpmb.more s"
proof -
  have "sync_inv s" using ready by (simp add: handler_ready_def)
  with h show ?thesis
  proof (cases rule: handle_req_cases)
    case (replied e s1)
    then show ?thesis using more_results(5) [OF replied(1)] by (intro storage_more_rpmb) simp
  next
    case (dispatched rc2 msg2 s1 s2)
    have "rpmb.more s2 = rpmb.more s1"
      using dispatch_more [OF io serves_ready [OF dispatched(1) ready] dispatched(2)] .
    moreover have "rpmb.more s1 = rpmb.more s" by (rule storage_more_rpmb [OF dispatched(4)])
    moreover have "rpmb.more s' = rpmb.more s2"
      using dispatched(3) by (auto split: if_splits dest: ipc_respond_more [THEN storage_more_rpmb])
    ultimately show ?thesis by simp
  qed
qed

text \<open>The states between two iterations.\<close>

definition proxy_inv :: "'a proxy_scheme \<Rightarrow> bool" where
  "proxy_inv s \<longleftrightarrow> handler_ready s \<and> length (req_buffer s) = REQ_BUFFER_SIZE + 1"

inductive proxy_reach ::
  "kernel \<Rightarrow> storage_msg \<times> 'a proxy_scheme \<Rightarrow> storage_msg \<times> 'a proxy_scheme \<Rightarrow> bool"
  for k :: kernel and st :: "storage_msg \<times> 'a proxy_scheme" where
  start: "proxy_reach k st st"
| iter: "proxy_reach k st (msg, s) \<Longrightarrow> proxy_step k msg s = Some (0, msg', s') \<Longrightarrow> proxy_reach k st (msg', s')"

text \<open>An iteration that receives a message.\<close>

definition received :: "kernel \<Rightarrow> 'a proxy_scheme \<Rightarrow> sysret" where
  "received k s = k (hist s) (Readv (tipc_fd s) [sizeof_storage_msg, REQ_BUFFER_SIZE])"

lemma proxy_step_cases:
  assumes "proxy_step k msg s = Some (rc, msg', s')" and io: "io_bounded k" and inv: "proxy_inv s"
  obtains (stop) buf s1 e where "rc < 0" "s' = s1\<lparr>req_buffer := buf\<rparr>" "length buf = REQ_BUFFER_SIZE + 1"
      "s1 = s\<lparr>hist := hist s @ [(Readv (tipc_fd s) [sizeof_storage_msg, REQ_BUFFER_SIZE], received k s)], errno := e\<rparr>"
  | (request) n msg1 buf s1 e where "n \<le> REQ_BUFFER_SIZE" "length buf = REQ_BUFFER_SIZE + 1" "buf ! n = 0"
      "sr_out (received k s) = put_storage_msg msg1 @ take n buf"
      "m_size msg1 = word_of_nat (n + sizeof_storage_msg)"
      "s1 = s\<lparr>hist := hist s @ [(Readv (tipc_fd s) [sizeof_storage_msg, REQ_BUFFER_SIZE], received k s)], errno := e,
         req_buffer := buf\<rparr>"
      "handle_req k msg1 buf n s1 = Some (rc, msg', s')"
proof -
  have len: "REQ_BUFFER_SIZE \<le> length (req_buffer s)" using inv by (simp add: proxy_inv_def)
  from assms(1) obtain n msg1 buf s1 where g: "ipc_get_msg k msg (req_buffer s) REQ_BUFFER_SIZE s = Some (n, msg1, buf, s1)"
    and nxt: "(if n < 0 then Some (n, msg1, s1\<lparr>req_buffer := buf\<rparr>)
      else handle_req k msg1 (buf[nat n := 0]) (nat n) (s1\<lparr>req_buffer := buf[nat n := 0]\<rparr>)) = Some (rc, msg', s')"
    unfolding proxy_step_def Let_def by (auto simp: bind_eq_Some_conv)
  note q = ipc_get_msg_spec [OF io len g]
  from q(4) obtain e where s1: "s1 = s\<lparr>hist := hist s @ [(Readv (tipc_fd s) [sizeof_storage_msg, REQ_BUFFER_SIZE],
      received k s)], errno := e\<rparr>" unfolding received_def by blast
  have buf: "length buf = REQ_BUFFER_SIZE + 1" using q(2) inv by (simp add: proxy_inv_def)
  show thesis
  proof (cases "n < 0")
    case True
    with nxt have "rc < 0" "s' = s1\<lparr>req_buffer := buf\<rparr>" by auto
    then show thesis by (rule stop [OF _ _ buf s1])
  next
    case False
    with q(5) have r: "sr_out (received k s) = put_storage_msg msg1 @ take (nat n) buf"
      "m_size msg1 = word_of_int (n + 24)" by (auto simp: received_def)
    show thesis
    proof (rule request [of "nat n" "buf[nat n := 0]" msg1 _ e])
      show "m_size msg1 = word_of_nat (nat n + sizeof_storage_msg)" using r(2) False by simp
    qed (use False q(1) buf r s1 nxt in \<open>auto simp: nat_le_iff\<close>)
  qed
qed

lemma serves_receive:
  "serves s (s\<lparr>hist := hist s @ [(Readv fd ns, r)], errno := e, req_buffer := buf\<rparr>)"
proof -
  let ?s = "s\<lparr>hist := hist s @ [(Readv fd ns, r)], errno := e\<rparr>"
  have "calls_only harmless s ?s" unfolding calls_only_def
    by (intro exI [of _ "[(Readv fd ns, r)]"] exI [of _ e]) simp
  then have "serves s ?s" by (rule serves_harmless)
  moreover have "tracked (?s\<lparr>req_buffer := buf\<rparr>) ob = tracked ?s ob" for ob by (cases ob) simp_all
  then have "serves ?s (?s\<lparr>req_buffer := buf\<rparr>)"
    by (simp add: serves_def sync_inv_except_def roots_def sync_roots_def)
  ultimately show ?thesis by (rule serves_trans)
qed

lemma rpmb_more_req_buffer: "rpmb.more s' = rpmb.more s \<Longrightarrow> req_buffer s' = req_buffer s"
  by (cases s; cases s') simp

lemmas ready_receive = serves_ready [OF serves_receive]

lemma proxy_step_keeps:
  assumes st: "proxy_step k msg s = Some (rc, msg', s')" and io: "io_bounded k" and inv: "proxy_inv s"
  shows "proxy_inv s'"
  using assms
proof (cases rule: proxy_step_cases)
  case (stop buf s1 e)
  with inv show ?thesis by (simp add: proxy_inv_def ready_receive)
next
  case (request n msg1 buf s1 e)
  have ready: "handler_ready s1"
    using inv request(6) by (simp add: proxy_inv_def ready_receive)
  have "rpmb.more s' = rpmb.more s1" using handle_req_more [OF io ready request(7)] .
  then have "req_buffer s' = buf" using request(6) by (simp add: rpmb_more_req_buffer [of s' s1])
  with requests.handler_keeps_ready(1) [OF io ready request(7)] request(2) show ?thesis
    by (simp add: proxy_inv_def)
qed

lemma proxy_reach_inv:
  "proxy_reach k (msg0, s0) st \<Longrightarrow> io_bounded k \<Longrightarrow> proxy_inv s0 \<Longrightarrow> proxy_inv (snd st)"
  by (induction rule: proxy_reach.induct) (auto intro: proxy_step_keeps)

text \<open>The loop is the iteration of the step until it answers something other than 0.\<close>

lemma proxy_loop_unfold:
  "proxy_loop k msg s = Some (rc, s') \<longleftrightarrow>
   (\<exists>rc1 msg1 s1. proxy_step k msg s = Some (rc1, msg1, s1) \<and>
      (if rc1 \<noteq> 0 then rc = rc1 \<and> s' = s1 else proxy_loop k msg1 s1 = Some (rc, s')))"
  by (subst proxy_loop.simps) (auto simp: bind_eq_Some_conv)

lemma proxy_reach_step:
  "proxy_step k msg s = Some (0, msg1, s1) \<Longrightarrow> proxy_reach k (msg1, s1) st \<Longrightarrow> proxy_reach k (msg, s) st"
  by (rotate_tac, induction rule: proxy_reach.induct) (auto intro: proxy_reach.intros)

lemma proxy_loop_reach:
  assumes "proxy_loop k msg s = Some (rc, s')"
  shows "\<exists>msg1 s1 msg'. proxy_reach k (msg, s) (msg1, s1) \<and> proxy_step k msg1 s1 = Some (rc, msg', s') \<and> rc \<noteq> 0"
proof -
  have "(\<lambda>k msg s p. \<exists>msg1 s1 msg'. proxy_reach k (msg, s) (msg1, s1) \<and>
      proxy_step k msg1 s1 = Some (fst p, msg', snd p) \<and> fst p \<noteq> 0) k msg s (rc, s')"
  proof (rule proxy_loop.raw_induct [OF _ assms])
    fix f k msg s p
    assume IH: "\<And>k msg s p. f k msg s = Some p \<Longrightarrow> \<exists>msg1 s1 msg'. proxy_reach k (msg, s) (msg1, s1) \<and>
        proxy_step k msg1 s1 = Some (fst p, msg', snd p) \<and> fst p \<noteq> 0"
      and eq: "Option.bind (proxy_step k msg s) (\<lambda>(rc, msg', s').
         if rc \<noteq> 0 then Some (rc, s') else f k msg' s') = Some p"
    then obtain rc1 msg1 s1 where st: "proxy_step k msg s = Some (rc1, msg1, s1)"
      and nxt: "(if rc1 \<noteq> 0 then Some (rc1, s1) else f k msg1 s1) = Some p"
      by (auto simp: bind_eq_Some_conv)
    show "\<exists>msg1 s1 msg'. proxy_reach k (msg, s) (msg1, s1) \<and>
        proxy_step k msg1 s1 = Some (fst p, msg', snd p) \<and> fst p \<noteq> 0"
    proof (cases "rc1 = 0")
      case True
      with nxt have "f k msg1 s1 = Some p" by simp
      from IH [OF this] st True show ?thesis by (blast intro: proxy_reach_step)
    next
      case False
      with nxt st show ?thesis by (fastforce intro: proxy_reach.start)
    qed
  qed
  then show ?thesis by simp
qed

lemma proxy_reach_loop:
  "proxy_reach k (msg, s) st \<Longrightarrow> proxy_loop k (fst st) (snd st) = Some (rc, s') \<Longrightarrow>
   proxy_loop k msg s = Some (rc, s')"
  by (induction rule: proxy_reach.induct) (auto simp: proxy_loop_unfold [where msg = msg and s = s for msg s])

section \<open>The conversation\<close>

text \<open>
  The specification of a session as a property of its history alone: complete exchanges, each
  of one received request and one answer with the same identifier, in this order.
\<close>

inductive dialogue :: "int \<Rightarrow> event list \<Rightarrow> bool" for fd :: int where
  silence: "dialogue fd []"
| exchange: "dialogue fd h \<Longrightarrow> sr_out r = put_storage_msg req @ body \<Longrightarrow>
    m_size req = word_of_nat (length (sr_out r)) \<Longrightarrow>
    \<forall>x \<in> set es. \<not> is_writev (fst x) \<Longrightarrow>
    resp = req\<lparr>m_result := storage_err_code e, m_cmd := m_cmd req OR STORAGE_RESP_BIT\<rparr> \<Longrightarrow> 0 \<le> sr_rc w \<Longrightarrow>
    dialogue fd (h @ [(Readv fd [sizeof_storage_msg, REQ_BUFFER_SIZE], r)] @ es @
      [(Writev fd (put_storage_msg resp @ data), w)])"

lemma proxy_step_exchange:
  assumes st: "proxy_step k msg s = Some (0, msg', s')" and io: "io_bounded k" and inv: "proxy_inv s"
    and d: "dialogue (tipc_fd s) h"
  shows "\<exists>es. hist s' = hist s @ es \<and> tipc_fd s' = tipc_fd s \<and> dialogue (tipc_fd s) (h @ es)"
  using st io inv
proof (cases rule: proxy_step_cases)
  case (request n msg1 buf s1 e)
  have ready: "handler_ready s1" using inv request(6) by (simp add: proxy_inv_def ready_receive)
  have fd: "tipc_fd s1 = tipc_fd s" using request(6) by simp
  from requests.handler_responds [OF io ready request(7)] obtain s2 out w er where
    r: "serves s1 s2" "hist s' = hist s2 @ [(Writev (tipc_fd s) (put_storage_msg msg' @ out), w)]"
      "0 = (if sr_rc w < 0 then - 1 else 0 :: int)" "tipc_fd s' = tipc_fd s"
      "msg' = msg1\<lparr>m_result := storage_err_code er, m_cmd := m_cmd msg1 OR STORAGE_RESP_BIT\<rparr>"
    unfolding responds_def by (auto simp: fd)
  from r(1) obtain es where es: "hist s2 = hist s1 @ es" "\<forall>x \<in> set es. \<not> is_writev (fst x)"
    unfolding serves_def by blast
  have sz: "m_size msg1 = word_of_nat (length (sr_out (received k s)))"
    using request(1,2,4,5) by (simp add: add.commute)
  have "0 \<le> sr_rc w" using r(3) by (simp split: if_splits)
  from exchange [OF d request(4) sz es(2) r(5) this, of out] r(2,4) es(1) request(6) show ?thesis
    by (intro exI conjI) (auto)
qed simp

section \<open>Properties\<close>


text \<open>A session in which one request with an unknown command arrives.\<close>

definition idle_state :: proxy where
  "idle_state = start_state\<lparr>tipc_fd := 3, ssdir_fd := 4\<rparr>"

definition odd_msg :: storage_msg where
  "odd_msg = \<lparr>m_cmd = 0, m_op_id = 7, m_flags = 0, m_size = 24, m_result = 0, m_reserved = 0\<rparr>"

definition odd_kernel :: kernel where
  "odd_kernel = sending_kernel (put_storage_msg odd_msg)"

lemma idle_inv: "proxy_inv idle_state"
  by (simp add: proxy_inv_def handler_ready_def idle_state_def start_state_def sync_inv_except_def
      outstanding_def durability_def)

lemma odd_get_msg:
  "\<exists>s1. ipc_get_msg odd_kernel odd_msg (req_buffer idle_state) REQ_BUFFER_SIZE idle_state =
     Some (0, odd_msg, req_buffer idle_state, s1) \<and> tipc_fd s1 = 3"
proof -
  have "REQ_BUFFER_SIZE = 65536" by (simp add: REQ_BUFFER_SIZE_def)
  then show ?thesis
    using get_put_storage_msg [of odd_msg "[]"]
    by (simp add: ipc_get_msg_def idle_state_def start_state_def sys_def Let_def odd_kernel_def sending_kernel_def
        ret_data_def take_of_long)
      (simp add: buf_write_def odd_msg_def)
qed

lemma handle_req_odd: "handle_req k odd_msg req n s = reply k odd_msg STORAGE_ERR_UNIMPLEMENTED [] s"
proof -
  have "dispatch k odd_msg req n s = Some (1, odd_msg\<lparr>m_result := storage_err_code STORAGE_ERR_UNIMPLEMENTED\<rparr>, s)"
    by (simp add: dispatch_def odd_msg_def storage_cmd_consts)
  then show ?thesis by (simp add: handle_req_def odd_msg_def has_flag_def reply_def)
qed

lemma odd_step: "\<exists>msg' s'. proxy_step odd_kernel odd_msg idle_state = Some (0, msg', s')"
proof -
  obtain s1 where g: "ipc_get_msg odd_kernel odd_msg (req_buffer idle_state) REQ_BUFFER_SIZE idle_state =
     Some (0, odd_msg, req_buffer idle_state, s1)" "tipc_fd s1 = 3" using odd_get_msg by blast
  have w: "odd_kernel h (Writev fd bs) = ret 0" for h fd bs
    by (simp add: odd_kernel_def sending_kernel_def calm_def)
  have "\<exists>msg' s'. reply odd_kernel odd_msg e [] s = Some (0, msg', s')" if "tipc_fd s = 3" for e and s :: proxy
    using that by (simp add: reply_def ipc_respond_def sys_def Let_def w ret_def)
  with g show ?thesis by (simp add: proxy_step_def handle_req_odd Let_def)
qed


end
