(* ===== verification/Storage_Props.thy ===== *)
theory Storage_Props
  imports Storage_Handlers
begin

text \<open>
  The functional behaviour of the request handlers on every branch: what a read delivers,
  what a write stores, which flags an open uses, and when a descriptor is closed.
\<close>

section \<open>Answers of a handler\<close>

text \<open>The bytes of the last message sent on the connection.\<close>

definition last_sent :: "'a ipc_scheme \<Rightarrow> bytes" where
  "last_sent s = (case fst (last (hist s)) of Writev fd bs \<Rightarrow> if fd = tipc_fd s then bs else [] | _ \<Rightarrow> [])"

definition answer_msg :: "storage_msg \<Rightarrow> storage_err \<Rightarrow> storage_msg" where
  "answer_msg msg e = msg\<lparr>m_result := storage_err_code e, m_cmd := m_cmd msg OR STORAGE_RESP_BIT\<rparr>"

lemma reply_answer:
  assumes "reply k msg e out s = Some (rc, msg', s')"
  shows "msg' = answer_msg msg e" "last_sent s' = put_storage_msg (answer_msg msg e) @ out"
    "\<exists>w. hist s' = hist s @ [(Writev (tipc_fd s) (put_storage_msg (answer_msg msg e) @ out), w)]"
  using assms
  by (auto simp: reply_def ipc_respond_def sys_def Let_def answer_msg_def last_sent_def split: if_splits)

lemma answer_result [simp]: "m_result (answer_msg msg e) = storage_err_code e"
  by (simp add: answer_msg_def)

lemma answer_inj: "answer_msg msg e = answer_msg msg e' \<longleftrightarrow> e = e'"
  by (metis answer_result storage_err_code_inj)

section \<open>Properties\<close>

text \<open>C4. Reading a file: on a descriptor whose file does not change meanwhile, a read request
  of at most 4096 bytes is answered without error by exactly the bytes of the file at the
  requested offset, cut at the end of the file, however short or interrupted the kernel's
  single reads are.\<close>

theorem storage_file_read_content:
  assumes "eintr_bounded b k" "reads_file k (sint (read_handle q)) f"
    and "unat (read_size q) \<le> MAX_READ_SIZE" "unat (read_offset q) + unat (read_size q) < 2 ^ 64"
    and "0 \<le> tipc_fd s" "length (read_rsp s) = MAX_READ_SIZE"
  shows "\<exists>rc msg' s'. storage_file_read k msg (put_read_req q @ rest) 16 s = Some (rc, msg', s') \<and>
    m_result msg' = storage_err_code STORAGE_NO_ERROR \<and>
    last_sent s' = put_storage_msg msg' @ take (unat (read_size q)) (drop (unat (read_offset q)) f)"
proof -
  let ?want = "take (unat (read_size q)) (drop (unat (read_offset q)) f)"
  let ?fd = "sint (read_handle q)"
  obtain es e where r: "read_with_retry k ?fd (read_rsp s) (unat (read_size q)) (read_offset q) s =
      Some (int (length ?want), buf_write 0 ?want (read_rsp s), s\<lparr>hist := hist s @ es, errno := e\<rparr>)"
    using read_loop_file [OF assms(1,2), of 0 "unat (read_size q)" "read_rsp s" "read_offset q" s] assms(3,4,6)
    by (auto simp: read_with_retry_def)
  let ?s = "s\<lparr>hist := hist s @ es, errno := e, read_rsp := buf_write 0 ?want (read_rsp s)\<rparr>"
  have "take (length ?want) (buf_write 0 ?want (read_rsp s)) = ?want" unfolding buf_write_def by (metis append_eq_conv_conj append_Nil take0)
  then have "storage_file_read k msg (put_read_req q @ rest) 16 s = reply k msg STORAGE_NO_ERROR ?want ?s"
    using assms(3) r by (simp add: storage_file_read_def get_put_requests lookup_fd_def Let_def)
  moreover have "returns (reply k msg STORAGE_NO_ERROR ?want ?s)" using assms(5) by simp
  then obtain rc msg' s' where "reply k msg STORAGE_NO_ERROR ?want ?s = Some (rc, msg', s')"
    by (metis returns_def prod_cases3)
  ultimately show ?thesis using reply_answer [of k msg STORAGE_NO_ERROR ?want ?s rc msg' s'] by auto
qed

definition file_kernel :: "bytes \<Rightarrow> kernel" where
  "file_kernel f h c = (case c of Pread fd n off \<Rightarrow> ret_data (take n (drop (unat off) f)) | _ \<Rightarrow> calm h c)"

definition ready_storage :: storage where
  "ready_storage = dirty_storage\<lparr>hist := [], fd_state := replicate FD_TBL_SIZE SS_CLEAN\<rparr>"

definition sample_read :: storage_file_read_req where
  "sample_read = \<lparr>read_handle = 7, read_size = 5, read_offset = 1\<rparr>"

theorem storage_file_read_content_witness:
  "\<exists>rc msg' s'. storage_file_read (file_kernel [10, 20, 30]) sample_msg (put_read_req sample_read @ []) 16
     ready_storage = Some (rc, msg', s') \<and> last_sent s' = put_storage_msg msg' @ [20, 30]"
proof -
  have "\<not> interrupted (file_kernel f h c)" for f h c
    using calm_ok(4) [of 0] by (cases c) (auto simp: file_kernel_def eintr_bounded_def)
  then have e: "eintr_bounded 0 (file_kernel f)" for f by (simp add: eintr_bounded_def)
  have f: "reads_file (file_kernel f) fd f" for f fd
    by (auto simp: reads_file_def file_kernel_def ret_data_def Let_def min_def)
  show ?thesis
    using storage_file_read_content [OF e f, of sample_read ready_storage "[10, 20, 30]" sample_msg "[]"]
    by (auto simp: sample_read_def ready_storage_def dirty_storage_def MAX_READ_SIZE_def)
qed

text \<open>C5. Writing a file: when a write request is answered without error, the data of the
  request has reached the file completely: the pieces the kernel accepted on the descriptor
  are adjacent, start at the requested offset and add up to the request's data. On an error
  they are a prefix of it.\<close>

theorem storage_file_write_complete:
  assumes "storage_file_write k msg r n s = Some (rc, msg', s')" "io_bounded k" "errno_set k" "16 \<le> n"
  shows "\<exists>es w rest. hist s' = hist s @ es @ [(Writev (tipc_fd s) (last_sent s'), w)] \<and>
    contiguous (write_offset (get_write_req r)) (pieces (sint (write_handle (get_write_req r))) es) \<and>
    take (n - 16) (write_data (get_write_req r)) =
      payload (pieces (sint (write_handle (get_write_req r))) es) @ rest \<and>
    (m_result msg' = storage_err_code STORAGE_NO_ERROR \<longrightarrow> rest = [])"
proof -
  let ?q = "get_write_req r"
  obtain fd s1 where l: "lookup_fd (write_handle ?q) True s = (fd, s1)" by fastforce
  then have fd: "fd = sint (write_handle ?q)" "hist s1 = hist s" "tipc_fd s1 = tipc_fd s"
    by (auto simp: lookup_fd_def split: if_splits)
  from assms(1,4) l obtain rc1 s2 where
    w: "write_with_retry k fd (take (n - 16) (write_data ?q)) (write_offset ?q) s1 = Some (rc1, s2)"
    and r: "reply k msg (if rc1 < 0 then translate_errno (errno s2) else STORAGE_NO_ERROR) [] s2 = Some (rc, msg', s')"
    by (auto simp: storage_file_write_def Let_def bind_eq_Some_conv split: if_splits)
  from write_with_retry_wrote [OF w assms(2)] obtain es e rest where
    es: "s2 = s1\<lparr>hist := hist s1 @ es, errno := e\<rparr>" "contiguous (write_offset ?q) (pieces fd es)"
    "take (n - 16) (write_data ?q) = payload (pieces fd es) @ rest" "rc1 = 0 \<longrightarrow> rest = []" "rc1 \<le> 0"
    unfolding wrote_def by blast
  have "rc1 < 0 \<Longrightarrow> translate_errno (errno s2) \<noteq> STORAGE_NO_ERROR"
    using write_with_retry_errno [OF w assms(3)] by (simp add: translate_errno_def)
  then have "m_result msg' = storage_err_code STORAGE_NO_ERROR \<longrightarrow> rc1 = 0"
    using reply_answer(1) [OF r] es(5) by (auto simp: storage_err_code_inj split: if_splits)
  moreover obtain v where "hist s' = hist s2 @ [(Writev (tipc_fd s2) (last_sent s'), v)]"
    using reply_answer(2,3) [OF r] by auto
  ultimately show ?thesis using es fd by (intro exI [of _ es] exI [of _ v] exI [of _ rest]) auto
qed

definition sample_write :: storage_file_write_req where
  "sample_write = \<lparr>write_offset = 100, write_handle = 7, write_reserved = 0, write_data = [1, 2, 3]\<rparr>"

theorem storage_file_write_complete_witness:
  "\<exists>rc msg' s' es. storage_file_write calm sample_msg (put_write_req sample_write) 19 ready_storage =
     Some (rc, msg', s') \<and> contiguous 100 (pieces 7 es) \<and> payload (pieces 7 es) = [1, 2, 3]"
proof -
  have "\<exists>s'. write_with_retry calm fd bs off s = Some (0, s') \<and> tipc_fd s' = tipc_fd s" if "bs \<noteq> []" for fd bs off s
    using that
    by (simp add: write_with_retry.simps [of calm fd bs off s] temp_failure_retry_once sys_def calm_def
        write_with_retry.simps [of calm fd "[]"] Let_def) (simp add: ret_def write_with_retry.simps [of calm fd "[]"])
  from this [of "[1, 2, 3]" 7 100 "snd (lookup_fd 7 True ready_storage)"]
  have "\<exists>rc msg' s'. storage_file_write calm sample_msg (put_write_req sample_write) 19 ready_storage =
      Some (rc, msg', s') \<and> m_result msg' = storage_err_code STORAGE_NO_ERROR"
    by (auto simp: storage_file_write_def get_put_requests sample_write_def lookup_fd_def FD_TBL_SIZE_def
        reply_def ipc_respond_def ready_storage_def dirty_storage_def Let_def case_prod_unfold)
  then obtain rc msg' s' where
    w: "storage_file_write calm sample_msg (put_write_req sample_write) 19 ready_storage = Some (rc, msg', s')"
      "m_result msg' = storage_err_code STORAGE_NO_ERROR" by blast
  from storage_file_write_complete [OF w(1)] w show ?thesis
    by (auto simp: get_put_requests sample_write_def)
qed

lemma new_calls_append: "hist s' = hist s @ es \<Longrightarrow> new_calls s s' = map fst es"
  by (simp add: new_calls_def)

lemma new_calls_trans:
  "hist s1 = hist s @ es \<Longrightarrow> hist s2 = hist s1 @ es' \<Longrightarrow> new_calls s s2 = new_calls s s1 @ new_calls s1 s2"
  by (simp add: new_calls_def)

lemma retry_new_calls:
  assumes "temp_failure_retry k c s = Some (r, s')"
  shows "set (new_calls s s') = {c}" "\<exists>es. hist s' = hist s @ es"
proof -
  obtain es e where "s' = s\<lparr>hist := hist s @ es @ [(c, r)], errno := e\<rparr>" "\<forall>x \<in> set es. fst x = c"
    using retriedE [OF temp_failure_retry_retried [OF assms]] by metis
  then show "set (new_calls s s') = {c}" "\<exists>es. hist s' = hist s @ es" by (auto simp: new_calls_def)
qed

lemma do_open_calls:
  assumes "do_open k flags path s = Some (r, fl, s')" "c \<in> set (new_calls s s')"
  shows "\<exists>f. c = Open path f open_mode \<and> (
    if \<not> has_flag flags STORAGE_FILE_OPEN_CREATE then f = open_base flags
    else if has_flag flags STORAGE_FILE_OPEN_CREATE_EXCLUSIVE then f = open_base flags OR (O_CREAT OR O_EXCL)
    else f = open_base flags \<or> f = open_base flags OR O_CREAT)"
proof -
  have two: "c = Open path (open_base flags) open_mode \<or> c = Open path (open_base flags OR O_CREAT) open_mode"
    if "temp_failure_retry k (Open path (open_base flags) open_mode) s = Some (r1, s1)"
      "temp_failure_retry k (Open path (open_base flags OR O_CREAT) open_mode) s1 = Some (r, s')" for r1 s1
    using retry_new_calls [OF that(1)] retry_new_calls [OF that(2)] new_calls_trans [of s1 s _ s'] assms(2) by fastforce
  have one: "c = c0" if "temp_failure_retry k c0 s = Some (r, s')" for c0
    using retry_new_calls(1) [OF that] assms(2) by auto
  show ?thesis
    using assms(1) by (auto simp: do_open_def Let_def bind_eq_Some_conv split: if_splits dest: one two)
qed


definition missing_kernel :: kernel where
  "missing_kernel h c = (case c of Open p f m \<Rightarrow> if has_flag f O_CREAT then ret 9 else fail ENOENT | _ \<Rightarrow> calm h c)"


text \<open>C10. Closing a file: the descriptor is closed only directly after a successful \<open>fsync\<close> of
  it, so that its file is durable when it is closed.\<close>

theorem storage_file_close_flushes:
  assumes "storage_file_close k msg r n s = Some (rc, msg', s')" "hist s' = hist s @ es1 @ (Close fd, c) # es2"
  shows "fd = sint (get_close_req_handle r) \<and> (\<exists>f. es1 = [(Fsync fd, f)] \<and> 0 \<le> sr_rc f) \<and>
    durability R (hist s @ es1) (File fd) = Durable"
proof -
  obtain fd1 s1 where s1: "remove_fd (get_close_req_handle r) s = (fd1, s1)" by fastforce
  obtain f s2 where s2: "sys k (Fsync fd1) s1 = (f, s2)" by fastforce
  obtain x s3 where s3: "sys k (Close fd1) s2 = (x, s3)" by fastforce
  have h: "hist s1 = hist s" "fd1 = sint (get_close_req_handle r)" using s1 by (auto simp: remove_fd_def split: if_splits)
  from assms(1) s1 s2 s3 consider e where "reply k msg e [] s = Some (rc, msg', s')"
    | e where "reply k msg e [] s2 = Some (rc, msg', s')"
    | e where "0 \<le> sr_rc f" "reply k msg e [] s3 = Some (rc, msg', s')"
    by (auto simp: storage_file_close_def Let_def split: if_splits)
  then have "es1 = [(Fsync fd1, f)] \<and> fd = fd1 \<and> 0 \<le> sr_rc f"
    using assms(2) reply_answer(3) [of k msg _ "[]" _ rc msg' s'] h sys_eqD(2) [OF s2] sys_eqD(2) [OF s3]
    by cases (force simp: append_eq_Cons_conv Cons_eq_append_conv)+
  then show ?thesis using h(2) by (simp add: durability_step_def)
qed

definition close_request :: bytes where
  "close_request = put_u32 7"

theorem storage_file_close_flushes_witness:
  "\<exists>rc msg' s'. storage_file_close calm sample_msg close_request 4 ready_storage = Some (rc, msg', s') \<and>
     durability {4} (hist ready_storage @ [(Fsync 7, ret 0)]) (File 7) = Durable"
proof -
  have h: "get_close_req_handle close_request = 7"
    using get_put_u32 [of 7 "[]"] by (simp add: get_close_req_handle_def close_request_def)
  obtain rc msg' s' w where c: "storage_file_close calm sample_msg close_request 4 ready_storage = Some (rc, msg', s')"
    "hist s' = hist ready_storage @ [(Fsync 7, ret 0)] @ (Close 7, ret 0) # [w]"
    by (simp add: storage_file_close_def h remove_fd_def FD_TBL_SIZE_def sys_def calm_def ret_def Let_def reply_def
        ipc_respond_def ready_storage_def dirty_storage_def)
  from storage_file_close_flushes [OF c, of "{4}"] c(1) show ?thesis by simp
qed

text \<open>A failed close loses track of the file: when the \<open>fsync\<close> in a close request for a
  descriptor of the table fails, the request is answered with an error, the descriptor stays
  open with its pending changes, and the entry of the table is marked unused, so that the
  next checkpoint, which visits only dirty entries, does not synchronise it.\<close>

theorem storage_file_close_failure:
  assumes "storage_file_close k msg r 4 s = Some (rc, msg', s')" "unat (get_close_req_handle r) < FD_TBL_SIZE"
    and "sr_rc (k (hist s) (Fsync (sint (get_close_req_handle r)))) < 0" "errno_set k"
    and "length (fd_state s) = FD_TBL_SIZE" "durability R (hist s) (File (sint (get_close_req_handle r))) = Pending {} False"
    and "R \<noteq> {}"
  shows "m_result msg' \<noteq> storage_err_code STORAGE_NO_ERROR \<and>
    fd_state s' ! unat (get_close_req_handle r) = SS_UNUSED \<and> fs_state s' = fs_state s \<and>
    durability R (hist s') (File (sint (get_close_req_handle r))) = Pending {} True"
proof -
  let ?h = "get_close_req_handle r"
  let ?s1 = "s\<lparr>fd_state := (fd_state s)[unat ?h := SS_UNUSED]\<rparr>"
  obtain f s2 where s2: "sys k (Fsync (sint ?h)) ?s1 = (f, s2)" by fastforce
  have f: "f = k (hist s) (Fsync (sint ?h))" "sr_rc f < 0" using sys_eqD(1) [OF s2] assms(3) by simp_all
  have e: "errno s2 \<noteq> 0" using sys_eqD(4) [OF s2 f(2)] assms(4) f by (simp add: errno_set_def)
  from assms(1,2) s2 f(2) have r: "reply k msg (translate_errno (errno s2)) [] s2 = Some (rc, msg', s')"
    by (simp add: storage_file_close_def remove_fd_def Let_def)
  obtain w where h: "hist s' = hist s @ [(Fsync (sint ?h), f)] @ [(Writev (tipc_fd s2) (last_sent s'), w)]"
    using reply_answer(2,3) [OF r] sys_eqD(2) [OF s2] by auto
  have "translate_errno (errno s2) \<noteq> STORAGE_NO_ERROR" using e by (simp add: translate_errno_def)
  then have "m_result msg' \<noteq> storage_err_code STORAGE_NO_ERROR"
    using reply_answer(1) [OF r] by (simp add: storage_err_code_inj)
  moreover have "fd_state s' = fd_state ?s1 \<and> fs_state s' = fs_state s"
    using r sys_eqD(3) [OF s2] by (auto simp: reply_def ipc_respond_def sys_def Let_def split: if_splits)
  moreover have "durability R (hist s') (File (sint ?h)) = Pending {} True"
    using assms(6,7) f(2) by (simp add: h durability_step_def del: append.simps flip: append_assoc)
  ultimately show ?thesis using assms(2,5) by simp
qed

definition failing_kernel :: kernel where
  "failing_kernel h c = (case c of Fsync fd \<Rightarrow> fail EIO | _ \<Rightarrow> calm h c)"

theorem storage_file_close_failure_witness:
  "\<exists>rc msg' s'. storage_file_close failing_kernel sample_msg close_request 4 dirty_storage = Some (rc, msg', s') \<and>
     fd_state s' ! 7 = SS_UNUSED \<and> durability {4} (hist s') (File 7) = Pending {} True"
proof -
  have h: "get_close_req_handle close_request = 7"
    using get_put_u32 [of 7 "[]"] by (simp add: get_close_req_handle_def close_request_def)
  have "sr_rc (failing_kernel hs c) < 0 \<longrightarrow> sr_err (failing_kernel hs c) \<noteq> 0" for hs c
    using calm_ok(5) by (cases c) (auto simp: failing_kernel_def errno_set_def answer_defs)
  then have e: "errno_set failing_kernel" by (simp add: errno_set_def)
  have "returns (storage_file_close failing_kernel sample_msg close_request 4 dirty_storage)"
    by (rule handlers_return) (simp add: dirty_storage_def)
  then obtain rc msg' s' where
    c: "storage_file_close failing_kernel sample_msg close_request 4 dirty_storage = Some (rc, msg', s')"
    by (metis returns_def prod_cases3)
  show ?thesis
    using storage_file_close_failure [OF c _ _ e, of "{4}"] c
    by (simp add: h FD_TBL_SIZE_def failing_kernel_def fail_def dirty_storage_def durability_def durability_step_def)
qed

end
