(* ===== verification/Proxy_Props.thy ===== *)
theory Proxy_Props
  imports Proxy Storage_Props
begin

text \<open>
  The guarantees of the daemon as a whole: that it never blocks in a handler, that the
  message loop is the iteration of its step, how the commit flags of a message act, which
  privileges it keeps, and how it ends.
\<close>

section \<open>Liveness and the loop\<close>

lemma proxy_step_rc:
  assumes st: "proxy_step k msg s = Some (rc, msg', s')" and io: "io_bounded k" and inv: "proxy_inv s"
  shows "rc \<le> 0"
  using assms
proof (cases rule: proxy_step_cases)
  case (request n msg1 buf s1 e)
  then have "handler_ready s1" using inv by (simp add: proxy_inv_def ready_receive)
  from requests.handler_keeps_ready(2) [OF io this request(7)] show ?thesis by auto
qed simp

text \<open>C6. The daemon never gets stuck: in every state that the message loop reaches, one
  iteration returns, whatever request arrives, provided that the kernel does not interrupt
  calls for ever and that a write makes progress.\<close>

theorem proxy_step_returns:
  assumes "proxy_reach k (msg0, s0) (msg, s)" "io_bounded k" "kernel_live k" "proxy_inv s0"
  shows "\<exists>rc msg' s'. proxy_step k msg s = Some (rc, msg', s') \<and> rc \<le> 0 \<and> proxy_inv s'"
proof -
  have inv: "proxy_inv s" using proxy_reach_inv [OF assms(1,2,4)] by simp
  then have fd: "0 \<le> tipc_fd s" "REQ_BUFFER_SIZE \<le> length (req_buffer s)" "handler_ready s"
    by (auto simp: proxy_inv_def handler_ready_def)
  obtain n msg1 buf s1 where g: "ipc_get_msg k msg (req_buffer s) REQ_BUFFER_SIZE s = Some (n, msg1, buf, s1)"
    using ipc_get_msg_returns [OF fd(1)] by (metis returns_def prod_cases4)
  from ipc_get_msg_spec(4) [OF assms(2) fd(2) g]
  have ready: "handler_ready (s1\<lparr>req_buffer := b\<rparr>)" for b
    using fd(3) by (auto simp: ready_receive)
  have "returns (proxy_step k msg s)"
    using g requests.handler_returns [OF assms(2) ready assms(3)]
    by (auto simp: proxy_step_def Let_def)
  then obtain rc msg' s' where st: "proxy_step k msg s = Some (rc, msg', s')"
    by (metis returns_def prod_cases3)
  have "rc \<le> 0" using st assms(2) inv by (rule proxy_step_rc)
  with st proxy_step_keeps [OF st assms(2) inv] show ?thesis by blast
qed

lemma calm_live: "kernel_live calm"
  using calm_ok by (auto simp: kernel_live_def)

theorem proxy_step_returns_witness:
  "\<exists>rc msg' s'. proxy_step calm odd_msg idle_state = Some (rc, msg', s') \<and> rc \<le> 0 \<and> proxy_inv s'"
  by (rule proxy_step_returns [OF proxy_reach.start calm_ok(2) calm_live idle_inv])


section \<open>Commit flags\<close>

text \<open>A message that asks for a commit after it, other than an RPMB request, is refused:
  the answer is UNIMPLEMENTED, and sending it is the only call that is made.\<close>

theorem post_commit_refused:
  assumes "has_flag (m_flags msg) STORAGE_MSG_FLAG_POST_COMMIT" "m_cmd msg \<noteq> storage_cmd_code STORAGE_RPMB_SEND"
    and "handle_req k msg req n s = Some (rc, msg', s')"
  shows "msg' = answer_msg msg STORAGE_ERR_UNIMPLEMENTED \<and> new_calls s s' = [Writev (tipc_fd s) (put_storage_msg msg')] \<and>
    fd_state s' = fd_state s \<and> dir_state s' = dir_state s \<and> fs_state s' = fs_state s"
  using assms
  by (auto simp: handle_req_def reply_def ipc_respond_def sys_def Let_def answer_msg_def new_calls_def split: if_splits)

definition post_commit_msg :: storage_msg where
  "post_commit_msg = \<lparr>m_cmd = storage_cmd_code STORAGE_FILE_DELETE, m_op_id = 7, m_flags = STORAGE_MSG_FLAG_POST_COMMIT,
     m_size = 28, m_result = 0, m_reserved = 0\<rparr>"

theorem post_commit_refused_witness:
  "\<exists>rc msg' s'. handle_req calm post_commit_msg [] 4 idle_state = Some (rc, msg', s') \<and>
     new_calls idle_state s' = [Writev 3 (put_storage_msg msg')]"
proof -
  have f: "has_flag (m_flags post_commit_msg) STORAGE_MSG_FLAG_POST_COMMIT"
    "m_cmd post_commit_msg \<noteq> storage_cmd_code STORAGE_RPMB_SEND"
    by (simp_all add: post_commit_msg_def has_flag_def storage_flag_consts storage_cmd_code_inj)
  obtain rc msg' s' where h: "handle_req calm post_commit_msg [] 4 idle_state = Some (rc, msg', s')"
    using handle_req_returns [OF calm_ok(2) _ calm_live, of idle_state] idle_inv
    by (metis returns_def prod_cases3 proxy_inv_def)
  from post_commit_refused [OF f h] h show ?thesis by (simp add: idle_state_def)
qed


definition pre_commit_msg :: storage_msg where
  "pre_commit_msg = odd_msg\<lparr>m_flags := STORAGE_MSG_FLAG_PRE_COMMIT\<rparr>"


section \<open>Names in requests\<close>

text \<open>The name in a request ends inside the buffer: the terminator that the loop forces
  after the received bytes bounds \<open>strlen\<close>, so a name never extends beyond what was
  received, and the copy of it in a path has no NUL in it.\<close>

theorem received_name_bounded:
  assumes "proxy_step k msg s = Some (rc, msg', s')" "io_bounded k" "proxy_inv s" "0 \<le> rc"
  shows "\<exists>n msg1 s1. handle_req k msg1 (req_buffer s1) n s1 = Some (rc, msg', s') \<and>
    sr_out (received k s) = put_storage_msg msg1 @ take n (req_buffer s1) \<and>
    n < length (req_buffer s1) \<and>
    (4 \<le> n \<longrightarrow> c_strlen (get_delete_req_name (req_buffer s1)) \<le> n - 4 \<and>
               c_strlen (open_name (get_open_req (req_buffer s1))) \<le> n - 4)"
  using assms(1-3)
proof (cases rule: proxy_step_cases)
  case stop
  with assms(4) show ?thesis by simp
next
  case (request n msg1 buf s1 e)
  have "c_strlen (drop 4 buf) \<le> n - 4" if "4 \<le> n"
    using c_str_nul_at [of "n - 4" "drop 4 buf"] request(1-3) that by simp
  then show ?thesis
    using request by (intro exI [of _ n] exI [of _ msg1] exI [of _ s1])
      (simp add: get_delete_req_name_def get_open_req_def)
qed

theorem received_name_bounded_witness:
  "\<exists>n msg1 s1. sr_out (received odd_kernel idle_state) = put_storage_msg msg1 @ take n (req_buffer (s1 :: proxy)) \<and>
     n < length (req_buffer s1)"
proof -
  obtain msg' s' where st: "proxy_step odd_kernel odd_msg idle_state = Some (0, msg', s')" using odd_step by blast
  have io: "io_bounded odd_kernel" by (simp add: odd_kernel_def sending_kernel_io)
  from received_name_bounded [OF st io idle_inv] show ?thesis by blast
qed

section \<open>Privileges and exit\<close>

text \<open>C13. Dropping privileges: success means that the group, the user and the capabilities were
  changed, in this order and before anything else, and that only \<open>CAP_SYS_RAWIO\<close> remains;
  otherwise the program exits with failure and opens nothing.\<close>

theorem drop_privs_first:
  "(\<forall>s'. drop_privs k s = (0, s') \<longrightarrow>
      (\<exists>p g u c m. hist s' = hist s @ [(Prctl_keepcaps, p), (Setgid 1000, g), (Setuid 1000, u), (Capset [17], c),
         (Umask 0x7F, m)] \<and> sr_rc g = 0 \<and> sr_rc u = 0 \<and> 0 \<le> sr_rc c)) \<and>
   (\<forall>s'. drop_privs k s = (- 1, s') \<longrightarrow>
      main k args msg s = Some (EXIT_FAILURE, s') \<and> count_calls is_open s s' = 0)"
proof (intro conjI allI impI)
  fix s' assume "drop_privs k s = (0, s')"
  then show "\<exists>p g u c m. hist s' = hist s @ [(Prctl_keepcaps, p), (Setgid 1000, g), (Setuid 1000, u), (Capset [17], c),
         (Umask 0x7F, m)] \<and> sr_rc g = 0 \<and> sr_rc u = 0 \<and> 0 \<le> sr_rc c"
    by (auto simp: drop_privs_def sys_def Let_def AID_SYSTEM_def CAP_SYS_RAWIO_def split: if_splits)
next
  fix s' assume d: "drop_privs k s = (- 1, s')"
  then show "main k args msg s = Some (EXIT_FAILURE, s')" by (simp add: main_def)
  from d show "count_calls is_open s s' = 0"
    by (auto simp: drop_privs_def sys_def Let_def count_calls_def new_calls_def is_open_def split: if_splits)
qed

theorem drop_privs_first_witness:
  "\<exists>s'. drop_privs calm start_state = (0, s') \<and>
     (\<exists>g. (Setgid 1000, g) \<in> set (hist s') \<and> sr_rc g = 0)"
proof -
  have "\<exists>s'. drop_privs calm start_state = (0, s')"
    by (simp add: drop_privs_def sys_def calm_def ret_def Let_def)
  then obtain s' where d: "drop_privs calm start_state = (0, s')" by blast
  with drop_privs_first [of calm start_state] show ?thesis by fastforce
qed

section \<open>From the start to the loop\<close>

text \<open>States before the first request: nothing has been changed yet.\<close>

definition pristine :: "'a proxy_scheme \<Rightarrow> bool" where
  "pristine s \<longleftrightarrow> (\<forall>ev \<in> set (hist s). \<forall>ob. \<not> touches ob ev) \<and> length (fd_state s) = FD_TBL_SIZE \<and>
     fs_state s \<noteq> SS_UNUSED \<and> length (read_rsp s) = MAX_READ_SIZE \<and> length (req_buffer s) = REQ_BUFFER_SIZE + 1"

definition quiet_call :: "syscall \<Rightarrow> bool" where
  "quiet_call c \<longleftrightarrow> (\<forall>ob r. \<not> touches ob (c, r))"

lemma quiet_calls [simp]:
  "quiet_call (Open p O_RDONLY m)" "quiet_call (Open p O_RDWR m)" "quiet_call Prctl_keepcaps"
  "quiet_call (Setgid n)" "quiet_call (Setuid n)" "quiet_call (Capset cs)" "quiet_call (Umask u)"
  "quiet_call (Malloc n)" "quiet_call (Ioctl fd q)" "quiet_call (Close fd)" "quiet_call (Sleep n)"
proof -
  have "quiet_call (Open p f m)" if "\<not> has_flag f O_TRUNC" "\<not> has_flag f O_CREAT" for f
    unfolding quiet_call_def by (intro allI, rename_tac ob r, case_tac ob) (use that in auto)
  then show "quiet_call (Open p O_RDONLY m)" "quiet_call (Open p O_RDWR m)" by (simp_all add: has_flag_def)
qed (auto simp: quiet_call_def elim: touches.elims)

lemma pristine_sys [simp]: "pristine s \<Longrightarrow> quiet_call c \<Longrightarrow> pristine (snd (sys k c s))"
  by (auto simp: pristine_def sys_def Let_def quiet_call_def)

lemma pristine_update [simp]:
  "pristine (s\<lparr>ssdir_fd := d\<rparr>) = pristine s" "pristine (s\<lparr>ssdir_name := n\<rparr>) = pristine s"
  "pristine (s\<lparr>ss_persistent_dir_fd := d\<rparr>) = pristine s" "pristine (s\<lparr>ss_persistent_dir_name := n\<rparr>) = pristine s"
  "pristine (s\<lparr>ss_proinfo_node_fd := d\<rparr>) = pristine s" "pristine (s\<lparr>rpmb_fd := d\<rparr>) = pristine s"
  "pristine (s\<lparr>tipc_fd := d\<rparr>) = pristine s" "pristine (s\<lparr>trusty_devname := n\<rparr>) = pristine s"
  "pristine (s\<lparr>ss_data_root := n\<rparr>) = pristine s" "pristine (s\<lparr>rpmb_devname := n\<rparr>) = pristine s"
  "pristine (s\<lparr>ss_persistent_root := n\<rparr>) = pristine s" "pristine (s\<lparr>init_proinfo := n\<rparr>) = pristine s"
  "pristine (s\<lparr>ss_srv_name := n\<rparr>) = pristine s"
  by (simp_all add: pristine_def)

lemma pristine_drop_privs: "pristine s \<Longrightarrow> pristine (snd (drop_privs k s))"
  by (simp add: drop_privs_def Let_def case_prod_unfold)

lemma pristine_strdup:
  "strdup k str s = (v, s') \<Longrightarrow> pristine s \<Longrightarrow> pristine s' \<and> tipc_fd s' = tipc_fd s"
  by (auto simp: strdup_def Let_def case_prod_unfold)

lemma pristine_apply_opts:
  "apply_opts k opts s = Inr s' \<Longrightarrow> pristine s \<Longrightarrow> pristine s' \<and> tipc_fd s' = tipc_fd s"
proof (induction opts arbitrary: s)
  case (Cons o1 opts)
  obtain opt optarg where o: "o1 = (opt, Some optarg)"
    using Cons.prems(1) by (cases o1; cases "snd o1") auto
  obtain v s1 where d: "strdup k optarg s = (v, s1)" by fastforce
  then obtain s2 where s2: "apply_opts k opts s2 = Inr s'" "pristine s2 = pristine s1" "tipc_fd s2 = tipc_fd s1"
    using Cons.prems(1) unfolding o by (auto split: if_splits)
  from Cons.IH [OF s2(1)] s2 pristine_strdup [OF d Cons.prems(2)] show ?case by simp
qed simp

lemma pristine_parse_args:
  "parse_args k args s = Inr s' \<Longrightarrow> pristine s \<Longrightarrow> pristine s' \<and> tipc_fd s' = tipc_fd s"
  using pristine_apply_opts [of k "getopt_long [] args" s s']
  by (auto simp: parse_args_def split: sum.splits if_splits)

lemma pristine_storage_inits [simp]:
  assumes "pristine s"
  shows "pristine (snd (storage_init k d s))" "pristine (snd (storage_persistent_init k d s))"
    "pristine (snd (storage_proinfo_init k d s))" "pristine (snd (rpmb_open k d s))"
proof -
  have "pristine (s\<lparr>fs_state := SS_CLEAN, dir_state := SS_CLEAN, fd_state := replicate FD_TBL_SIZE SS_UNUSED\<rparr>)"
    using assms by (simp add: pristine_def)
  with assms show "pristine (snd (storage_init k d s))" "pristine (snd (storage_persistent_init k d s))"
    "pristine (snd (storage_proinfo_init k d s))" "pristine (snd (rpmb_open k d s))"
    by (simp_all add: storage_init_def storage_persistent_init_def storage_proinfo_init_def rpmb_open_def
        Let_def case_prod_unfold)
qed

lemma pristine_init_storage: "pristine s \<Longrightarrow> pristine (snd (init_storage k s))"
  by (simp add: init_storage_def Let_def case_prod_unfold split: option.split)

lemma tipc_fd_init_storage: "tipc_fd (snd (init_storage k s)) = tipc_fd s"
  by (simp add: init_storage_def storage_init_def storage_persistent_init_def storage_proinfo_init_def rpmb_open_def
      Let_def case_prod_unfold split: option.split)

lemma tipc_fd_drop_privs: "tipc_fd (snd (drop_privs k (s :: 'a proxy_scheme))) = tipc_fd s"
  by (simp add: drop_privs_def Let_def case_prod_unfold)

lemma pristine_tipc_connect: "pristine s \<Longrightarrow> pristine (snd (tipc_connect k dev srv s))"
  by (simp add: tipc_connect_def Let_def case_prod_unfold)

lemma pristine_ipc_connect_loop:
  "ipc_connect_loop k dev srv n s = (rc, s') \<Longrightarrow> n \<le> MAX_RECONNECT_RETRY_COUNT \<Longrightarrow> pristine s \<Longrightarrow>
   pristine s' \<and> (0 \<le> rc \<longrightarrow> 0 \<le> tipc_fd s')"
proof (induction "MAX_RECONNECT_RETRY_COUNT - n" arbitrary: n s rule: less_induct)
  case less
  have p: "pristine s1" if "tipc_connect k dev srv s = (x, s1)" for x s1
    using pristine_tipc_connect [OF less.prems(3), of k dev srv] that by simp
  from less.prems(1,2) show ?case
  proof (cases rule: ipc_connect_loop_cases)
    case (again e s1)
    then show ?thesis using p [OF again(1)] by (intro less.hyps [OF _ again(4)]) auto
  qed (use p in auto)
qed

lemma pristine_proxy_inv: "pristine s \<Longrightarrow> 0 \<le> tipc_fd s \<Longrightarrow> proxy_inv s"
proof -
  assume p: "pristine s" and fd: "0 \<le> tipc_fd s"
  have "\<not> outstanding R (hist s) ob" for R ob
    using p outstanding_append [of R "[]" "hist s" ob]
    by (auto simp: pristine_def outstanding_def durability_def)
  with p fd show ?thesis by (simp add: proxy_inv_def handler_ready_def sync_inv_except_def pristine_def)
qed

text \<open>The whole program: when \<open>main\<close> returns from the states in which it starts, it has
  failed to start or its loop has ended, and it answers \<open>EXIT_FAILURE\<close> in every case; a
  state in which the message loop is entered satisfies the invariant of the loop.\<close>

theorem main_exits_with_failure:
  assumes "main k args msg s = Some (rc, s')" "io_bounded k" "pristine s" "tipc_fd s = - 1"
  shows "rc = EXIT_FAILURE"
proof (rule ccontr)
  assume nf: "rc \<noteq> EXIT_FAILURE"
  obtain r1 s1 where s1: "drop_privs k s = (r1, s1)" by fastforce
  have p1: "pristine s1" "tipc_fd s1 = - 1"
    using pristine_drop_privs [OF assms(3), of k] tipc_fd_drop_privs [of k s] s1 assms(4) by simp_all
  from assms(1) nf s1 obtain s2 where s2: "parse_args k args s1 = Inr s2"
    by (auto simp: main_def split: if_splits sum.splits)
  note p2 = pristine_parse_args [OF s2 p1(1)]
  obtain ok s3 where s3: "init_storage k s2 = (ok, s3)" by fastforce
  have p3: "pristine s3" "tipc_fd s3 = - 1"
    using pristine_init_storage [of s2 k] tipc_fd_init_storage [of k s2] s3 p1 p2 by simp_all
  let ?dev = "the (trusty_devname s3)" and ?srv = "the (ss_srv_name s3)"
  obtain r4 s4 where s4: "ipc_connect_loop k ?dev ?srv 0 s3 = (r4, s4)" by fastforce
  have c: "ipc_connect k ?dev ?srv s3 = Some (r4, s4)" using p3 s4 by (simp add: ipc_connect_def)
  from assms(1) nf s1 s2 s3 c obtain r5 s5 where l: "0 \<le> r4" "proxy_loop k msg s4 = Some (r5, s5)" "0 \<le> r5"
    by (auto simp: main_def bind_eq_Some_conv Let_def split: if_splits)
  have inv: "proxy_inv s4" using pristine_ipc_connect_loop [OF s4 _ p3(1)] l(1) by (simp add: pristine_proxy_inv)
  from proxy_loop_reach [OF l(2)] obtain m1 t1 m2 where
    r: "proxy_reach k (msg, s4) (m1, t1)" "proxy_step k m1 t1 = Some (r5, m2, s5)" "r5 \<noteq> 0" by blast
  have inv1: "proxy_inv t1" using proxy_reach_inv [OF r(1) assms(2) inv] by simp
  from r(2) assms(2) inv1 have "r5 \<le> 0" by (rule proxy_step_rc)
  with l(3) r(3) show False by simp
qed

theorem main_exits_with_failure_witness:
  "\<exists>rc s'. main calm [''-x''] odd_msg start_state = Some (rc, s') \<and> rc = EXIT_FAILURE"
proof -
  have p: "pristine start_state" "tipc_fd start_state = - 1" by (simp_all add: pristine_def start_state_def)
  have "\<exists>rc s'. main calm [''-x''] odd_msg start_state = Some (rc, s')"
    by (simp add: main_def drop_privs_def parse_args_def short_opt_def sys_def calm_def ret_def Let_def)
  then obtain rc s' where m: "main calm [''-x''] odd_msg start_state = Some (rc, s')" by blast
  with main_exits_with_failure [OF m calm_ok(2) p] show ?thesis by blast
qed

end
