(* ===== verification/Teec_Types.thy ===== *)
theory Teec_Types
  imports Posix
begin

text \<open>
  The data of the GlobalPlatform client library: the constants and structures of
  \<open>optee_client/public/tee_client_api.h\<close> and the structures that
  \<open>libteec/include/linux/tee.h\<close> defines for the driver, with their layout in memory.

  A pointer is a natural number and \<open>NULL\<close> is 0. \<open>size_t\<close> is 64 bits wide, C \<open>int\<close> values
  (identifiers and descriptors) are integers. The members of the union
  \<open>TEEC_Parameter\<close> are kept apart: which of them is in use is decided by
  \<open>paramTypes\<close>, which no operation of the library changes. The members of the union in
  \<open>struct tee_ioctl_param\<close> have the same three words.
\<close>

type_synonym ptr = nat

section \<open>Constants\<close>

definition TEEC_CONFIG_PAYLOAD_REF_COUNT :: nat where [simp]: "TEEC_CONFIG_PAYLOAD_REF_COUNT = 4"
definition TEEC_CONFIG_SHAREDMEM_MAX_SIZE :: nat where "TEEC_CONFIG_SHAREDMEM_MAX_SIZE = 0x8000"

definition TEEC_NONE :: u32 where [simp]: "TEEC_NONE = 0"
definition TEEC_VALUE_INPUT :: u32 where [simp]: "TEEC_VALUE_INPUT = 1"
definition TEEC_VALUE_OUTPUT :: u32 where [simp]: "TEEC_VALUE_OUTPUT = 2"
definition TEEC_VALUE_INOUT :: u32 where [simp]: "TEEC_VALUE_INOUT = 3"
definition TEEC_MEMREF_TEMP_INPUT :: u32 where [simp]: "TEEC_MEMREF_TEMP_INPUT = 5"
definition TEEC_MEMREF_TEMP_OUTPUT :: u32 where [simp]: "TEEC_MEMREF_TEMP_OUTPUT = 6"
definition TEEC_MEMREF_TEMP_INOUT :: u32 where [simp]: "TEEC_MEMREF_TEMP_INOUT = 7"
definition TEEC_MEMREF_WHOLE :: u32 where [simp]: "TEEC_MEMREF_WHOLE = 0xC"
definition TEEC_MEMREF_PARTIAL_INPUT :: u32 where [simp]: "TEEC_MEMREF_PARTIAL_INPUT = 0xD"
definition TEEC_MEMREF_PARTIAL_OUTPUT :: u32 where [simp]: "TEEC_MEMREF_PARTIAL_OUTPUT = 0xE"
definition TEEC_MEMREF_PARTIAL_INOUT :: u32 where [simp]: "TEEC_MEMREF_PARTIAL_INOUT = 0xF"

definition TEEC_MEM_INPUT :: u32 where [simp]: "TEEC_MEM_INPUT = 1"
definition TEEC_MEM_OUTPUT :: u32 where [simp]: "TEEC_MEM_OUTPUT = 2"
definition TEEC_MEM_ION :: u32 where [simp]: "TEEC_MEM_ION = 0x1000000"

definition TEEC_SUCCESS :: u32 where [simp]: "TEEC_SUCCESS = 0"
definition TEEC_ERROR_GENERIC :: u32 where [simp]: "TEEC_ERROR_GENERIC = 0xFFFF0000"
definition TEEC_ERROR_ACCESS_DENIED :: u32 where [simp]: "TEEC_ERROR_ACCESS_DENIED = 0xFFFF0001"
definition TEEC_ERROR_CANCEL :: u32 where [simp]: "TEEC_ERROR_CANCEL = 0xFFFF0002"
definition TEEC_ERROR_ACCESS_CONFLICT :: u32 where [simp]: "TEEC_ERROR_ACCESS_CONFLICT = 0xFFFF0003"
definition TEEC_ERROR_EXCESS_DATA :: u32 where [simp]: "TEEC_ERROR_EXCESS_DATA = 0xFFFF0004"
definition TEEC_ERROR_BAD_FORMAT :: u32 where [simp]: "TEEC_ERROR_BAD_FORMAT = 0xFFFF0005"
definition TEEC_ERROR_BAD_PARAMETERS :: u32 where [simp]: "TEEC_ERROR_BAD_PARAMETERS = 0xFFFF0006"
definition TEEC_ERROR_BAD_STATE :: u32 where [simp]: "TEEC_ERROR_BAD_STATE = 0xFFFF0007"
definition TEEC_ERROR_ITEM_NOT_FOUND :: u32 where [simp]: "TEEC_ERROR_ITEM_NOT_FOUND = 0xFFFF0008"
definition TEEC_ERROR_NOT_IMPLEMENTED :: u32 where [simp]: "TEEC_ERROR_NOT_IMPLEMENTED = 0xFFFF0009"
definition TEEC_ERROR_NOT_SUPPORTED :: u32 where [simp]: "TEEC_ERROR_NOT_SUPPORTED = 0xFFFF000A"
definition TEEC_ERROR_NO_DATA :: u32 where [simp]: "TEEC_ERROR_NO_DATA = 0xFFFF000B"
definition TEEC_ERROR_OUT_OF_MEMORY :: u32 where [simp]: "TEEC_ERROR_OUT_OF_MEMORY = 0xFFFF000C"
definition TEEC_ERROR_BUSY :: u32 where [simp]: "TEEC_ERROR_BUSY = 0xFFFF000D"
definition TEEC_ERROR_COMMUNICATION :: u32 where [simp]: "TEEC_ERROR_COMMUNICATION = 0xFFFF000E"
definition TEEC_ERROR_SECURITY :: u32 where [simp]: "TEEC_ERROR_SECURITY = 0xFFFF000F"
definition TEEC_ERROR_SHORT_BUFFER :: u32 where [simp]: "TEEC_ERROR_SHORT_BUFFER = 0xFFFF0010"
definition TEEC_ERROR_EXTERNAL_CANCEL :: u32 where [simp]: "TEEC_ERROR_EXTERNAL_CANCEL = 0xFFFF0011"
definition TEEC_ERROR_TARGET_DEAD :: u32 where [simp]: "TEEC_ERROR_TARGET_DEAD = 0xFFFF3024"

definition TEEC_ORIGIN_API :: u32 where [simp]: "TEEC_ORIGIN_API = 1"
definition TEEC_ORIGIN_COMMS :: u32 where [simp]: "TEEC_ORIGIN_COMMS = 2"
definition TEEC_ORIGIN_TEE :: u32 where [simp]: "TEEC_ORIGIN_TEE = 3"
definition TEEC_ORIGIN_TRUSTED_APP :: u32 where [simp]: "TEEC_ORIGIN_TRUSTED_APP = 4"

definition TEEC_LOGIN_PUBLIC :: u32 where [simp]: "TEEC_LOGIN_PUBLIC = 0"
definition TEEC_LOGIN_USER :: u32 where [simp]: "TEEC_LOGIN_USER = 1"
definition TEEC_LOGIN_GROUP :: u32 where [simp]: "TEEC_LOGIN_GROUP = 2"
definition TEEC_LOGIN_APPLICATION :: u32 where [simp]: "TEEC_LOGIN_APPLICATION = 4"
definition TEEC_LOGIN_USER_APPLICATION :: u32 where [simp]: "TEEC_LOGIN_USER_APPLICATION = 5"
definition TEEC_LOGIN_GROUP_APPLICATION :: u32 where [simp]: "TEEC_LOGIN_GROUP_APPLICATION = 6"

definition TEEC_PARAM_TYPES :: "u32 \<Rightarrow> u32 \<Rightarrow> u32 \<Rightarrow> u32 \<Rightarrow> u32" where
  "TEEC_PARAM_TYPES p0 p1 p2 p3 = p0 OR push_bit 4 p1 OR push_bit 8 p2 OR push_bit 12 p3"

definition TEEC_PARAM_TYPE_GET :: "u32 \<Rightarrow> nat \<Rightarrow> u32" where
  "TEEC_PARAM_TYPE_GET p i = drop_bit (i * 4) p AND 0xF"

section \<open>Structures of the interface\<close>

type_synonym TEEC_Result = u32

record TEEC_Context =
  ctx_fd :: int

record TEEC_UUID =
  timeLow :: u32
  timeMid :: u16
  timeHiAndVersion :: u16
  clockSeqAndNode :: bytes

record TEEC_SharedMemory =
  shm_buffer :: ptr
  shm_size :: u64
  shm_flags :: u32
  shm_id :: int
  alloced_size :: u64
  shadow_buffer :: ptr
  registered_fd :: int

record TEEC_TempMemoryReference =
  tmp_buffer :: ptr
  tmp_size :: u64

record TEEC_RegisteredMemoryReference =
  ref_parent :: ptr
  ref_size :: u64
  ref_offset :: u64

record TEEC_Value =
  val_a :: u32
  val_b :: u32

record TEEC_Parameter =
  tmpref :: TEEC_TempMemoryReference
  memref :: TEEC_RegisteredMemoryReference
  value_ab :: TEEC_Value

record TEEC_Session =
  sess_ctx :: ptr
  session_id :: u32

record TEEC_Operation =
  started :: u32
  paramTypes :: u32
  op_params :: "TEEC_Parameter list"
  op_session :: ptr

section \<open>Structures of the driver interface\<close>

definition TEE_MAX_HOSTNAME_SIZE :: nat where [simp]: "TEE_MAX_HOSTNAME_SIZE = 16"
definition TEE_GEN_CAP_GP :: u32 where [simp]: "TEE_GEN_CAP_GP = push_bit 0 1"
definition TEE_IOCTL_UUID_LEN :: nat where [simp]: "TEE_IOCTL_UUID_LEN = 16"
definition TEE_IOCTL_PARAM_ATTR_TYPE_MEMREF_INPUT :: u64 where [simp]:
  "TEE_IOCTL_PARAM_ATTR_TYPE_MEMREF_INPUT = 5"
definition TEE_IOCTL_PARAM_ATTR_TYPE_MEMREF_OUTPUT :: u64 where [simp]:
  "TEE_IOCTL_PARAM_ATTR_TYPE_MEMREF_OUTPUT = 6"
definition TEE_IOCTL_PARAM_ATTR_TYPE_MEMREF_INOUT :: u64 where [simp]:
  "TEE_IOCTL_PARAM_ATTR_TYPE_MEMREF_INOUT = 7"

text \<open>
  \<open>u0\<close>, \<open>u1\<close>, \<open>u2\<close> are \<open>shm_offs\<close>, \<open>size\<close>, \<open>shm_id\<close> of \<open>u.memref\<close> and \<open>a\<close>, \<open>b\<close>, \<open>c\<close>
  of \<open>u.value\<close>.
\<close>

record tee_ioctl_param =
  attr :: u64
  u0 :: u64
  u1 :: u64
  u2 :: u64

definition put_param :: "tee_ioctl_param \<Rightarrow> bytes" where
  "put_param p = put_u64 (attr p) @ put_u64 (u0 p) @ put_u64 (u1 p) @ put_u64 (u2 p)"

definition get_param :: "bytes \<Rightarrow> nat \<Rightarrow> tee_ioctl_param" where
  "get_param buf off = \<lparr>attr = get_u64 buf off, u0 = get_u64 buf (off + 8),
     u1 = get_u64 buf (off + 16), u2 = get_u64 buf (off + 24)\<rparr>"

definition zero_param :: tee_ioctl_param where
  "zero_param = \<lparr>attr = 0, u0 = 0, u1 = 0, u2 = 0\<rparr>"

text \<open>The parameters that follow an argument structure of \<open>off\<close> bytes.\<close>

definition put_params :: "tee_ioctl_param list \<Rightarrow> bytes" where
  "put_params ps = concat (map put_param ps)"

definition get_params :: "nat \<Rightarrow> bytes \<Rightarrow> tee_ioctl_param list" where
  "get_params off buf = map (\<lambda>n. get_param buf (off + 32 * n)) [0..<TEEC_CONFIG_PAYLOAD_REF_COUNT]"

record tee_ioctl_open_session_arg =
  oa_uuid :: bytes
  oa_clnt_uuid :: bytes
  oa_clnt_login :: u32
  oa_cancel_id :: u32
  oa_session :: u32
  oa_ret :: u32
  oa_ret_origin :: u32
  oa_num_params :: u32

definition put_open_arg :: "tee_ioctl_open_session_arg \<Rightarrow> bytes" where
  "put_open_arg a = oa_uuid a @ oa_clnt_uuid a @ put_u32 (oa_clnt_login a) @ put_u32 (oa_cancel_id a) @
     put_u32 (oa_session a) @ put_u32 (oa_ret a) @ put_u32 (oa_ret_origin a) @ put_u32 (oa_num_params a)"

definition get_open_arg :: "bytes \<Rightarrow> tee_ioctl_open_session_arg" where
  "get_open_arg buf = \<lparr>oa_uuid = take 16 buf, oa_clnt_uuid = take 16 (drop 16 buf),
     oa_clnt_login = get_u32 buf 32, oa_cancel_id = get_u32 buf 36, oa_session = get_u32 buf 40,
     oa_ret = get_u32 buf 44, oa_ret_origin = get_u32 buf 48, oa_num_params = get_u32 buf 52\<rparr>"

record tee_ioctl_invoke_arg =
  ia_func :: u32
  ia_session :: u32
  ia_cancel_id :: u32
  ia_ret :: u32
  ia_ret_origin :: u32
  ia_num_params :: u32

definition put_invoke_arg :: "tee_ioctl_invoke_arg \<Rightarrow> bytes" where
  "put_invoke_arg a = put_u32 (ia_func a) @ put_u32 (ia_session a) @ put_u32 (ia_cancel_id a) @
     put_u32 (ia_ret a) @ put_u32 (ia_ret_origin a) @ put_u32 (ia_num_params a)"

definition get_invoke_arg :: "bytes \<Rightarrow> tee_ioctl_invoke_arg" where
  "get_invoke_arg buf = \<lparr>ia_func = get_u32 buf 0, ia_session = get_u32 buf 4,
     ia_cancel_id = get_u32 buf 8, ia_ret = get_u32 buf 12, ia_ret_origin = get_u32 buf 16,
     ia_num_params = get_u32 buf 20\<rparr>"

text \<open>\<open>uuid_to_octets\<close> of \<open>tee_client_api.cpp\<close>: assignments to \<open>uint8_t\<close> truncate.\<close>

definition uuid_to_octets :: "TEEC_UUID \<Rightarrow> bytes" where
  "uuid_to_octets s =
     [ucast (drop_bit 24 (timeLow s)), ucast (drop_bit 16 (timeLow s)), ucast (drop_bit 8 (timeLow s)),
      ucast (timeLow s), ucast (drop_bit 8 (timeMid s)), ucast (timeMid s),
      ucast (drop_bit 8 (timeHiAndVersion s)), ucast (timeHiAndVersion s)] @ clockSeqAndNode s"

definition uuid_wf :: "TEEC_UUID \<Rightarrow> bool" where
  "uuid_wf u \<longleftrightarrow> length (clockSeqAndNode u) = 8"

section \<open>Facts\<close>

lemma nibble_bit: 
  assumes "p < 16" "bit (p :: u32) n"
  shows "n < 4"
proof -
  have "unat p < 2 ^ 4" using assms(1) by (simp add: word_less_nat_alt)
  then have "take_bit 4 (unat p) = unat p" by (simp add: take_bit_nat_eq_self_iff)
  moreover have "bit (unat p) n" using assms(2) by (simp add: bit_unsigned_iff)
  ultimately show ?thesis by (metis bit_take_bit_iff)
qed

lemma param_type_get_mask: "TEEC_PARAM_TYPE_GET p i = take_bit 4 (drop_bit (i * 4) p)"
  by (simp add: TEEC_PARAM_TYPE_GET_def take_bit_eq_mask mask_eq_exp_minus_1)

lemma param_type_get_bit: "bit (TEEC_PARAM_TYPE_GET p i) n \<longleftrightarrow> n < 4 \<and> bit p (i * 4 + n)"
  by (simp add: param_type_get_mask bit_take_bit_iff bit_drop_bit_eq)

lemma param_types_bit:
  "bit (TEEC_PARAM_TYPES p0 p1 p2 p3) n \<longleftrightarrow> n < 32 \<and>
     (bit p0 n \<or> 4 \<le> n \<and> bit p1 (n - 4) \<or> 8 \<le> n \<and> bit p2 (n - 8) \<or> 12 \<le> n \<and> bit p3 (n - 12))"
  by (auto simp: TEEC_PARAM_TYPES_def bit_or_iff bit_push_bit_iff dest: bit_imp_le_length)

lemma get_param_put_param [simp]:
  "get_param (put_param p @ rest) 0 = p"
  by (simp add: get_param_def put_param_def)

lemma length_put_param [simp]: "length (put_param p) = 32"
  by (simp add: put_param_def)

lemma length_put_params [simp]: "length (put_params ps) = 32 * length ps"
  by (induction ps) (simp_all add: put_params_def)

lemma get_param_append [simp]:
  "length xs \<le> off \<Longrightarrow> get_param (xs @ ys) off = get_param ys (off - length xs)"
  by (simp add: get_param_def)

lemma get_params_put_params [simp]:
  assumes "length ps = TEEC_CONFIG_PAYLOAD_REF_COUNT"
  shows "get_params (length xs) (xs @ put_params ps) = ps"
proof -
  obtain a b c d where ps: "ps = [a, b, c, d]"
    using assms by (auto simp: length_Suc_conv numeral_eq_Suc)
  have "get_param (xs @ put_params ps) (length xs + 32 * n) = ps ! n" if "n < 4" for n
  proof -
    have "n \<in> {0, 1, 2, 3}" using that by auto
    then show ?thesis
      using get_param_put_param [of d "[]"] by (auto simp: ps put_params_def simp del: append_assoc)
  qed
  then show ?thesis
    unfolding get_params_def by (intro nth_equalityI) (use assms in simp_all)
qed

lemma get_put_open_arg [simp]:
  assumes "length (oa_uuid a) = 16" "length (oa_clnt_uuid a) = 16"
  shows "get_open_arg (put_open_arg a @ rest) = a" "length (put_open_arg a) = 56"
  using assms by (simp_all add: get_open_arg_def put_open_arg_def)

lemma get_put_invoke_arg [simp]:
  "get_invoke_arg (put_invoke_arg a @ rest) = a" "length (put_invoke_arg a) = 24"
  by (simp_all add: get_invoke_arg_def put_invoke_arg_def)

lemma ucast_bit: "bit (ucast (w :: 'a::len word) :: u8) n \<longleftrightarrow> n < 8 \<and> bit w n"
  by (auto simp: bit_unsigned_iff)

lemma byte_bit:
  assumes "ucast (drop_bit m v) = (ucast (drop_bit m w) :: u8)" "m \<le> n" "n < m + 8"
  shows "bit (v :: 'a::len word) n \<longleftrightarrow> bit w n"
proof -
  have "bit (ucast (drop_bit m v) :: u8) (n - m) = bit (ucast (drop_bit m w) :: u8) (n - m)"
    using assms(1) by simp
  moreover have "n - m < 8" using assms(2,3) by simp
  ultimately show ?thesis using assms(2) by (simp add: ucast_bit bit_drop_bit_eq)
qed

lemma bytes_inject_16:
  assumes "ucast (drop_bit 8 v) = (ucast (drop_bit 8 w) :: u8)" "ucast v = (ucast w :: u8)"
  shows "(v :: u16) = w"
proof (rule bit_word_eqI)
  fix n assume "n < LENGTH(16)"
  then consider "n < 8" | "8 \<le> n" "n < 16" by fastforce
  then show "bit v n \<longleftrightarrow> bit w n"
    using byte_bit [of 0 v w n] byte_bit [of 8 v w n] assms by cases simp_all
qed

lemma bytes_inject_32:
  assumes "ucast (drop_bit 24 v) = (ucast (drop_bit 24 w) :: u8)"
    "ucast (drop_bit 16 v) = (ucast (drop_bit 16 w) :: u8)"
    "ucast (drop_bit 8 v) = (ucast (drop_bit 8 w) :: u8)" "ucast v = (ucast w :: u8)"
  shows "(v :: u32) = w"
proof (rule bit_word_eqI)
  fix n assume "n < LENGTH(32)"
  then consider "n < 8" | "8 \<le> n" "n < 16" | "16 \<le> n" "n < 24" | "24 \<le> n" "n < 32" by fastforce
  then show "bit v n \<longleftrightarrow> bit w n"
    using byte_bit [of 0 v w n] byte_bit [of 8 v w n] byte_bit [of 16 v w n] byte_bit [of 24 v w n] assms
    by cases simp_all
qed

section \<open>Properties\<close>

text \<open>Packing four parameter types into a word and reading one back
  (\<open>TEEC_PARAM_TYPES\<close>, \<open>TEEC_PARAM_TYPE_GET\<close>) gives the type that was packed, for types that
  fit into four bits, and the packed word passes the test \<open>paramTypes <= 0xffff\<close> of the library.\<close>

theorem param_types_roundtrip:
  assumes "p0 < 16" "p1 < 16" "p2 < 16" "p3 < 16" "i < 4"
  shows "TEEC_PARAM_TYPE_GET (TEEC_PARAM_TYPES p0 p1 p2 p3) i = [p0, p1, p2, p3] ! i \<and>
    TEEC_PARAM_TYPES p0 p1 p2 p3 \<le> 0xffff"
proof -
  have low: "n < 4" if "bit p n" "p \<in> {p0, p1, p2, p3}" for p n
    using that assms nibble_bit [of p n] by auto
  have "i \<in> {0, 1, 2, 3}" using assms(5) by auto
  then have "TEEC_PARAM_TYPE_GET (TEEC_PARAM_TYPES p0 p1 p2 p3) i = [p0, p1, p2, p3] ! i"
    by (intro bit_word_eqI) (auto simp: param_type_get_bit param_types_bit dest: low)
  moreover have "take_bit 16 (TEEC_PARAM_TYPES p0 p1 p2 p3) = TEEC_PARAM_TYPES p0 p1 p2 p3"
    by (rule bit_word_eqI) (auto simp: bit_take_bit_iff param_types_bit dest: low)
  then have "unat (TEEC_PARAM_TYPES p0 p1 p2 p3) < 2 ^ 16"
    by (metis unsigned_take_bit_eq take_bit_nat_less_exp)
  then have "TEEC_PARAM_TYPES p0 p1 p2 p3 \<le> 0xffff" by (simp add: word_le_nat_alt)
  ultimately show ?thesis by blast
qed

theorem param_types_roundtrip_witness:
  "TEEC_PARAM_TYPE_GET (TEEC_PARAM_TYPES TEEC_VALUE_INOUT TEEC_MEMREF_TEMP_OUTPUT TEEC_NONE
     TEEC_MEMREF_WHOLE) 3 = TEEC_MEMREF_WHOLE"
  using param_types_roundtrip [of TEEC_VALUE_INOUT TEEC_MEMREF_TEMP_OUTPUT TEEC_NONE TEEC_MEMREF_WHOLE 3]
  by simp

text \<open>\<open>uuid_to_octets\<close> writes sixteen bytes, and different identifiers of trusted
  applications have different octets.\<close>

theorem uuid_to_octets_inj:
  assumes "uuid_wf u" "uuid_wf v"
  shows "length (uuid_to_octets u) = TEE_IOCTL_UUID_LEN \<and>
    (uuid_to_octets u = uuid_to_octets v \<longleftrightarrow> u = v)"
  using assms bytes_inject_16 [of "timeMid u" "timeMid v"]
    bytes_inject_16 [of "timeHiAndVersion u" "timeHiAndVersion v"]
    bytes_inject_32 [of "timeLow u" "timeLow v"]
  by (auto simp: uuid_to_octets_def uuid_wf_def intro!: TEEC_UUID.equality)

definition sample_uuid :: TEEC_UUID where
  "sample_uuid = \<lparr>timeLow = 0x01020304, timeMid = 0x0506, timeHiAndVersion = 0x0708,
     clockSeqAndNode = [9, 10, 11, 12, 13, 14, 15, 16]\<rparr>"

theorem uuid_to_octets_inj_witness:
  "uuid_to_octets sample_uuid = [1, 2, 3, 4, 5, 6, 7, 8, 9, 10, 11, 12, 13, 14, 15, 16] \<and>
   uuid_to_octets sample_uuid \<noteq> uuid_to_octets (sample_uuid\<lparr>timeMid := 0x0507\<rparr>)"
proof -
  have "uuid_to_octets sample_uuid \<noteq> uuid_to_octets (sample_uuid\<lparr>timeMid := 0x0507\<rparr>)"
    using uuid_to_octets_inj [of sample_uuid "sample_uuid\<lparr>timeMid := 0x0507\<rparr>"]
    by (simp add: sample_uuid_def uuid_wf_def)
  moreover have "uuid_to_octets sample_uuid = [1, 2, 3, 4, 5, 6, 7, 8, 9, 10, 11, 12, 13, 14, 15, 16]"
    by code_simp
  ultimately show ?thesis by blast
qed

end
