(* ===== verification/Teec.thy ===== *)
theory Teec
  imports Teec_Types
begin

text \<open>
  The client library \<open>optee_client/libteec/src/tee_client_api.cpp\<close>: contexts, sessions,
  commands with their parameters, and shared memory.

  The objects a client passes by pointer live in one store per type (\<open>contexts\<close>,
  \<open>sessions\<close>, \<open>operations\<close>, \<open>shms\<close>, and \<open>origins\<close> for the \<open>uint32_t\<close> results), the bytes
  that buffers and mappings consist of in \<open>mem\<close>. The library's own state is the two maps of
  \<open>class Common\<close>, sorted lists of addresses since key and value of an entry agree and
  \<open>std::map\<close> orders by key, and the mutex. \<open>None\<close> is a call that does not return normally: a
  dereferenced \<open>NULL\<close> pointer, an iterator moved past the end, or a mutex that is locked
  already. Logging is left out.

  The secure world is a parameter beside the kernel: when a session is opened or a command
  is invoked it may change memory, \<open>w h c\<close> being the writes it makes during the call \<open>c\<close> after
  history \<open>h\<close>.
\<close>

section \<open>State\<close>

type_synonym memory = "ptr \<Rightarrow> u8"
type_synonym secure_world = "event list \<Rightarrow> syscall \<Rightarrow> (ptr \<times> bytes) list"

record teec = proc +
  mem :: memory
  contexts :: "ptr \<Rightarrow> TEEC_Context"
  sessions :: "ptr \<Rightarrow> TEEC_Session"
  operations :: "ptr \<Rightarrow> TEEC_Operation"
  shms :: "ptr \<Rightarrow> TEEC_SharedMemory"
  origins :: "ptr \<Rightarrow> u32"
  contextMap :: "ptr list"
  sessionMap :: "ptr list"
  teec_mutex :: bool

definition mem_read :: "ptr \<Rightarrow> nat \<Rightarrow> memory \<Rightarrow> bytes" where
  "mem_read p n h = map h [p..<p + n]"

definition mem_write :: "ptr \<Rightarrow> bytes \<Rightarrow> memory \<Rightarrow> memory" where
  "mem_write p bs h = (\<lambda>a. if p \<le> a \<and> a < p + length bs then bs ! (a - p) else h a)"

text \<open>\<open>memcpy\<close>; copying at least one byte from or to \<open>NULL\<close> does not return.\<close>

definition memcpy :: "ptr \<Rightarrow> ptr \<Rightarrow> u64 \<Rightarrow> teec \<Rightarrow> teec option" where
  "memcpy d src n s =
     (if n = 0 then Some s
      else if d = 0 \<or> src = 0 then None
      else Some (s\<lparr>mem := mem_write d (mem_read src (unat n) (mem s)) (mem s)\<rparr>))"

text \<open>A call during which the secure world runs.\<close>

definition tee_call :: "kernel \<Rightarrow> secure_world \<Rightarrow> syscall \<Rightarrow> teec \<Rightarrow> sysret \<times> teec" where
  "tee_call k w c s =
     (let (r, s1) = sys k c s in
      (r, s1\<lparr>mem := fold (\<lambda>(p, bs). mem_write p bs) (w (hist s) c) (mem s1)\<rparr>))"

text \<open>What an \<open>ioctl\<close> leaves in the buffer it was given.\<close>

definition ioctl_back :: "bytes \<Rightarrow> bytes \<Rightarrow> bytes" where
  "ioctl_back buf out = take (length buf) out @ drop (length out) buf"

text \<open>\<open>m[key] = value\<close> of a \<open>std::map\<close>.\<close>

definition map_insert :: "ptr \<Rightarrow> ptr list \<Rightarrow> ptr list" where
  "map_insert p xs = (if p \<in> set xs then xs else insort p xs)"

section \<open>Helpers\<close>

definition TEEC_MAX_DEV_SEQ :: nat where [simp]: "TEEC_MAX_DEV_SEQ = 10"
definition DEFAULT_CAPABILITY :: bytes where "DEFAULT_CAPABILITY = lit ''bta_loader''"

definition ut_close_session :: "kernel \<Rightarrow> ptr \<Rightarrow> teec \<Rightarrow> teec option" where
  "ut_close_session k session s =
     (if session = 0 then Some s
      else
        let ses = sessions s session in
        if sess_ctx ses = 0 then None
        else Some (snd (sys k (Ioctl (ctx_fd (contexts s (sess_ctx ses)))
               (TEE_IOC_CLOSE_SESSION (session_id ses))) s)))"

definition ut_close_fd :: "kernel \<Rightarrow> int \<Rightarrow> teec \<Rightarrow> teec" where
  "ut_close_fd k fd s = snd (sys k (Close fd) s)"

definition teec_mutex_lock :: "teec \<Rightarrow> teec option" where
  "teec_mutex_lock s = (if teec_mutex s then None else Some (s\<lparr>teec_mutex := True\<rparr>))"

definition teec_mutex_unlock :: "teec \<Rightarrow> teec" where
  "teec_mutex_unlock s = s\<lparr>teec_mutex := False\<rparr>"

text \<open>
  \<open>strncpy (arg.hostname, name, TEE_MAX_HOSTNAME_SIZE - 1)\<close> into a zeroed array. Which name
  is chosen depends on how the library is built: \<open>gptee\<close> tells whether the macro
  \<open>DEFAULT_TEE_GPTEE\<close> is defined.
\<close>

definition hostname_arg :: "bytes \<Rightarrow> bytes" where
  "hostname_arg name = (let n = take (TEE_MAX_HOSTNAME_SIZE - 1) name in
     n @ replicate (TEE_MAX_HOSTNAME_SIZE - length n) 0)"

definition choose_hostname :: "bool \<Rightarrow> bytes option \<Rightarrow> bytes option" where
  "choose_hostname gptee capabilities =
     (if \<not> gptee then
        (if capabilities = Some (lit ''tta'') then Some (lit ''tta'') else Some DEFAULT_CAPABILITY)
      else if capabilities = Some DEFAULT_CAPABILITY then Some DEFAULT_CAPABILITY
      else if capabilities = None \<or> capabilities = Some (lit ''tta'') then Some (lit ''tta'')
      else None)"

definition teec_open_dev :: "kernel \<Rightarrow> bool \<Rightarrow> bytes \<Rightarrow> bytes option \<Rightarrow> teec \<Rightarrow> int \<times> teec" where
  "teec_open_dev k gptee devname capabilities s =
     (let (r, s1) = sys k (Open devname O_RDWR 0) s; fd = sr_rc r; err = (\<lambda>s. (- 1, ut_close_fd k fd s)) in
      if fd < 0 then (- 1, s1)
      else
        let (v, s2) = sys k (Ioctl fd TEE_IOC_VERSION) s1 in
        if sr_rc v \<noteq> 0 then err s2
        else if \<not> has_flag (get_u32 (sr_out v) 8) TEE_GEN_CAP_GP then err s2
        else
          case choose_hostname gptee capabilities of
            None \<Rightarrow> err s2
          | Some name \<Rightarrow>
              let (h, s3) = sys k (Ioctl fd (TEE_IOC_SET_HOSTNAME (hostname_arg name))) s2 in
              if sr_rc h \<noteq> 0 then err s3 else (fd, s3))"

definition teec_shm_alloc :: "kernel \<Rightarrow> int \<Rightarrow> u64 \<Rightarrow> teec \<Rightarrow> int \<times> int \<times> teec" where
  "teec_shm_alloc k fd size_arg s =
     (let (r, s1) = sys k (Ioctl fd (TEE_IOC_SHM_ALLOC size_arg)) s in
      if sr_rc r < 0 then (- 1, 0, s1) else (sr_rc r, sint (get_u32 (sr_out r) 12), s1))"

definition teec_shm_get_id :: "kernel \<Rightarrow> int \<Rightarrow> ptr \<Rightarrow> teec \<Rightarrow> int \<times> teec" where
  "teec_shm_get_id k fd uaddr s =
     (let (r, s1) = sys k (Ioctl fd (TEE_IOC_SHM_ID uaddr)) s in
      (if sr_rc r < 0 then - 1 else sr_rc r, s1))"

definition ioctl_errno_to_res :: "int \<Rightarrow> TEEC_Result" where
  "ioctl_errno_to_res err = (if err = ENOMEM then TEEC_ERROR_OUT_OF_MEMORY else TEEC_ERROR_GENERIC)"

definition set_origin :: "ptr \<Rightarrow> u32 \<Rightarrow> teec \<Rightarrow> teec" where
  "set_origin p v s = (if p = 0 then s else s\<lparr>origins := (origins s)(p := v)\<rparr>)"

section \<open>Contexts\<close>

text \<open>The device name \<open>/dev/isee_tee%zu\<close>, for one digit.\<close>

definition dev_name :: "nat \<Rightarrow> bytes" where
  "dev_name n = lit ''/dev/isee_tee'' @ [of_nat (48 + n)]"

function init_context_loop :: "kernel \<Rightarrow> bool \<Rightarrow> bytes option \<Rightarrow> ptr \<Rightarrow> nat \<Rightarrow> teec \<Rightarrow> TEEC_Result \<times> teec" where
  "init_context_loop k gptee name ctx n s =
     (if n < TEEC_MAX_DEV_SEQ then
        let (fd, s1) = teec_open_dev k gptee (dev_name n) name s in
        if 0 \<le> fd then
          (TEEC_SUCCESS, s1\<lparr>contexts := (contexts s1)(ctx := \<lparr>ctx_fd = fd\<rparr>),
             contextMap := map_insert ctx (contextMap s1)\<rparr>)
        else init_context_loop k gptee name ctx (Suc n) s1
      else (TEEC_ERROR_ITEM_NOT_FOUND, s))"
  by pat_completeness auto
termination by (relation "measure (\<lambda>(k, g, name, ctx, n, s). TEEC_MAX_DEV_SEQ - n)") auto

declare init_context_loop.simps [simp del]

definition TEEC_InitializeContext ::
  "kernel \<Rightarrow> bool \<Rightarrow> bytes option \<Rightarrow> ptr \<Rightarrow> teec \<Rightarrow> TEEC_Result \<times> teec" where
  "TEEC_InitializeContext k gptee name ctx s =
     (if ctx = 0 then (TEEC_ERROR_BAD_PARAMETERS, s) else init_context_loop k gptee name ctx 0 s)"

text \<open>
  The loop over the session map, at position \<open>i\<close>: erasing an entry gives the position of its
  successor, which the loop then steps over; stepping from the end is undefined.
\<close>

function finalize_sessions :: "kernel \<Rightarrow> ptr \<Rightarrow> nat \<Rightarrow> teec \<Rightarrow> teec option" where
  "finalize_sessions k ctx i s =
     (if length (sessionMap s) \<le> i then Some s
      else
        let p = sessionMap s ! i in
        if sess_ctx (sessions s p) = ctx then
          case ut_close_session k p s of
            None \<Rightarrow> None
          | Some s1 \<Rightarrow>
              let s2 = s1\<lparr>sessionMap := take i (sessionMap s) @ drop (Suc i) (sessionMap s)\<rparr> in
              if i = length (sessionMap s2) then None else finalize_sessions k ctx (Suc i) s2
        else finalize_sessions k ctx (Suc i) s)"
  by pat_completeness auto
termination
  by (relation "measure (\<lambda>(k, ctx, i, s). length (sessionMap s) - i)")
    (auto simp: ut_close_session_def sys_def Let_def split: if_splits)

declare finalize_sessions.simps [simp del]

definition TEEC_FinalizeContext :: "kernel \<Rightarrow> ptr \<Rightarrow> teec \<Rightarrow> teec option" where
  "TEEC_FinalizeContext k ctx s =
     do {
       s1 \<leftarrow> finalize_sessions k ctx 0 s;
       Some (if ctx \<in> set (contextMap s1)
             then (ut_close_fd k (ctx_fd (contexts s1 ctx)) s1)\<lparr>contextMap := remove1 ctx (contextMap s1)\<rparr>
             else s1)
     }"

section \<open>Shared memory\<close>

definition MAP_FAILED :: ptr where "MAP_FAILED = 2 ^ 64 - 1"

definition mmap :: "kernel \<Rightarrow> u64 \<Rightarrow> int \<Rightarrow> teec \<Rightarrow> ptr \<times> teec" where
  "mmap k n fd s =
     (let (r, s1) = sys k (Mmap (unat n) fd) s in
      (if sr_rc r < 0 then MAP_FAILED else nat (sr_rc r), s1))"

definition shm_flags_ok :: "TEEC_SharedMemory \<Rightarrow> bool" where
  "shm_flags_ok shm \<longleftrightarrow>
     \<not> (shm_flags shm = 0 \<or> shm_flags shm AND NOT (TEEC_MEM_INPUT OR TEEC_MEM_OUTPUT) \<noteq> 0)"

text \<open>The bodies on the value of the structure, for a structure that exists.\<close>

definition register_shm ::
  "kernel \<Rightarrow> ptr \<Rightarrow> TEEC_SharedMemory \<Rightarrow> teec \<Rightarrow> TEEC_Result \<times> TEEC_SharedMemory \<times> teec" where
  "register_shm k ctx shm s =
     (if ctx = 0 then (TEEC_ERROR_BAD_PARAMETERS, shm, s)
      else if \<not> shm_flags_ok shm then (TEEC_ERROR_BAD_PARAMETERS, shm, s)
      else if shm_buffer shm = 0 then (TEEC_ERROR_BAD_PARAMETERS, shm, s)
      else
        let n = (if shm_size shm = 0 then 8 else shm_size shm);
            fd = ctx_fd (contexts s ctx);
            (p, s1) = mmap k n fd s;
            shm1 = shm\<lparr>shadow_buffer := p\<rparr> in
        if p = MAP_FAILED then (TEEC_ERROR_OUT_OF_MEMORY, shm1\<lparr>shm_id := - 1\<rparr>, s1)
        else
          let (id', s2) = teec_shm_get_id k fd p s1 in
          (TEEC_SUCCESS, shm1\<lparr>shm_id := id', alloced_size := n, registered_fd := fd\<rparr>, s2))"

definition allocate_shm ::
  "kernel \<Rightarrow> ptr \<Rightarrow> TEEC_SharedMemory \<Rightarrow> teec \<Rightarrow> TEEC_Result \<times> TEEC_SharedMemory \<times> teec" where
  "allocate_shm k ctx shm s =
     (if ctx = 0 then (TEEC_ERROR_BAD_PARAMETERS, shm, s)
      else if \<not> shm_flags_ok shm then (TEEC_ERROR_BAD_PARAMETERS, shm, s)
      else
        let n = (if shm_size shm = 0 then 8 else shm_size shm);
            fd = ctx_fd (contexts s ctx);
            (p, s1) = mmap k n fd s;
            shm1 = shm\<lparr>shm_buffer := p\<rparr> in
        if p = MAP_FAILED then (TEEC_ERROR_OUT_OF_MEMORY, shm1\<lparr>shm_id := - 1\<rparr>, s1)
        else
          let shm2 = shm1\<lparr>shadow_buffer := 0, alloced_size := n, registered_fd := fd\<rparr>;
              (id', s2) = teec_shm_get_id k fd p s1 in
          (TEEC_SUCCESS, shm2\<lparr>shm_id := id'\<rparr>, s2))"

definition release_shm :: "kernel \<Rightarrow> TEEC_SharedMemory \<Rightarrow> teec \<Rightarrow> TEEC_SharedMemory \<times> teec" where
  "release_shm k shm s =
     (if shm_id shm = - 1 then (shm, s)
      else if registered_fd shm < 0 then (shm, s)
      else
        let s1 =
              (if shadow_buffer shm \<noteq> 0
               then snd (sys k (Munmap (shadow_buffer shm) (unat (alloced_size shm))) s)
               else if shm_buffer shm \<noteq> 0
               then snd (sys k (Munmap (shm_buffer shm) (unat (alloced_size shm))) s)
               else if 0 \<le> registered_fd shm then snd (sys k (Close (registered_fd shm)) s)
               else s);
            shm1 = shm\<lparr>shm_buffer := (if shadow_buffer shm = 0 then 0 else shm_buffer shm),
              shm_size := 0, shm_id := - 1, shadow_buffer := 0, registered_fd := - 1\<rparr>;
            s2 = snd (sys k (Ioctl (registered_fd shm) (TEE_IOC_SHM_RELEASE (shm_id shm))) s1)
        in (shm1, s2))"

definition TEEC_RegisterSharedMemory :: "kernel \<Rightarrow> ptr \<Rightarrow> ptr \<Rightarrow> teec \<Rightarrow> TEEC_Result \<times> teec" where
  "TEEC_RegisterSharedMemory k ctx shm s =
     (if ctx = 0 \<or> shm = 0 then (TEEC_ERROR_BAD_PARAMETERS, s)
      else let (res, v, s1) = register_shm k ctx (shms s shm) s
           in (res, s1\<lparr>shms := (shms s1)(shm := v)\<rparr>))"

definition TEEC_AllocateSharedMemory :: "kernel \<Rightarrow> ptr \<Rightarrow> ptr \<Rightarrow> teec \<Rightarrow> TEEC_Result \<times> teec" where
  "TEEC_AllocateSharedMemory k ctx shm s =
     (if ctx = 0 \<or> shm = 0 then (TEEC_ERROR_BAD_PARAMETERS, s)
      else let (res, v, s1) = allocate_shm k ctx (shms s shm) s
           in (res, s1\<lparr>shms := (shms s1)(shm := v)\<rparr>))"

definition TEEC_ReleaseSharedMemory :: "kernel \<Rightarrow> ptr \<Rightarrow> teec \<Rightarrow> teec" where
  "TEEC_ReleaseSharedMemory k shm s =
     (if shm = 0 then s
      else let (v, s1) = release_shm k (shms s shm) s in s1\<lparr>shms := (shms s1)(shm := v)\<rparr>)"

text \<open>The first statement returns; the rest of the body is never reached.\<close>

definition TEEC_RegisterSharedMemoryFileDescriptor ::
  "kernel \<Rightarrow> ptr \<Rightarrow> ptr \<Rightarrow> int \<Rightarrow> teec \<Rightarrow> TEEC_Result \<times> teec" where
  "TEEC_RegisterSharedMemoryFileDescriptor k ctx shm fd s = (TEEC_ERROR_GENERIC, s)"

section \<open>Parameters before a call\<close>

definition teec_pre_process_whole ::
  "TEEC_RegisteredMemoryReference \<Rightarrow> tee_ioctl_param \<Rightarrow> teec \<Rightarrow> (TEEC_Result \<times> tee_ioctl_param \<times> teec) option" where
  "teec_pre_process_whole mr param s =
     (if ref_parent mr = 0 then None
      else
        let inout = TEEC_MEM_INPUT OR TEEC_MEM_OUTPUT;
            shm = shms s (ref_parent mr);
            flags = shm_flags shm AND inout;
            go = (\<lambda>a. do {
              s1 \<leftarrow> (if shadow_buffer shm \<noteq> 0 \<and> has_flag flags TEEC_MEM_INPUT
                     then memcpy (shadow_buffer shm) (shm_buffer shm) (shm_size shm) s else Some s);
              Some (TEEC_SUCCESS,
                param\<lparr>attr := a, u1 := shm_size shm, u2 := word_of_int (shm_id shm)\<rparr>, s1) }) in
        if flags = inout then go TEE_IOCTL_PARAM_ATTR_TYPE_MEMREF_INOUT
        else if has_flag flags TEEC_MEM_INPUT then go TEE_IOCTL_PARAM_ATTR_TYPE_MEMREF_INPUT
        else if has_flag flags TEEC_MEM_OUTPUT then go TEE_IOCTL_PARAM_ATTR_TYPE_MEMREF_OUTPUT
        else Some (TEEC_ERROR_BAD_PARAMETERS, param, s))"

text \<open>The two \<open>switch\<close> statements on the type of a memory reference: attribute and flags.\<close>

definition partial_type :: "u32 \<Rightarrow> (u64 \<times> u32) option" where
  "partial_type param_type =
     (if param_type = TEEC_MEMREF_PARTIAL_INPUT
      then Some (TEE_IOCTL_PARAM_ATTR_TYPE_MEMREF_INPUT, TEEC_MEM_INPUT)
      else if param_type = TEEC_MEMREF_PARTIAL_OUTPUT
      then Some (TEE_IOCTL_PARAM_ATTR_TYPE_MEMREF_OUTPUT, TEEC_MEM_OUTPUT)
      else if param_type = TEEC_MEMREF_PARTIAL_INOUT
      then Some (TEE_IOCTL_PARAM_ATTR_TYPE_MEMREF_INOUT, TEEC_MEM_OUTPUT OR TEEC_MEM_INPUT)
      else None)"

definition temp_type :: "u32 \<Rightarrow> (u64 \<times> u32) option" where
  "temp_type param_type =
     (if param_type = TEEC_MEMREF_TEMP_INPUT
      then Some (TEE_IOCTL_PARAM_ATTR_TYPE_MEMREF_INPUT, TEEC_MEM_INPUT)
      else if param_type = TEEC_MEMREF_TEMP_OUTPUT
      then Some (TEE_IOCTL_PARAM_ATTR_TYPE_MEMREF_OUTPUT, TEEC_MEM_OUTPUT)
      else if param_type = TEEC_MEMREF_TEMP_INOUT
      then Some (TEE_IOCTL_PARAM_ATTR_TYPE_MEMREF_INOUT, TEEC_MEM_INPUT OR TEEC_MEM_OUTPUT)
      else None)"

definition teec_pre_process_partial ::
  "u32 \<Rightarrow> TEEC_RegisteredMemoryReference \<Rightarrow> tee_ioctl_param \<Rightarrow> teec \<Rightarrow>
     (TEEC_Result \<times> tee_ioctl_param \<times> teec) option" where
  "teec_pre_process_partial param_type mr param s =
     (case partial_type param_type of
        None \<Rightarrow> Some (TEEC_ERROR_BAD_PARAMETERS, param, s)
      | Some (a, req_shm_flags) \<Rightarrow>
          let param1 = param\<lparr>attr := a\<rparr>; shm = shms s (ref_parent mr) in
          if ref_parent mr = 0 then None
          else if shm_flags shm AND req_shm_flags \<noteq> req_shm_flags
          then Some (TEEC_ERROR_BAD_PARAMETERS, param1, s)
          else do {
            s1 \<leftarrow> (if shadow_buffer shm \<noteq> 0 \<and> param_type \<noteq> TEEC_MEMREF_PARTIAL_OUTPUT
                   then memcpy (shadow_buffer shm + unat (ref_offset mr))
                     (shm_buffer shm + unat (ref_offset mr)) (ref_size mr) s
                   else Some s);
            Some (TEEC_SUCCESS, param1\<lparr>u0 := ref_offset mr, u1 := ref_size mr,
              u2 := word_of_int (shm_id shm)\<rparr>, s1)
          })"

definition teec_pre_process_tmpref ::
  "kernel \<Rightarrow> ptr \<Rightarrow> u32 \<Rightarrow> TEEC_TempMemoryReference \<Rightarrow> tee_ioctl_param \<Rightarrow> TEEC_SharedMemory \<Rightarrow> teec \<Rightarrow>
     (TEEC_Result \<times> tee_ioctl_param \<times> TEEC_SharedMemory \<times> teec) option" where
  "teec_pre_process_tmpref k ctx param_type tr param shm s =
     (case temp_type param_type of
        None \<Rightarrow> Some (TEEC_ERROR_BAD_PARAMETERS, param, shm, s)
      | Some (a, fl) \<Rightarrow>
          let param1 = param\<lparr>attr := a\<rparr>;
              (res, shm1, s1) = allocate_shm k ctx (shm\<lparr>shm_size := tmp_size tr, shm_flags := fl\<rparr>) s in
          if res \<noteq> TEEC_SUCCESS then Some (res, param1, shm1, s1)
          else do {
            s2 \<leftarrow> memcpy (shm_buffer shm1) (tmp_buffer tr) (tmp_size tr) s1;
            Some (TEEC_SUCCESS, param1\<lparr>u1 := tmp_size tr, u2 := word_of_int (shm_id shm1)\<rparr>, shm1, s2)
          })"

text \<open>One round of the loop of \<open>teec_pre_process_operation\<close>.\<close>

definition is_value_type :: "u32 \<Rightarrow> bool" where
  "is_value_type t \<longleftrightarrow> t = TEEC_VALUE_INPUT \<or> t = TEEC_VALUE_OUTPUT \<or> t = TEEC_VALUE_INOUT"

definition pre_process_param ::
  "kernel \<Rightarrow> ptr \<Rightarrow> u32 \<Rightarrow> TEEC_Parameter \<Rightarrow> tee_ioctl_param \<Rightarrow> TEEC_SharedMemory \<Rightarrow> teec \<Rightarrow>
     (TEEC_Result \<times> tee_ioctl_param \<times> TEEC_SharedMemory \<times> teec) option" where
  "pre_process_param k ctx t p param shm s =
     (if t = TEEC_NONE then Some (TEEC_SUCCESS, param\<lparr>attr := ucast t\<rparr>, shm, s)
      else if is_value_type t then
        Some (TEEC_SUCCESS, param\<lparr>attr := ucast t, u0 := ucast (val_a (value_ab p)),
          u1 := ucast (val_b (value_ab p))\<rparr>, shm, s)
      else if temp_type t \<noteq> None then teec_pre_process_tmpref k ctx t (tmpref p) param shm s
      else if t = TEEC_MEMREF_WHOLE then
        do { (res, param1, s1) \<leftarrow> teec_pre_process_whole (memref p) param s; Some (res, param1, shm, s1) }
      else if partial_type t \<noteq> None then
        do { (res, param1, s1) \<leftarrow> teec_pre_process_partial t (memref p) param s; Some (res, param1, shm, s1) }
      else Some (TEEC_ERROR_BAD_PARAMETERS, param, shm, s))"

fun pre_process_loop ::
  "kernel \<Rightarrow> ptr \<Rightarrow> TEEC_Operation \<Rightarrow> nat list \<Rightarrow> tee_ioctl_param list \<Rightarrow> TEEC_SharedMemory list \<Rightarrow> teec \<Rightarrow>
     (TEEC_Result \<times> tee_ioctl_param list \<times> TEEC_SharedMemory list \<times> teec) option" where
  "pre_process_loop k ctx oper [] params shm s = Some (TEEC_SUCCESS, params, shm, s)"
| "pre_process_loop k ctx oper (n # ns) params shm s =
     do {
       (res, p, m, s1) \<leftarrow> pre_process_param k ctx (TEEC_PARAM_TYPE_GET (paramTypes oper) n)
         (op_params oper ! n) (params ! n) (shm ! n) s;
       if res \<noteq> TEEC_SUCCESS then Some (res, params[n := p], shm[n := m], s1)
       else pre_process_loop k ctx oper ns (params[n := p]) (shm[n := m]) s1
     }"

definition zero_shm :: TEEC_SharedMemory where
  "zero_shm = \<lparr>shm_buffer = 0, shm_size = 0, shm_flags = 0, shm_id = 0, alloced_size = 0,
     shadow_buffer = 0, registered_fd = 0\<rparr>"

definition param_indices :: "nat list" where
  "param_indices = [0..<TEEC_CONFIG_PAYLOAD_REF_COUNT]"

definition teec_pre_process_operation ::
  "kernel \<Rightarrow> ptr \<Rightarrow> ptr \<Rightarrow> tee_ioctl_param list \<Rightarrow> teec \<Rightarrow>
     (TEEC_Result \<times> tee_ioctl_param list \<times> TEEC_SharedMemory list \<times> teec) option" where
  "teec_pre_process_operation k ctx operation params s =
     (let shm = replicate TEEC_CONFIG_PAYLOAD_REF_COUNT zero_shm in
      if operation = 0
      then Some (TEEC_SUCCESS, replicate TEEC_CONFIG_PAYLOAD_REF_COUNT zero_param, shm, s)
      else
        let oper = operations s operation in
        if 0xffff < paramTypes oper then Some (TEEC_ERROR_BAD_PARAMETERS, params, shm, s)
        else pre_process_loop k ctx oper param_indices params shm s)"

section \<open>Parameters after a call\<close>

definition teec_post_process_tmpref ::
  "u32 \<Rightarrow> TEEC_TempMemoryReference \<Rightarrow> tee_ioctl_param \<Rightarrow> TEEC_SharedMemory \<Rightarrow> teec \<Rightarrow>
     (TEEC_TempMemoryReference \<times> teec) option" where
  "teec_post_process_tmpref param_type tr param shm s =
     (if param_type \<noteq> TEEC_MEMREF_TEMP_INPUT then
        do {
          s1 \<leftarrow> (if u1 param \<le> tmp_size tr \<and> tmp_buffer tr \<noteq> 0
                 then memcpy (tmp_buffer tr) (shm_buffer shm) (u1 param) s else Some s);
          Some (tr\<lparr>tmp_size := u1 param\<rparr>, s1)
        }
      else Some (tr, s))"

definition teec_post_process_whole ::
  "TEEC_RegisteredMemoryReference \<Rightarrow> tee_ioctl_param \<Rightarrow> teec \<Rightarrow> (TEEC_RegisteredMemoryReference \<times> teec) option" where
  "teec_post_process_whole mr param s =
     (if ref_parent mr = 0 then None
      else
        let shm = shms s (ref_parent mr) in
        if has_flag (shm_flags shm) TEEC_MEM_OUTPUT then
          do {
            s1 \<leftarrow> (if shadow_buffer shm \<noteq> 0 \<and> u1 param \<le> shm_size shm
                   then memcpy (shm_buffer shm) (shadow_buffer shm) (u1 param) s else Some s);
            Some (mr\<lparr>ref_size := u1 param\<rparr>, s1)
          }
        else Some (mr, s))"

definition teec_post_process_partial ::
  "u32 \<Rightarrow> TEEC_RegisteredMemoryReference \<Rightarrow> tee_ioctl_param \<Rightarrow> teec \<Rightarrow>
     (TEEC_RegisteredMemoryReference \<times> teec) option" where
  "teec_post_process_partial param_type mr param s =
     (if param_type \<noteq> TEEC_MEMREF_PARTIAL_INPUT then
        if ref_parent mr = 0 then None
        else
          let shm = shms s (ref_parent mr) in
          do {
            s1 \<leftarrow> (if shadow_buffer shm \<noteq> 0 \<and> u1 param \<le> ref_size mr
                   then memcpy (shm_buffer shm + unat (ref_offset mr))
                     (shadow_buffer shm + unat (ref_offset mr)) (u1 param) s
                   else Some s);
            Some (mr\<lparr>ref_size := u1 param\<rparr>, s1)
          }
      else Some (mr, s))"

text \<open>One round of the loop of \<open>teec_post_process_operation\<close>.\<close>

definition post_process_param ::
  "u32 \<Rightarrow> TEEC_Parameter \<Rightarrow> tee_ioctl_param \<Rightarrow> TEEC_SharedMemory \<Rightarrow> teec \<Rightarrow> (TEEC_Parameter \<times> teec) option" where
  "post_process_param t p param shm s =
     (if t = TEEC_VALUE_INPUT then Some (p, s)
      else if t = TEEC_VALUE_OUTPUT \<or> t = TEEC_VALUE_INOUT
      then Some (p\<lparr>value_ab := \<lparr>val_a = ucast (u0 param), val_b = ucast (u1 param)\<rparr>\<rparr>, s)
      else if temp_type t \<noteq> None then
        do { (tr, s1) \<leftarrow> teec_post_process_tmpref t (tmpref p) param shm s; Some (p\<lparr>tmpref := tr\<rparr>, s1) }
      else if t = TEEC_MEMREF_WHOLE then
        do { (mr, s1) \<leftarrow> teec_post_process_whole (memref p) param s; Some (p\<lparr>memref := mr\<rparr>, s1) }
      else if partial_type t \<noteq> None then
        do { (mr, s1) \<leftarrow> teec_post_process_partial t (memref p) param s; Some (p\<lparr>memref := mr\<rparr>, s1) }
      else Some (p, s))"

definition set_param :: "ptr \<Rightarrow> nat \<Rightarrow> TEEC_Parameter \<Rightarrow> teec \<Rightarrow> teec" where
  "set_param operation n p s =
     s\<lparr>operations := (operations s)(operation :=
        (operations s operation)\<lparr>op_params := (op_params (operations s operation))[n := p]\<rparr>)\<rparr>"

fun post_process_loop ::
  "ptr \<Rightarrow> nat list \<Rightarrow> tee_ioctl_param list \<Rightarrow> TEEC_SharedMemory list \<Rightarrow> teec \<Rightarrow> teec option" where
  "post_process_loop operation [] params shm s = Some s"
| "post_process_loop operation (n # ns) params shm s =
     (let oper = operations s operation in
      do {
        (p, s1) \<leftarrow> post_process_param (TEEC_PARAM_TYPE_GET (paramTypes oper) n) (op_params oper ! n)
          (params ! n) (shm ! n) s;
        post_process_loop operation ns params shm (set_param operation n p s1)
      })"

definition teec_post_process_operation ::
  "ptr \<Rightarrow> tee_ioctl_param list \<Rightarrow> TEEC_SharedMemory list \<Rightarrow> teec \<Rightarrow> teec option" where
  "teec_post_process_operation operation params shm s =
     (if operation = 0 then Some s else post_process_loop operation param_indices params shm s)"

fun free_temp_loop :: "kernel \<Rightarrow> u32 \<Rightarrow> nat list \<Rightarrow> TEEC_SharedMemory list \<Rightarrow> teec \<Rightarrow> teec" where
  "free_temp_loop k types [] shm s = s"
| "free_temp_loop k types (n # ns) shm s =
     (if temp_type (TEEC_PARAM_TYPE_GET types n) \<noteq> None
      then let (m, s1) = release_shm k (shm ! n) s in free_temp_loop k types ns (shm[n := m]) s1
      else free_temp_loop k types ns shm s)"

definition teec_free_temp_refs :: "kernel \<Rightarrow> ptr \<Rightarrow> TEEC_SharedMemory list \<Rightarrow> teec \<Rightarrow> teec" where
  "teec_free_temp_refs k operation shm s =
     (if operation = 0 then s
      else free_temp_loop k (paramTypes (operations s operation)) param_indices shm s)"

section \<open>Sessions and commands\<close>

text \<open>
  The two \<open>switch\<close> arms for the connection data, as the error and its origin; a method not
  listed is not supported.
\<close>

definition login_error :: "u32 \<Rightarrow> ptr \<Rightarrow> (TEEC_Result \<times> u32) option" where
  "login_error connection_method connection_data =
     (if connection_method \<in> {TEEC_LOGIN_PUBLIC, TEEC_LOGIN_USER, TEEC_LOGIN_APPLICATION,
          TEEC_LOGIN_USER_APPLICATION}
      then (if connection_data \<noteq> 0 then Some (TEEC_ERROR_BAD_PARAMETERS, TEEC_ORIGIN_COMMS) else None)
      else if connection_method \<in> {TEEC_LOGIN_GROUP, TEEC_LOGIN_GROUP_APPLICATION}
      then (if connection_data = 0 then Some (TEEC_ERROR_BAD_PARAMETERS, TEEC_ORIGIN_COMMS) else None)
      else Some (TEEC_ERROR_NOT_SUPPORTED, TEEC_ORIGIN_API))"

text \<open>
  The common tail of both calls: free the temporary references and report. \<open>destination\<close>
  is the identifier the pointer leads to, \<open>None\<close> for \<open>NULL\<close>.
\<close>

definition TEEC_OpenSession ::
  "kernel \<Rightarrow> secure_world \<Rightarrow> ptr \<Rightarrow> ptr \<Rightarrow> TEEC_UUID option \<Rightarrow> u32 \<Rightarrow> ptr \<Rightarrow> ptr \<Rightarrow> ptr \<Rightarrow> teec \<Rightarrow>
     (TEEC_Result \<times> teec) option" where
  "TEEC_OpenSession k w ctx session destination connection_method connection_data operation ret_origin s =
     (if ctx = 0 \<or> session = 0
      then Some (TEEC_ERROR_BAD_PARAMETERS, set_origin ret_origin TEEC_ORIGIN_API s)
      else
        case login_error connection_method connection_data of
          Some (res, eorig) \<Rightarrow> Some (res, set_origin ret_origin eorig s)
        | None \<Rightarrow> do {
            uuid \<leftarrow> map_option uuid_to_octets destination;
            let arg = \<lparr>oa_uuid = uuid, oa_clnt_uuid = replicate 16 0, oa_clnt_login = connection_method,
              oa_cancel_id = 0, oa_session = 0, oa_ret = 0, oa_ret_origin = 0,
              oa_num_params = of_nat TEEC_CONFIG_PAYLOAD_REF_COUNT\<rparr>;
            (res, params, shm, s1) \<leftarrow> teec_pre_process_operation k ctx operation
              (replicate TEEC_CONFIG_PAYLOAD_REF_COUNT zero_param) s;
            if res \<noteq> TEEC_SUCCESS then
              Some (res, set_origin ret_origin TEEC_ORIGIN_API (teec_free_temp_refs k operation shm s1))
            else
              let buf = put_open_arg arg @ put_params params;
                  (r, s2) = tee_call k w (Ioctl (ctx_fd (contexts s1 ctx)) (TEE_IOC_OPEN_SESSION buf)) s1 in
              if sr_rc r \<noteq> 0 then
                let res1 = ioctl_errno_to_res (errno s2) in
                Some (res1, set_origin ret_origin TEEC_ORIGIN_COMMS (teec_free_temp_refs k operation shm s2))
              else
                let buf1 = ioctl_back buf (sr_out r); arg1 = get_open_arg buf1; res1 = oa_ret arg1;
                    s3 = (if res1 = TEEC_SUCCESS then
                      s2\<lparr>sessions := (sessions s2)(session := \<lparr>sess_ctx = ctx, session_id = oa_session arg1\<rparr>)\<rparr>
                      else s2) in
                do {
                  s4 \<leftarrow> teec_post_process_operation operation (get_params 56 buf1) shm s3;
                  let s5 = set_origin ret_origin (oa_ret_origin arg1) (teec_free_temp_refs k operation shm s4);
                  Some (res1, if res1 = TEEC_SUCCESS
                    then s5\<lparr>sessionMap := map_insert session (sessionMap s5)\<rparr> else s5)
                }
          })"

definition TEEC_CloseSession :: "kernel \<Rightarrow> ptr \<Rightarrow> teec \<Rightarrow> teec option" where
  "TEEC_CloseSession k session s =
     (if session \<in> set (sessionMap s) then
        do {
          s1 \<leftarrow> ut_close_session k session s;
          Some (s1\<lparr>sessionMap := remove1 session (sessionMap s1)\<rparr>)
        }
      else Some s)"

definition store_op_session :: "ptr \<Rightarrow> ptr \<Rightarrow> teec \<Rightarrow> teec option" where
  "store_op_session operation session s =
     (if operation = 0 then Some s
      else do {
        s1 \<leftarrow> teec_mutex_lock s;
        Some (teec_mutex_unlock (s1\<lparr>operations := (operations s1)(operation :=
          (operations s1 operation)\<lparr>op_session := session\<rparr>)\<rparr>))
      })"

definition TEEC_InvokeCommand ::
  "kernel \<Rightarrow> secure_world \<Rightarrow> ptr \<Rightarrow> u32 \<Rightarrow> ptr \<Rightarrow> ptr \<Rightarrow> teec \<Rightarrow> (TEEC_Result \<times> teec) option" where
  "TEEC_InvokeCommand k w session cmd_id operation error_origin s =
     (if session = 0
      then Some (TEEC_ERROR_BAD_PARAMETERS, set_origin error_origin TEEC_ORIGIN_API s)
      else do {
        let arg = \<lparr>ia_func = cmd_id, ia_session = session_id (sessions s session), ia_cancel_id = 0,
          ia_ret = 0, ia_ret_origin = 0, ia_num_params = of_nat TEEC_CONFIG_PAYLOAD_REF_COUNT\<rparr>;
        s1 \<leftarrow> store_op_session operation session s;
        let ctx = sess_ctx (sessions s1 session);
        (res, params, shm, s2) \<leftarrow> teec_pre_process_operation k ctx operation
          (replicate TEEC_CONFIG_PAYLOAD_REF_COUNT zero_param) s1;
        if res \<noteq> TEEC_SUCCESS then
          Some (res, set_origin error_origin TEEC_ORIGIN_API (teec_free_temp_refs k operation shm s2))
        else if ctx = 0 then None
        else
          let buf = put_invoke_arg arg @ put_params params;
              (r, s3) = tee_call k w (Ioctl (ctx_fd (contexts s2 ctx)) (TEE_IOC_INVOKE buf)) s2 in
          if sr_rc r \<noteq> 0 then
            let res1 = ioctl_errno_to_res (errno s3) in
            Some (res1, set_origin error_origin TEEC_ORIGIN_COMMS (teec_free_temp_refs k operation shm s3))
          else
            let buf1 = ioctl_back buf (sr_out r); arg1 = get_invoke_arg buf1 in
            do {
              s4 \<leftarrow> teec_post_process_operation operation (get_params 24 buf1) shm s3;
              Some (ia_ret arg1, set_origin error_origin (ia_ret_origin arg1)
                (teec_free_temp_refs k operation shm s4))
            }
      })"

definition TEEC_RequestCancellation :: "kernel \<Rightarrow> ptr \<Rightarrow> teec \<Rightarrow> teec option" where
  "TEEC_RequestCancellation k operation s =
     (if operation = 0 then Some s
      else do {
        s1 \<leftarrow> teec_mutex_lock s;
        let session = op_session (operations s1 operation);
        let s2 = teec_mutex_unlock s1;
        if session = 0 then Some s2
        else
          let ses = sessions s2 session in
          if sess_ctx ses = 0 then None
          else Some (snd (sys k (Ioctl (ctx_fd (contexts s2 (sess_ctx ses)))
                 (TEE_IOC_CANCEL 0 (session_id ses))) s2))
      })"

section \<open>Destruction of the library object\<close>

fun destroy_sessions :: "kernel \<Rightarrow> ptr list \<Rightarrow> teec \<Rightarrow> teec option" where
  "destroy_sessions k [] s = Some (s\<lparr>sessionMap := []\<rparr>)"
| "destroy_sessions k (p # ps) s =
     do { s1 \<leftarrow> ut_close_session k p s; destroy_sessions k ps (s1\<lparr>sessionMap := ps\<rparr>) }"

fun destroy_contexts :: "kernel \<Rightarrow> ptr list \<Rightarrow> teec \<Rightarrow> teec" where
  "destroy_contexts k [] s = s\<lparr>contextMap := []\<rparr>"
| "destroy_contexts k (p # ps) s =
     destroy_contexts k ps ((ut_close_fd k (ctx_fd (contexts s p)) s)\<lparr>contextMap := ps\<rparr>)"

definition Common_destructor :: "kernel \<Rightarrow> teec \<Rightarrow> teec option" where
  "Common_destructor k s =
     do { s1 \<leftarrow> destroy_sessions k (sessionMap s) s; Some (destroy_contexts k (contextMap s1) s1) }"

end
