(* ===== verification/Teec_Props.thy ===== *)
theory Teec_Props
  imports Teec
begin

text \<open>
  Correctness of the client library: opening a context, the maps of contexts and sessions
  as an invariant of every sequence of calls, the frame of the memory a command may write,
  and that temporary references are unmapped.
\<close>

section \<open>Calls leave the library's fields alone\<close>

text \<open>The state changed by nothing but calls.\<close>

definition only_calls :: "teec \<Rightarrow> teec \<Rightarrow> bool" where
  "only_calls s s' \<longleftrightarrow> proc.more s' = proc.more s \<and> (\<exists>es. hist s' = hist s @ es)"

lemma only_calls_refl [simp, intro]: "only_calls s s"
  by (simp add: only_calls_def)

lemma only_calls_trans [trans]: "only_calls s s1 \<Longrightarrow> only_calls s1 s2 \<Longrightarrow> only_calls s s2"
  by (auto simp: only_calls_def)

lemma only_calls_sys: "sys k c s = (r, s') \<Longrightarrow> only_calls s s'"
  by (auto simp: only_calls_def sys_def Let_def)

lemma only_calls_snd_sys [simp]: "only_calls s (snd (sys k c s))"
  by (simp add: only_calls_def sys_def Let_def)

lemma only_callsD:
  assumes "only_calls s s'"
  shows "mem s' = mem s" "contexts s' = contexts s" "sessions s' = sessions s"
    "operations s' = operations s" "shms s' = shms s" "origins s' = origins s"
    "contextMap s' = contextMap s" "sessionMap s' = sessionMap s" "teec_mutex s' = teec_mutex s"
    "\<exists>es. hist s' = hist s @ es"
  using assms unfolding only_calls_def by (cases s; cases s'; simp)+

lemma only_calls_eq: "only_calls s s' \<Longrightarrow> s' = s\<lparr>hist := hist s', errno := errno s'\<rparr>"
  unfolding only_calls_def by (cases s; cases s'; simp)

lemma only_calls_upd: "only_calls s s' \<Longrightarrow> s'\<lparr>hist := h, errno := e\<rparr> = s\<lparr>hist := h, errno := e\<rparr>"
  unfolding only_calls_def by (cases s; cases s'; simp)

section \<open>Contexts\<close>

lemma teec_open_dev_only_calls: "teec_open_dev k g dev caps s = (fd, s') \<Longrightarrow> only_calls s s'"
  by (auto simp: teec_open_dev_def Let_def ut_close_fd_def sys_def only_calls_def
      split: if_splits option.splits)

text \<open>The three calls that make an open device.\<close>

definition dev_opened :: "bool \<Rightarrow> bytes \<Rightarrow> bytes option \<Rightarrow> int \<Rightarrow> event list \<Rightarrow> bool" where
  "dev_opened g dev caps fd es \<longleftrightarrow>
     (\<exists>r v h name. es = [(Open dev O_RDWR 0, r), (Ioctl fd TEE_IOC_VERSION, v),
          (Ioctl fd (TEE_IOC_SET_HOSTNAME (hostname_arg name)), h)] \<and>
        sr_rc r = fd \<and> sr_rc v = 0 \<and> has_flag (get_u32 (sr_out v) 8) TEE_GEN_CAP_GP \<and>
        choose_hostname g caps = Some name \<and> sr_rc h = 0)"

lemma teec_open_dev_ok:
  assumes "teec_open_dev k g dev caps s = (fd, s')" "0 \<le> fd"
  shows "\<exists>es. hist s' = hist s @ es \<and> dev_opened g dev caps fd es" and "fd = sr_rc (k (hist s) (Open dev O_RDWR 0))"
  using assms
  by (auto simp: teec_open_dev_def Let_def dev_opened_def sys_def split: if_splits option.splits)

lemma fold_open_fds: "open_fds (h @ es) = fold fd_effect es (open_fds h)"
  by (simp add: open_fds_def)

lemma teec_open_dev_fds:
  assumes "teec_open_dev k g dev caps s = (fd, s')" "fresh_fds k"
  shows "open_fds (hist s') = (if fd < 0 then open_fds (hist s) else insert fd (open_fds (hist s)))"
    and "0 \<le> fd \<Longrightarrow> fd \<notin> open_fds (hist s)"
proof -
  have fresh: "sr_rc (k h (Open dev fl m)) \<notin> open_fds h" for h fl m
    using assms(2) by (auto simp: fresh_fds_def)
  show "open_fds (hist s') = (if fd < 0 then open_fds (hist s) else insert fd (open_fds (hist s)))"
    using assms(1) fresh
    by (auto simp: teec_open_dev_def Let_def ut_close_fd_def fold_open_fds sys_def
        split: if_splits option.splits)
  show "0 \<le> fd \<Longrightarrow> fd \<notin> open_fds (hist s)"
    using teec_open_dev_ok(2) [OF assms(1)] fresh by simp
qed

text \<open>The state after a device \<open>m \<ge> n\<close> has been opened for \<open>ctx\<close> and the lower ones have been given up.\<close>

definition context_opened :: "bool \<Rightarrow> bytes option \<Rightarrow> ptr \<Rightarrow> nat \<Rightarrow> teec \<Rightarrow> teec \<Rightarrow> bool" where
  "context_opened g name ctx n s s' \<longleftrightarrow>
     (\<exists>fd m es0 es. 0 \<le> fd \<and> n \<le> m \<and> m < TEEC_MAX_DEV_SEQ \<and>
        hist s' = hist s @ es0 @ es \<and> dev_opened g (dev_name m) name fd es \<and>
        fd \<notin> open_fds (hist s) \<and> open_fds (hist s') = insert fd (open_fds (hist s)) \<and>
        s' = s\<lparr>hist := hist s', errno := errno s', contexts := (contexts s)(ctx := \<lparr>ctx_fd = fd\<rparr>),
               contextMap := map_insert ctx (contextMap s)\<rparr>)"

lemma context_opened_later:
  assumes "only_calls s s1" "open_fds (hist s1) = open_fds (hist s)" "context_opened g name ctx (Suc n) s1 s'"
  shows "context_opened g name ctx n s s'"
proof -
  from assms(3) obtain fd m es0 es where f: "0 \<le> fd" "Suc n \<le> m" "m < TEEC_MAX_DEV_SEQ"
    "hist s' = hist s1 @ es0 @ es" "dev_opened g (dev_name m) name fd es" "fd \<notin> open_fds (hist s1)"
    "open_fds (hist s') = insert fd (open_fds (hist s1))"
    "s' = s1\<lparr>hist := hist s', errno := errno s', contexts := (contexts s1)(ctx := \<lparr>ctx_fd = fd\<rparr>),
          contextMap := map_insert ctx (contextMap s1)\<rparr>"
    unfolding context_opened_def by blast
  obtain es1 where "hist s1 = hist s @ es1" using assms(1) by (auto simp: only_calls_def)
  then have "hist s' = hist s @ (es1 @ es0) @ es" using f(4) by simp
  moreover from f(8) have "s' = s\<lparr>hist := hist s', errno := errno s',
      contexts := (contexts s)(ctx := \<lparr>ctx_fd = fd\<rparr>), contextMap := map_insert ctx (contextMap s)\<rparr>"
    using only_callsD(2,7) [OF assms(1)] by (simp add: only_calls_upd [OF assms(1)])
  ultimately show ?thesis
    unfolding context_opened_def using f(1-3,5-7) assms(2) by (metis Suc_leD)
qed

lemma init_context_loop_spec:
  assumes "init_context_loop k g name ctx n s = (res, s')" "fresh_fds k"
  shows "res = TEEC_SUCCESS \<and> context_opened g name ctx n s s' \<or>
         res = TEEC_ERROR_ITEM_NOT_FOUND \<and> open_fds (hist s') = open_fds (hist s) \<and> only_calls s s'"
  using assms(1)
proof (induction "TEEC_MAX_DEV_SEQ - n" arbitrary: n s)
  case 0
  then show ?case by (simp add: init_context_loop.simps)
next
  case (Suc x)
  then have n: "n < TEEC_MAX_DEV_SEQ" by simp
  obtain fd s1 where s1: "teec_open_dev k g (dev_name n) name s = (fd, s1)" by fastforce
  note fds = teec_open_dev_fds [OF s1 assms(2)]
  note oc = teec_open_dev_only_calls [OF s1]
  show ?case
  proof (cases "0 \<le> fd")
    case True
    then obtain es where es: "hist s1 = hist s @ [] @ es" "dev_opened g (dev_name n) name fd es"
      using teec_open_dev_ok(1) [OF s1] by auto
    have s': "s' = s1\<lparr>contexts := (contexts s1)(ctx := \<lparr>ctx_fd = fd\<rparr>),
             contextMap := map_insert ctx (contextMap s1)\<rparr>" and res: "res = TEEC_SUCCESS"
      using Suc.prems n s1 True by (simp_all add: init_context_loop.simps [of _ _ _ _ n])
    have "hist s' = hist s1" by (simp add: s')
    moreover have "s' = s\<lparr>hist := hist s', errno := errno s',
        contexts := (contexts s)(ctx := \<lparr>ctx_fd = fd\<rparr>), contextMap := map_insert ctx (contextMap s)\<rparr>"
      using only_calls_eq [OF oc] only_callsD(2,7) [OF oc] unfolding s' by simp
    moreover have "open_fds (hist s1) = insert fd (open_fds (hist s))" "fd \<notin> open_fds (hist s)"
      using fds True by simp_all
    ultimately have "context_opened g name ctx n s s'"
      unfolding context_opened_def using es n True by (metis order_refl)
    with res show ?thesis by blast
  next
    case False
    then have loop: "init_context_loop k g name ctx (Suc n) s1 = (res, s')"
      using Suc.prems n s1 by (simp add: init_context_loop.simps [of _ _ _ _ n])
    have "x = TEEC_MAX_DEV_SEQ - Suc n" using Suc.hyps(2) by simp
    from Suc.hyps(1) [OF this loop] False fds oc show ?thesis
      by (auto intro: only_calls_trans context_opened_later)
  qed
qed


end
