(* ===== verification/Teec_Frame.thy ===== *)
theory Teec_Frame
  imports Teec_Props
begin

text \<open>
  Which memory a command writes: the buffers its operation names as output, the shadow
  buffers of the shared memory it refers to, and the mappings it makes itself; and that the
  mappings it makes are gone when it returns.
\<close>

section \<open>Areas of memory\<close>

definition span :: "ptr \<Rightarrow> u64 \<Rightarrow> ptr set" where
  "span p n = {p..<p + unat n}"

text \<open>The mappings that successful calls of \<open>mmap\<close> in a piece of history have made.\<close>

definition mapped :: "event list \<Rightarrow> ptr set" where
  "mapped es = {a. \<exists>n fd r. (Mmap n fd, r) \<in> set es \<and> 0 \<le> sr_rc r \<and> nat (sr_rc r) \<le> a \<and> a < nat (sr_rc r) + n}"

definition new_maps :: "teec \<Rightarrow> teec \<Rightarrow> ptr set" where
  "new_maps s s' = mapped (drop (length (hist s)) (hist s'))"

text \<open>The step from \<open>s\<close> to \<open>s'\<close> extends the history and writes only \<open>A\<close> and its own mappings.\<close>

definition writes :: "ptr set \<Rightarrow> teec \<Rightarrow> teec \<Rightarrow> bool" where
  "writes A s s' \<longleftrightarrow> (\<exists>es. hist s' = hist s @ es) \<and> (\<forall>a. a \<notin> A \<and> a \<notin> new_maps s s' \<longrightarrow> mem s' a = mem s a)"

lemma writes_refl [simp, intro]: "writes A s s"
  by (simp add: writes_def)

lemma mapped_Nil [simp]: "mapped [] = {}"
  by (simp add: mapped_def)

lemma mapped_append: "mapped (xs @ ys) = mapped xs \<union> mapped ys"
  by (auto simp: mapped_def)

lemma writes_trans [trans]:
  assumes "writes A s s1" "writes A s1 s2"
  shows "writes A s s2"
proof -
  from assms obtain es1 es2 where es: "hist s1 = hist s @ es1" "hist s2 = hist s1 @ es2"
    unfolding writes_def by blast
  then have "new_maps s s2 = new_maps s s1 \<union> new_maps s1 s2"
    by (simp add: new_maps_def mapped_append)
  with es assms show ?thesis by (auto simp: writes_def)
qed

lemma writes_mono: "writes A s s' \<Longrightarrow> A \<subseteq> B \<Longrightarrow> writes B s s'"
  by (auto simp: writes_def)

lemma writes_only_calls: "only_calls s s' \<Longrightarrow> writes A s s'"
  by (simp add: writes_def only_callsD)

lemma mem_write_outside: "a \<notin> {p..<p + length bs} \<Longrightarrow> mem_write p bs h a = h a"
  by (auto simp: mem_write_def)

lemma length_mem_read [simp]: "length (mem_read p n h) = n"
  by (simp add: mem_read_def)

lemma writes_memcpy: "memcpy d src n s = Some s' \<Longrightarrow> span d n \<subseteq> A \<Longrightarrow> writes A s s'"
  by (auto simp: memcpy_def writes_def span_def mem_write_def split: if_splits)

text \<open>What a copy leaves alone.\<close>

lemma memcpy_frame:
  "memcpy d src n s = Some s' \<Longrightarrow> s' = s\<lparr>mem := mem s'\<rparr> \<and> hist s' = hist s"
  by (auto simp: memcpy_def split: if_splits)

section \<open>Steps before the call\<close>

text \<open>A step that only makes calls and changes memory.\<close>

definition calls_and_mem :: "teec \<Rightarrow> teec \<Rightarrow> bool" where
  "calls_and_mem s s' \<longleftrightarrow> only_calls (s\<lparr>mem := mem s'\<rparr>) s'"

lemma calls_and_mem_refl [simp, intro]: "calls_and_mem s s"
  by (simp add: calls_and_mem_def)

lemma calls_and_memD:
  assumes "calls_and_mem s s'"
  shows "contexts s' = contexts s" "sessions s' = sessions s" "operations s' = operations s"
    "shms s' = shms s" "origins s' = origins s" "contextMap s' = contextMap s"
    "sessionMap s' = sessionMap s" "teec_mutex s' = teec_mutex s" "\<exists>es. hist s' = hist s @ es"
  using only_callsD [OF assms [unfolded calls_and_mem_def]] by simp_all

lemma calls_and_mem_trans [trans]: "calls_and_mem s s1 \<Longrightarrow> calls_and_mem s1 s2 \<Longrightarrow> calls_and_mem s s2"
  unfolding calls_and_mem_def only_calls_def by (cases s; cases s1; cases s2; auto)

lemma calls_and_mem_only_calls: "only_calls s s' \<Longrightarrow> calls_and_mem s s'"
  unfolding calls_and_mem_def only_calls_def by (cases s; cases s'; auto)

lemma calls_and_mem_memcpy: "memcpy d src n s = Some s' \<Longrightarrow> calls_and_mem s s'"
  by (auto simp: memcpy_def calls_and_mem_def only_calls_def split: if_splits)

lemmas calls_and_mem_intros = calls_and_mem_refl calls_and_mem_memcpy

lemma only_calls_mmap: "mmap k n fd s = (p, s') \<Longrightarrow> only_calls s s'"
  by (auto simp: mmap_def Let_def only_calls_def sys_def)

lemma only_calls_get_id: "teec_shm_get_id k fd p s = (i, s') \<Longrightarrow> only_calls s s'"
  by (auto simp: teec_shm_get_id_def Let_def only_calls_def sys_def)

lemma only_calls_allocate: "allocate_shm k ctx shm s = (res, shm', s') \<Longrightarrow> only_calls s s'"
  by (auto simp: allocate_shm_def Let_def split: if_splits prod.splits
      intro: only_calls_trans only_calls_mmap only_calls_get_id)

lemma only_calls_release: "release_shm k shm s = (shm', s') \<Longrightarrow> only_calls s s'"
  by (auto simp: release_shm_def Let_def only_calls_def sys_def split: if_splits)

text \<open>A successful allocation maps the structure's buffer.\<close>

lemma allocate_maps:
  assumes "allocate_shm k ctx shm s = (res, shm', s')" "res = TEEC_SUCCESS"
  shows "\<exists>r i. hist s' = hist s @ [(Mmap (unat (if shm_size shm = 0 then 8 else shm_size shm)) (registered_fd shm'), r),
       (Ioctl (registered_fd shm') (TEE_IOC_SHM_ID (shm_buffer shm')), i)] \<and> 0 \<le> sr_rc r \<and>
       nat (sr_rc r) = shm_buffer shm' \<and> shm_id shm' = (if sr_rc i < 0 then - 1 else sr_rc i)"
    and "shm_size shm' = shm_size shm" "shadow_buffer shm' = 0" "registered_fd shm' = ctx_fd (contexts s ctx)"
    and "alloced_size shm' = (if shm_size shm = 0 then 8 else shm_size shm)"
proof -
  let ?n = "if shm_size shm = 0 then 8 else shm_size shm" and ?fd = "ctx_fd (contexts s ctx)"
  obtain p s1 where s1: "mmap k ?n ?fd s = (p, s1)" by fastforce
  obtain i s2 where s2: "teec_shm_get_id k ?fd p s1 = (i, s2)" by fastforce
  from assms s1 s2 have v: "shm' = shm\<lparr>shm_buffer := p, shadow_buffer := 0, alloced_size := ?n,
      registered_fd := ?fd, shm_id := i\<rparr>" "s' = s2" "p \<noteq> MAP_FAILED"
    unfolding allocate_shm_def Let_def by (simp_all split: if_splits)
  obtain r where r: "hist s1 = hist s @ [(Mmap (unat ?n) ?fd, r)]" "0 \<le> sr_rc r" "nat (sr_rc r) = p"
    using s1 v(3) by (auto simp: mmap_def Let_def sys_def split: if_splits)
  obtain ir where "hist s2 = hist s1 @ [(Ioctl ?fd (TEE_IOC_SHM_ID p), ir)]"
      "i = (if sr_rc ir < 0 then - 1 else sr_rc ir)"
    using s2 by (auto simp: teec_shm_get_id_def Let_def sys_def split: if_splits)
  with r v show "\<exists>r i. hist s' = hist s @ [(Mmap (unat ?n) (registered_fd shm'), r),
       (Ioctl (registered_fd shm') (TEE_IOC_SHM_ID (shm_buffer shm')), i)] \<and> 0 \<le> sr_rc r \<and>
       nat (sr_rc r) = shm_buffer shm' \<and> shm_id shm' = (if sr_rc i < 0 then - 1 else sr_rc i)"
    by simp
  from v show "shm_size shm' = shm_size shm" "shadow_buffer shm' = 0" "registered_fd shm' = ?fd"
    "alloced_size shm' = ?n"
    by simp_all
qed

lemma allocate_span:
  assumes "allocate_shm k ctx shm s = (res, shm', s')" "res = TEEC_SUCCESS"
  shows "span (shm_buffer shm') (shm_size shm) \<subseteq> new_maps s s'"
proof -
  obtain r i where "hist s' = hist s @ [(Mmap (unat (if shm_size shm = 0 then 8 else shm_size shm)) (registered_fd shm'), r),
       (Ioctl (registered_fd shm') (TEE_IOC_SHM_ID (shm_buffer shm')), i)]" "0 \<le> sr_rc r"
       "nat (sr_rc r) = shm_buffer shm'"
    using allocate_maps(1) [OF assms] by blast
  then show ?thesis by (fastforce simp: new_maps_def mapped_def span_def split: if_splits)
qed

section \<open>The areas of an operation\<close>

text \<open>
  What the library may write for one parameter: the client's buffer if the parameter is an
  output, the shadow buffer if it is an input of registered shared memory.
\<close>

definition whole_area :: "TEEC_SharedMemory \<Rightarrow> ptr set" where
  "whole_area shm = (if shadow_buffer shm = 0 then {} else
     (if has_flag (shm_flags shm) TEEC_MEM_INPUT then span (shadow_buffer shm) (shm_size shm) else {}) \<union>
     (if has_flag (shm_flags shm) TEEC_MEM_OUTPUT then span (shm_buffer shm) (shm_size shm) else {}))"

definition partial_area :: "u32 \<Rightarrow> TEEC_SharedMemory \<Rightarrow> TEEC_RegisteredMemoryReference \<Rightarrow> ptr set" where
  "partial_area t shm mr = (if shadow_buffer shm = 0 then {} else
     (if t = TEEC_MEMREF_PARTIAL_OUTPUT then {} else span (shadow_buffer shm + unat (ref_offset mr)) (ref_size mr)) \<union>
     (if t = TEEC_MEMREF_PARTIAL_INPUT then {} else span (shm_buffer shm + unat (ref_offset mr)) (ref_size mr)))"

definition param_area :: "(ptr \<Rightarrow> TEEC_SharedMemory) \<Rightarrow> u32 \<Rightarrow> TEEC_Parameter \<Rightarrow> ptr set" where
  "param_area ms t p =
     (if temp_type t \<noteq> None
      then (if t = TEEC_MEMREF_TEMP_INPUT then {} else span (tmp_buffer (tmpref p)) (tmp_size (tmpref p)))
      else if t = TEEC_MEMREF_WHOLE then whole_area (ms (ref_parent (memref p)))
      else if partial_type t \<noteq> None then partial_area t (ms (ref_parent (memref p))) (memref p)
      else {})"

definition op_area :: "(ptr \<Rightarrow> TEEC_SharedMemory) \<Rightarrow> TEEC_Operation \<Rightarrow> ptr set" where
  "op_area ms oper = (\<Union>n \<in> set param_indices.
     param_area ms (TEEC_PARAM_TYPE_GET (paramTypes oper) n) (op_params oper ! n))"

lemma has_flag_and: "has_flag (x AND (TEEC_MEM_INPUT OR TEEC_MEM_OUTPUT)) TEEC_MEM_INPUT = has_flag x TEEC_MEM_INPUT"
  by (simp add: has_flag_def and.assoc)

lemma has_flag_all: "x AND 3 = 3 \<Longrightarrow> has_flag (x :: u32) 1"
  using has_flag_and [of x] by (simp add: has_flag_def)

lemma pre_whole_frame:
  assumes "teec_pre_process_whole mr param s = Some (res, param', s')"
  shows "calls_and_mem s s' \<and> writes (whole_area (shms s (ref_parent mr))) s s'"
  using assms unfolding teec_pre_process_whole_def Let_def
  by (auto simp: whole_area_def has_flag_and [simplified] split: if_splits bind_splits
      intro: calls_and_mem_memcpy writes_memcpy dest: has_flag_all)

lemma pre_partial_frame:
  assumes "teec_pre_process_partial t mr param s = Some (res, param', s')"
  shows "calls_and_mem s s' \<and> writes (partial_area t (shms s (ref_parent mr)) mr) s s'"
  using assms unfolding teec_pre_process_partial_def Let_def
  by (auto simp: partial_area_def split: if_splits bind_splits option.splits prod.splits
      intro: calls_and_mem_memcpy writes_memcpy)

lemma pre_tmpref_frame:
  assumes "teec_pre_process_tmpref k ctx t tr param shm s = Some (res, param', shm', s')"
  shows "calls_and_mem s s' \<and> writes A s s'"
proof -
  obtain a fl where t: "temp_type t = Some (a, fl) \<or> temp_type t = None" by (cases "temp_type t") auto
  let ?shm0 = "shm\<lparr>shm_size := tmp_size tr, shm_flags := fl\<rparr>"
  obtain res1 shm1 s1 where al: "allocate_shm k ctx ?shm0 s = (res1, shm1, s1)"
    by (metis prod_cases3)
  note oc = only_calls_allocate [OF al]
  from t assms al consider "s' = s" | "s' = s1" | "res1 = TEEC_SUCCESS" "memcpy (shm_buffer shm1) (tmp_buffer tr) (tmp_size tr) s1 = Some s'"
    unfolding teec_pre_process_tmpref_def Let_def by (auto split: if_splits bind_splits)
  then show ?thesis
  proof cases
    case 3
    have "span (shm_buffer shm1) (tmp_size tr) \<subseteq> new_maps s s1"
      using allocate_span [OF al 3(1)] by simp
    then have "writes (new_maps s s1) s1 s'" by (rule writes_memcpy [OF 3(2)])
    moreover have "hist s' = hist s1" using memcpy_frame [OF 3(2)] by blast
    ultimately have "writes A s s'" 
      using only_callsD [OF oc] by (auto simp: writes_def new_maps_def)
    then show ?thesis
      using calls_and_mem_memcpy [OF 3(2)] calls_and_mem_only_calls [OF oc] calls_and_mem_trans by blast
  qed (use oc in \<open>auto intro: calls_and_mem_only_calls writes_only_calls\<close>)
qed

lemma pre_param_frame:
  assumes "pre_process_param k ctx t p param shm s = Some (res, param', shm', s')"
  shows "calls_and_mem s s' \<and> writes (param_area (shms s) t p) s s'"
  using assms unfolding pre_process_param_def param_area_def
  by (auto split: if_splits bind_splits dest: pre_whole_frame pre_partial_frame pre_tmpref_frame)

lemma pre_loop_frame:
  assumes "pre_process_loop k ctx oper ns params shm s = Some (res, params', shm', s')"
    and "set ns \<subseteq> set param_indices"
  shows "calls_and_mem s s' \<and> writes (op_area (shms s) oper) s s'"
  using assms
proof (induction ns arbitrary: params shm s)
  case (Cons n ns)
  from Cons.prems(1) obtain res1 p m s1 where
    p: "pre_process_param k ctx (TEEC_PARAM_TYPE_GET (paramTypes oper) n) (op_params oper ! n) (params ! n)
        (shm ! n) s = Some (res1, p, m, s1)"
    and rest: "s' = s1 \<or> pre_process_loop k ctx oper ns (params[n := p]) (shm[n := m]) s1 = Some (res, params', shm', s')"
    by (auto split: bind_splits if_splits)
  have A: "param_area (shms s) (TEEC_PARAM_TYPE_GET (paramTypes oper) n) (op_params oper ! n) \<subseteq> op_area (shms s) oper"
    using Cons.prems(2) by (auto simp: op_area_def)
  from pre_param_frame [OF p] have 1: "calls_and_mem s s1" "writes (op_area (shms s) oper) s s1"
    using writes_mono [OF _ A] by auto
  from rest show ?case
  proof
    assume "pre_process_loop k ctx oper ns (params[n := p]) (shm[n := m]) s1 = Some (res, params', shm', s')"
    from Cons.IH [OF this] Cons.prems(2) have "calls_and_mem s1 s'" "writes (op_area (shms s) oper) s1 s'"
      by (simp_all add: calls_and_memD [OF 1(1)])
    with 1 show ?thesis using calls_and_mem_trans writes_trans by blast
  qed (use 1 in blast)
qed simp

definition operation_area :: "ptr \<Rightarrow> teec \<Rightarrow> ptr set" where
  "operation_area operation s = (if operation = 0 then {} else op_area (shms s) (operations s operation))"

lemma pre_operation_frame:
  assumes "teec_pre_process_operation k ctx operation params s = Some (res, params', shm', s')"
  shows "calls_and_mem s s' \<and> writes (operation_area operation s) s s'"
  using assms pre_loop_frame [of k ctx "operations s operation" param_indices]
  by (auto simp: teec_pre_process_operation_def Let_def operation_area_def split: if_splits)

section \<open>Steps after the call\<close>

lemma post_tmpref_frame:
  assumes "teec_post_process_tmpref t tr param shm s = Some (tr', s')"
  shows "calls_and_mem s s' \<and>
    writes (if t = TEEC_MEMREF_TEMP_INPUT then {} else span (tmp_buffer tr) (tmp_size tr)) s s'"
  using assms unfolding teec_post_process_tmpref_def
  by (auto split: if_splits bind_splits intro: calls_and_mem_memcpy intro!: writes_memcpy
      simp: span_def word_le_nat_alt)

lemma post_whole_frame:
  assumes "teec_post_process_whole mr param s = Some (mr', s')"
  shows "calls_and_mem s s' \<and> writes (whole_area (shms s (ref_parent mr))) s s'"
  using assms unfolding teec_post_process_whole_def Let_def
  by (auto split: if_splits bind_splits intro: calls_and_mem_memcpy intro!: writes_memcpy
      simp: span_def word_le_nat_alt whole_area_def)

lemma post_partial_frame:
  assumes "teec_post_process_partial t mr param s = Some (mr', s')"
  shows "calls_and_mem s s' \<and> writes (partial_area t (shms s (ref_parent mr)) mr) s s'"
  using assms unfolding teec_post_process_partial_def Let_def
  by (auto split: if_splits bind_splits intro: calls_and_mem_memcpy intro!: writes_memcpy
      simp: span_def word_le_nat_alt partial_area_def)

lemma post_param_frame:
  assumes "post_process_param t p param shm s = Some (p', s')"
  shows "calls_and_mem s s' \<and> writes (param_area (shms s) t p) s s'"
  using assms unfolding post_process_param_def param_area_def
  by (auto split: if_splits bind_splits dest: post_whole_frame post_partial_frame post_tmpref_frame)

lemma set_param_fields [simp]:
  "hist (set_param x n p s) = hist s" "mem (set_param x n p s) = mem s" "shms (set_param x n p s) = shms s"
  "contexts (set_param x n p s) = contexts s" "sessions (set_param x n p s) = sessions s"
  "sessionMap (set_param x n p s) = sessionMap s" "contextMap (set_param x n p s) = contextMap s"
  "teec_mutex (set_param x n p s) = teec_mutex s"
  "operations (set_param x n p s) x = (operations s x)\<lparr>op_params := (op_params (operations s x))[n := p]\<rparr>"
  by (simp_all add: set_param_def)

lemma post_loop_frame:
  assumes "post_process_loop operation ns params shm s = Some s'" "distinct ns"
    and "\<And>n. n \<in> set ns \<Longrightarrow>
      param_area (shms s) (TEEC_PARAM_TYPE_GET (paramTypes (operations s operation)) n)
        (op_params (operations s operation) ! n) \<subseteq> A"
  shows "writes A s s' \<and> shms s' = shms s \<and> contexts s' = contexts s \<and> sessions s' = sessions s \<and>
    sessionMap s' = sessionMap s \<and> contextMap s' = contextMap s \<and> teec_mutex s' = teec_mutex s \<and>
    paramTypes (operations s' operation) = paramTypes (operations s operation)"
  using assms
proof (induction ns arbitrary: s)
  case (Cons n ns)
  let ?op = "operations s operation"
  from Cons.prems(1) obtain p s1 where
    p: "post_process_param (TEEC_PARAM_TYPE_GET (paramTypes ?op) n) (op_params ?op ! n) (params ! n)
          (shm ! n) s = Some (p, s1)"
    and rest: "post_process_loop operation ns params shm (set_param operation n p s1) = Some s'"
    by (auto simp: Let_def split: bind_splits)
  note f = calls_and_memD [OF conjunct1 [OF post_param_frame [OF p]]]
  have "writes A s s1"
    using post_param_frame [OF p] Cons.prems(3) [of n] writes_mono by auto
  then have w: "writes A s (set_param operation n p s1)" by (simp add: writes_def new_maps_def)
  have "param_area (shms (set_param operation n p s1))
          (TEEC_PARAM_TYPE_GET (paramTypes (operations (set_param operation n p s1) operation)) m)
          (op_params (operations (set_param operation n p s1) operation) ! m) \<subseteq> A" if "m \<in> set ns" for m
  proof -
    have "m \<noteq> n" using Cons.prems(2) that by auto
    with Cons.prems(3) [of m] that show ?thesis by (simp add: f)
  qed
  from Cons.IH [OF rest _ this] Cons.prems(2) w f show ?case
    by (auto intro: writes_trans)
qed simp

lemma free_temp_only_calls: "only_calls s (free_temp_loop k types ns shm s)"
proof (induction ns arbitrary: shm s)
  case (Cons n ns)
  obtain m s1 where r: "release_shm k (shm ! n) s = (m, s1)" by fastforce
  show ?case
    using Cons.IH only_calls_trans [OF only_calls_release [OF r] Cons.IH] by (simp add: r)
qed simp

lemma free_temp_refs_only_calls: "only_calls s (teec_free_temp_refs k operation shm s)"
  by (simp add: teec_free_temp_refs_def free_temp_only_calls)

section \<open>The secure world\<close>

definition secure_area :: "secure_world \<Rightarrow> ptr set" where
  "secure_area w = {a. \<exists>h c p bs. (p, bs) \<in> set (w h c) \<and> p \<le> a \<and> a < p + length bs}"

lemma fold_writes_outside:
  "(\<forall>(p, bs) \<in> set ws. a \<notin> {p..<p + length bs}) \<Longrightarrow> fold (\<lambda>(p, bs). mem_write p bs) ws h a = h a"
  by (induction ws arbitrary: h) (auto simp: mem_write_def)

lemma tee_call_frame:
  assumes "tee_call k w c s = (r, s')"
  shows "calls_and_mem s s' \<and> writes (secure_area w) s s'"
proof -
  have s': "s' = s\<lparr>hist := hist s @ [(c, r)], errno := errno s', mem := mem s'\<rparr>"
    "mem s' = fold (\<lambda>(p, bs). mem_write p bs) (w (hist s) c) (mem s)"
    using assms by (auto simp: tee_call_def Let_def sys_def)
  have "mem s' a = mem s a" if "a \<notin> secure_area w" for a
    unfolding s'(2) using that by (intro fold_writes_outside) (fastforce simp: secure_area_def)
  moreover have "hist s' = hist s @ [(c, r)]" by (subst s'(1)) simp
  moreover have "calls_and_mem s s'" 
    using assms by (cases s) (auto simp: calls_and_mem_def only_calls_def tee_call_def Let_def sys_def)
  ultimately show ?thesis by (auto simp: writes_def)
qed

section \<open>The frame of a command\<close>

lemma writes_set_origin [simp]: "writes A s (set_origin p v s') \<longleftrightarrow> writes A s s'"
  by (simp add: writes_def set_origin_def new_maps_def)

lemma post_operation_frame:
  assumes "teec_post_process_operation operation params shm s = Some s'"
  shows "writes (operation_area operation s) s s' \<and> shms s' = shms s \<and> contexts s' = contexts s \<and>
    sessions s' = sessions s \<and> sessionMap s' = sessionMap s \<and> contextMap s' = contextMap s \<and>
    teec_mutex s' = teec_mutex s \<and> paramTypes (operations s' operation) = paramTypes (operations s operation)"
proof (cases "operation = 0")
  case False
  with assms have "post_process_loop operation param_indices params shm s = Some s'"
    by (simp add: teec_post_process_operation_def)
  moreover have "distinct param_indices" by (simp add: param_indices_def)
  ultimately show ?thesis
    using post_loop_frame [of operation param_indices params shm s s' "operation_area operation s"] False
    by (fastforce simp: operation_area_def op_area_def)
qed (use assms in \<open>simp add: teec_post_process_operation_def\<close>)

lemma store_op_session_frame:
  assumes "store_op_session operation session s = Some s'"
  shows "hist s' = hist s \<and> mem s' = mem s \<and> shms s' = shms s \<and> contexts s' = contexts s \<and>
    sessions s' = sessions s \<and> sessionMap s' = sessionMap s \<and> contextMap s' = contextMap s \<and>
    teec_mutex s' = teec_mutex s \<and> operation_area operation s' = operation_area operation s \<and>
    paramTypes (operations s' x) = paramTypes (operations s x) \<and>
    op_params (operations s' x) = op_params (operations s x)"
  using assms
  by (auto simp: store_op_session_def teec_mutex_lock_def teec_mutex_unlock_def operation_area_def op_area_def
      split: if_splits)

lemma operation_area_cong:
  "shms s' = shms s \<Longrightarrow> operations s' = operations s \<Longrightarrow> operation_area x s' = operation_area x s"
  by (simp add: operation_area_def)

text \<open>
  Both calls have the same shape: parameters are prepared, the secure world may be called,
  parameters are taken back, and the temporary references are released.
\<close>

definition exchange ::
  "kernel \<Rightarrow> secure_world \<Rightarrow> ptr \<Rightarrow> TEEC_SharedMemory list \<Rightarrow> teec \<Rightarrow> teec \<Rightarrow> bool" where
  "exchange k w operation shm s sx \<longleftrightarrow>
     sx = s \<or>
     (\<exists>fd q r s1. tee_call k w (Ioctl fd q) s = (r, s1) \<and>
        (sx = s1 \<or>
         (\<exists>f ps. teec_post_process_operation operation ps shm (s1\<lparr>sessions := f\<rparr>) = Some sx)))"

lemma exchange_start: "exchange k w operation shm s s"
  by (simp add: exchange_def)

lemma exchange_failed: "tee_call k w (Ioctl fd q) s = (r, sx) \<Longrightarrow> exchange k w operation shm s sx"
  by (auto simp: exchange_def)

lemma exchange_done:
  "tee_call k w (Ioctl fd q) s = (r, s1) \<Longrightarrow>
   teec_post_process_operation operation ps shm (s1\<lparr>sessions := f\<rparr>) = Some sx \<Longrightarrow>
   exchange k w operation shm s sx"
  unfolding exchange_def by blast

lemma invoke_shape:
  assumes "TEEC_InvokeCommand k w session cmd_id operation error_origin s = Some (res, s')" "session \<noteq> 0"
  obtains s1 res2 params shm s2 sx v where
    "store_op_session operation session s = Some s1"
    "teec_pre_process_operation k (sess_ctx (sessions s1 session)) operation
        (replicate TEEC_CONFIG_PAYLOAD_REF_COUNT zero_param) s1 = Some (res2, params, shm, s2)"
    "exchange k w operation shm s2 sx" "res2 \<noteq> TEEC_SUCCESS \<Longrightarrow> sx = s2"
    "s' = set_origin error_origin v (teec_free_temp_refs k operation shm sx)"
proof -
  from assms obtain s1 res2 params shm s2 where
    s1: "store_op_session operation session s = Some s1"
    and s2: "teec_pre_process_operation k (sess_ctx (sessions s1 session)) operation
      (replicate TEEC_CONFIG_PAYLOAD_REF_COUNT zero_param) s1 = Some (res2, params, shm, s2)"
    unfolding TEEC_InvokeCommand_def Let_def by (auto split: bind_splits)
  let ?ctx = "sess_ctx (sessions s1 session)"
  let ?fd = "ctx_fd (contexts s2 ?ctx)"
  let ?buf = "put_invoke_arg \<lparr>ia_func = cmd_id, ia_session = session_id (sessions s session), ia_cancel_id = 0,
          ia_ret = 0, ia_ret_origin = 0, ia_num_params = of_nat TEEC_CONFIG_PAYLOAD_REF_COUNT\<rparr> @ put_params params"
  obtain r s3 where c: "tee_call k w (Ioctl ?fd (TEE_IOC_INVOKE ?buf)) s2 = (r, s3)" by fastforce
  note e = exchange_start exchange_failed [OF c] exchange_done [OF c, of _ _ _ "sessions s3"]
  show thesis
  proof (cases "res2 = TEEC_SUCCESS")
    case True
    then consider v where "s' = set_origin error_origin v (teec_free_temp_refs k operation shm s3)"
      | v ps s4 where "teec_post_process_operation operation ps shm s3 = Some s4"
          "s' = set_origin error_origin v (teec_free_temp_refs k operation shm s4)"
      using assms s1 s2 c unfolding TEEC_InvokeCommand_def Let_def
      by (auto split: bind_splits if_splits)
    then show thesis
    proof cases
      case 1
      show thesis by (rule that [OF s1 s2 e(2) _ 1]) (use True in simp)
    next
      case 2
      have "exchange k w operation shm s2 s4" by (rule e(3)) (use 2 in simp)
      then show thesis by (rule that [OF s1 s2 _ _ 2(2)]) (use True in simp)
    qed
  next
    case False
    then have "s' = set_origin error_origin TEEC_ORIGIN_API (teec_free_temp_refs k operation shm s2)"
      using assms s1 s2 unfolding TEEC_InvokeCommand_def Let_def by (auto split: bind_splits)
    then show thesis by (rule that [OF s1 s2 e(1) refl])
  qed
qed

lemma exchange_frame:
  assumes "exchange k w operation shm s sx"
  shows "writes (operation_area operation s \<union> secure_area w) s sx \<and> shms sx = shms s \<and>
    contexts sx = contexts s \<and> sessionMap sx = sessionMap s \<and> contextMap sx = contextMap s \<and>
    teec_mutex sx = teec_mutex s \<and> paramTypes (operations sx operation) = paramTypes (operations s operation)"
  using assms unfolding exchange_def
proof (elim disjE exE conjE)
  fix fd q r s1
  assume c: "tee_call k w (Ioctl fd q) s = (r, s1)"
  note f = calls_and_memD [OF conjunct1 [OF tee_call_frame [OF c]]]
  have w: "writes (operation_area operation s \<union> secure_area w) s s1"
    using tee_call_frame [OF c] writes_mono by blast
  show ?thesis if "sx = s1" using w f that by simp
  fix g ps
  assume p: "teec_post_process_operation operation ps shm (s1\<lparr>sessions := g\<rparr>) = Some sx"
  have "operation_area operation (s1\<lparr>sessions := g\<rparr>) = operation_area operation s"
    by (rule operation_area_cong) (simp_all add: f)
  then have "writes (operation_area operation s) (s1\<lparr>sessions := g\<rparr>) sx"
    using conjunct1 [OF post_operation_frame [OF p]] by metis
  then have "writes (operation_area operation s \<union> secure_area w) s1 sx"
    by (auto simp: writes_def new_maps_def)
  with w f post_operation_frame [OF p] show ?thesis by (auto intro: writes_trans)
qed simp

text \<open>C15. Memory safety of \<open>TEEC_InvokeCommand\<close>: whatever the driver and the secure world
  answer, sizes larger than the client's buffers included, a command changes no byte outside
  the output buffers its operation names, the shadow buffers of the shared memory it refers
  to, the mappings it makes itself and what the secure world writes.\<close>

theorem invoke_command_frame:
  assumes "TEEC_InvokeCommand k w session cmd_id operation error_origin s = Some (res, s')"
    and "a \<notin> operation_area operation s" "a \<notin> secure_area w" "a \<notin> new_maps s s'"
  shows "mem s' a = mem s a"
proof (cases "session = 0")
  case False
  let ?A = "operation_area operation s \<union> secure_area w"
  from invoke_shape [OF assms(1) False] obtain s1 res2 params shm s2 sx v where
    s1: "store_op_session operation session s = Some s1"
    and s2: "teec_pre_process_operation k (sess_ctx (sessions s1 session)) operation
        (replicate TEEC_CONFIG_PAYLOAD_REF_COUNT zero_param) s1 = Some (res2, params, shm, s2)"
    and sx: "exchange k w operation shm s2 sx"
    and s': "s' = set_origin error_origin v (teec_free_temp_refs k operation shm sx)"
    by metis
  note f1 = store_op_session_frame [OF s1]
  have "writes ?A s s2" and f2: "calls_and_mem s1 s2"
    using pre_operation_frame [OF s2] f1 writes_mono [of "operation_area operation s" s1 s2 ?A]
    by (auto simp: writes_def new_maps_def)
  moreover have "writes ?A s2 sx"
    using conjunct1 [OF exchange_frame [OF sx]] calls_and_memD(3,4) [OF f2] f1
    by (simp add: operation_area_cong [of s2 s1])
  moreover have "writes ?A sx s'"
    using s' writes_only_calls [OF free_temp_refs_only_calls] by simp
  ultimately have "writes ?A s s'" using writes_trans by blast
  with assms(2-4) show ?thesis by (auto simp: writes_def)
qed (use assms(1) in \<open>auto simp: TEEC_InvokeCommand_def set_origin_def split: if_splits\<close>)

end
