(* ===== verification/Teec_Maps.thy ===== *)
theory Teec_Maps
  imports Teec_Frame "HOL-Library.Multiset"
begin

text \<open>
  The mappings a process holds, read off its history, and that a command gives back those
  it makes for temporary memory references; with the two ways in which the library fails to
  clean up: an identifier that the driver refuses, and structures that were never filled in.
\<close>

section \<open>Mappings held by the process\<close>

fun map_effect :: "event \<Rightarrow> (ptr \<times> nat) multiset \<Rightarrow> (ptr \<times> nat) multiset" where
  "map_effect (Mmap n fd, r) M = (if 0 \<le> sr_rc r then add_mset (nat (sr_rc r), n) M else M)"
| "map_effect (Munmap p n, r) M = (if sr_rc r = 0 then M - {#(p, n)#} else M)"
| "map_effect (_, r) M = M"

definition live_maps :: "event list \<Rightarrow> (ptr \<times> nat) multiset" where
  "live_maps h = fold map_effect h {#}"

lemma live_maps_append: "live_maps (h @ es) = fold map_effect es (live_maps h)"
  by (simp add: live_maps_def)

text \<open>
  Documented behaviour: \<open>mmap\<close> gives an address that is neither \<open>NULL\<close> nor \<open>MAP_FAILED\<close>, or
  fails; \<open>munmap\<close> of a mapping succeeds; the driver gives every mapping an identifier.
\<close>

definition maps_ok :: "kernel \<Rightarrow> bool" where
  "maps_ok k \<longleftrightarrow>
     (\<forall>h n fd. sr_rc (k h (Mmap n fd)) \<noteq> 0 \<and> sr_rc (k h (Mmap n fd)) \<noteq> int MAP_FAILED) \<and>
     (\<forall>h p n. sr_rc (k h (Munmap p n)) = 0)"

definition ids_given :: "kernel \<Rightarrow> bool" where
  "ids_given k \<longleftrightarrow> (\<forall>h fd p. 0 \<le> sr_rc (k h (Ioctl fd (TEE_IOC_SHM_ID p))))"

section \<open>Temporary references\<close>

text \<open>What releasing a structure unmaps, and the sum over the temporary references among \<open>ns\<close>.\<close>

definition held :: "TEEC_SharedMemory \<Rightarrow> (ptr \<times> nat) multiset" where
  "held m = (if shm_id m \<noteq> - 1 \<and> 0 \<le> registered_fd m \<and> shm_buffer m \<noteq> 0
     then {#(shm_buffer m, unat (alloced_size m))#} else {#})"

definition temps :: "u32 \<Rightarrow> nat list \<Rightarrow> TEEC_SharedMemory list \<Rightarrow> (ptr \<times> nat) multiset" where
  "temps types ns shm =
     sum_list (map (\<lambda>n. if temp_type (TEEC_PARAM_TYPE_GET types n) \<noteq> None then held (shm ! n) else {#}) ns)"

lemma held_zero [simp]: "held zero_shm = {#}"
  by (simp add: held_def zero_shm_def)

lemma temps_Nil [simp]: "temps types [] shm = {#}"
  by (simp add: temps_def)

lemma temps_Cons: "temps types (n # ns) shm =
    (if temp_type (TEEC_PARAM_TYPE_GET types n) \<noteq> None then held (shm ! n) else {#}) + temps types ns shm"
  by (simp add: temps_def)

lemma temps_cong: "(\<And>n. n \<in> set ns \<Longrightarrow> shm' ! n = shm ! n) \<Longrightarrow> temps types ns shm' = temps types ns shm"
  unfolding temps_def by (intro arg_cong [of _ _ sum_list] map_cong) simp_all

lemma temps_zero: "(\<And>n. n \<in> set ns \<Longrightarrow> shm ! n = zero_shm) \<Longrightarrow> temps types ns shm = {#}"
  by (induction ns) (auto simp: temps_Cons)

lemma release_live:
  assumes "release_shm k m s = (m', s')" "maps_ok k" "shadow_buffer m = 0"
  shows "live_maps (hist s') = live_maps (hist s) - held m"
  using assms
  by (auto simp: release_shm_def Let_def sys_def live_maps_append held_def maps_ok_def split: if_splits)

lemma free_temp_live:
  assumes "maps_ok k" "distinct ns" "\<And>n. n \<in> set ns \<Longrightarrow> shadow_buffer (shm ! n) = 0"
  shows "live_maps (hist (free_temp_loop k types ns shm s)) = live_maps (hist s) - temps types ns shm"
  using assms(2,3)
proof (induction ns arbitrary: shm s)
  case (Cons n ns)
  obtain m s1 where r: "release_shm k (shm ! n) s = (m, s1)" by fastforce
  have *: "shm[n := m] ! i = shm ! i" if "i \<in> set ns" for i
    using Cons.prems(1) that by (intro nth_list_update_neq) auto
  have "live_maps (hist (free_temp_loop k types ns (shm[n := m]) s1)) = live_maps (hist s1) - temps types ns (shm[n := m])"
    using Cons.prems by (intro Cons.IH) (simp_all add: *)
  moreover have "temps types ns (shm[n := m]) = temps types ns shm" by (rule temps_cong) (rule *)
  moreover have "live_maps (hist s1) = live_maps (hist s) - held (shm ! n)"
    using Cons.prems by (intro release_live [OF r assms(1)]) simp
  ultimately show ?case
    using Cons.IH Cons.prems by (simp add: r temps_Cons diff_diff_add_mset)
qed simp

lemma mmap_live:
  assumes "mmap k n fd s = (p, s')" "maps_ok k"
  shows "live_maps (hist s') = (if p = MAP_FAILED then live_maps (hist s)
      else add_mset (p, unat n) (live_maps (hist s)))" and "p \<noteq> 0"
proof -
  let ?r = "k (hist s) (Mmap (unat n) fd)"
  have "sr_rc ?r \<noteq> 0" "sr_rc ?r \<noteq> int MAP_FAILED" using assms(2) by (auto simp: maps_ok_def)
  then have "nat (sr_rc ?r) \<noteq> MAP_FAILED" "nat (sr_rc ?r) \<noteq> 0" if "\<not> sr_rc ?r < 0"
    using that by auto
  moreover have "MAP_FAILED \<noteq> 0" by (simp add: MAP_FAILED_def)
  ultimately show "live_maps (hist s') = (if p = MAP_FAILED then live_maps (hist s)
      else add_mset (p, unat n) (live_maps (hist s)))" and "p \<noteq> 0"
    using assms(1) by (auto simp: mmap_def Let_def sys_def live_maps_append split: if_splits)
qed

lemma allocate_live:
  assumes "allocate_shm k ctx shm s = (res, shm', s')" "maps_ok k" "ids_given k"
    and "0 \<le> ctx_fd (contexts s ctx)" "shm_buffer shm = 0" "shadow_buffer shm = 0"
  shows "live_maps (hist s') = live_maps (hist s) + held shm'" "shadow_buffer shm' = 0"
proof -
  let ?n = "if shm_size shm = 0 then 8 else shm_size shm" and ?fd = "ctx_fd (contexts s ctx)"
  obtain p s1 where s1: "mmap k ?n ?fd s = (p, s1)" by fastforce
  obtain i s2 where s2: "teec_shm_get_id k ?fd p s1 = (i, s2)" by fastforce
  note g = assms(3) [unfolded ids_given_def]
  have h: "live_maps (hist s1) = (if p = MAP_FAILED then live_maps (hist s)
      else add_mset (p, unat ?n) (live_maps (hist s)))" "p \<noteq> 0"
    by (rule mmap_live [OF s1 assms(2)])+
  have i: "live_maps (hist s2) = live_maps (hist s1)" "i \<noteq> - 1"
    using s2 g [rule_format, of "hist s1" ?fd p]
    by (auto simp: teec_shm_get_id_def Let_def sys_def live_maps_append split: if_splits)
  from assms(1) have "s' = s \<and> shm' = shm \<or>
    p = MAP_FAILED \<and> s' = s1 \<and> shm' = shm\<lparr>shm_buffer := p, shm_id := - 1\<rparr> \<or>
    p \<noteq> MAP_FAILED \<and> s' = s2 \<and>
      shm' = shm\<lparr>shm_buffer := p, shadow_buffer := 0, alloced_size := ?n, registered_fd := ?fd, shm_id := i\<rparr>"
    unfolding allocate_shm_def Let_def s1 s2 by (simp add: s1 s2 split: if_splits)
  then show "live_maps (hist s') = live_maps (hist s) + held shm'" "shadow_buffer shm' = 0"
    using assms(4-6) h i by (auto simp: held_def)
qed

text \<open>Processing one parameter: a temporary reference is held afterwards, the others make no call.\<close>

lemma memcpy_hist: "memcpy d src n s = Some s' \<Longrightarrow> hist s' = hist s"
  using memcpy_frame by blast

lemma pre_param_live:
  assumes "pre_process_param k ctx t p param zero_shm s = Some (res, param', m, s')" "maps_ok k" "ids_given k"
    and "0 \<le> ctx_fd (contexts s ctx)"
  shows "live_maps (hist s') = live_maps (hist s) + (if temp_type t \<noteq> None then held m else {#}) \<and> shadow_buffer m = 0"
proof (cases "temp_type t")
  case None
  then have "hist s' = hist s \<and> m = zero_shm"
    using assms(1) unfolding pre_process_param_def teec_pre_process_whole_def teec_pre_process_partial_def Let_def
    by (auto split: if_splits bind_splits option.splits prod.splits dest: memcpy_hist)
  with None show ?thesis by (simp add: zero_shm_def)
next
  case (Some y)
  then obtain a fl where t: "temp_type t = Some (a, fl)" by (cases y) auto
  then have "t \<noteq> TEEC_NONE" "\<not> is_value_type t"
    by (auto simp: temp_type_def is_value_type_def split: if_splits)
  with assms(1) t have pre: "teec_pre_process_tmpref k ctx t (tmpref p) param zero_shm s = Some (res, param', m, s')"
    by (simp add: pre_process_param_def)
  let ?shm0 = "zero_shm\<lparr>shm_size := tmp_size (tmpref p), shm_flags := fl\<rparr>"
  obtain res1 shm1 s1 where al: "allocate_shm k ctx ?shm0 s = (res1, shm1, s1)" by (metis prod_cases3)
  have "m = shm1 \<and> hist s' = hist s1"
    using pre t al unfolding teec_pre_process_tmpref_def Let_def
    by (auto split: if_splits bind_splits dest: memcpy_hist)
  with allocate_live [OF al assms(2-4)] t show ?thesis by (simp add: zero_shm_def)
qed

lemma pre_loop_live:
  assumes "pre_process_loop k ctx oper ns params shm s = Some (res, params', shm', s')" "maps_ok k" "ids_given k"
    and "0 \<le> ctx_fd (contexts s ctx)" "distinct ns" "\<And>n. n \<in> set ns \<Longrightarrow> n < length shm \<and> shm ! n = zero_shm"
  shows "live_maps (hist s') = live_maps (hist s) + temps (paramTypes oper) ns shm' \<and>
    (\<forall>n \<in> set ns. shadow_buffer (shm' ! n) = 0) \<and> (\<forall>i. i \<notin> set ns \<longrightarrow> shm' ! i = shm ! i)"
  using assms(1,4-)
proof (induction ns arbitrary: params shm s)
  case (Cons n ns)
  let ?t = "TEEC_PARAM_TYPE_GET (paramTypes oper) n"
  have n: "n < length shm" "shm ! n = zero_shm" "n \<notin> set ns" using Cons.prems(3,4) by auto
  from Cons.prems(1) obtain res1 p m s1 where
    p: "pre_process_param k ctx ?t (op_params oper ! n) (params ! n) zero_shm s = Some (res1, p, m, s1)"
    and rest: "s' = s1 \<and> shm' = shm[n := m] \<or>
      pre_process_loop k ctx oper ns (params[n := p]) (shm[n := m]) s1 = Some (res, params', shm', s')"
    by (auto simp: n split: bind_splits if_splits)
  note live = pre_param_live [OF p assms(2,3) Cons.prems(2)]
  have *: "shm[n := m] ! i = shm ! i" if "i \<noteq> n" for i using that by simp
  have rem: "i < length (shm[n := m]) \<and> shm[n := m] ! i = zero_shm" if "i \<in> set ns" for i
    using Cons.prems(4) [of i] n(3) that by (cases "i = n") auto
  from rest show ?case
  proof
    assume *: "s' = s1 \<and> shm' = shm[n := m]"
    then have "temps (paramTypes oper) ns shm' = {#}" using rem by (intro temps_zero) auto
    moreover have "shadow_buffer (shm' ! i) = 0" if "i \<in> set ns" for i
      using rem [OF that] * by (simp add: zero_shm_def)
    ultimately show ?thesis using live * n by (auto simp: temps_Cons)
  next
    assume loop: "pre_process_loop k ctx oper ns (params[n := p]) (shm[n := m]) s1 = Some (res, params', shm', s')"
    have "0 \<le> ctx_fd (contexts s1 ctx)"
      using Cons.prems(2) calls_and_memD(1) [OF conjunct1 [OF pre_param_frame [OF p]]] by simp
    from Cons.IH [OF loop this _ rem] Cons.prems(3) live n show ?thesis
      by (auto simp: temps_Cons ac_simps)
  qed
qed simp

lemma post_param_hist: "post_process_param t p param shm s = Some (p', s') \<Longrightarrow> hist s' = hist s"
  unfolding post_process_param_def teec_post_process_tmpref_def teec_post_process_whole_def
    teec_post_process_partial_def Let_def
  by (auto split: if_splits bind_splits dest: memcpy_hist)

lemma post_operation_hist:
  assumes "teec_post_process_operation operation params shm s = Some s'"
  shows "hist s' = hist s"
proof -
  have "post_process_loop operation ns params shm s = Some s' \<Longrightarrow> hist s' = hist s" for ns s
    by (induction ns arbitrary: s) (auto simp: Let_def split: bind_splits dest: post_param_hist)
  with assms show ?thesis by (auto simp: teec_post_process_operation_def split: if_splits)
qed

lemma exchange_live: "exchange k w operation shm s sx \<Longrightarrow> live_maps (hist sx) = live_maps (hist s)"
  unfolding exchange_def tee_call_def
  by (auto simp: sys_def Let_def live_maps_append dest!: post_operation_hist)


end
