(* ===== verification/Teec_Invoke.thy ===== *)
theory Teec_Invoke
  imports Teec_Maps
begin

text \<open>
  The complete course of a command with one temporary memory reference, as its callers in
  this repository use it: what the secure world is given, what the client gets back, and the
  calls in their order.
\<close>

section \<open>Operations with one temporary reference\<close>

definition one_temp :: "TEEC_Operation \<Rightarrow> bool" where
  "one_temp oper \<longleftrightarrow> paramTypes oper = TEEC_PARAM_TYPES TEEC_MEMREF_TEMP_INOUT TEEC_NONE TEEC_NONE TEEC_NONE \<and>
     length (op_params oper) = TEEC_CONFIG_PAYLOAD_REF_COUNT"

definition temp_param :: "u64 \<Rightarrow> int \<Rightarrow> tee_ioctl_param" where
  "temp_param n i = \<lparr>attr = TEE_IOCTL_PARAM_ATTR_TYPE_MEMREF_INOUT, u0 = 0, u1 = n, u2 = word_of_int i\<rparr>"

definition temp_shm :: "ptr \<Rightarrow> u64 \<Rightarrow> int \<Rightarrow> int \<Rightarrow> TEEC_SharedMemory" where
  "temp_shm p n i fd = \<lparr>shm_buffer = p, shm_size = n, shm_flags = TEEC_MEM_INPUT OR TEEC_MEM_OUTPUT, shm_id = i,
     alloced_size = n, shadow_buffer = 0, registered_fd = fd\<rparr>"

text \<open>The two calls that make the mapping: it is at \<open>p\<close> and has identifier \<open>i\<close>.\<close>

definition maps_temp :: "kernel \<Rightarrow> event list \<Rightarrow> int \<Rightarrow> u64 \<Rightarrow> ptr \<Rightarrow> int \<Rightarrow> bool" where
  "maps_temp k h fd n p i \<longleftrightarrow>
     (let r = k h (Mmap (unat n) fd) in
      sr_rc r = int p \<and> p \<noteq> 0 \<and> p \<noteq> MAP_FAILED \<and>
      sr_rc (k (h @ [(Mmap (unat n) fd, r)]) (Ioctl fd (TEE_IOC_SHM_ID p))) = i \<and> 0 \<le> i)"

definition temp_events :: "kernel \<Rightarrow> event list \<Rightarrow> int \<Rightarrow> u64 \<Rightarrow> ptr \<Rightarrow> event list" where
  "temp_events k h fd n p =
     (let r = k h (Mmap (unat n) fd); q = Ioctl fd (TEE_IOC_SHM_ID p) in
      [(Mmap (unat n) fd, r), (q, k (h @ [(Mmap (unat n) fd, r)]) q)])"

lemma one_temp_types:
  assumes "one_temp oper"
  shows "TEEC_PARAM_TYPE_GET (paramTypes oper) 0 = 7" "TEEC_PARAM_TYPE_GET (paramTypes oper) (Suc 0) = 0"
    "TEEC_PARAM_TYPE_GET (paramTypes oper) 2 = 0" "TEEC_PARAM_TYPE_GET (paramTypes oper) 3 = 0"
    "\<not> 0xffff < paramTypes oper"
proof -
  have "TEEC_PARAM_TYPES 7 0 0 0 = 7" by code_simp
  moreover have "TEEC_PARAM_TYPE_GET 7 0 = 7" "TEEC_PARAM_TYPE_GET 7 (Suc 0) = 0" "TEEC_PARAM_TYPE_GET 7 2 = 0"
    "TEEC_PARAM_TYPE_GET 7 3 = 0"
    by code_simp+
  ultimately show "TEEC_PARAM_TYPE_GET (paramTypes oper) 0 = 7" "TEEC_PARAM_TYPE_GET (paramTypes oper) (Suc 0) = 0"
    "TEEC_PARAM_TYPE_GET (paramTypes oper) 2 = 0" "TEEC_PARAM_TYPE_GET (paramTypes oper) 3 = 0"
    "\<not> 0xffff < paramTypes oper"
    using assms by (simp_all add: one_temp_def)
qed

lemma param_indices_list: "param_indices = [0, Suc 0, 2, 3]"
  by code_simp

lemma replicate_4: "replicate 4 x = [x, x, x, x]"
  by (simp add: numeral_eq_Suc)

lemma allocate_temp:
  assumes "maps_temp k (hist s) (ctx_fd (contexts s ctx)) n p i" "ctx \<noteq> 0" "n \<noteq> 0"
  shows "\<exists>e. allocate_shm k ctx (zero_shm\<lparr>shm_size := n, shm_flags := TEEC_MEM_INPUT OR TEEC_MEM_OUTPUT\<rparr>) s =
    (TEEC_SUCCESS, temp_shm p n i (ctx_fd (contexts s ctx)),
     s\<lparr>hist := hist s @ temp_events k (hist s) (ctx_fd (contexts s ctx)) n p, errno := e\<rparr>)"
proof -
  have "shm_flags_ok (zero_shm\<lparr>shm_size := n, shm_flags := TEEC_MEM_INPUT OR TEEC_MEM_OUTPUT\<rparr>)"
    by (simp add: shm_flags_ok_def)
  with assms show ?thesis
    by (auto simp: allocate_shm_def mmap_def teec_shm_get_id_def sys_def Let_def maps_temp_def temp_events_def
        temp_shm_def zero_shm_def intro!: exI [of _ "errno s"])
qed

lemma pre_one_temp:
  assumes "one_temp (operations s x)" "x \<noteq> 0" "ctx \<noteq> 0"
    and "tmpref (op_params (operations s x) ! 0) = \<lparr>tmp_buffer = b, tmp_size = n\<rparr>" "b \<noteq> 0" "n \<noteq> 0"
    and "maps_temp k (hist s) (ctx_fd (contexts s ctx)) n p i"
  shows "\<exists>e. teec_pre_process_operation k ctx x (replicate TEEC_CONFIG_PAYLOAD_REF_COUNT zero_param) s =
    Some (TEEC_SUCCESS, [temp_param n i, zero_param, zero_param, zero_param],
      [temp_shm p n i (ctx_fd (contexts s ctx)), zero_shm, zero_shm, zero_shm],
      s\<lparr>hist := hist s @ temp_events k (hist s) (ctx_fd (contexts s ctx)) n p, errno := e,
        mem := mem_write p (mem_read b (unat n) (mem s)) (mem s)\<rparr>)"
proof -
  obtain e where al: "allocate_shm k ctx (zero_shm\<lparr>shm_size := n, shm_flags := 3\<rparr>) s =
    (TEEC_SUCCESS, temp_shm p n i (ctx_fd (contexts s ctx)),
     s\<lparr>hist := hist s @ temp_events k (hist s) (ctx_fd (contexts s ctx)) n p, errno := e\<rparr>)"
    using allocate_temp [OF assms(7,3,6)] by auto
  have "p \<noteq> 0" using assms(7) by (simp add: maps_temp_def Let_def)
  with al assms one_temp_types [OF assms(1)] show ?thesis
    by (intro exI [of _ e])
      (simp add: teec_pre_process_operation_def Let_def param_indices_list replicate_4 pre_process_param_def
        is_value_type_def temp_type_def teec_pre_process_tmpref_def memcpy_def temp_param_def zero_param_def temp_shm_def)
qed

text \<open>What the client's buffer receives: the shared bytes if the answered size fits, else nothing.\<close>

definition copy_back :: "ptr \<Rightarrow> u64 \<Rightarrow> ptr \<Rightarrow> u64 \<Rightarrow> memory \<Rightarrow> memory" where
  "copy_back b n p n' h = (if n' \<le> n \<and> n' \<noteq> 0 then mem_write b (mem_read p (unat n') h) h else h)"

lemma post_one_temp:
  assumes "one_temp (operations s x)" "x \<noteq> 0" "p \<noteq> 0"
    and "tmpref (op_params (operations s x) ! 0) = \<lparr>tmp_buffer = b, tmp_size = n\<rparr>" "b \<noteq> 0"
  shows "\<exists>s'. teec_post_process_operation x params [temp_shm p n i fd, zero_shm, zero_shm, zero_shm] s = Some s' \<and>
    mem s' = copy_back b n p (u1 (params ! 0)) (mem s) \<and> hist s' = hist s \<and> contexts s' = contexts s \<and>
    paramTypes (operations s' x) = paramTypes (operations s x) \<and>
    tmpref (op_params (operations s' x) ! 0) = \<lparr>tmp_buffer = b, tmp_size = u1 (params ! 0)\<rparr>"
  using assms one_temp_types [OF assms(1)]
  by (auto simp: teec_post_process_operation_def Let_def param_indices_list post_process_param_def temp_type_def
      partial_type_def teec_post_process_tmpref_def memcpy_def temp_shm_def set_param_def copy_back_def one_temp_def)

lemma free_one_temp:
  assumes "one_temp (operations s' x)" "x \<noteq> 0" "p \<noteq> 0" "0 \<le> fd" "0 \<le> i" "paramTypes (operations s x) = paramTypes (operations s' x)"
  shows "\<exists>r1 r2. hist (teec_free_temp_refs k x [temp_shm p n i fd, zero_shm, zero_shm, zero_shm] s) =
     hist s @ [(Munmap p (unat n), r1), (Ioctl fd (TEE_IOC_SHM_RELEASE i), r2)]"
  using assms one_temp_types [OF assms(1)]
  by (simp add: teec_free_temp_refs_def param_indices_list temp_type_def release_shm_def temp_shm_def Let_def sys_def)

lemma invoke_one_temp_run:
  fixes k w s session x
  defines "ctx \<equiv> sess_ctx (sessions s session)" and "fd \<equiv> ctx_fd (contexts s (sess_ctx (sessions s session)))"
    and "oper \<equiv> operations s x"
  assumes "session \<noteq> 0" "x \<noteq> 0" "ctx \<noteq> 0" "0 \<le> fd" "\<not> teec_mutex s" "one_temp oper"
    and "tmpref (op_params oper ! 0) = \<lparr>tmp_buffer = b, tmp_size = n\<rparr>" "b \<noteq> 0" "n \<noteq> 0"
    and "maps_temp k (hist s) fd n p i"
    and "buf = put_invoke_arg \<lparr>ia_func = cmd_id, ia_session = session_id (sessions s session), ia_cancel_id = 0,
            ia_ret = 0, ia_ret_origin = 0, ia_num_params = 4\<rparr> @
          put_params [temp_param n i, zero_param, zero_param, zero_param]"
    and "h = hist s @ temp_events k (hist s) fd n p" "call = Ioctl fd (TEE_IOC_INVOKE buf)"
    and "sr_rc (k h call) = 0" "answer = ioctl_back buf (sr_out (k h call))"
    and "given = mem_write p (mem_read b (unat n) (mem s)) (mem s)"
    and "left = fold (\<lambda>(q, bs). mem_write q bs) (w h call) given"
  shows "\<exists>s' r1 r2. TEEC_InvokeCommand k w session cmd_id x eo s = Some (ia_ret (get_invoke_arg answer), s') \<and>
    mem s' = copy_back b n p (u1 (get_params 24 answer ! 0)) left \<and>
    tmp_size (tmpref (op_params (operations s' x) ! 0)) = u1 (get_params 24 answer ! 0) \<and>
    hist s' = h @ [(call, k h call), (Munmap p (unat n), r1), (Ioctl fd (TEE_IOC_SHM_RELEASE i), r2)]"
proof -
  let ?s1 = "s\<lparr>operations := (operations s)(x := oper\<lparr>op_session := session\<rparr>)\<rparr>"
  have s1: "store_op_session x session s = Some ?s1"
    using assms(5,8) by (simp add: store_op_session_def teec_mutex_lock_def teec_mutex_unlock_def oper_def)
  have ot: "one_temp (operations ?s1 x)" using assms(9) by (simp add: one_temp_def)
  have p: "p \<noteq> 0" "0 \<le> i" using assms(13) by (auto simp: maps_temp_def Let_def)
  obtain e where s2: "teec_pre_process_operation k ctx x (replicate TEEC_CONFIG_PAYLOAD_REF_COUNT zero_param) ?s1 =
    Some (TEEC_SUCCESS, [temp_param n i, zero_param, zero_param, zero_param],
      [temp_shm p n i fd, zero_shm, zero_shm, zero_shm], ?s1\<lparr>hist := h, errno := e, mem := given\<rparr>)"
    using pre_one_temp [OF ot assms(5,6) _ assms(11,12), of k p i] assms(10,13,15,19)
    by (auto simp: fd_def ctx_def)
  let ?s2 = "?s1\<lparr>hist := h, errno := e, mem := given\<rparr>"
  let ?s3 = "?s2\<lparr>hist := h @ [(call, k h call)], mem := left\<rparr>"
  have s3: "tee_call k w call ?s2 = (k h call, ?s3)"
    using assms(17,20) by (simp add: tee_call_def sys_def Let_def)
  obtain s4 where s4: "teec_post_process_operation x (get_params 24 answer)
        [temp_shm p n i fd, zero_shm, zero_shm, zero_shm] ?s3 = Some s4"
      "mem s4 = copy_back b n p (u1 (get_params 24 answer ! 0)) left" "hist s4 = hist ?s3"
      "paramTypes (operations s4 x) = paramTypes (operations ?s3 x)"
      "tmpref (op_params (operations s4 x) ! 0) = \<lparr>tmp_buffer = b, tmp_size = u1 (get_params 24 answer ! 0)\<rparr>"
    using post_one_temp [of ?s3 x p b n "get_params 24 answer" i fd] ot assms(5,10,11) p by auto
  let ?s5 = "teec_free_temp_refs k x [temp_shm p n i fd, zero_shm, zero_shm, zero_shm] s4"
  obtain r1 r2 where h5: "hist ?s5 = hist s4 @ [(Munmap p (unat n), r1), (Ioctl fd (TEE_IOC_SHM_RELEASE i), r2)]"
    using free_one_temp [of ?s3 x p fd i s4 k n] ot assms(5,7) p s4(4) by auto
  note oc = only_callsD [OF free_temp_refs_only_calls, of k x "[temp_shm p n i fd, zero_shm, zero_shm, zero_shm]" s4]
  have "TEEC_InvokeCommand k w session cmd_id x eo s =
      Some (ia_ret (get_invoke_arg answer), set_origin eo (ia_ret_origin (get_invoke_arg answer)) ?s5)"
    using assms(4,6,14,16,17,18) s1 s2 s3 s4(1)
    by (simp add: TEEC_InvokeCommand_def Let_def ctx_def fd_def)
  then show ?thesis
    using s4 h5 oc by (auto simp: set_origin_def)
qed

lemma mem_read_write: "mem_read p (length bs) (mem_write p bs h) = bs"
  by (rule nth_equalityI) (simp_all add: mem_read_def mem_write_def)

lemma copy_back_read:
  "n' \<le> n \<Longrightarrow> mem_read b (unat n') (copy_back b n p n' h) = mem_read p (unat n') h"
  "n < n' \<Longrightarrow> copy_back b n p n' h = h"
  using mem_read_write [of b "mem_read p (unat n') h" h] by (auto simp: copy_back_def mem_read_def)

section \<open>Properties\<close>

text \<open>C16. A command with one temporary input-output reference: the client's bytes are copied
  into the new mapping before the secure world is called with its identifier and size; after a
  call that the driver accepts, the first bytes of the mapping, as many as the answer says,
  are copied back if they fit into the client's buffer and none otherwise, the client learns
  the answered size and result, and the mapping is removed and its identifier released.\<close>

theorem invoke_one_temp:
  fixes k w s session x
  defines "ctx \<equiv> sess_ctx (sessions s session)" and "fd \<equiv> ctx_fd (contexts s (sess_ctx (sessions s session)))"
    and "oper \<equiv> operations s x"
  assumes "session \<noteq> 0" "x \<noteq> 0" "ctx \<noteq> 0" "0 \<le> fd" "\<not> teec_mutex s" "one_temp oper"
    and "tmpref (op_params oper ! 0) = \<lparr>tmp_buffer = b, tmp_size = n\<rparr>" "b \<noteq> 0" "n \<noteq> 0"
    and "maps_temp k (hist s) fd n p i"
    and "buf = put_invoke_arg \<lparr>ia_func = cmd_id, ia_session = session_id (sessions s session), ia_cancel_id = 0,
            ia_ret = 0, ia_ret_origin = 0, ia_num_params = 4\<rparr> @
          put_params [temp_param n i, zero_param, zero_param, zero_param]"
    and "h = hist s @ temp_events k (hist s) fd n p" "call = Ioctl fd (TEE_IOC_INVOKE buf)"
    and "sr_rc (k h call) = 0" "answer = ioctl_back buf (sr_out (k h call))"
    and "given = mem_write p (mem_read b (unat n) (mem s)) (mem s)"
    and "left = fold (\<lambda>(q, bs). mem_write q bs) (w h call) given"
    and "n' = u1 (get_params 24 answer ! 0)"
  shows "\<exists>s' r1 r2. TEEC_InvokeCommand k w session cmd_id x eo s = Some (ia_ret (get_invoke_arg answer), s') \<and>
    mem_read p (unat n) given = mem_read b (unat n) (mem s) \<and>
    get_params 24 buf ! 0 = temp_param n i \<and>
    (n' \<le> n \<longrightarrow> mem_read b (unat n') (mem s') = mem_read p (unat n') left) \<and>
    (n < n' \<longrightarrow> mem s' = left) \<and>
    tmp_size (tmpref (op_params (operations s' x) ! 0)) = n' \<and>
    hist s' = h @ [(call, k h call), (Munmap p (unat n), r1), (Ioctl fd (TEE_IOC_SHM_RELEASE i), r2)]"
proof -
  obtain s' r1 r2 where s': "TEEC_InvokeCommand k w session cmd_id x eo s = Some (ia_ret (get_invoke_arg answer), s')"
    "mem s' = copy_back b n p n' left" "tmp_size (tmpref (op_params (operations s' x) ! 0)) = n'"
    "hist s' = h @ [(call, k h call), (Munmap p (unat n), r1), (Ioctl fd (TEE_IOC_SHM_RELEASE i), r2)]"
    using invoke_one_temp_run [OF assms(4-13) [unfolded assms(1-3)] assms(14) _ _ _ assms(18)] assms(1-3,15-21)
    by metis
  moreover have "mem_read p (unat n) given = mem_read b (unat n) (mem s)"
    using mem_read_write [of p "mem_read b (unat n) (mem s)" "mem s"] assms(19) by simp
  moreover have "get_params 24 buf ! 0 = temp_param n i"
    using get_params_put_params [of "[temp_param n i, zero_param, zero_param, zero_param]"
        "put_invoke_arg \<lparr>ia_func = cmd_id, ia_session = session_id (sessions s session), ia_cancel_id = 0,
            ia_ret = 0, ia_ret_origin = 0, ia_num_params = 4\<rparr>"] assms(14)
    by simp
  ultimately show ?thesis using copy_back_read(1) [of n' n b p left] copy_back_read(2) [of n n' b p left] by auto
qed

section \<open>Examples\<close>

text \<open>
  A device that is the second of its kind, maps at address 4096 and gives identifier 5; a
  trusted application that answers a command with two bytes and the argument unchanged; and
  a client with an open session.
\<close>

definition tee_kernel :: kernel where
  "tee_kernel h c = (case c of
       Open path fl m \<Rightarrow> if path = dev_name 0 then fail ENOENT else calm h c
     | Ioctl fd TEE_IOC_VERSION \<Rightarrow> \<lparr>sr_rc = 0, sr_err = 0, sr_out = put_u32 1 @ put_u32 0 @ put_u32 1\<rparr>
     | Ioctl fd (TEE_IOC_INVOKE buf) \<Rightarrow> \<lparr>sr_rc = 0, sr_err = 0, sr_out = buf\<rparr>
     | Ioctl fd (TEE_IOC_SHM_ID p) \<Rightarrow> ret 5
     | Mmap n fd \<Rightarrow> ret 4096
     | _ \<Rightarrow> calm h c)"

definition tee_app :: secure_world where
  "tee_app h c = (case c of Ioctl fd (TEE_IOC_INVOKE buf) \<Rightarrow> [(4096, [0xAA, 0xBB])] | _ \<Rightarrow> [])"

definition tee_operation :: TEEC_Operation where
  "tee_operation = \<lparr>started = 0,
     paramTypes = TEEC_PARAM_TYPES TEEC_MEMREF_TEMP_INOUT TEEC_NONE TEEC_NONE TEEC_NONE,
     op_params = replicate 4 \<lparr>tmpref = \<lparr>tmp_buffer = 1000, tmp_size = 2\<rparr>,
        memref = \<lparr>ref_parent = 0, ref_size = 0, ref_offset = 0\<rparr>, value_ab = \<lparr>val_a = 1, val_b = 2\<rparr>\<rparr>,
     op_session = 0\<rparr>"

definition tee_initial :: teec where
  "tee_initial = \<lparr>hist = [], errno = 0, mem = (\<lambda>a. of_nat a), contexts = (\<lambda>_. \<lparr>ctx_fd = - 1\<rparr>),
     sessions = (\<lambda>_. \<lparr>sess_ctx = 0, session_id = 0\<rparr>), operations = (\<lambda>_. tee_operation),
     shms = (\<lambda>_. zero_shm), origins = (\<lambda>_. 0), contextMap = [], sessionMap = [], teec_mutex = False\<rparr>"

definition tee_client :: teec where
  "tee_client = tee_initial\<lparr>contexts := (\<lambda>_. \<lparr>ctx_fd = 3\<rparr>),
     sessions := (\<lambda>_. \<lparr>sess_ctx = 100, session_id = 9\<rparr>), contextMap := [100], sessionMap := [200]\<rparr>"

lemma ioctl_back_simps [simp]: "ioctl_back buf [] = buf" "ioctl_back buf buf = buf"
  by (simp_all add: ioctl_back_def)

lemma tee_one_temp: "one_temp tee_operation" "op_params tee_operation ! 0 =
   \<lparr>tmpref = \<lparr>tmp_buffer = 1000, tmp_size = 2\<rparr>, memref = \<lparr>ref_parent = 0, ref_size = 0, ref_offset = 0\<rparr>,
    value_ab = \<lparr>val_a = 1, val_b = 2\<rparr>\<rparr>"
  by (simp_all add: one_temp_def tee_operation_def)

lemma tee_client_fields [simp]: "hist tee_client = []" "operations tee_client = (\<lambda>_. tee_operation)"
  "contexts tee_client = (\<lambda>_. \<lparr>ctx_fd = 3\<rparr>)" "sessions tee_client = (\<lambda>_. \<lparr>sess_ctx = 100, session_id = 9\<rparr>)"
  "\<not> teec_mutex tee_client" "mem tee_client = of_nat" "shms tee_client = (\<lambda>_. zero_shm)"
  "contextMap tee_client = [100]" "sessionMap tee_client = [200]"
  by (simp_all add: tee_client_def tee_initial_def fun_eq_iff)

lemma tee_maps: "maps_temp tee_kernel [] 3 2 4096 5"
  "temp_events tee_kernel [] 3 2 4096 = [(Mmap 2 3, ret 4096), (Ioctl 3 (TEE_IOC_SHM_ID 4096), ret 5)]"
  by (simp_all add: maps_temp_def temp_events_def tee_kernel_def ret_def MAP_FAILED_def Let_def)

definition tee_buf :: bytes where
  "tee_buf = put_invoke_arg \<lparr>ia_func = 7, ia_session = 9, ia_cancel_id = 0, ia_ret = 0, ia_ret_origin = 0,
     ia_num_params = 4\<rparr> @ put_params [temp_param 2 5, zero_param, zero_param, zero_param]"

lemma tee_buf_fields: "get_invoke_arg tee_buf = \<lparr>ia_func = 7, ia_session = 9, ia_cancel_id = 0, ia_ret = 0,
    ia_ret_origin = 0, ia_num_params = 4\<rparr>" "get_params 24 tee_buf ! 0 = temp_param 2 5"
proof -
  let ?a = "\<lparr>ia_func = 7, ia_session = 9, ia_cancel_id = 0, ia_ret = 0, ia_ret_origin = 0, ia_num_params = 4\<rparr>"
  show "get_invoke_arg tee_buf = ?a" by (simp add: tee_buf_def)
  show "get_params 24 tee_buf ! 0 = temp_param 2 5"
    using get_params_put_params [of "[temp_param 2 5, zero_param, zero_param, zero_param]" "put_invoke_arg ?a"]
    by (simp add: tee_buf_def)
qed

text \<open>The secure world's bytes in the mapping.\<close>

lemma tee_left: "mem_read 4096 2 (mem_write 4096 [0xAA, 0xBB] h) = [0xAA, 0xBB]"
  using mem_read_write [of 4096 "[0xAA, 0xBB]" h] by (simp add: numeral_2_eq_2)

theorem invoke_one_temp_witness:
  "\<exists>s'. TEEC_InvokeCommand tee_kernel tee_app 200 7 300 0 tee_client = Some (TEEC_SUCCESS, s') \<and>
     mem_read 1000 2 (mem s') = [0xAA, 0xBB]"
proof -
  let ?h = "[(Mmap 2 3, ret 4096), (Ioctl 3 (TEE_IOC_SHM_ID 4096), ret 5)]"
  let ?call = "Ioctl 3 (TEE_IOC_INVOKE tee_buf)"
  let ?given = "mem_write 4096 (mem_read 1000 2 of_nat) of_nat"
  have k: "tee_kernel ?h ?call = \<lparr>sr_rc = 0, sr_err = 0, sr_out = tee_buf\<rparr>" by (simp add: tee_kernel_def)
  have w: "fold (\<lambda>(q, bs). mem_write q bs) (tee_app ?h ?call) ?given = mem_write 4096 [0xAA, 0xBB] ?given"
    by (simp add: tee_app_def)
  have "\<exists>s' r1 r2. TEEC_InvokeCommand tee_kernel tee_app 200 7 300 0 tee_client = Some (ia_ret (get_invoke_arg tee_buf), s') \<and>
      mem_read 4096 (unat (2 :: u64)) ?given = mem_read 1000 (unat (2 :: u64)) (mem tee_client) \<and>
      get_params 24 tee_buf ! 0 = temp_param 2 5 \<and>
      ((2 :: u64) \<le> 2 \<longrightarrow> mem_read 1000 (unat (2 :: u64)) (mem s') =
         mem_read 4096 (unat (2 :: u64)) (mem_write 4096 [0xAA, 0xBB] ?given)) \<and>
      ((2 :: u64) < 2 \<longrightarrow> mem s' = mem_write 4096 [0xAA, 0xBB] ?given) \<and>
      tmp_size (tmpref (op_params (operations s' 300) ! 0)) = 2 \<and>
      hist s' = ?h @ [(?call, tee_kernel ?h ?call), (Munmap 4096 (unat (2 :: u64)), r1),
        (Ioctl (ctx_fd (contexts tee_client (sess_ctx (sessions tee_client 200)))) (TEE_IOC_SHM_RELEASE 5), r2)]"
    by (rule invoke_one_temp) (simp_all add: tee_one_temp tee_maps k w tee_buf_fields temp_param_def,
        simp add: tee_buf_def temp_param_def)
  then show ?thesis by (auto simp: tee_left tee_buf_fields)
qed

lemma tee_invoke_run:
  "\<exists>s' r1 r2. TEEC_InvokeCommand tee_kernel tee_app 200 7 300 0 tee_client = Some (TEEC_SUCCESS, s') \<and>
     hist s' = [(Mmap 2 3, ret 4096), (Ioctl 3 (TEE_IOC_SHM_ID 4096), ret 5), (Ioctl 3 (TEE_IOC_INVOKE tee_buf),
       \<lparr>sr_rc = 0, sr_err = 0, sr_out = tee_buf\<rparr>), (Munmap 4096 2, r1), (Ioctl 3 (TEE_IOC_SHM_RELEASE 5), r2)]"
proof -
  let ?h = "[(Mmap 2 3, ret 4096), (Ioctl 3 (TEE_IOC_SHM_ID 4096), ret 5)]"
  let ?call = "Ioctl 3 (TEE_IOC_INVOKE tee_buf)"
  have k: "tee_kernel ?h ?call = \<lparr>sr_rc = 0, sr_err = 0, sr_out = tee_buf\<rparr>" by (simp add: tee_kernel_def)
  have "\<exists>s' r1 r2. TEEC_InvokeCommand tee_kernel tee_app 200 7 300 0 tee_client = Some (ia_ret (get_invoke_arg tee_buf), s') \<and>
      mem s' = copy_back 1000 2 4096 (u1 (get_params 24 tee_buf ! 0)) (fold (\<lambda>(q, bs). mem_write q bs) (tee_app ?h ?call)
        (mem_write 4096 (mem_read 1000 (unat (2 :: u64)) of_nat) of_nat)) \<and>
      tmp_size (tmpref (op_params (operations s' 300) ! 0)) = u1 (get_params 24 tee_buf ! 0) \<and>
      hist s' = ?h @ [(?call, tee_kernel ?h ?call), (Munmap 4096 (unat (2 :: u64)), r1),
        (Ioctl (ctx_fd (contexts tee_client (sess_ctx (sessions tee_client 200)))) (TEE_IOC_SHM_RELEASE 5), r2)]"
    by (rule invoke_one_temp_run [where buf = tee_buf and given = "mem_write 4096 (mem_read 1000 (unat (2 :: u64)) of_nat) of_nat"]) (simp_all add: tee_one_temp tee_maps k tee_buf_fields temp_param_def,
        simp add: tee_buf_def temp_param_def)
  then show ?thesis by (auto simp: k tee_buf_fields)
qed

end
