(* ===== verification/Teec_Api.thy ===== *)
theory Teec_Api
  imports Teec_Invoke
begin

text \<open>
  The exported C functions as one interface, the states that sequences of calls reach, and
  the invariant of the library's maps; closing of sessions, contexts and the library.
\<close>

section \<open>The exported functions\<close>

datatype teec_function =
    InitializeContext "bytes option" ptr
  | FinalizeContext ptr
  | RegisterSharedMemory ptr ptr
  | AllocateSharedMemory ptr ptr
  | RegisterSharedMemoryFileDescriptor ptr ptr int
  | ReleaseSharedMemory ptr
  | OpenSession ptr ptr "TEEC_UUID option" u32 ptr ptr ptr
  | CloseSession ptr
  | InvokeCommand ptr u32 ptr ptr
  | RequestCancellation ptr

text \<open>The result is \<open>None\<close> for a \<open>void\<close> function.\<close>

fun teec_api ::
  "kernel \<Rightarrow> secure_world \<Rightarrow> bool \<Rightarrow> teec_function \<Rightarrow> teec \<Rightarrow> (TEEC_Result option \<times> teec) option" where
  "teec_api k w g (InitializeContext name context) s =
     (let (res, s1) = TEEC_InitializeContext k g name context s in Some (Some res, s1))"
| "teec_api k w g (FinalizeContext context) s = map_option (Pair None) (TEEC_FinalizeContext k context s)"
| "teec_api k w g (RegisterSharedMemory context shareMem) s =
     (let (res, s1) = TEEC_RegisterSharedMemory k context shareMem s in Some (Some res, s1))"
| "teec_api k w g (AllocateSharedMemory context shareMem) s =
     (let (res, s1) = TEEC_AllocateSharedMemory k context shareMem s in Some (Some res, s1))"
| "teec_api k w g (RegisterSharedMemoryFileDescriptor context shareMem fd) s =
     (let (res, s1) = TEEC_RegisterSharedMemoryFileDescriptor k context shareMem fd s in Some (Some res, s1))"
| "teec_api k w g (ReleaseSharedMemory shareMem) s = Some (None, TEEC_ReleaseSharedMemory k shareMem s)"
| "teec_api k w g (OpenSession context session destination method data operation origin) s =
     map_option (map_prod Some id) (TEEC_OpenSession k w context session destination method data operation origin s)"
| "teec_api k w g (CloseSession session) s = map_option (Pair None) (TEEC_CloseSession k session s)"
| "teec_api k w g (InvokeCommand session commandID operation origin) s =
     map_option (map_prod Some id) (TEEC_InvokeCommand k w session commandID operation origin s)"
| "teec_api k w g (RequestCancellation operation) s = map_option (Pair None) (TEEC_RequestCancellation k operation s)"

section \<open>Reachable states\<close>

definition teec_start :: "teec \<Rightarrow> bool" where
  "teec_start s \<longleftrightarrow> contextMap s = [] \<and> sessionMap s = [] \<and> \<not> teec_mutex s"

text \<open>
  A client calls the exported functions in any order and changes its own objects in
  between; contexts and sessions are opaque to it.
\<close>

inductive teec_reach :: "kernel \<Rightarrow> secure_world \<Rightarrow> bool \<Rightarrow> teec \<Rightarrow> bool" for k w g where
  start: "teec_start s \<Longrightarrow> teec_reach k w g s"
| call: "teec_reach k w g s \<Longrightarrow> teec_api k w g f s = Some (r, s') \<Longrightarrow> teec_reach k w g s'"
| client: "teec_reach k w g s \<Longrightarrow>
    teec_reach k w g (s\<lparr>mem := m, operations := os, shms := ms, origins := ors\<rparr>)"

definition teec_inv :: "teec \<Rightarrow> bool" where
  "teec_inv s \<longleftrightarrow>
     sorted (contextMap s) \<and> distinct (contextMap s) \<and> 0 \<notin> set (contextMap s) \<and>
     sorted (sessionMap s) \<and> distinct (sessionMap s) \<and> 0 \<notin> set (sessionMap s) \<and>
     (\<forall>p \<in> set (sessionMap s). sess_ctx (sessions s p) \<noteq> 0) \<and> \<not> teec_mutex s"

lemma teec_inv_cong:
  "teec_inv s \<Longrightarrow> contextMap s' = contextMap s \<Longrightarrow> sessionMap s' = sessionMap s \<Longrightarrow>
   sessions s' = sessions s \<Longrightarrow> teec_mutex s' = teec_mutex s \<Longrightarrow> teec_inv s'"
  by (simp add: teec_inv_def)

lemma teec_inv_only_calls: "teec_inv s \<Longrightarrow> only_calls s s' \<Longrightarrow> teec_inv s'"
  by (rule teec_inv_cong) (simp_all add: only_callsD)

lemma set_shms_inv: "teec_inv s \<Longrightarrow> only_calls s s' \<Longrightarrow> teec_inv (s'\<lparr>shms := ms\<rparr>)"
  by (simp add: teec_inv_def only_callsD)

lemma map_insert_props:
  "sorted xs \<Longrightarrow> distinct xs \<Longrightarrow> sorted (map_insert p xs) \<and> distinct (map_insert p xs)"
  "set (map_insert p xs) = insert p (set xs)"
  by (auto simp: map_insert_def sorted_insort distinct_insort set_insort_key)

lemma erase_props:
  assumes "i < length xs" "sorted xs" "distinct xs"
  shows "sorted (take i xs @ drop (Suc i) xs)" "distinct (take i xs @ drop (Suc i) xs)"
    "set (take i xs @ drop (Suc i) xs) = set xs - {xs ! i}"
proof -
  obtain ys z zs where xs: "xs = ys @ z # zs" "length ys = i"
    using id_take_nth_drop [OF assms(1)] assms(1) by (metis length_take less_imp_le_nat min.absorb2)
  with assms show "sorted (take i xs @ drop (Suc i) xs)" "distinct (take i xs @ drop (Suc i) xs)"
    "set (take i xs @ drop (Suc i) xs) = set xs - {xs ! i}"
    by (auto simp: sorted_append)
qed

lemma ut_close_session_only_calls: "ut_close_session k p s = Some s' \<Longrightarrow> only_calls s s'"
  by (auto simp: ut_close_session_def Let_def split: if_splits)

lemma init_context_inv:
  assumes "init_context_loop k g name ctx n s = (res, s')" "teec_inv s" "ctx \<noteq> 0"
  shows "teec_inv s'"
  using assms
proof (induction k g name ctx n s rule: init_context_loop.induct)
  case (1 k g name ctx n s)
  obtain fd s1 where s1: "teec_open_dev k g (dev_name n) name s = (fd, s1)" by fastforce
  have "teec_inv s1" using teec_inv_only_calls [OF 1(3) teec_open_dev_only_calls [OF s1]] .
  with 1 s1 map_insert_props(1) [of "contextMap s1" ctx] map_insert_props(2) [of ctx "contextMap s1"] show ?case
    by (cases "n < TEEC_MAX_DEV_SEQ"; cases "0 \<le> fd")
      (auto simp: init_context_loop.simps [of _ _ _ _ n] teec_inv_def)
qed

lemma finalize_sessions_inv:
  assumes "finalize_sessions k ctx i s = Some s'" "teec_inv s"
  shows "teec_inv s'"
  using assms
proof (induction k ctx i s rule: finalize_sessions.induct)
  case (1 k ctx i s)
  let ?p = "sessionMap s ! i"
  show ?case
  proof (cases "length (sessionMap s) \<le> i")
    case True
    with 1 show ?thesis by (simp add: finalize_sessions.simps [of k ctx i])
  next
    case i: False
    show ?thesis
    proof (cases "sess_ctx (sessions s ?p) = ctx")
      case True
      with 1(3) i obtain s1 where s1: "ut_close_session k ?p s = Some s1"
        by (auto simp: finalize_sessions.simps [of k ctx i] Let_def split: option.splits)
      let ?s2 = "s1\<lparr>sessionMap := take i (sessionMap s) @ drop (Suc i) (sessionMap s)\<rparr>"
      from 1(3) i True s1 have rest: "i \<noteq> length (sessionMap ?s2)" "finalize_sessions k ctx (Suc i) ?s2 = Some s'"
        by (auto simp: finalize_sessions.simps [of k ctx i] Let_def split: if_splits)
      note oc = ut_close_session_only_calls [OF s1]
      have "teec_inv ?s2"
        using erase_props [of i "sessionMap s"] i 1(4) by (auto simp: teec_inv_def only_callsD [OF oc])
      with 1(1) [OF i refl True s1 refl] rest show ?thesis by simp
    next
      case False
      with 1 i show ?thesis by (simp add: finalize_sessions.simps [of k ctx i] Let_def)
    qed
  qed
qed

lemma finalize_context_inv:
  assumes "TEEC_FinalizeContext k ctx s = Some s'" "teec_inv s"
  shows "teec_inv s'"
proof -
  from assms(1) obtain s1 where s1: "finalize_sessions k ctx 0 s = Some s1"
    "s' = s1 \<or> s' = (ut_close_fd k (ctx_fd (contexts s1 ctx)) s1)\<lparr>contextMap := remove1 ctx (contextMap s1)\<rparr>"
    by (auto simp: TEEC_FinalizeContext_def split: bind_splits if_splits)
  have inv: "teec_inv s1" using finalize_sessions_inv [OF s1(1) assms(2)] .
  have "only_calls s1 (ut_close_fd k (ctx_fd (contexts s1 ctx)) s1)" by (simp add: ut_close_fd_def)
  with s1(2) inv show ?thesis
    by (auto simp: teec_inv_def only_callsD sorted_remove1 dest: notin_set_remove1)
qed

lemma close_session_inv:
  assumes "TEEC_CloseSession k p s = Some s'" "teec_inv s"
  shows "teec_inv s'"
proof (cases "p \<in> set (sessionMap s)")
  case True
  with assms(1) obtain s1 where s1: "ut_close_session k p s = Some s1"
    "s' = s1\<lparr>sessionMap := remove1 p (sessionMap s1)\<rparr>"
    by (auto simp: TEEC_CloseSession_def split: bind_splits)
  note oc = ut_close_session_only_calls [OF s1(1)]
  from s1(2) assms(2) show ?thesis
    by (auto simp: teec_inv_def only_callsD [OF oc] sorted_remove1 dest: notin_set_remove1)
qed (use assms in \<open>simp add: TEEC_CloseSession_def\<close>)

lemma set_origin_inv [simp]: "teec_inv (set_origin p v s) = teec_inv s"
  by (simp add: set_origin_def teec_inv_def)

lemma free_temp_inv [simp]: "teec_inv (teec_free_temp_refs k x shm s) = teec_inv s"
  using only_callsD [OF free_temp_refs_only_calls, of k x shm s] by (simp add: teec_inv_def)

lemma post_operation_inv:
  "teec_post_process_operation x params shm s = Some s' \<Longrightarrow> teec_inv s' = teec_inv s"
  using post_operation_frame [of x params shm s s'] by (simp add: teec_inv_def)

lemma calls_and_mem_inv: "calls_and_mem s s' \<Longrightarrow> teec_inv s' = teec_inv s"
  by (simp add: teec_inv_def calls_and_memD)

lemma invoke_inv:
  assumes "TEEC_InvokeCommand k w session cmd x eo s = Some (res, s')" "teec_inv s"
  shows "teec_inv s'"
proof (cases "session = 0")
  case False
  with assms(1) obtain s1 where s1: "store_op_session x session s = Some s1"
    unfolding TEEC_InvokeCommand_def Let_def by (auto split: bind_splits)
  then have "teec_inv s1" using assms(2) store_op_session_frame [OF s1] by (simp add: teec_inv_def)
  then show ?thesis
    using assms(1) False s1 unfolding TEEC_InvokeCommand_def Let_def
    by (auto split: bind_splits if_splits prod.splits simp: post_operation_inv
        calls_and_mem_inv [OF conjunct1 [OF tee_call_frame]]
        calls_and_mem_inv [OF conjunct1 [OF pre_operation_frame]])
qed (use assms in \<open>auto simp: TEEC_InvokeCommand_def\<close>)

lemma insert_session_inv:
  assumes "teec_inv s" "session \<noteq> 0" "sess_ctx (sessions s session) \<noteq> 0"
  shows "teec_inv (s\<lparr>sessionMap := map_insert session (sessionMap s)\<rparr>)"
  using assms map_insert_props(1) [of "sessionMap s" session] map_insert_props(2) [of session "sessionMap s"]
  by (auto simp: teec_inv_def)

lemma set_session_inv:
  "teec_inv s \<Longrightarrow> sess_ctx v \<noteq> 0 \<Longrightarrow> teec_inv (s\<lparr>sessions := (sessions s)(p := v)\<rparr>)"
  by (simp add: teec_inv_def)

lemma set_origin_sessions [simp]: "sessions (set_origin p v s) = sessions s" "sessionMap (set_origin p v s) = sessionMap s"
  by (simp_all add: set_origin_def)

lemma open_tail_inv:
  assumes "teec_inv s" "session \<noteq> 0" "sess_ctx (sessions s session) \<noteq> 0"
  shows "teec_inv ((set_origin e v (teec_free_temp_refs k x shm s))\<lparr>sessionMap := map_insert session (sessionMap s)\<rparr>)"
proof -
  let ?s = "set_origin e v (teec_free_temp_refs k x shm s)"
  have "sessions ?s = sessions s" "sessionMap ?s = sessionMap s"
    by (simp_all add: only_callsD [OF free_temp_refs_only_calls])
  with insert_session_inv [of ?s session] assms show ?thesis by simp
qed

lemma open_session_inv:
  assumes "TEEC_OpenSession k w ctx session dest meth data x eo s = Some (res, s')" "teec_inv s"
  shows "teec_inv s'"
proof (cases "ctx = 0 \<or> session = 0 \<or> login_error meth data \<noteq> None")
  case False
  then have ne: "ctx \<noteq> 0" "session \<noteq> 0" "login_error meth data = None"
    by metis+
  note ts = calls_and_mem_inv [OF conjunct1 [OF tee_call_frame]]
  note ps = calls_and_mem_inv [OF conjunct1 [OF pre_operation_frame]]
  have po: "sessions s' = sessions s" if "teec_post_process_operation x params shm s = Some s'" for params shm s s'
    using post_operation_frame [OF that] by simp
  show ?thesis
    using assms ne unfolding TEEC_OpenSession_def Let_def
    by (auto split: bind_splits if_splits prod.splits simp: post_operation_inv ts ps po set_session_inv
      only_callsD [OF free_temp_refs_only_calls] intro!: open_tail_inv)
qed (use assms in \<open>auto simp: TEEC_OpenSession_def split: option.splits if_splits\<close>)

lemma teec_api_inv:
  assumes "teec_api k w g f s = Some (r, s')" "teec_inv s"
  shows "teec_inv s'"
proof (cases f)
  case (InitializeContext name ctx)
  with assms init_context_inv show ?thesis
    by (auto simp: TEEC_InitializeContext_def split: prod.splits if_splits)
next
  case (RegisterSharedMemory ctx shm)
  have oc: "only_calls s s1" if "register_shm k ctx m s = (res, m', s1)" for m res m' s1
    using that unfolding register_shm_def Let_def
    by (auto split: if_splits prod.splits intro: only_calls_trans only_calls_mmap only_calls_get_id)
  with RegisterSharedMemory assms show ?thesis
    by (auto simp: TEEC_RegisterSharedMemory_def split: prod.splits if_splits intro: set_shms_inv)
next
  case (AllocateSharedMemory ctx shm)
  with assms show ?thesis
    by (auto simp: TEEC_AllocateSharedMemory_def split: prod.splits if_splits
        intro: set_shms_inv only_calls_allocate)
next
  case (ReleaseSharedMemory shm)
  with assms show ?thesis
    by (auto simp: TEEC_ReleaseSharedMemory_def split: prod.splits if_splits
        intro: set_shms_inv only_calls_release)
next
  case (RequestCancellation x)
  with assms show ?thesis
    by (auto simp: TEEC_RequestCancellation_def teec_mutex_lock_def teec_mutex_unlock_def Let_def teec_inv_def sys_def
        split: if_splits bind_splits)
qed (use assms finalize_context_inv close_session_inv invoke_inv open_session_inv in
    \<open>auto simp: TEEC_RegisterSharedMemoryFileDescriptor_def\<close>)

lemma teec_reach_inv: "teec_reach k w g s \<Longrightarrow> teec_inv s"
  by (induction rule: teec_reach.induct)
    (auto simp: teec_start_def intro: teec_api_inv, auto simp: teec_inv_def)

inductive_cases teec_reachE: "teec_reach k w g s"

section \<open>Closing\<close>

lemma ut_close_session_some:
  assumes "p \<noteq> 0" "sess_ctx (sessions s p) \<noteq> 0"
  shows "\<exists>r. ut_close_session k p s = Some (snd (sys k (Ioctl (ctx_fd (contexts s (sess_ctx (sessions s p))))
      (TEE_IOC_CLOSE_SESSION (session_id (sessions s p)))) s))"
  using assms by (simp add: ut_close_session_def Let_def)

text \<open>The calls that closing a list of sessions, and of contexts, makes.\<close>

definition close_session_call :: "teec \<Rightarrow> ptr \<Rightarrow> syscall" where
  "close_session_call s p = Ioctl (ctx_fd (contexts s (sess_ctx (sessions s p))))
     (TEE_IOC_CLOSE_SESSION (session_id (sessions s p)))"

definition close_context_call :: "teec \<Rightarrow> ptr \<Rightarrow> syscall" where
  "close_context_call s p = Close (ctx_fd (contexts s p))"

lemma close_session_call_cong:
  "contexts s' = contexts s \<Longrightarrow> sessions s' = sessions s \<Longrightarrow> close_session_call s' = close_session_call s"
  "contexts s' = contexts s \<Longrightarrow> close_context_call s' = close_context_call s"
  by (simp_all add: close_session_call_def close_context_call_def fun_eq_iff)

lemma destroy_sessions_calls:
  assumes "\<forall>p \<in> set ps. p \<noteq> 0 \<and> sess_ctx (sessions s p) \<noteq> 0"
  shows "\<exists>s' es. destroy_sessions k ps s = Some s' \<and> hist s' = hist s @ es \<and>
    map fst es = map (close_session_call s) ps \<and> sessionMap s' = [] \<and>
    contexts s' = contexts s \<and> contextMap s' = contextMap s"
  using assms
proof (induction ps arbitrary: s)
  case (Cons p ps)
  let ?s1 = "snd (sys k (close_session_call s p) s)"
  have 1: "ut_close_session k p s = Some ?s1"
    using Cons.prems by (simp add: ut_close_session_def Let_def close_session_call_def)
  let ?s2 = "?s1\<lparr>sessionMap := ps\<rparr>"
  have f: "contexts ?s2 = contexts s" "sessions ?s2 = sessions s" "contextMap ?s2 = contextMap s"
    "hist ?s2 = hist s @ [(close_session_call s p, fst (sys k (close_session_call s p) s))]"
    by (simp_all add: sys_def Let_def)
  obtain s' es where "destroy_sessions k ps ?s2 = Some s'" "hist s' = hist ?s2 @ es"
    "map fst es = map (close_session_call ?s2) ps" "sessionMap s' = []" "contexts s' = contexts ?s2"
    "contextMap s' = contextMap ?s2"
    using Cons.IH [of ?s2] Cons.prems f(2) by auto
  with 1 f close_session_call_cong(1) [OF f(1,2)] show ?case by simp
qed simp

lemma destroy_contexts_calls:
  "\<exists>es. hist (destroy_contexts k ps s) = hist s @ es \<and> map fst es = map (close_context_call s) ps \<and>
    contextMap (destroy_contexts k ps s) = [] \<and> sessionMap (destroy_contexts k ps s) = sessionMap s"
proof (induction ps arbitrary: s)
  case (Cons p ps)
  let ?s1 = "(ut_close_fd k (ctx_fd (contexts s p)) s)\<lparr>contextMap := ps\<rparr>"
  have f: "contexts ?s1 = contexts s" "sessionMap ?s1 = sessionMap s"
    "hist ?s1 = hist s @ [(close_context_call s p, fst (sys k (close_context_call s p) s))]"
    by (simp_all add: ut_close_fd_def sys_def Let_def close_context_call_def)
  from Cons.IH [of ?s1] f close_session_call_cong(2) [OF f(1)] show ?case by auto
qed simp

section \<open>Properties\<close>

text \<open>\<open>TEEC_InitializeContext\<close> either opens one of the ten devices, negotiates the version
  and the host name with it, stores the descriptor in the context and enters the context into
  the map, holding exactly one descriptor more than before, or reports that no item was found
  and holds the descriptors it held before.\<close>

theorem initialize_context:
  assumes "TEEC_InitializeContext k g name ctx s = (res, s')" "ctx \<noteq> 0" "fresh_fds k"
  shows "(res = TEEC_SUCCESS \<and>
           (\<exists>m es0 es. m < TEEC_MAX_DEV_SEQ \<and> hist s' = hist s @ es0 @ es \<and>
              dev_opened g (dev_name m) name (ctx_fd (contexts s' ctx)) es) \<and>
           ctx_fd (contexts s' ctx) \<notin> open_fds (hist s) \<and>
           open_fds (hist s') = insert (ctx_fd (contexts s' ctx)) (open_fds (hist s)) \<and>
           set (contextMap s') = insert ctx (set (contextMap s)) \<and> sessionMap s' = sessionMap s) \<or>
         (res = TEEC_ERROR_ITEM_NOT_FOUND \<and> open_fds (hist s') = open_fds (hist s) \<and>
           contexts s' = contexts s \<and> contextMap s' = contextMap s)"
proof -
  have "init_context_loop k g name ctx 0 s = (res, s')"
    using assms(1,2) by (simp add: TEEC_InitializeContext_def)
  from init_context_loop_spec [OF this assms(3)] show ?thesis
  proof
    assume "res = TEEC_SUCCESS \<and> context_opened g name ctx 0 s s'"
    then obtain fd m es0 es where f: "res = TEEC_SUCCESS" "m < TEEC_MAX_DEV_SEQ"
      "hist s' = hist s @ es0 @ es" "dev_opened g (dev_name m) name fd es" "fd \<notin> open_fds (hist s)"
      "open_fds (hist s') = insert fd (open_fds (hist s))"
      "s' = s\<lparr>hist := hist s', errno := errno s', contexts := (contexts s)(ctx := \<lparr>ctx_fd = fd\<rparr>),
             contextMap := map_insert ctx (contextMap s)\<rparr>"
      unfolding context_opened_def by blast
    have ex: "\<exists>m es0 es. m < TEEC_MAX_DEV_SEQ \<and> hist s' = hist s @ es0 @ es \<and>
              dev_opened g (dev_name m) name fd es"
      using f(2-4) by blast
    have "ctx_fd (contexts s' ctx) = fd" "contextMap s' = map_insert ctx (contextMap s)"
        "sessionMap s' = sessionMap s"
      by (subst f(7), simp)+
    with f(1,5,6) ex map_insert_props(2) [of ctx "contextMap s"] show ?thesis by metis
  qed (auto simp: only_callsD)
qed

text \<open>C18. Whatever sequence of library functions a client calls, and whatever it does to its
  own objects in between, the maps of contexts and sessions stay ordered and without
  duplicates, never hold \<open>NULL\<close>, every session in the map has a context, and the mutex is
  free between calls; so closing a session always returns, tells the secure world once, and
  closing it a second time does nothing.\<close>

theorem reachable_close_session:
  assumes "teec_reach k w g s"
  shows "teec_inv s \<and>
    (\<exists>s'. TEEC_CloseSession k p s = Some s' \<and> set (sessionMap s') = set (sessionMap s) - {p} \<and>
       (\<exists>es. hist s' = hist s @ es \<and>
          map fst es = (if p \<in> set (sessionMap s) then [close_session_call s p] else [])) \<and>
       TEEC_CloseSession k p s' = Some s')"
proof -
  have inv: "teec_inv s" using teec_reach_inv [OF assms] .
  show ?thesis
  proof (cases "p \<in> set (sessionMap s)")
    case True
    let ?s1 = "snd (sys k (close_session_call s p) s)"
    let ?s' = "?s1\<lparr>sessionMap := remove1 p (sessionMap ?s1)\<rparr>"
    have "TEEC_CloseSession k p s = Some ?s'"
      using True inv by (auto simp: TEEC_CloseSession_def ut_close_session_def Let_def close_session_call_def teec_inv_def)
    moreover have "set (sessionMap ?s') = set (sessionMap s) - {p}"
      using inv by (simp add: teec_inv_def sys_def Let_def set_remove1_eq)
    moreover have "hist ?s' = hist s @ [(close_session_call s p, fst (sys k (close_session_call s p) s))]"
      by (simp add: sys_def Let_def)
    ultimately show ?thesis using inv True by (auto simp: TEEC_CloseSession_def)
  next
    case False
    with inv show ?thesis by (auto simp: TEEC_CloseSession_def)
  qed
qed

text \<open>When the library is destroyed it first closes every open session, in the order of the
  map, then closes the descriptor of every context, makes no other call, and both maps are
  empty.\<close>

theorem destructor_closes_all:
  assumes "teec_reach k w g s"
  shows "\<exists>s' es. Common_destructor k s = Some s' \<and> hist s' = hist s @ es \<and>
    map fst es = map (close_session_call s) (sessionMap s) @ map (close_context_call s) (contextMap s) \<and>
    sessionMap s' = [] \<and> contextMap s' = []"
proof -
  have "\<forall>p \<in> set (sessionMap s). p \<noteq> 0 \<and> sess_ctx (sessions s p) \<noteq> 0"
    using teec_reach_inv [OF assms] by (metis teec_inv_def)
  then obtain s1 es where s1: "destroy_sessions k (sessionMap s) s = Some s1" "hist s1 = hist s @ es"
    "map fst es = map (close_session_call s) (sessionMap s)" "sessionMap s1 = []"
    "contexts s1 = contexts s" "contextMap s1 = contextMap s"
    using destroy_sessions_calls [of "sessionMap s" s k] by blast
  with destroy_contexts_calls [of k "contextMap s1" s1] close_session_call_cong(2) [of s1 s]
  show ?thesis by (auto simp: Common_destructor_def)
qed

lemma finalize_sessions_none:
  assumes "\<forall>p \<in> set (drop i (sessionMap s)). sess_ctx (sessions s p) \<noteq> ctx"
  shows "finalize_sessions k ctx i s = Some s"
  using assms
proof (induction "length (sessionMap s) - i" arbitrary: i)
  case (Suc x)
  then have "drop i (sessionMap s) = sessionMap s ! i # drop (Suc i) (sessionMap s)"
    by (simp add: Cons_nth_drop_Suc)
  with Suc show ?case by (simp add: finalize_sessions.simps [of k ctx i] Let_def)
qed (simp add: finalize_sessions.simps)

text \<open>\<open>TEEC_FinalizeContext\<close> of a context whose sessions are all closed closes the
  descriptor of the context exactly once and removes the context from the map; finalizing it
  again makes no call.\<close>

theorem finalize_context_closes:
  assumes "teec_inv s" "\<forall>p \<in> set (sessionMap s). sess_ctx (sessions s p) \<noteq> ctx" "ctx \<in> set (contextMap s)"
  shows "\<exists>s' r. TEEC_FinalizeContext k ctx s = Some s' \<and> hist s' = hist s @ [(close_context_call s ctx, r)] \<and>
    set (contextMap s') = set (contextMap s) - {ctx} \<and> TEEC_FinalizeContext k ctx s' = Some s'"
proof -
  let ?s' = "(ut_close_fd k (ctx_fd (contexts s ctx)) s)\<lparr>contextMap := remove1 ctx (contextMap s)\<rparr>"
  have "finalize_sessions k ctx 0 s = Some s" using assms(2) by (intro finalize_sessions_none) simp
  then have "TEEC_FinalizeContext k ctx s = Some ?s'" using assms(3) by (simp add: TEEC_FinalizeContext_def)
  moreover have f: "sessionMap ?s' = sessionMap s" "sessions ?s' = sessions s"
    "hist ?s' = hist s @ [(close_context_call s ctx, fst (sys k (close_context_call s ctx) s))]"
    by (simp_all add: ut_close_fd_def sys_def Let_def close_context_call_def)
  moreover have rem: "set (contextMap ?s') = set (contextMap s) - {ctx}"
    using assms(1) by (simp add: teec_inv_def set_remove1_eq)
  moreover have "finalize_sessions k ctx 0 ?s' = Some ?s'"
    using assms(2) f by (intro finalize_sessions_none) simp
  then have "TEEC_FinalizeContext k ctx ?s' = Some ?s'"
    using assms(1) by (simp add: TEEC_FinalizeContext_def teec_inv_def)
  ultimately show ?thesis by blast
qed

text \<open>\<open>TEEC_FinalizeContext\<close> has no defined behaviour when the last session of the map is a
  session of the context, in particular when exactly one session is open: after erasing the
  entry the loop steps its iterator, which is then at the end.\<close>

theorem finalize_context_undefined:
  assumes "sessionMap s = ps @ [p]" "\<forall>q \<in> set ps. sess_ctx (sessions s q) \<noteq> ctx"
    and "sess_ctx (sessions s p) = ctx" "ctx \<noteq> 0" "p \<noteq> 0"
  shows "TEEC_FinalizeContext k ctx s = None"
proof -
  have "finalize_sessions k ctx i s = None" if "i \<le> length ps" for i
    using that
  proof (induction "length ps - i" arbitrary: i)
    case 0
    then have i: "i = length ps" by simp
    from assms show ?case unfolding i
      by (simp add: finalize_sessions.simps [of k ctx "length ps"] ut_close_session_def Let_def)
  next
    case (Suc x)
    then have "i < length ps" by simp
    then have "sessionMap s ! i \<in> set ps" using assms(1) by (simp add: nth_append)
    with Suc assms show ?case by (simp add: finalize_sessions.simps [of k ctx i] Let_def)
  qed
  then show ?thesis by (simp add: TEEC_FinalizeContext_def)
qed

section \<open>Examples\<close>

lemma tee_kernel_ok: "fresh_fds tee_kernel" "maps_ok tee_kernel" "ids_given tee_kernel"
proof -
  have nonneg: "0 \<le> fd" if "fd \<in> open_fds h" for fd h
    using that
  proof (induction h rule: rev_induct)
    case (snoc e h)
    then show ?case by (cases "fst e"; cases e) (auto split: if_splits)
  qed simp
  then show "fresh_fds tee_kernel"
    using calm_ok(1) nonneg [of "- 1"] by (auto simp: fresh_fds_def tee_kernel_def fail_def)
  show "maps_ok tee_kernel" "ids_given tee_kernel"
    by (simp_all add: maps_ok_def ids_given_def tee_kernel_def ret_def calm_def MAP_FAILED_def)
qed

lemma tee_open_session:
  assumes "contexts s 100 = \<lparr>ctx_fd = 3\<rparr>"
  shows "\<exists>s'. teec_api tee_kernel tee_app False (OpenSession 100 200 (Some sample_uuid) TEEC_LOGIN_PUBLIC 0 0 0) s =
      Some (Some TEEC_SUCCESS, s') \<and> sessionMap s' = map_insert 200 (sessionMap s) \<and>
      sessions s' 200 = \<lparr>sess_ctx = 100, session_id = 0\<rparr> \<and> contexts s' = contexts s \<and> contextMap s' = contextMap s"
proof -
  have "length (uuid_to_octets sample_uuid) = 16" by code_simp
  with assms show ?thesis
    by (simp add: TEEC_OpenSession_def login_error_def teec_pre_process_operation_def Let_def tee_call_def sys_def
        tee_kernel_def tee_app_def calm_def ret_def teec_post_process_operation_def teec_free_temp_refs_def set_origin_def)
qed

lemma tee_connected:
  "\<exists>s. teec_reach tee_kernel tee_app False s \<and> sessionMap s = [200] \<and> contextMap s = [100] \<and>
     close_session_call s 200 = Ioctl 3 (TEE_IOC_CLOSE_SESSION 0) \<and> close_context_call s 100 = Close 3"
proof -
  obtain res s1 where 1: "TEEC_InitializeContext tee_kernel False None 100 tee_initial = (res, s1)" by fastforce
  have "(let (res, s') = TEEC_InitializeContext tee_kernel False None 100 tee_initial in
      contexts s' 100 = \<lparr>ctx_fd = 3\<rparr> \<and> contextMap s' = [100] \<and> sessionMap s' = [])" by code_simp
  then have s1: "contexts s1 100 = \<lparr>ctx_fd = 3\<rparr>" "contextMap s1 = [100]" "sessionMap s1 = []" by (simp_all add: 1)
  have "teec_reach tee_kernel tee_app False tee_initial"
    by (rule teec_reach.start) (simp add: teec_start_def tee_initial_def)
  then have r1: "teec_reach tee_kernel tee_app False s1"
    by (rule teec_reach.call [where f = "InitializeContext None 100"]) (simp add: 1)
  obtain s2 where "teec_api tee_kernel tee_app False (OpenSession 100 200 (Some sample_uuid) TEEC_LOGIN_PUBLIC 0 0 0) s1 =
      Some (Some TEEC_SUCCESS, s2)" "sessionMap s2 = map_insert 200 (sessionMap s1)"
      "sessions s2 200 = \<lparr>sess_ctx = 100, session_id = 0\<rparr>" "contexts s2 = contexts s1" "contextMap s2 = contextMap s1"
    using tee_open_session [OF s1(1)] by blast
  moreover from this(1) have "teec_reach tee_kernel tee_app False s2" by (rule teec_reach.call [OF r1])
  ultimately show ?thesis using s1
    by (intro exI [of _ s2]) (auto simp: close_session_call_def close_context_call_def map_insert_def)
qed

lemma tee_client_inv: "teec_inv tee_client"
  by (simp add: teec_inv_def tee_client_def tee_initial_def)

theorem initialize_context_witness:
  "let (res, s') = TEEC_InitializeContext tee_kernel False None 100 tee_initial in
     res = TEEC_SUCCESS \<and> ctx_fd (contexts s' 100) \<notin> open_fds (hist tee_initial) \<and>
     open_fds (hist s') = {3} \<and> set (contextMap s') = {100}"
proof -
  obtain res s' where r: "TEEC_InitializeContext tee_kernel False None 100 tee_initial = (res, s')"
    by fastforce
  have "(let (res, s') = TEEC_InitializeContext tee_kernel False None 100 tee_initial in
      res = TEEC_SUCCESS \<and> ctx_fd (contexts s' 100) = 3)" by code_simp
  then have "res = TEEC_SUCCESS" "ctx_fd (contexts s' 100) = 3" by (simp_all add: r)
  moreover have "hist tee_initial = []" "contextMap tee_initial = []" by (simp_all add: tee_initial_def)
  ultimately show ?thesis
    using initialize_context [OF r _ tee_kernel_ok(1)] by (simp add: r)
qed

theorem reachable_close_session_witness:
  "\<exists>s s'. sessionMap s = [200] \<and> TEEC_CloseSession tee_kernel 200 s = Some s' \<and> set (sessionMap s') = {} \<and>
     (\<exists>es. hist s' = hist s @ es \<and> map fst es = [Ioctl 3 (TEE_IOC_CLOSE_SESSION 0)])"
proof -
  obtain s where s: "teec_reach tee_kernel tee_app False s" "sessionMap s = [200]"
    "close_session_call s 200 = Ioctl 3 (TEE_IOC_CLOSE_SESSION 0)"
    using tee_connected by blast
  with reachable_close_session [OF s(1), of 200] show ?thesis by auto
qed

theorem destructor_closes_all_witness:
  "\<exists>s s' es. sessionMap s = [200] \<and> Common_destructor tee_kernel s = Some s' \<and> hist s' = hist s @ es \<and>
     map fst es = [Ioctl 3 (TEE_IOC_CLOSE_SESSION 0), Close 3]"
proof -
  obtain s where s: "teec_reach tee_kernel tee_app False s" "sessionMap s = [200]" "contextMap s = [100]"
    "close_session_call s 200 = Ioctl 3 (TEE_IOC_CLOSE_SESSION 0)" "close_context_call s 100 = Close 3"
    using tee_connected by blast
  with destructor_closes_all [OF s(1)] show ?thesis by auto
qed

theorem finalize_context_closes_witness:
  "\<exists>s' r. TEEC_FinalizeContext tee_kernel 100 (tee_client\<lparr>sessionMap := []\<rparr>) = Some s' \<and>
     hist s' = [(Close 3, r)] \<and> set (contextMap s') = {}"
  using finalize_context_closes [of "tee_client\<lparr>sessionMap := []\<rparr>" 100 tee_kernel]
  by (auto simp: teec_inv_def tee_client_def tee_initial_def close_context_call_def)

theorem finalize_context_undefined_witness:
  "TEEC_FinalizeContext tee_kernel 100 tee_client = None"
  by (rule finalize_context_undefined [of _ "[]" 200]) (simp_all add: tee_client_def tee_initial_def)

theorem invoke_command_frame_witness:
  "\<exists>s'. TEEC_InvokeCommand tee_kernel tee_app 200 7 300 0 tee_client = Some (TEEC_SUCCESS, s') \<and>
     mem s' 1002 = mem tee_client 1002"
proof -
  obtain s' r1 r2 where r: "TEEC_InvokeCommand tee_kernel tee_app 200 7 300 0 tee_client = Some (TEEC_SUCCESS, s')"
    and h: "hist s' = [(Mmap 2 3, ret 4096), (Ioctl 3 (TEE_IOC_SHM_ID 4096), ret 5), (Ioctl 3 (TEE_IOC_INVOKE tee_buf),
       \<lparr>sr_rc = 0, sr_err = 0, sr_out = tee_buf\<rparr>), (Munmap 4096 2, r1), (Ioctl 3 (TEE_IOC_SHM_RELEASE 5), r2)]"
    using tee_invoke_run by blast
  have "1002 \<notin> operation_area 300 tee_client"
    using one_temp_types [OF tee_one_temp(1)] tee_one_temp(2)
    by (simp add: operation_area_def op_area_def param_indices_list param_area_def temp_type_def partial_type_def span_def)
  moreover have "1002 \<notin> secure_area tee_app"
    by (auto simp: secure_area_def tee_app_def split: syscall.splits ioctl_req.splits)
  moreover have "1002 \<notin> new_maps tee_client s'"
    by (auto simp: new_maps_def h mapped_def ret_def)
  ultimately show ?thesis using invoke_command_frame [OF r] r by blast
qed


end
