(* ===== verification/Teec_Shm.thy ===== *)
theory Teec_Shm
  imports Teec_Api
begin

text \<open>
  Shared memory objects of the client: what allocating or registering and then releasing
  does, and the two paths on which the library's clean-up goes wrong.
\<close>

section \<open>Releasing\<close>

lemma release_register_live:
  assumes "register_shm k ctx shm s = (TEEC_SUCCESS, shm', s')" "maps_ok k" "ids_given k"
    and "0 \<le> ctx_fd (contexts s ctx)"
  shows "live_maps (hist s') = add_mset (shadow_buffer shm', unat (alloced_size shm')) (live_maps (hist s))"
    and "shadow_buffer shm' \<noteq> 0" "shm_id shm' \<noteq> - 1" "registered_fd shm' = ctx_fd (contexts s ctx)"
    and "shm_buffer shm' = shm_buffer shm"
proof -
  let ?n = "if shm_size shm = 0 then 8 else shm_size shm" and ?fd = "ctx_fd (contexts s ctx)"
  obtain p s1 where s1: "mmap k ?n ?fd s = (p, s1)" by fastforce
  obtain i s2 where s2: "teec_shm_get_id k ?fd p s1 = (i, s2)" by fastforce
  have v: "p \<noteq> MAP_FAILED" "s' = s2" "shm' = shm\<lparr>shadow_buffer := p, shm_id := i, alloced_size := ?n, registered_fd := ?fd\<rparr>"
    using assms(1) s1 s2 unfolding register_shm_def Let_def by (simp_all split: if_splits)
  have "live_maps (hist s2) = live_maps (hist s1)" "i \<noteq> - 1"
    using s2 assms(3) [unfolded ids_given_def, rule_format, of "hist s1" ?fd p]
    by (auto simp: teec_shm_get_id_def Let_def sys_def live_maps_append split: if_splits)
  with v mmap_live [OF s1 assms(2)] show
    "live_maps (hist s') = add_mset (shadow_buffer shm', unat (alloced_size shm')) (live_maps (hist s))"
    "shadow_buffer shm' \<noteq> 0" "shm_id shm' \<noteq> - 1" "registered_fd shm' = ctx_fd (contexts s ctx)"
    "shm_buffer shm' = shm_buffer shm"
    by simp_all
qed

lemma release_shadow_live:
  assumes "release_shm k m s = (m', s')" "maps_ok k" "shadow_buffer m \<noteq> 0" "shm_id m \<noteq> - 1" "0 \<le> registered_fd m"
  shows "live_maps (hist s') = live_maps (hist s) - {#(shadow_buffer m, unat (alloced_size m))#}"
    and "shm_buffer m' = shm_buffer m" "shm_id m' = - 1" "shadow_buffer m' = 0"
  using assms by (auto simp: release_shm_def Let_def sys_def live_maps_append maps_ok_def)

lemma release_done: "shm_id m = - 1 \<Longrightarrow> release_shm k m s = (m, s)"
  by (simp add: release_shm_def)

text \<open>Registering shared memory and releasing it again: the shadow mapping is removed, no
  other mapping is touched, the client's own buffer stays in the structure, and a second
  release does nothing.\<close>

theorem register_release:
  assumes "TEEC_RegisterSharedMemory k ctx shm s = (TEEC_SUCCESS, s1)" "maps_ok k" "ids_given k"
    and "0 \<le> ctx_fd (contexts s ctx)" "s2 = TEEC_ReleaseSharedMemory k shm s1"
  shows "live_maps (hist s1) = add_mset (shadow_buffer (shms s1 shm), unat (alloced_size (shms s1 shm))) (live_maps (hist s)) \<and>
    live_maps (hist s2) = live_maps (hist s) \<and> shm_buffer (shms s2 shm) = shm_buffer (shms s shm) \<and>
    shadow_buffer (shms s2 shm) = 0 \<and> TEEC_ReleaseSharedMemory k shm s2 = s2"
proof -
  have ne: "ctx \<noteq> 0" "shm \<noteq> 0" using assms(1) by (auto simp: TEEC_RegisterSharedMemory_def split: if_splits)
  obtain v t1 where t1: "register_shm k ctx (shms s shm) s = (TEEC_SUCCESS, v, t1)"
    "s1 = t1\<lparr>shms := (shms t1)(shm := v)\<rparr>"
    using assms(1) ne by (auto simp: TEEC_RegisterSharedMemory_def split: prod.splits)
  note reg = release_register_live [OF t1(1) assms(2-4)]
  obtain v2 t2 where t2: "release_shm k v s1 = (v2, t2)" by fastforce
  have s2: "s2 = t2\<lparr>shms := (shms t2)(shm := v2)\<rparr>"
    using assms(5) ne t1(2) t2 by (simp add: TEEC_ReleaseSharedMemory_def)
  have "0 \<le> registered_fd v" using reg(4) assms(4) by simp
  note rel = release_shadow_live [OF t2 assms(2) reg(2,3) this]
  have "TEEC_ReleaseSharedMemory k shm s2 = s2"
    using ne s2 release_done [OF rel(3)] by (simp add: TEEC_ReleaseSharedMemory_def)
  with reg rel s2 t1(2) show ?thesis by simp
qed

section \<open>Clean-up that goes wrong\<close>

text \<open>Releasing a structure that was zeroed and never filled in closes descriptor 0.\<close>

lemma release_zero:
  "\<exists>r1 r2. release_shm k zero_shm s = (zero_shm\<lparr>shm_id := - 1, registered_fd := - 1\<rparr>, snd (release_shm k zero_shm s)) \<and>
     hist (snd (release_shm k zero_shm s)) = hist s @ [(Close 0, r1), (Ioctl 0 (TEE_IOC_SHM_RELEASE 0), r2)]"
  by (simp add: release_shm_def zero_shm_def Let_def sys_def)

lemma only_calls_hist_mono:
  assumes "only_calls s1 s2" "hist s1 = hist s @ es1" "e \<in> set es1"
  shows "e \<in> set (drop (length (hist s)) (hist s2))"
  using assms by (auto simp: only_calls_def)

lemma free_zero_closes:
  assumes "n \<in> set ns" "temp_type (TEEC_PARAM_TYPE_GET types n) \<noteq> None" "distinct ns"
    and "\<And>n. n \<in> set ns \<Longrightarrow> shm ! n = zero_shm"
  shows "\<exists>r. (Close 0, r) \<in> set (drop (length (hist s)) (hist (free_temp_loop k types ns shm s)))"
  using assms
proof (induction ns arbitrary: shm s)
  case (Cons m ns)
  show ?case
  proof (cases "temp_type (TEEC_PARAM_TYPE_GET types m)")
    case None
    with Cons.prems have "n \<in> set ns" by auto
    with Cons.IH [of shm s] Cons.prems None show ?thesis by simp
  next
    case (Some y)
    obtain v s1 where v: "release_shm k zero_shm s = (v, s1)" by fastforce
    obtain r1 r2 where "hist s1 = hist s @ [(Close 0, r1), (Ioctl 0 (TEE_IOC_SHM_RELEASE 0), r2)]"
      using release_zero [of k s] v by auto
    from only_calls_hist_mono [OF free_temp_only_calls this, of "(Close 0, r1)"] Some Cons.prems(4) [of m] v
    show ?thesis by (intro exI [of _ r1]) simp
  qed
qed simp


text \<open>When the driver refuses an identifier for a new mapping, \<open>TEEC_AllocateSharedMemory\<close>
  still reports success with identifier -1, and releasing the memory does nothing: the
  mapping stays.\<close>

theorem refused_id_leaks:
  assumes "TEEC_AllocateSharedMemory k ctx shm s = (TEEC_SUCCESS, s1)"
    and "maps_ok k" "\<And>h fd p. sr_rc (k h (Ioctl fd (TEE_IOC_SHM_ID p))) < 0"
  shows "\<exists>p n. live_maps (hist (TEEC_ReleaseSharedMemory k shm s1)) = add_mset (p, n) (live_maps (hist s)) \<and>
    shm_id (shms s1 shm) = - 1"
proof -
  have ne: "ctx \<noteq> 0" "shm \<noteq> 0" using assms(1) by (auto simp: TEEC_AllocateSharedMemory_def split: if_splits)
  obtain v t1 where t1: "allocate_shm k ctx (shms s shm) s = (TEEC_SUCCESS, v, t1)"
    "s1 = t1\<lparr>shms := (shms t1)(shm := v)\<rparr>"
    using assms(1) ne by (auto simp: TEEC_AllocateSharedMemory_def split: prod.splits)
  let ?n = "if shm_size (shms s shm) = 0 then 8 else shm_size (shms s shm)" and ?fd = "ctx_fd (contexts s ctx)"
  obtain p s2 where s2: "mmap k ?n ?fd s = (p, s2)" by fastforce
  obtain i s3 where s3: "teec_shm_get_id k ?fd p s2 = (i, s3)" by fastforce
  have v: "p \<noteq> MAP_FAILED" "t1 = s3" "shm_id v = i"
    using t1(1) s2 s3 unfolding allocate_shm_def Let_def by (auto split: if_splits)
  have "live_maps (hist s3) = live_maps (hist s2)" "i = - 1"
    using s3 assms(3) [of "hist s2" ?fd p]
    by (auto simp: teec_shm_get_id_def Let_def sys_def live_maps_append split: if_splits)
  with v mmap_live(1) [OF s2 assms(2)] have "live_maps (hist t1) = add_mset (p, unat ?n) (live_maps (hist s))" "shm_id v = - 1"
    by simp_all
  with ne t1(2) show ?thesis by (auto simp: TEEC_ReleaseSharedMemory_def release_done)
qed

section \<open>Examples\<close>

definition shm_client :: teec where
  "shm_client = tee_client\<lparr>shms := (\<lambda>_. zero_shm\<lparr>shm_buffer := 1000, shm_size := 16, shm_flags := TEEC_MEM_INPUT\<rparr>)\<rparr>"

definition refusing_kernel :: kernel where
  "refusing_kernel h c = (case c of Ioctl fd (TEE_IOC_SHM_ID p) \<Rightarrow> fail EINVAL | _ \<Rightarrow> tee_kernel h c)"

theorem register_release_witness:
  "live_maps (hist (TEEC_ReleaseSharedMemory tee_kernel 400 (snd (TEEC_RegisterSharedMemory tee_kernel 100 400 shm_client)))) = {#}"
proof -
  have "fst (TEEC_RegisterSharedMemory tee_kernel 100 400 shm_client) = TEEC_SUCCESS"
    by (simp add: TEEC_RegisterSharedMemory_def register_shm_def shm_flags_ok_def mmap_def teec_shm_get_id_def sys_def
        tee_kernel_def ret_def shm_client_def MAP_FAILED_def Let_def)
  then have "TEEC_RegisterSharedMemory tee_kernel 100 400 shm_client =
      (TEEC_SUCCESS, snd (TEEC_RegisterSharedMemory tee_kernel 100 400 shm_client))"
    by (metis prod.collapse)
  from register_release [OF this tee_kernel_ok(2,3) _ refl] show ?thesis
    by (simp add: shm_client_def live_maps_def)
qed


theorem refused_id_leaks_witness:
  "\<exists>p n. live_maps (hist (TEEC_ReleaseSharedMemory refusing_kernel 400
      (snd (TEEC_AllocateSharedMemory refusing_kernel 100 400 shm_client)))) = {#(p, n)#}"
proof -
  have "fst (TEEC_AllocateSharedMemory refusing_kernel 100 400 shm_client) = TEEC_SUCCESS"
    by (simp add: TEEC_AllocateSharedMemory_def allocate_shm_def shm_flags_ok_def mmap_def teec_shm_get_id_def sys_def
        refusing_kernel_def tee_kernel_def ret_def fail_def shm_client_def MAP_FAILED_def Let_def)
  then have "TEEC_AllocateSharedMemory refusing_kernel 100 400 shm_client =
      (TEEC_SUCCESS, snd (TEEC_AllocateSharedMemory refusing_kernel 100 400 shm_client))"
    by (metis prod.collapse)
  moreover have "maps_ok refusing_kernel"
    using tee_kernel_ok(2) by (simp add: maps_ok_def refusing_kernel_def)
  ultimately show ?thesis
    using refused_id_leaks [of refusing_kernel 100 400 shm_client "snd (TEEC_AllocateSharedMemory refusing_kernel 100 400 shm_client)"]
    by (auto simp: refusing_kernel_def fail_def shm_client_def live_maps_def)
qed

end
