(* ===== verification/Trustlets.thy ===== *)
theory Trustlets
  imports Teec_Types
begin

text \<open>
  The trusted applications and secure drivers that the repository configures
  (\<open>trustlets/*\<close>): for each application the identifiers of \<open>ta/uuid.c\<close> and the manifest
  of \<open>ta/manifest.c\<close>, for each driver the manifest of \<open>drv/manifest.c\<close>. The files hold
  data only; what makes the data correct is that the three copies of an identifier and its
  text agree, that the client library's octets tell the applications apart, and that no two
  drivers share an identifier.
\<close>

section \<open>Data\<close>

record ta_uuid =
  host_name :: string
  bta_uuid :: TEEC_UUID
  TA_UUID :: TEEC_UUID

record ta_manifest =
  ta_uuid_of :: TEEC_UUID
  ta_log_tag :: string
  ipc_buf_size :: nat
  rpmb_size :: "nat option"

record driver_manifest =
  driver_id :: nat
  drv_uuid :: TEEC_UUID
  drv_log_tag :: string

definition mk_uuid :: "u32 \<Rightarrow> u16 \<Rightarrow> u16 \<Rightarrow> bytes \<Rightarrow> TEEC_UUID" where
  "mk_uuid a b c d = \<lparr>timeLow = a, timeMid = b, timeHiAndVersion = c, clockSeqAndNode = d\<rparr>"

section \<open>Applications and drivers\<close>

definition uuid_isp :: ta_uuid where
  "uuid_isp = \<lparr>host_name = ''85f630e0f0964c5fa2cc268ce04e3da3'',
     bta_uuid = mk_uuid 0x85F630E0 0xF096 0x4C5F [0xA2, 0xCC, 0x26, 0x8C, 0xE0, 0x4E, 0x3D, 0xA3],
     TA_UUID = mk_uuid 0x85F630E0 0xF096 0x4C5F [0xA2, 0xCC, 0x26, 0x8C, 0xE0, 0x4E, 0x3D, 0xA3]\<rparr>"

definition ta_isp :: ta_manifest where
  "ta_isp = \<lparr>ta_uuid_of = mk_uuid 0x85F630E0 0xF096 0x4C5F [0xA2, 0xCC, 0x26, 0x8C, 0xE0, 0x4E, 0x3D, 0xA3],
     ta_log_tag = ''ta_isp'', ipc_buf_size = 0x100000, rpmb_size = Some 1024\<rparr>"

definition uuid_cmdq :: ta_uuid where
  "uuid_cmdq = \<lparr>host_name = ''09010000000000000000000000000000'',
     bta_uuid = mk_uuid 0x9010000 0 0 [0, 0, 0, 0, 0, 0, 0, 0],
     TA_UUID = mk_uuid 0x9010000 0 0 [0, 0, 0, 0, 0, 0, 0, 0]\<rparr>"

definition ta_cmdq :: ta_manifest where
  "ta_cmdq = \<lparr>ta_uuid_of = mk_uuid 0x9010000 0 0 [0, 0, 0, 0, 0, 0, 0, 0],
     ta_log_tag = ''ta_cmdq'', ipc_buf_size = 0x400000, rpmb_size = Some 1024\<rparr>"

definition uuid_dp_hdcp :: ta_uuid where
  "uuid_dp_hdcp = \<lparr>host_name = ''abcd270ea5c44c58bcd3384a2fa2539e'',
     bta_uuid = mk_uuid 0xABCD270E 0xA5C4 0x4C58 [0xBC, 0xD3, 0x38, 0x4A, 0x2F, 0xA2, 0x53, 0x9E],
     TA_UUID = mk_uuid 0xABCD270E 0xA5C4 0x4C58 [0xBC, 0xD3, 0x38, 0x4A, 0x2F, 0xA2, 0x53, 0x9E]\<rparr>"

definition ta_dp_hdcp :: ta_manifest where
  "ta_dp_hdcp = \<lparr>ta_uuid_of = mk_uuid 0xABCD270E 0xA5C4 0x4C58 [0xBC, 0xD3, 0x38, 0x4A, 0x2F, 0xA2, 0x53, 0x9E],
     ta_log_tag = ''taDPHdcp'', ipc_buf_size = 0x400000, rpmb_size = Some 1024\<rparr>"

definition uuid_fod_sample :: ta_uuid where
  "uuid_fod_sample = \<lparr>host_name = ''08060000000000000000000019790414'',
     bta_uuid = mk_uuid 0x8060000 0 0 [0, 0, 0, 0, 0x19, 0x79, 4, 0x14],
     TA_UUID = mk_uuid 0x8060000 0 0 [0, 0, 0, 0, 0x19, 0x79, 4, 0x14]\<rparr>"

definition ta_fod_sample :: ta_manifest where
  "ta_fod_sample = \<lparr>ta_uuid_of = mk_uuid 0x8060000 0 0 [0, 0, 0, 0, 0x19, 0x79, 4, 0x14],
     ta_log_tag = ''ta_fod'', ipc_buf_size = 0x10000, rpmb_size = Some 1024\<rparr>"

definition uuid_imgsensor :: ta_uuid where
  "uuid_imgsensor = \<lparr>host_name = ''7b66512021214487ba710a51d7ea78fe'',
     bta_uuid = mk_uuid 0x7B665120 0x2121 0x4487 [0xBA, 0x71, 0xA, 0x51, 0xD7, 0xEA, 0x78, 0xFE],
     TA_UUID = mk_uuid 0x7B665120 0x2121 0x4487 [0xBA, 0x71, 0xA, 0x51, 0xD7, 0xEA, 0x78, 0xFE]\<rparr>"

definition ta_imgsensor :: ta_manifest where
  "ta_imgsensor = \<lparr>ta_uuid_of = mk_uuid 0x7B665120 0x2121 0x4487 [0xBA, 0x71, 0xA, 0x51, 0xD7, 0xEA, 0x78, 0xFE],
     ta_log_tag = ''ta_imgsensor'', ipc_buf_size = 0x100000, rpmb_size = Some 1024\<rparr>"

definition uuid_keyinstall :: ta_uuid where
  "uuid_keyinstall = \<lparr>host_name = ''08110000000000000000000000000000'',
     bta_uuid = mk_uuid 0x8110000 0 0 [0, 0, 0, 0, 0, 0, 0, 0],
     TA_UUID = mk_uuid 0x8110000 0 0 [0, 0, 0, 0, 0, 0, 0, 0]\<rparr>"

definition ta_keyinstall :: ta_manifest where
  "ta_keyinstall = \<lparr>ta_uuid_of = mk_uuid 0x8110000 0 0 [0, 0, 0, 0, 0, 0, 0, 0],
     ta_log_tag = ''ta_keyinstall'', ipc_buf_size = 0x100000, rpmb_size = Some 1024\<rparr>"

definition uuid_m4u :: ta_uuid where
  "uuid_m4u = \<lparr>host_name = ''98fb95bcb4bf42d26473eae48690d7ea'',
     bta_uuid = mk_uuid 0x98FB95BC 0xB4BF 0x42D2 [0x64, 0x73, 0xEA, 0xE4, 0x86, 0x90, 0xD7, 0xEA],
     TA_UUID = mk_uuid 0x98FB95BC 0xB4BF 0x42D2 [0x64, 0x73, 0xEA, 0xE4, 0x86, 0x90, 0xD7, 0xEA]\<rparr>"

definition ta_m4u :: ta_manifest where
  "ta_m4u = \<lparr>ta_uuid_of = mk_uuid 0x98FB95BC 0xB4BF 0x42D2 [0x64, 0x73, 0xEA, 0xE4, 0x86, 0x90, 0xD7, 0xEA],
     ta_log_tag = ''ta_m4u'', ipc_buf_size = 0x10000, rpmb_size = Some 1024\<rparr>"

definition uuid_modular_drm :: ta_uuid where
  "uuid_modular_drm = \<lparr>host_name = ''e97c270ea5c44c58bcd3384a2fa2539e'',
     bta_uuid = mk_uuid 0xE97C270E 0xA5C4 0x4C58 [0xBC, 0xD3, 0x38, 0x4A, 0x2F, 0xA2, 0x53, 0x9E],
     TA_UUID = mk_uuid 0xE97C270E 0xA5C4 0x4C58 [0xBC, 0xD3, 0x38, 0x4A, 0x2F, 0xA2, 0x53, 0x9E]\<rparr>"

definition ta_modular_drm :: ta_manifest where
  "ta_modular_drm = \<lparr>ta_uuid_of = mk_uuid 0xE97C270E 0xA5C4 0x4C58 [0xBC, 0xD3, 0x38, 0x4A, 0x2F, 0xA2, 0x53, 0x9E],
     ta_log_tag = ''ta_wvl1'', ipc_buf_size = 0x800000, rpmb_size = Some 1024\<rparr>"

definition uuid_pmem :: ta_uuid where
  "uuid_pmem = \<lparr>host_name = ''08040000000000000000000000003419'',
     bta_uuid = mk_uuid 0x8040000 0 0 [0, 0, 0, 0, 0, 0, 0x34, 0x19],
     TA_UUID = mk_uuid 0x8040000 0 0 [0, 0, 0, 0, 0, 0, 0x34, 0x19]\<rparr>"

definition ta_pmem :: ta_manifest where
  "ta_pmem = \<lparr>ta_uuid_of = mk_uuid 0x8040000 0 0 [0, 0, 0, 0, 0, 0, 0x34, 0x19],
     ta_log_tag = ''ta_pmem'', ipc_buf_size = 0x10000, rpmb_size = Some 1024\<rparr>"

definition uuid_sec :: ta_uuid where
  "uuid_sec = \<lparr>host_name = ''05110000000000000000000000000000'',
     bta_uuid = mk_uuid 0x5110000 0 0 [0, 0, 0, 0, 0, 0, 0, 0],
     TA_UUID = mk_uuid 0x5110000 0 0 [0, 0, 0, 0, 0, 0, 0, 0]\<rparr>"

definition ta_sec :: ta_manifest where
  "ta_sec = \<lparr>ta_uuid_of = mk_uuid 0x5110000 0 0 [0, 0, 0, 0, 0, 0, 0, 0],
     ta_log_tag = ''ta_sec'', ipc_buf_size = 0x10000, rpmb_size = Some 1024\<rparr>"

definition uuid_secmem :: ta_uuid where
  "uuid_secmem = \<lparr>host_name = ''08030000000000000000000000000000'',
     bta_uuid = mk_uuid 0x8030000 0 0 [0, 0, 0, 0, 0, 0, 0, 0],
     TA_UUID = mk_uuid 0x8030000 0 0 [0, 0, 0, 0, 0, 0, 0, 0]\<rparr>"

definition ta_secmem :: ta_manifest where
  "ta_secmem = \<lparr>ta_uuid_of = mk_uuid 0x8030000 0 0 [0, 0, 0, 0, 0, 0, 0, 0],
     ta_log_tag = ''ta_secmem'', ipc_buf_size = 0x10000, rpmb_size = Some 1024\<rparr>"

definition uuid_tee_sanity :: ta_uuid where
  "uuid_tee_sanity = \<lparr>host_name = ''05150000000000000000000000000000'',
     bta_uuid = mk_uuid 0x5150000 0 0 [0, 0, 0, 0, 0, 0, 0, 0],
     TA_UUID = mk_uuid 0x5150000 0 0 [0, 0, 0, 0, 0, 0, 0, 0]\<rparr>"

definition ta_tee_sanity :: ta_manifest where
  "ta_tee_sanity = \<lparr>ta_uuid_of = mk_uuid 0x5150000 0 0 [0, 0, 0, 0, 0, 0, 0, 0],
     ta_log_tag = ''ta_sanity'', ipc_buf_size = 0x401000, rpmb_size = Some 1024\<rparr>"

definition uuid_MtkAV1Vdec :: ta_uuid where
  "uuid_MtkAV1Vdec = \<lparr>host_name = ''00040000000000000000000000009381'',
     bta_uuid = mk_uuid 0x40000 0 0 [0, 0, 0, 0, 0, 0, 0x93, 0x81],
     TA_UUID = mk_uuid 0x40000 0 0 [0, 0, 0, 0, 0, 0, 0x93, 0x81]\<rparr>"

definition ta_MtkAV1Vdec :: ta_manifest where
  "ta_MtkAV1Vdec = \<lparr>ta_uuid_of = mk_uuid 0x40000 0 0 [0, 0, 0, 0, 0, 0, 0x93, 0x81],
     ta_log_tag = ''ta_decoder'', ipc_buf_size = 0x100000, rpmb_size = Some 1024\<rparr>"

definition uuid_MtkH264Vdec :: ta_uuid where
  "uuid_MtkH264Vdec = \<lparr>host_name = ''08020000000000000000000000007169'',
     bta_uuid = mk_uuid 0x8020000 0 0 [0, 0, 0, 0, 0, 0, 0x71, 0x69],
     TA_UUID = mk_uuid 0x8020000 0 0 [0, 0, 0, 0, 0, 0, 0x71, 0x69]\<rparr>"

definition ta_MtkH264Vdec :: ta_manifest where
  "ta_MtkH264Vdec = \<lparr>ta_uuid_of = mk_uuid 0x8020000 0 0 [0, 0, 0, 0, 0, 0, 0x71, 0x69],
     ta_log_tag = ''ta_decoder'', ipc_buf_size = 0x100000, rpmb_size = Some 1024\<rparr>"

definition uuid_MtkH264Venc :: ta_uuid where
  "uuid_MtkH264Venc = \<lparr>host_name = ''08090000000000000000000000000000'',
     bta_uuid = mk_uuid 0x8090000 0 0 [0, 0, 0, 0, 0, 0, 0, 0],
     TA_UUID = mk_uuid 0x8090000 0 0 [0, 0, 0, 0, 0, 0, 0, 0]\<rparr>"

definition ta_MtkH264Venc :: ta_manifest where
  "ta_MtkH264Venc = \<lparr>ta_uuid_of = mk_uuid 0x8090000 0 0 [0, 0, 0, 0, 0, 0, 0, 0],
     ta_log_tag = ''ta_encoder'', ipc_buf_size = 0x100000, rpmb_size = Some 1024\<rparr>"

definition uuid_MtkH265Vdec :: ta_uuid where
  "uuid_MtkH265Vdec = \<lparr>host_name = ''4be4fd221f2c11e5b5f7727283247c7f'',
     bta_uuid = mk_uuid 0x4BE4FD22 0x1F2C 0x11E5 [0xB5, 0xF7, 0x72, 0x72, 0x83, 0x24, 0x7C, 0x7F],
     TA_UUID = mk_uuid 0x4BE4FD22 0x1F2C 0x11E5 [0xB5, 0xF7, 0x72, 0x72, 0x83, 0x24, 0x7C, 0x7F]\<rparr>"

definition ta_MtkH265Vdec :: ta_manifest where
  "ta_MtkH265Vdec = \<lparr>ta_uuid_of = mk_uuid 0x4BE4FD22 0x1F2C 0x11E5 [0xB5, 0xF7, 0x72, 0x72, 0x83, 0x24, 0x7C, 0x7F],
     ta_log_tag = ''ta_decoder'', ipc_buf_size = 0x100000, rpmb_size = Some 1024\<rparr>"

definition uuid_MtkVP9Vdec :: ta_uuid where
  "uuid_MtkVP9Vdec = \<lparr>host_name = ''09030000000000000000000000008270'',
     bta_uuid = mk_uuid 0x9030000 0 0 [0, 0, 0, 0, 0, 0, 0x82, 0x70],
     TA_UUID = mk_uuid 0x9030000 0 0 [0, 0, 0, 0, 0, 0, 0x82, 0x70]\<rparr>"

definition ta_MtkVP9Vdec :: ta_manifest where
  "ta_MtkVP9Vdec = \<lparr>ta_uuid_of = mk_uuid 0x9030000 0 0 [0, 0, 0, 0, 0, 0, 0x82, 0x70],
     ta_log_tag = ''ta_decoder'', ipc_buf_size = 0x100000, rpmb_size = Some 1024\<rparr>"

definition drv_isp :: driver_manifest where
  "drv_isp = \<lparr>driver_id = 0x90111, drv_uuid = mk_uuid 0xF5EED3C 0x3B5A 0x47AF [0xAC, 0xCA, 0x69, 0xA8, 0x4B, 0xF0, 0xEF, 0xAD],
     drv_log_tag = ''drv_isp''\<rparr>"

definition drv_cmdq :: driver_manifest where
  "drv_cmdq = \<lparr>driver_id = 0x90400, drv_uuid = mk_uuid 0x20B0000 0 0 [0, 0, 0, 0, 0, 0, 0, 0],
     drv_log_tag = ''drv_cmdq''\<rparr>"

definition drv_drm_hdcp_common :: driver_manifest where
  "drv_drm_hdcp_common = \<lparr>driver_id = 0x90510, drv_uuid = mk_uuid 0x50201701 0x15E0 0x1630 [0x20, 0x17, 1, 0x25, 0x21, 0x30, 0, 0],
     drv_log_tag = ''drv_HDCP''\<rparr>"

definition drv_fod_sample :: driver_manifest where
  "drv_fod_sample = \<lparr>driver_id = 0x91979, drv_uuid = mk_uuid 0x8070000 0 0 [0, 0, 0, 0, 0x19, 0x79, 4, 0x14],
     drv_log_tag = ''drv_fod''\<rparr>"

definition drv_imgsensor :: driver_manifest where
  "drv_imgsensor = \<lparr>driver_id = 0x90222, drv_uuid = mk_uuid 0x7407000 0 0 [0, 0, 0, 0, 0, 0, 0, 0],
     drv_log_tag = ''drv_imgsensor''\<rparr>"

definition drv_keyinstall :: driver_manifest where
  "drv_keyinstall = \<lparr>driver_id = 0x90310, drv_uuid = mk_uuid 0x6090000 0 0 [0, 0, 0, 0, 0, 0, 0, 0],
     drv_log_tag = ''drv_keyinstall''\<rparr>"

definition drv_m4u :: driver_manifest where
  "drv_m4u = \<lparr>driver_id = 0x977AA, drv_uuid = mk_uuid 0x9073F03A 0x9618 0x383B [0xB1, 0x85, 0x6E, 0xB3, 0xF9, 0x90, 0xBA, 0xBD],
     drv_log_tag = ''drv_m4u''\<rparr>"

definition drv_modular_drm :: driver_manifest where
  "drv_modular_drm = \<lparr>driver_id = 0x90210, drv_uuid = mk_uuid 0x40188311 0xFAF3 0x4348 [0x8D, 0xB8, 0x88, 0xAD, 0x39, 0x49, 0x6F, 0x9A],
     drv_log_tag = ''drv_wvl1''\<rparr>"

definition drv_pmem :: driver_manifest where
  "drv_pmem = \<lparr>driver_id = 0x93419, drv_uuid = mk_uuid 0x8050000 0 0 [0, 0, 0, 0, 0, 0, 0x34, 0x19],
     drv_log_tag = ''drv_pmem''\<rparr>"

definition drv_sec :: driver_manifest where
  "drv_sec = \<lparr>driver_id = 0x90300, drv_uuid = mk_uuid 0x5120000 0 0 [0, 0, 0, 0, 0, 0, 0, 0],
     drv_log_tag = ''drv_sec''\<rparr>"

definition drv_secmem :: driver_manifest where
  "drv_secmem = \<lparr>driver_id = 0x90727, drv_uuid = mk_uuid 0x20F0000 0 0 [0, 0, 0, 0, 0, 0, 0, 0],
     drv_log_tag = ''drv_secmem''\<rparr>"

definition drv_tee_sanity :: driver_manifest where
  "drv_tee_sanity = \<lparr>driver_id = 0x90305, drv_uuid = mk_uuid 0x5160000 0 0 [0, 0, 0, 0, 0, 0, 0, 0],
     drv_log_tag = ''drv_sanity''\<rparr>"

definition drv_MtkAV1Vdec :: driver_manifest where
  "drv_MtkAV1Vdec = \<lparr>driver_id = 0x90207, drv_uuid = mk_uuid 0x9080000 0 0 [0, 0, 0, 0, 0, 0, 0x93, 0x81],
     drv_log_tag = ''av1_drv_decoder''\<rparr>"

definition drv_MtkH264Vdec :: driver_manifest where
  "drv_MtkH264Vdec = \<lparr>driver_id = 0x90203, drv_uuid = mk_uuid 0x7060000 0 0 [0, 0, 0, 0, 0, 0, 0x71, 0x69],
     drv_log_tag = ''drv_decoder''\<rparr>"

definition drv_MtkH264Venc :: driver_manifest where
  "drv_MtkH264Venc = \<lparr>driver_id = 0x90204, drv_uuid = mk_uuid 0x7070000 0 0 [0, 0, 0, 0, 0, 0, 0, 0],
     drv_log_tag = ''drv_encoder''\<rparr>"

definition drv_MtkH265Vdec :: driver_manifest where
  "drv_MtkH265Vdec = \<lparr>driver_id = 0x90205, drv_uuid = mk_uuid 0x4BE4F7DC 0x1F2C 0x11E5 [0xB5, 0xF7, 0x72, 0x72, 0x83, 0x24, 0x7C, 0x7F],
     drv_log_tag = ''h265_drv_decoder''\<rparr>"

definition drv_MtkVP9Vdec :: driver_manifest where
  "drv_MtkVP9Vdec = \<lparr>driver_id = 0x90206, drv_uuid = mk_uuid 0x8070000 0 0 [0, 0, 0, 0, 0, 0, 0x82, 0x70],
     drv_log_tag = ''vp9_drv_decoder''\<rparr>"

definition applications :: "(ta_uuid \<times> ta_manifest) list" where
  "applications =
     [(uuid_isp, ta_isp),
      (uuid_cmdq, ta_cmdq),
      (uuid_dp_hdcp, ta_dp_hdcp),
      (uuid_fod_sample, ta_fod_sample),
      (uuid_imgsensor, ta_imgsensor),
      (uuid_keyinstall, ta_keyinstall),
      (uuid_m4u, ta_m4u),
      (uuid_modular_drm, ta_modular_drm),
      (uuid_pmem, ta_pmem),
      (uuid_sec, ta_sec),
      (uuid_secmem, ta_secmem),
      (uuid_tee_sanity, ta_tee_sanity),
      (uuid_MtkAV1Vdec, ta_MtkAV1Vdec),
      (uuid_MtkH264Vdec, ta_MtkH264Vdec),
      (uuid_MtkH264Venc, ta_MtkH264Venc),
      (uuid_MtkH265Vdec, ta_MtkH265Vdec),
      (uuid_MtkVP9Vdec, ta_MtkVP9Vdec)]"

definition drivers :: "driver_manifest list" where
  "drivers =
     [drv_isp, drv_cmdq, drv_drm_hdcp_common, drv_fod_sample,
      drv_imgsensor, drv_keyinstall, drv_m4u, drv_modular_drm,
      drv_pmem, drv_sec, drv_secmem, drv_tee_sanity,
      drv_MtkAV1Vdec, drv_MtkH264Vdec, drv_MtkH264Venc, drv_MtkH265Vdec,
      drv_MtkVP9Vdec]"

text \<open>
  The second field of the auxiliary ELF data in \<open>tee_sanity/common/ta/manifest.c\<close> is the
  size of the structure, three 32-bit words; its value, the stack size, is one megabyte.
\<close>

record ta_elf_aux_mword_t =
  aux_type :: u32
  aux_length :: u32
  aux_value :: u32

datatype ta_elf_aux = TA_ELF_AUX_T_NONE | TA_ELF_AUX_T_VMA | TA_ELF_AUX_T_STACK_SIZE
  | TA_ELF_AUX_T_STACK_ADDR | TA_ELF_AUX_T_KIP_ADDR

fun ta_elf_aux_code :: "ta_elf_aux \<Rightarrow> u32" where
  "ta_elf_aux_code TA_ELF_AUX_T_NONE = 0"
| "ta_elf_aux_code TA_ELF_AUX_T_VMA = 1"
| "ta_elf_aux_code TA_ELF_AUX_T_STACK_SIZE = 2"
| "ta_elf_aux_code TA_ELF_AUX_T_STACK_ADDR = 3"
| "ta_elf_aux_code TA_ELF_AUX_T_KIP_ADDR = 4"

definition sanity_stack :: ta_elf_aux_mword_t where
  "sanity_stack = \<lparr>aux_type = ta_elf_aux_code TA_ELF_AUX_T_STACK_SIZE, aux_length = 12, aux_value = 0x100000\<rparr>"

section \<open>The text of an identifier\<close>

definition hex_digit :: "nat \<Rightarrow> char" where
  "hex_digit n = ''0123456789abcdef'' ! n"

definition hex_byte :: "u8 \<Rightarrow> string" where
  "hex_byte b = [hex_digit (unat b div 16), hex_digit (unat b mod 16)]"

definition uuid_text :: "TEEC_UUID \<Rightarrow> string" where
  "uuid_text u = concat (map hex_byte (uuid_to_octets u))"

lemma hex_digit_inj: "i < 16 \<Longrightarrow> j < 16 \<Longrightarrow> hex_digit i = hex_digit j \<Longrightarrow> i = j"
proof -
  have "distinct ''0123456789abcdef''" by code_simp
  moreover assume "i < 16" "j < 16" "hex_digit i = hex_digit j"
  ultimately show ?thesis
    using nth_eq_iff_index_eq [of "''0123456789abcdef''" i j] by (simp add: hex_digit_def)
qed

lemma hex_byte_inj: "hex_byte a = hex_byte b \<Longrightarrow> a = b"
proof -
  assume h: "hex_byte a = hex_byte b"
  have "unat a < 256" "unat b < 256" by (rule unat_word_less)+
  then have "unat a div 16 = unat b div 16" "unat a mod 16 = unat b mod 16"
    using h by (auto simp: hex_byte_def intro!: hex_digit_inj)
  then have "unat a = unat b" by (metis div_mult_mod_eq)
  then show "a = b" by (rule unsigned_word_eqI)
qed

lemma hex_bytes_inj: "concat (map hex_byte xs) = concat (map hex_byte ys) \<Longrightarrow> xs = ys"
proof (induction xs arbitrary: ys)
  case (Cons x xs)
  then obtain y ys' where y: "ys = y # ys'" by (cases ys) (auto simp: hex_byte_def)
  then have *: "hex_byte x @ concat (map hex_byte xs) = hex_byte y @ concat (map hex_byte ys')"
    using Cons.prems by simp
  have "length (hex_byte x) = length (hex_byte y)" by (simp add: hex_byte_def)
  with * have "hex_byte x = hex_byte y" "concat (map hex_byte xs) = concat (map hex_byte ys')"
    by simp_all
  with Cons.IH y show ?case by (auto dest: hex_byte_inj)
qed (auto simp: hex_byte_def)

section \<open>Properties\<close>

lemma octets_eq_iff:
  assumes "uuid_wf u" "uuid_wf v"
  shows "uuid_to_octets u = uuid_to_octets v \<longleftrightarrow> u = v"
  using assms bytes_inject_16 [of "timeMid u" "timeMid v"]
    bytes_inject_16 [of "timeHiAndVersion u" "timeHiAndVersion v"]
    bytes_inject_32 [of "timeLow u" "timeLow v"]
  by (auto simp: uuid_to_octets_def uuid_wf_def intro!: TEEC_UUID.equality)

lemma uuid_text_inj: "uuid_wf u \<Longrightarrow> uuid_wf v \<Longrightarrow> uuid_text u = uuid_text v \<Longrightarrow> u = v"
  unfolding uuid_text_def by (drule hex_bytes_inj) (simp add: octets_eq_iff)

lemmas application_data = uuid_isp_def uuid_cmdq_def uuid_dp_hdcp_def uuid_fod_sample_def uuid_imgsensor_def
  uuid_keyinstall_def uuid_m4u_def uuid_modular_drm_def uuid_pmem_def uuid_sec_def
  uuid_secmem_def uuid_tee_sanity_def uuid_MtkAV1Vdec_def uuid_MtkH264Vdec_def uuid_MtkH264Venc_def
  uuid_MtkH265Vdec_def uuid_MtkVP9Vdec_def ta_isp_def ta_cmdq_def ta_dp_hdcp_def
  ta_fod_sample_def ta_imgsensor_def ta_keyinstall_def ta_m4u_def ta_modular_drm_def
  ta_pmem_def ta_sec_def ta_secmem_def ta_tee_sanity_def ta_MtkAV1Vdec_def
  ta_MtkH264Vdec_def ta_MtkH264Venc_def ta_MtkH265Vdec_def ta_MtkVP9Vdec_def

lemmas driver_data = drv_isp_def drv_cmdq_def drv_drm_hdcp_common_def drv_fod_sample_def drv_imgsensor_def
  drv_keyinstall_def drv_m4u_def drv_modular_drm_def drv_pmem_def drv_sec_def
  drv_secmem_def drv_tee_sanity_def drv_MtkAV1Vdec_def drv_MtkH264Vdec_def drv_MtkH264Venc_def
  drv_MtkH265Vdec_def drv_MtkVP9Vdec_def

lemma identifiers_distinct: "distinct (map (ta_uuid_of \<circ> snd) applications @ map drv_uuid drivers)"
  by (simp add: applications_def drivers_def mk_uuid_def application_data driver_data)

lemma identifiers_wf: "\<forall>u \<in> set (map (ta_uuid_of \<circ> snd) applications @ map drv_uuid drivers). uuid_wf u"
  by (simp add: applications_def drivers_def mk_uuid_def application_data driver_data uuid_wf_def)

lemma inj_distinct: "distinct xs \<Longrightarrow> (\<And>x y. x \<in> set xs \<Longrightarrow> y \<in> set xs \<Longrightarrow> f x = f y \<Longrightarrow> x = y) \<Longrightarrow> distinct (map f xs)"
  by (auto simp: distinct_map inj_on_def)

definition application_ok :: "ta_uuid \<Rightarrow> ta_manifest \<Rightarrow> bool" where
  "application_ok u m \<longleftrightarrow> uuid_wf (bta_uuid u) \<and> TA_UUID u = bta_uuid u \<and> ta_uuid_of m = bta_uuid u \<and>
     host_name u = uuid_text (bta_uuid u)"

lemma unat_byte:
  "unat (ucast (drop_bit n (w :: 'a::len word)) :: u8) = unat w div 2 ^ n mod 256"
  "unat (ucast w :: u8) = unat w mod 256"
proof -
  have "unat (drop_bit n w) = drop_bit n (unat w)" for n
    using take_bit_nat_eq_self [OF unsigned_less [of w]] by (simp add: unsigned_drop_bit_eq)
  then have *: "unat (ucast (drop_bit n w) :: u8) = unat w div 2 ^ n mod 256" for n
    by (simp only: unsigned_ucast_eq drop_bit_eq_div take_bit_eq_mod) simp
  show "unat (ucast (drop_bit n w) :: u8) = unat w div 2 ^ n mod 256" by (rule *)
  show "unat (ucast w :: u8) = unat w mod 256" using * [of 0] by simp
qed

lemma hex_byte_ucast:
  "hex_byte (ucast (drop_bit n (w :: 'a::len word))) =
     [hex_digit (unat w div 2 ^ n mod 256 div 16), hex_digit (unat w div 2 ^ n mod 256 mod 16)]"
  "hex_byte (ucast w) = [hex_digit (unat w mod 256 div 16), hex_digit (unat w mod 256 mod 16)]"
  by (simp only: hex_byte_def unat_byte(1), simp only: hex_byte_def unat_byte(2))

lemmas application_eval = application_ok_def mk_uuid_def uuid_wf_def uuid_text_def uuid_to_octets_def hex_byte_ucast

lemma each_application_ok:
  "application_ok uuid_isp ta_isp"
  "application_ok uuid_cmdq ta_cmdq"
  "application_ok uuid_dp_hdcp ta_dp_hdcp"
  "application_ok uuid_fod_sample ta_fod_sample"
  "application_ok uuid_imgsensor ta_imgsensor"
  "application_ok uuid_keyinstall ta_keyinstall"
  "application_ok uuid_m4u ta_m4u"
  "application_ok uuid_modular_drm ta_modular_drm"
  "application_ok uuid_pmem ta_pmem"
  "application_ok uuid_sec ta_sec"
  "application_ok uuid_secmem ta_secmem"
  "application_ok uuid_tee_sanity ta_tee_sanity"
  "application_ok uuid_MtkAV1Vdec ta_MtkAV1Vdec"
  "application_ok uuid_MtkH264Vdec ta_MtkH264Vdec"
  "application_ok uuid_MtkH264Venc ta_MtkH264Venc"
  "application_ok uuid_MtkH265Vdec ta_MtkH265Vdec"
  "application_ok uuid_MtkVP9Vdec ta_MtkVP9Vdec"
  by (simp only: application_data application_eval, simp add: hex_byte_def hex_digit_def)+

text \<open>In every application of the repository the identifier for the loader, the one of the
  application and the one of its manifest are the same well-formed identifier, and the host
  name is its text in lower-case hexadecimal digits.\<close>

theorem application_identifiers_agree:
  "\<forall>(u, m) \<in> set applications. uuid_wf (bta_uuid u) \<and> TA_UUID u = bta_uuid u \<and>
     ta_uuid_of m = bta_uuid u \<and> host_name u = uuid_text (bta_uuid u)"
proof -
  have "list_all (\<lambda>(u, m). application_ok u m) applications"
    by (simp only: applications_def list.pred_inject prod.case each_application_ok simp_thms)
  then show ?thesis unfolding list_all_iff application_ok_def .
qed

text \<open>No two of the applications and drivers of the repository have the same identifier, so
  the octets by which a client opens a session, and the host names, tell them apart; and no
  two drivers have the same driver number.\<close>

theorem identifiers_tell_apart:
  "distinct (map uuid_to_octets (map (ta_uuid_of \<circ> snd) applications @ map drv_uuid drivers)) \<and>
   distinct (map uuid_text (map (ta_uuid_of \<circ> snd) applications)) \<and>
   distinct (map driver_id drivers)"
proof -
  let ?us = "map (ta_uuid_of \<circ> snd) applications @ map drv_uuid drivers"
  have wf: "uuid_wf u" if "u \<in> set ?us" for u by (rule bspec [OF identifiers_wf that])
  have "distinct (map uuid_to_octets ?us)"
    by (rule inj_distinct [OF identifiers_distinct]) (rule iffD1 [OF octets_eq_iff [OF wf wf]])
  moreover have "distinct (map uuid_text (map (ta_uuid_of \<circ> snd) applications))"
  proof (rule inj_distinct)
    show "distinct (map (ta_uuid_of \<circ> snd) applications)"
      by (rule conjunct1 [OF identifiers_distinct [unfolded distinct_append]])
    show "u = v" if "u \<in> set (map (ta_uuid_of \<circ> snd) applications)" "v \<in> set (map (ta_uuid_of \<circ> snd) applications)"
      "uuid_text u = uuid_text v" for u v
      by (rule uuid_text_inj [OF wf wf that(3)]) (unfold set_append, rule UnI1, rule that, rule UnI1, rule that)
  qed
  moreover have "distinct (map driver_id drivers)" by (simp add: drivers_def driver_data)
  ultimately show ?thesis by blast
qed

theorem application_identifiers_agree_witness:
  "host_name uuid_m4u = uuid_text (ta_uuid_of ta_m4u)"
proof -
  have "(uuid_m4u, ta_m4u) \<in> set applications" by (simp add: applications_def)
  with application_identifiers_agree show ?thesis by fastforce
qed

end
