(* ===== verification/Teei_List.thy ===== *)
theory Teei_List
  imports Prelude
begin

text \<open>
  The circular doubly linked list of the daemon (\<open>teei_daemon/teei_list.h\<close>) on a heap of
  nodes, and its contract: every operation acts on the sequence of nodes between the two
  ends of the head. A node is an address; what contains it is not of interest here.
\<close>

section \<open>Operations\<close>

record teei_list =
  next_node :: nat
  prev_node :: nat

type_synonym node_heap = "nat \<Rightarrow> teei_list"

definition LIST_POISON_PREV :: nat where "LIST_POISON_PREV = 0xDEADBEEF"
definition LIST_POISON_NEXT :: nat where "LIST_POISON_NEXT = 0xFADEBABE"

definition set_next :: "nat \<Rightarrow> nat \<Rightarrow> node_heap \<Rightarrow> node_heap" where
  "set_next p q h = h(p := (h p)\<lparr>next_node := q\<rparr>)"

definition set_prev :: "nat \<Rightarrow> nat \<Rightarrow> node_heap \<Rightarrow> node_heap" where
  "set_prev p q h = h(p := (h p)\<lparr>prev_node := q\<rparr>)"

definition INIT_LIST_HEAD :: "nat \<Rightarrow> node_heap \<Rightarrow> node_heap" where
  "INIT_LIST_HEAD p h = set_prev p p (set_next p p h)"

text \<open>\<open>__teei_list_add\<close> and \<open>__teei_list_del\<close>.\<close>

definition list_add_between :: "nat \<Rightarrow> nat \<Rightarrow> nat \<Rightarrow> node_heap \<Rightarrow> node_heap" where
  "list_add_between prv nxt entry h =
     set_prev nxt entry (set_next prv entry (set_next entry nxt (set_prev entry prv h)))"

definition teei_list_add :: "nat \<Rightarrow> nat \<Rightarrow> node_heap \<Rightarrow> node_heap" where
  "teei_list_add head entry h = list_add_between head (next_node (h head)) entry h"

definition teei_list_add_tail :: "nat \<Rightarrow> nat \<Rightarrow> node_heap \<Rightarrow> node_heap" where
  "teei_list_add_tail tnode entry h = list_add_between (prev_node (h tnode)) tnode entry h"

definition list_del_between :: "nat \<Rightarrow> nat \<Rightarrow> nat \<Rightarrow> node_heap \<Rightarrow> node_heap" where
  "list_del_between entry prv nxt h =
     (let h1 = set_next prv (next_node (h entry)) h;
          h2 = set_prev nxt (prev_node (h1 entry)) h1
      in set_prev entry LIST_POISON_PREV (set_next entry LIST_POISON_NEXT h2))"

definition teei_list_del :: "nat \<Rightarrow> node_heap \<Rightarrow> node_heap" where
  "teei_list_del entry h = list_del_between entry (prev_node (h entry)) (next_node (h entry)) h"

definition teei_list_pop_tail :: "nat \<Rightarrow> node_heap \<Rightarrow> nat \<times> node_heap" where
  "teei_list_pop_tail head h = (prev_node (h head), teei_list_del (prev_node (h head)) h)"

definition teei_list_pop :: "nat \<Rightarrow> node_heap \<Rightarrow> nat \<times> node_heap" where
  "teei_list_pop head h = (next_node (h head), teei_list_del (next_node (h head)) h)"

definition teei_list_empty :: "nat \<Rightarrow> node_heap \<Rightarrow> int" where
  "teei_list_empty head h = (if next_node (h head) = head then 1 else 0)"

text \<open>The node that \<open>list_first_entry\<close> converts to its container; it is the head of an empty list.\<close>

definition list_first_node :: "nat \<Rightarrow> node_heap \<Rightarrow> nat" where
  "list_first_node head h = next_node (h head)"

section \<open>The sequence of a list\<close>

text \<open>\<open>seg h p xs q\<close>: going forward from \<open>p\<close> visits \<open>xs\<close> and arrives at \<open>q\<close>, and the same backwards.\<close>

fun seg :: "node_heap \<Rightarrow> nat \<Rightarrow> nat list \<Rightarrow> nat \<Rightarrow> bool" where
  "seg h p [] q \<longleftrightarrow> next_node (h p) = q \<and> prev_node (h q) = p"
| "seg h p (x # xs) q \<longleftrightarrow> next_node (h p) = x \<and> prev_node (h x) = p \<and> seg h x xs q"

definition is_list :: "node_heap \<Rightarrow> nat \<Rightarrow> nat list \<Rightarrow> bool" where
  "is_list h head xs \<longleftrightarrow> distinct (head # xs) \<and> seg h head xs head"

lemma seg_append: "seg h p (xs @ y # ys) q \<longleftrightarrow> seg h p xs y \<and> seg h y ys q"
  by (induction xs arbitrary: p) auto

lemma seg_cong:
  assumes "\<And>x. x \<in> set (p # xs) \<Longrightarrow> next_node (h' x) = next_node (h x)"
    and "\<And>x. x \<in> set (q # xs) \<Longrightarrow> prev_node (h' x) = prev_node (h x)"
  shows "seg h' p xs q = seg h p xs q"
  using assms by (induction xs arbitrary: p) auto

lemma links [simp]:
  "next_node (set_next p q h x) = (if x = p then q else next_node (h x))"
  "prev_node (set_next p q h x) = prev_node (h x)"
  "prev_node (set_prev p q h x) = (if x = p then q else prev_node (h x))"
  "next_node (set_prev p q h x) = next_node (h x)"
  by (simp_all add: set_next_def set_prev_def)

lemma seg_ends:
  "seg h p xs q \<Longrightarrow> next_node (h p) = hd (xs @ [q])" "seg h p xs q \<Longrightarrow> prev_node (h q) = last (p # xs)"
  by (induction xs arbitrary: p) auto

lemma is_list_init: "is_list (INIT_LIST_HEAD p h) p []"
  by (simp add: is_list_def INIT_LIST_HEAD_def)

lemma is_list_add:
  assumes "is_list h head xs" "e \<notin> set (head # xs)"
  shows "is_list (teei_list_add head e h) head (e # xs)"
proof (cases xs)
  case Nil
  with assms show ?thesis
    by (auto simp: is_list_def teei_list_add_def list_add_between_def)
next
  case (Cons x ys)
  let ?h = "list_add_between head x e h"
  have "seg ?h x ys head = seg h x ys head"
    by (rule seg_cong) (use assms Cons in \<open>auto simp: is_list_def list_add_between_def\<close>)
  with assms Cons show ?thesis
    by (auto simp: is_list_def teei_list_add_def list_add_between_def)
qed

lemma is_list_add_tail:
  assumes "is_list h head xs" "e \<notin> set (head # xs)"
  shows "is_list (teei_list_add_tail head e h) head (xs @ [e])"
proof (cases xs rule: rev_cases)
  case Nil
  with assms show ?thesis
    by (auto simp: is_list_def teei_list_add_tail_def list_add_between_def)
next
  case (snoc ys y)
  let ?h = "list_add_between y head e h"
  have h: "seg h head ys y" "prev_node (h head) = y" "next_node (h y) = head"
    using assms(1) snoc by (auto simp: is_list_def seg_append)
  have "seg ?h head ys y = seg h head ys y"
    by (rule seg_cong) (use assms snoc in \<open>auto simp: is_list_def list_add_between_def\<close>)
  moreover have "seg ?h y [e] head" using assms snoc by (auto simp: is_list_def list_add_between_def)
  moreover have "seg ?h head (ys @ y # [e]) head \<longleftrightarrow> seg ?h head ys y \<and> seg ?h y [e] head" by (rule seg_append)
  ultimately show ?thesis
    using assms snoc h by (auto simp: is_list_def teei_list_add_tail_def)
qed

text \<open>Removing a node keeps the rest in order, wherever the node is.\<close>

lemma del_links:
  assumes "x \<noteq> prev_node (h x)" "x \<noteq> next_node (h x)"
  shows "next_node (teei_list_del x h y) =
      (if y = x then LIST_POISON_NEXT else if y = prev_node (h x) then next_node (h x) else next_node (h y))"
    and "prev_node (teei_list_del x h y) =
      (if y = x then LIST_POISON_PREV else if y = next_node (h x) then prev_node (h x) else prev_node (h y))"
  using assms by (auto simp: teei_list_del_def list_del_between_def Let_def)

lemma seg_del:
  assumes "seg h p xs x" "seg h x ys q" "x \<notin> set (p # q # xs @ ys)" "distinct (xs @ ys)" "p \<notin> set (xs @ ys)" "q \<notin> set (xs @ ys)"
  shows "seg (teei_list_del x h) p (xs @ ys) q"
proof -
  let ?a = "last (p # xs)" and ?b = "hd (ys @ [q])" and ?h = "teei_list_del x h"
  have ab: "prev_node (h x) = ?a" "next_node (h x) = ?b" using seg_ends assms(1,2) by auto
  have "?a \<in> set (p # xs)" "?b \<in> set (q # ys)" by (rule last_in_set, simp) (cases ys; simp)
  then have ne: "x \<noteq> ?a" "x \<noteq> ?b" using assms(3) by auto
  note l = del_links [of x h, unfolded ab, OF ne]
  show ?thesis
  proof (cases xs rule: rev_cases)
    case Nil
    show ?thesis
    proof (cases ys)
      case (Cons b zs)
      have "seg ?h b zs q = seg h b zs q"
        by (rule seg_cong) (use assms Nil Cons ab in \<open>auto simp: l\<close>)
      with assms Nil Cons l show ?thesis by auto
    qed (use assms Nil l in auto)
  next
    case (snoc us a)
    have u: "seg ?h p us a = seg h p us a"
      by (rule seg_cong) (use assms snoc ab in \<open>cases ys; auto simp: l\<close>)+
    show ?thesis
    proof (cases ys)
      case Nil
      with assms snoc u l show ?thesis by (auto simp: seg_append)
    next
      case (Cons b zs)
      have "seg ?h b zs q = seg h b zs q"
        by (rule seg_cong) (use assms snoc Cons ab in \<open>auto simp: l\<close>)
      with assms snoc Cons u l show ?thesis by (auto simp: seg_append)
    qed
  qed
qed

lemma is_list_del:
  assumes "is_list h head (xs @ x # ys)"
  shows "is_list (teei_list_del x h) head (xs @ ys)"
  using assms seg_del [of h head xs x ys head] by (auto simp: is_list_def seg_append)

lemma is_list_first: "is_list h head (x # xs) \<Longrightarrow> list_first_node head h = x"
  by (simp add: is_list_def list_first_node_def)

lemma is_list_pop:
  assumes "is_list h head (x # xs)"
  shows "fst (teei_list_pop head h) = x" "is_list (snd (teei_list_pop head h)) head xs"
proof -
  have "next_node (h head) = x" using assms by (simp add: is_list_def)
  then show "fst (teei_list_pop head h) = x" "is_list (snd (teei_list_pop head h)) head xs"
    using is_list_del [of h head "[]" x xs] assms by (simp_all add: teei_list_pop_def)
qed

lemma is_list_pop_tail:
  assumes "is_list h head (xs @ [x])"
  shows "fst (teei_list_pop_tail head h) = x" "is_list (snd (teei_list_pop_tail head h)) head xs"
proof -
  have "prev_node (h head) = x" using assms seg_ends(2) [of h head "xs @ [x]" head] by (simp add: is_list_def)
  then show "fst (teei_list_pop_tail head h) = x" "is_list (snd (teei_list_pop_tail head h)) head xs"
    using is_list_del [of h head xs x "[]"] assms by (simp_all add: teei_list_pop_tail_def)
qed

lemma is_list_empty: "is_list h head xs \<Longrightarrow> teei_list_empty head h = (if xs = [] then 1 else 0)"
  by (cases xs) (auto simp: is_list_def teei_list_empty_def)

section \<open>The contract\<close>

text \<open>
  What users of an intrusive list rely on: a representation of sequences of nodes, and
  operations at both ends.
\<close>

locale intrusive_list =
  fixes rep :: "'h \<Rightarrow> 'p \<Rightarrow> 'p list \<Rightarrow> bool"
    and init :: "'p \<Rightarrow> 'h \<Rightarrow> 'h"
    and add_front :: "'p \<Rightarrow> 'p \<Rightarrow> 'h \<Rightarrow> 'h"
    and add_back :: "'p \<Rightarrow> 'p \<Rightarrow> 'h \<Rightarrow> 'h"
    and pop_front :: "'p \<Rightarrow> 'h \<Rightarrow> 'p \<times> 'h"
    and pop_back :: "'p \<Rightarrow> 'h \<Rightarrow> 'p \<times> 'h"
  assumes rep_init: "rep (init p h) p []"
    and rep_add_front: "rep h p xs \<Longrightarrow> e \<notin> set (p # xs) \<Longrightarrow> rep (add_front p e h) p (e # xs)"
    and rep_add_back: "rep h p xs \<Longrightarrow> e \<notin> set (p # xs) \<Longrightarrow> rep (add_back p e h) p (xs @ [e])"
    and rep_pop_front: "rep h p (x # xs) \<Longrightarrow> fst (pop_front p h) = x \<and> rep (snd (pop_front p h)) p xs"
    and rep_pop_back: "rep h p (xs @ [x]) \<Longrightarrow> fst (pop_back p h) = x \<and> rep (snd (pop_back p h)) p xs"
begin

text \<open>Taking \<open>n\<close> nodes from the front.\<close>

primrec take_front :: "'p \<Rightarrow> nat \<Rightarrow> 'h \<Rightarrow> 'p list \<times> 'h" where
  "take_front p 0 h = ([], h)"
| "take_front p (Suc n) h =
     (let (x, h1) = pop_front p h; (xs, h2) = take_front p n h1 in (x # xs, h2))"

lemma rep_add_all:
  assumes "rep h p xs" "distinct es" "set es \<inter> set (p # xs) = {}"
  shows "rep (fold (add_back p) es h) p (xs @ es)"
  using assms
proof (induction es arbitrary: h xs)
  case (Cons e es)
  then have "rep (add_back p e h) p (xs @ [e])" by (intro rep_add_back) auto
  with Cons.IH [OF this] Cons.prems show ?case by simp
qed simp

lemma take_front_all: "rep h p (xs @ ys) \<Longrightarrow> \<exists>h'. take_front p (length xs) h = (xs, h') \<and> rep h' p ys"
proof (induction xs arbitrary: h)
  case (Cons x xs)
  obtain y h1 where y: "pop_front p h = (y, h1)" by fastforce
  with rep_pop_front Cons.prems have "y = x" "rep h1 p (xs @ ys)" by fastforce+
  with Cons.IH y show ?case by fastforce
qed simp

text \<open>First in, first out.\<close>

lemma fifo:
  assumes "distinct (p # es)"
  shows "\<exists>h'. take_front p (length es) (fold (add_back p) es (init p h)) = (es, h') \<and> rep h' p []"
  using take_front_all [of "fold (add_back p) es (init p h)" p es "[]"] rep_add_all [OF rep_init, of es p h] assms
  by auto

end

interpretation teei: intrusive_list is_list INIT_LIST_HEAD teei_list_add teei_list_add_tail teei_list_pop teei_list_pop_tail
  by unfold_locales (auto intro: is_list_init is_list_add is_list_add_tail is_list_pop is_list_pop_tail)

section \<open>Property\<close>

primrec pop_many :: "nat \<Rightarrow> nat \<Rightarrow> node_heap \<Rightarrow> nat list \<times> node_heap" where
  "pop_many head 0 h = ([], h)"
| "pop_many head (Suc n) h =
     (let (x, h1) = teei_list_pop head h; (xs, h2) = pop_many head n h1 in (x # xs, h2))"

lemma pop_many_take: "pop_many head n h = teei.take_front head n h"
  by (induction n arbitrary: h) (simp_all add: Let_def)

text \<open>C22. The list is a queue and its operations implement sequences: nodes added at the tail of
  a freshly initialised list come out at the front in the order they were added and leave the
  list empty; a node taken out of the middle leaves the others in their order; and only an
  empty list is reported empty.\<close>

theorem teei_list_refines:
  assumes "distinct (head # es)" "is_list h head (xs @ x # ys)"
  shows "(\<exists>h'. pop_many head (length es) (fold (teei_list_add_tail head) es (INIT_LIST_HEAD head h)) = (es, h') \<and>
      is_list h' head [] \<and> teei_list_empty head h' = 1) \<and>
    is_list (teei_list_del x h) head (xs @ ys) \<and> teei_list_empty head h = 0"
proof -
  obtain h' where "teei.take_front head (length es) (fold (teei_list_add_tail head) es (INIT_LIST_HEAD head h)) = (es, h')"
    "is_list h' head []"
    using teei.fifo [OF assms(1)] by blast
  with assms(2) is_list_del [OF assms(2)] is_list_empty show ?thesis by (auto simp: pop_many_take)
qed

theorem teei_list_refines_witness:
  "\<exists>h h'. pop_many 1 3 (fold (teei_list_add_tail 1) [7, 5, 9] (INIT_LIST_HEAD 1 h)) = ([7, 5, 9], h') \<and>
     is_list (teei_list_del 5 h) 1 [7, 9]"
proof -
  let ?h = "fold (teei_list_add_tail 1) [7, 5, 9] (INIT_LIST_HEAD 1 (\<lambda>_. \<lparr>next_node = 0, prev_node = 0\<rparr>))"
  have "is_list ?h 1 ([7] @ 5 # [9])" using teei.rep_add_all [OF teei.rep_init, of "[7, 5, 9]" 1] by simp
  from teei_list_refines [of 1 "[7, 5, 9]", OF _ this] obtain h' where
    "pop_many 1 (length [7, 5, 9 :: nat]) (fold (teei_list_add_tail 1) [7, 5, 9] (INIT_LIST_HEAD 1 ?h)) = ([7, 5, 9], h')"
    "is_list (teei_list_del 5 ?h) 1 ([7] @ [9])"
    by auto
  moreover have "length [7, 5, 9 :: nat] = 3" by simp
  ultimately show ?thesis by (metis append_Cons append_Nil)
qed

end
