(* ===== verification/Teei_Daemon.thy ===== *)
theory Teei_Daemon
  imports Posix Teei_List
begin

text \<open>
  The daemon of the secure operating system (\<open>teei_daemon/main.c\<close>): its command line, the
  thread that initialises the secure world, the thread that waits for the data partition to
  be decrypted before it unlocks the key master, and the thread that sets properties from a
  queue. \<open>getopt\<close> gives the options in order; \<open>read_property\<close> and \<open>handle_vfs_command\<close> are
  in a prebuilt library and appear as parameters. The preprocessor symbols
  \<open>MTK_DRM_SUPPORT\<close>, \<open>MTK_CAM_SUPPORT\<close> and \<open>MTK_SDSP_SUPPORT\<close> together (\<open>ta_boot\<close>) and
  \<open>MIN_MEM_SUPPORT\<close> (\<open>min_mem\<close>) are parameters as well.
\<close>

section \<open>State\<close>

definition MAX_DRV_UUIDS :: nat where [simp]: "MAX_DRV_UUIDS = 30"
definition UUID_LEN :: nat where [simp]: "UUID_LEN = 32"
definition REAL_DRV_UUIDS :: nat where [simp]: "REAL_DRV_UUIDS = 1"
definition BUFFER_SIZE :: nat where [simp]: "BUFFER_SIZE = 512 * 1024"
definition DEV_FILE :: bytes where "DEV_FILE = lit ''/dev/tz_vfs''"

record init_param =
  uuids :: "bytes list"
  uuid_count :: u32
  flag :: u32

definition zero_init_param :: init_param where
  "zero_init_param = \<lparr>uuids = replicate MAX_DRV_UUIDS (replicate (UUID_LEN + 1) 0), uuid_count = 0, flag = 0\<rparr>"

text \<open>The argument of the initialisation call; two bytes of padding precede the counter.\<close>

definition put_init_param :: "init_param \<Rightarrow> bytes" where
  "put_init_param p = concat (uuids p) @ [0, 0] @ put_u32 (uuid_count p) @ put_u32 (flag p)"

record teei_property_struct =
  path :: string
  property_context :: string

record daemon = proc +
  init_par :: init_param
  unlock_state :: u32
  heap :: node_heap
  entries :: "nat \<Rightarrow> teei_property_struct" \<comment> \<open>what contains a node\<close>
  g_property_list :: nat

definition drv_uuid :: "bytes list" where
  "drv_uuid = [lit ''93feffccd8ca11e796c7c7a21acb4932'']"

section \<open>Command line\<close>

text \<open>Why the program does not get past its command line: it exits, or leaves the bounds of an array.\<close>

datatype daemon_stop = Exit_failure | Out_of_bounds

datatype daemon_opt = Opt_r bytes | Opt_t bytes | Opt_h | Opt_unknown

text \<open>\<open>memcpy (init_param.uuids[init_param.uuid_count], src, UUID_LEN)\<close>: the last byte of the row stays.\<close>

definition store_uuid :: "bytes \<Rightarrow> init_param \<Rightarrow> daemon_stop + init_param" where
  "store_uuid src p =
     (let n = unat (uuid_count p) in
      if n < MAX_DRV_UUIDS then Inr (p\<lparr>uuids := (uuids p)[n := src @ drop UUID_LEN (uuids p ! n)]\<rparr>)
      else Inl Out_of_bounds)"

definition uuid_opt :: "bool \<Rightarrow> bool \<Rightarrow> bytes \<Rightarrow> init_param \<Rightarrow> daemon_stop + init_param" where
  "uuid_opt ta_boot ta optarg p =
     (if \<not> ta_boot then Inr p
      else if length optarg \<noteq> UUID_LEN then Inl Exit_failure
      else if of_nat MAX_DRV_UUIDS \<le> uuid_count p then Inr p
      else
        case store_uuid optarg p of
          Inl e \<Rightarrow> Inl e
        | Inr p1 \<Rightarrow>
            let bt = push_bit (unat (uuid_count p1)) 1 in
            Inr (p1\<lparr>uuid_count := uuid_count p1 + 1,
              flag := (if ta then flag p1 OR bt else flag p1 AND NOT bt)\<rparr>))"

fun daemon_option :: "bool \<Rightarrow> daemon_opt \<Rightarrow> init_param \<Rightarrow> daemon_stop + init_param" where
  "daemon_option ta_boot (Opt_r optarg) p = uuid_opt ta_boot False optarg p"
| "daemon_option ta_boot (Opt_t optarg) p = uuid_opt ta_boot True optarg p"
| "daemon_option ta_boot Opt_h p = Inl Exit_failure"
| "daemon_option ta_boot Opt_unknown p = Inl Exit_failure"

fun daemon_options :: "bool \<Rightarrow> daemon_opt list \<Rightarrow> init_param \<Rightarrow> daemon_stop + init_param" where
  "daemon_options ta_boot [] p = Inr p"
| "daemon_options ta_boot (o1 # os) p =
     (case daemon_option ta_boot o1 p of Inl e \<Rightarrow> Inl e | Inr p1 \<Rightarrow> daemon_options ta_boot os p1)"

text \<open>The loop over the drivers that are built in.\<close>

fun add_drivers :: "bytes list \<Rightarrow> init_param \<Rightarrow> daemon_stop + init_param" where
  "add_drivers [] p = Inr p"
| "add_drivers (u # us) p =
     (if length u \<noteq> UUID_LEN then Inr p
      else
        case store_uuid u p of
          Inl e \<Rightarrow> Inl e
        | Inr p1 \<Rightarrow> add_drivers us (p1\<lparr>uuid_count := uuid_count p1 + 1\<rparr>))"

definition daemon_config :: "bool \<Rightarrow> bool \<Rightarrow> daemon_opt list \<Rightarrow> daemon_stop + init_param" where
  "daemon_config ta_boot min_mem os =
     (case daemon_options ta_boot os (zero_init_param\<lparr>flag := 0\<rparr>) of
        Inl e \<Rightarrow> Inl e
      | Inr p \<Rightarrow> if min_mem then Inr p else add_drivers drv_uuid p)"

section \<open>Threads\<close>

definition property_get :: "kernel \<Rightarrow> string \<Rightarrow> daemon \<Rightarrow> bytes \<times> daemon" where
  "property_get k key s = (let (r, s1) = sys k (Property_get key) s in (sr_out r, s1))"

definition init_soter_fn :: "kernel \<Rightarrow> daemon \<Rightarrow> int \<times> daemon" where
  "init_soter_fn k s =
     (let (r, s1) = sys k (Open (lit ''/dev/teei_config'') O_RDWR 0) s; fd = sr_rc r in
      if fd < 0 then (- 1, s1)
      else
        let (r2, s2) = sys k (Ioctl fd (TEEI_CONFIG_IOCTL_INIT_TEEI (put_init_param (init_par s1)))) s1;
            s3 = (if sr_rc r2 \<noteq> 0 then s2
                  else snd (sys k (Property_set ''vendor.soter.teei.init'' ''INIT_OK'') s2))
        in (0, snd (sys k (Close fd) s3)))"

definition keymaster_unlock :: "kernel \<Rightarrow> daemon \<Rightarrow> daemon" where
  "keymaster_unlock k s =
     (let (r, s1) = sys k (Open (lit ''/dev/teei_config'') O_RDWR 0) s; fd = sr_rc r in
      if fd < 0 then s1
      else
        let (_, s2) = sys k (Ioctl fd (TEEI_CONFIG_IOCTL_UNLOCK 0)) s1
        in snd (sys k (Close fd) s2))"

text \<open>The loop that waits; \<open>value\<close> is the last answer for \<open>vold.decrypt\<close>.\<close>

partial_function (option) wait_decrypted :: "kernel \<Rightarrow> bytes \<Rightarrow> daemon \<Rightarrow> daemon option" where
  "wait_decrypted k value s =
     (if value = lit ''trigger_restart_framework'' then Some s
      else
        let (v1, s1) = property_get k ''vendor.soter.teei.crypto.state'' s in
        if v1 = lit ''unencrypted'' then Some s1
        else
          let (v2, s2) = property_get k ''ro.crypto.state'' s1 in
          if v2 = lit ''unencrypted'' \<or> v2 = lit ''unsupported'' then Some s2
          else
            let (v3, s3) = property_get k ''ro.crypto.type'' s2 in
            if v3 = lit ''file'' then Some s3
            else
              let (_, s4) = sys k (Usleep 10000) s3;
                  (v5, s5) = property_get k ''vold.decrypt'' s4
              in wait_decrypted k v5 s5)"

definition load_tee_fn :: "kernel \<Rightarrow> daemon \<Rightarrow> (int \<times> daemon) option" where
  "load_tee_fn k s =
     (let (state, s1) = property_get k ''ro.crypto.state'' s;
          (type, s2) = property_get k ''ro.crypto.type'' s1 in
      do {
        s3 \<leftarrow> (if state \<noteq> lit ''unencrypted'' \<and> state \<noteq> lit ''unsupported'' \<and> type \<noteq> lit ''file''
               then let (v, s') = property_get k ''vold.decrypt'' s2 in wait_decrypted k v s'
               else Some s2);
        Some (0, (keymaster_unlock k s3)\<lparr>unlock_state := 1\<rparr>)
      })"

text \<open>
  One round of \<open>property_setting_fn\<close>: \<open>Inl\<close> when it returns. A node is the member \<open>head\<close> of
  its entry, at offset 16, so the test for \<open>NULL\<close> is a test on the address of the node.
\<close>

definition HEAD_OFFSET :: nat where [simp]: "HEAD_OFFSET = 16"

definition property_setting_step :: "kernel \<Rightarrow> daemon \<Rightarrow> int + daemon" where
  "property_setting_step k s =
     (let (r, s1) = sys k Sem_wait s in
      if sr_rc r \<noteq> 0 then Inr s1
      else
        let node = list_first_node (g_property_list s1) (heap s1) in
        if node = HEAD_OFFSET then Inr s1
        else
          let (m, s2) = sys k Mutex_lock s1 in
          if sr_rc m \<noteq> 0 then Inl (- 1)
          else
            let s3 = s2\<lparr>heap := teei_list_del node (heap s2)\<rparr>;
                s4 = snd (sys k Mutex_unlock s3);
                e = entries s4 node
            in Inr (snd (sys k (Property_set (path e) (property_context e)) s4)))"

section \<open>Start\<close>

partial_function (option) open_vfs :: "kernel \<Rightarrow> daemon \<Rightarrow> (int \<times> daemon) option" where
  "open_vfs k s =
     (let (r, s1) = sys k (Open DEV_FILE O_RDWR 0) s in
      if sr_rc r < 0 then open_vfs k s1 else Some (sr_rc r, s1))"

text \<open>
  \<open>main\<close> up to the loop over \<open>handle_vfs_command\<close>, which never ends: the descriptor that the
  loop serves, or the value with which the program ends before. \<open>read_property\<close> is the
  library's function.
\<close>

definition daemon_start ::
  "kernel \<Rightarrow> bool \<Rightarrow> bool \<Rightarrow> (daemon \<Rightarrow> daemon) \<Rightarrow> daemon_opt list \<Rightarrow> daemon \<Rightarrow> ((int + int) \<times> daemon) option" where
  "daemon_start k ta_boot min_mem read_property os s =
     (let s1 = snd (sys k (Property_set ''vendor.soter.teei.init'' ''INIT_START'') s);
          (r, s2) = sys k (Malloc BUFFER_SIZE) s1 in
      if sr_rc r < 0 then Some (Inl (- 1), s2\<lparr>init_par := zero_init_param\<rparr>)
      else
        case daemon_config ta_boot min_mem os of
          Inl Exit_failure \<Rightarrow> Some (Inl 1, s2\<lparr>init_par := zero_init_param\<rparr>)
        | Inl Out_of_bounds \<Rightarrow> None
        | Inr p \<Rightarrow> do {
            (fd, s3) \<leftarrow> open_vfs k (s2\<lparr>init_par := p\<rparr>);
            let s4 = snd (sys k Sem_init (s3\<lparr>heap := INIT_LIST_HEAD (g_property_list s3) (heap s3)\<rparr>));
            let (m, s5) = sys k Mutex_init s4;
            if sr_rc m \<noteq> 0 then Some (Inl (- 1), s5)
            else
              let s6 = read_property s5;
                  s7 = snd (sys k (Pthread_create ''init_soter_fn'') s6);
                  s8 = snd (sys k (Pthread_create ''load_tee_fn'') s7);
                  s9 = snd (sys k (Pthread_create ''property_setting_fn'') s8)
              in Some (Inr fd, s9)
          })"

section \<open>Rotation of the log files (built with \<open>SAVE_TEE_LOG\<close>)\<close>

definition MAX_LOG_CNT :: nat where [simp]: "MAX_LOG_CNT = 5"

definition log_name :: "nat \<Rightarrow> bytes" where
  "log_name i = lit ''/data/vendor/thh/tee_log/teei_log_LAST_'' @ [of_nat (48 + i)]"

definition current_log :: bytes where
  "current_log = lit ''/data/vendor/thh/tee_log/teei_log_current''"

definition rename_if :: "kernel \<Rightarrow> bytes \<Rightarrow> bytes \<Rightarrow> 'a proc_scheme \<Rightarrow> 'a proc_scheme" where
  "rename_if k from to s =
     (let (r, s1) = sys k (Access from) s in
      if sr_rc r = 0 then snd (sys k (Rename from to) s1) else s1)"

fun rotate_logs :: "kernel \<Rightarrow> nat \<Rightarrow> 'a proc_scheme \<Rightarrow> 'a proc_scheme" where
  "rotate_logs k i s =
     (if 1 < i then rotate_logs k (i - 1) (rename_if k (log_name (i - 1)) (log_name i) s) else s)"

declare rotate_logs.simps [simp del]

definition rename_last_log :: "kernel \<Rightarrow> 'a proc_scheme \<Rightarrow> 'a proc_scheme" where
  "rename_last_log k s = rename_if k current_log (log_name 1) (rotate_logs k MAX_LOG_CNT s)"

section \<open>The table of identifiers\<close>

fun opt_uuid :: "daemon_opt \<Rightarrow> bytes" where
  "opt_uuid (Opt_r u) = u"
| "opt_uuid (Opt_t u) = u"
| "opt_uuid _ = []"

fun is_ta :: "daemon_opt \<Rightarrow> bool" where
  "is_ta (Opt_t u) = True"
| "is_ta _ = False"

definition valid_opt :: "daemon_opt \<Rightarrow> bool" where
  "valid_opt o1 \<longleftrightarrow> o1 \<noteq> Opt_h \<and> o1 \<noteq> Opt_unknown \<and> length (opt_uuid o1) = UUID_LEN"

text \<open>The table holds exactly the options \<open>ds\<close>, with a bit for each trusted application.\<close>

definition table_holds :: "init_param \<Rightarrow> daemon_opt list \<Rightarrow> bool" where
  "table_holds p ds \<longleftrightarrow> length ds \<le> MAX_DRV_UUIDS \<and> uuid_count p = of_nat (length ds) \<and>
     length (uuids p) = MAX_DRV_UUIDS \<and>
     (\<forall>i < length ds. uuids p ! i = opt_uuid (ds ! i) @ [0]) \<and>
     (\<forall>i < MAX_DRV_UUIDS. length ds \<le> i \<longrightarrow> uuids p ! i = replicate (UUID_LEN + 1) 0) \<and>
     (\<forall>i. bit (flag p) i \<longleftrightarrow> i < length ds \<and> is_ta (ds ! i))"

lemma unat_count: "n \<le> MAX_DRV_UUIDS \<Longrightarrow> unat (of_nat n :: u32) = n"
  by (simp add: unat_of_nat take_bit_nat_eq_self)

lemma table_zero: "table_holds (zero_init_param\<lparr>flag := 0\<rparr>) []"
  by (simp add: table_holds_def zero_init_param_def)

lemma set_bit_flag: "bit ((w :: u32) OR 2 ^ n) i \<longleftrightarrow> bit w i \<or> i = n \<and> n < 32"
  "bit (w AND NOT (2 ^ n)) i \<longleftrightarrow> bit w i \<and> i \<noteq> n"
  by (auto simp: bit_or_iff bit_and_iff bit_not_iff bit_exp_iff dest: bit_imp_le_length)

lemma store_uuid_table:
  assumes "table_holds p ds" "length ds < MAX_DRV_UUIDS" "length u = UUID_LEN"
  shows "\<exists>p1. store_uuid u p = Inr p1 \<and> uuid_count p1 = uuid_count p \<and> flag p1 = flag p \<and>
    uuids p1 = (uuids p)[length ds := u @ [0]]"
proof -
  have "unat (uuid_count p) = length ds" using assms(1) unat_count by (simp add: table_holds_def)
  moreover have "drop 32 (uuids p ! length ds) = [0]"
    using assms(1,2) by (simp add: table_holds_def numeral_eq_Suc)
  ultimately show ?thesis using assms(2) by (simp add: store_uuid_def Let_def)
qed

lemma daemon_option_table:
  assumes "table_holds p ds" "valid_opt o1"
  shows "\<exists>p1. daemon_option True o1 p = Inr p1 \<and> table_holds p1 (take MAX_DRV_UUIDS (ds @ [o1]))"
proof -
  have opt: "daemon_option True o1 p = uuid_opt True (is_ta o1) (opt_uuid o1) p"
    using assms(2) by (cases o1) (auto simp: valid_opt_def)
  have len: "length ds \<le> 30" and cnt: "unat (uuid_count p) = length ds"
    using assms(1) unat_count by (simp_all add: table_holds_def)
  have full: "of_nat MAX_DRV_UUIDS \<le> uuid_count p \<longleftrightarrow> length ds = 30"
    using len cnt by (simp add: word_le_nat_alt)
  show ?thesis
  proof (cases "length ds = 30")
    case True
    with assms opt full show ?thesis by (auto simp: uuid_opt_def valid_opt_def)
  next
    case False
    then have lt: "length ds < MAX_DRV_UUIDS" using len by simp
    obtain p1 where p1: "store_uuid (opt_uuid o1) p = Inr p1" "uuid_count p1 = uuid_count p" "flag p1 = flag p"
      "uuids p1 = (uuids p)[length ds := opt_uuid o1 @ [0]]"
      using store_uuid_table [OF assms(1) lt] assms(2) by (auto simp: valid_opt_def)
    let ?p2 = "p1\<lparr>uuid_count := uuid_count p1 + 1,
        flag := (if is_ta o1 then flag p1 OR push_bit (length ds) 1 else flag p1 AND NOT (push_bit (length ds) 1))\<rparr>"
    have "daemon_option True o1 p = Inr ?p2"
      using opt p1 cnt full False assms(2) by (simp add: uuid_opt_def valid_opt_def Let_def)
    moreover have "table_holds ?p2 (ds @ [o1])"
      using assms(1) p1 lt
      by (auto simp: table_holds_def nth_append nth_list_update set_bit_flag less_Suc_eq nth_Cons')
    ultimately show ?thesis using lt by simp
  qed
qed

lemma daemon_options_table:
  assumes "table_holds p ds" "\<forall>o1 \<in> set os. valid_opt o1"
  shows "\<exists>p1. daemon_options True os p = Inr p1 \<and> table_holds p1 (take MAX_DRV_UUIDS (ds @ os))"
  using assms
proof (induction os arbitrary: p ds)
  case Nil
  then show ?case by (simp add: table_holds_def)
next
  case (Cons o1 os)
  then obtain p1 where p1: "daemon_option True o1 p = Inr p1" "table_holds p1 (take MAX_DRV_UUIDS (ds @ [o1]))"
    using daemon_option_table by (meson list.set_intros(1))
  from Cons.IH [OF this(2)] Cons.prems(2) obtain p2 where p2: "daemon_options True os p1 = Inr p2"
    "table_holds p2 (take MAX_DRV_UUIDS (take MAX_DRV_UUIDS (ds @ [o1]) @ os))"
    by auto
  moreover have "take MAX_DRV_UUIDS (take MAX_DRV_UUIDS (ds @ [o1]) @ os) = take MAX_DRV_UUIDS (ds @ o1 # os)"
    by (cases "length ds < MAX_DRV_UUIDS") auto
  ultimately show ?case using p1 by (metis daemon_options.simps(2) sum.case(2))
qed

end
