(* ===== verification/Teei_Daemon_Props.thy ===== *)
theory Teei_Daemon_Props
  imports Teei_Daemon
begin

text \<open>
  Correctness of the daemon: the table of identifiers it hands to the secure world, when the
  key master is unlocked, and the order in which properties are set.
\<close>

section \<open>Configuration\<close>

text \<open>C24. The table that the daemon builds from its command line: the identifiers of the first
  thirty options in their order, each terminated, with the bit of every trusted application
  set and no other bit, followed by the built-in driver; when thirty options or more are
  given the built-in driver is written behind the end of the table.\<close>

theorem daemon_table:
  assumes "\<forall>o1 \<in> set os. valid_opt o1"
  shows "\<exists>p. daemon_options True os (zero_init_param\<lparr>flag := 0\<rparr>) = Inr p \<and> table_holds p (take MAX_DRV_UUIDS os) \<and>
    (length os < MAX_DRV_UUIDS \<longrightarrow> (\<exists>p1. daemon_config True False os = Inr p1 \<and>
        uuid_count p1 = of_nat (length os + 1) \<and> flag p1 = flag p \<and>
        uuids p1 = (uuids p)[length os := drv_uuid ! 0 @ [0]])) \<and>
    (MAX_DRV_UUIDS \<le> length os \<longrightarrow> daemon_config True False os = Inl Out_of_bounds)"
proof -
  obtain p where p: "daemon_options True os (zero_init_param\<lparr>flag := 0\<rparr>) = Inr p"
    "table_holds p (take MAX_DRV_UUIDS os)"
    using daemon_options_table [OF table_zero assms] by auto
  have len: "length (drv_uuid ! 0) = UUID_LEN" by code_simp
  have cfg: "daemon_config True False os = add_drivers [drv_uuid ! 0] p"
    using p(1) by (simp add: daemon_config_def drv_uuid_def)
  have "\<exists>p1. daemon_config True False os = Inr p1 \<and> uuid_count p1 = of_nat (length os + 1) \<and> flag p1 = flag p \<and>
      uuids p1 = (uuids p)[length os := drv_uuid ! 0 @ [0]]" if lt: "length os < MAX_DRV_UUIDS"
  proof -
    obtain p1 where "store_uuid (drv_uuid ! 0) p = Inr p1" "uuid_count p1 = uuid_count p" "flag p1 = flag p"
      "uuids p1 = (uuids p)[length os := drv_uuid ! 0 @ [0]]"
      using store_uuid_table [OF p(2) _ len] lt by auto
    with p(2) lt cfg len show ?thesis by (simp add: table_holds_def)
  qed
  moreover have "daemon_config True False os = Inl Out_of_bounds" if "MAX_DRV_UUIDS \<le> length os"
    using that p(2) cfg len unat_count [of 30] by (simp add: table_holds_def store_uuid_def Let_def)
  ultimately show ?thesis using p by blast
qed

theorem daemon_table_witness:
  "\<exists>p. daemon_options True [Opt_t (replicate 32 97), Opt_r (replicate 32 98)] (zero_init_param\<lparr>flag := 0\<rparr>) = Inr p \<and>
     table_holds p [Opt_t (replicate 32 97), Opt_r (replicate 32 98)] \<and> (\<exists>p1. daemon_config True False [Opt_t (replicate 32 97), Opt_r (replicate 32 98)] = Inr p1 \<and> uuid_count p1 = 3)"
  using daemon_table [of "[Opt_t (replicate 32 97), Opt_r (replicate 32 98)]"] by (auto simp: valid_opt_def)

section \<open>Waiting for decryption\<close>

text \<open>The answers that allow the key master to be unlocked, and the calls made while waiting.\<close>

fun allows :: "syscall \<Rightarrow> sysret \<Rightarrow> bool" where
  "allows (Property_get key) r \<longleftrightarrow>
     key = ''ro.crypto.state'' \<and> sr_out r \<in> {lit ''unencrypted'', lit ''unsupported''} \<or>
     key = ''ro.crypto.type'' \<and> sr_out r = lit ''file'' \<or>
     key = ''vold.decrypt'' \<and> sr_out r = lit ''trigger_restart_framework'' \<or>
     key = ''vendor.soter.teei.crypto.state'' \<and> sr_out r = lit ''unencrypted''"
| "allows _ r \<longleftrightarrow> False"

fun waits :: "syscall \<Rightarrow> bool" where
  "waits (Property_get key) = True"
| "waits (Usleep n) = True"
| "waits _ = False"

text \<open>From \<open>s\<close> to \<open>s'\<close> the program only waited, and the last answer allowed it to go on.\<close>

definition waited :: "daemon \<Rightarrow> daemon \<Rightarrow> bool" where
  "waited s s' \<longleftrightarrow> (\<exists>es. hist s' = hist s @ es \<and> (\<forall>(c, r) \<in> set es. waits c) \<and>
     proc.more s' = proc.more s)"

lemma waited_refl [simp]: "waited s s"
  by (simp add: waited_def)

lemma waited_trans [trans]: "waited s s1 \<Longrightarrow> waited s1 s2 \<Longrightarrow> waited s s2"
  by (fastforce simp: waited_def)

lemma property_get_waited: "property_get k key s = (v, s') \<Longrightarrow> waited s s'"
  by (auto simp: property_get_def sys_def Let_def waited_def)

lemma usleep_waited: "sys k (Usleep n) s = (r, s') \<Longrightarrow> waited s s'"
  by (auto simp: sys_def Let_def waited_def)

lemma property_get_event:
  "property_get k key s = (v, s') \<Longrightarrow> \<exists>r. sr_out r = v \<and> (Property_get key, r) \<in> set (hist s')"
  by (auto simp: property_get_def sys_def Let_def)

lemma waited_mono: "waited s s' \<Longrightarrow> set (hist s) \<subseteq> set (hist s')"
  by (auto simp: waited_def)

definition allowed :: "daemon \<Rightarrow> bool" where
  "allowed s \<longleftrightarrow> (\<exists>(c, r) \<in> set (hist s). allows c r)"

lemma allowed_get:
  "property_get k key s = (v, s') \<Longrightarrow> (\<And>r. sr_out r = v \<Longrightarrow> allows (Property_get key) r) \<Longrightarrow> allowed s'"
  unfolding allowed_def by (drule property_get_event) blast

text \<open>One round of the wait: it ends with an answer that allows to go on, or goes round again.\<close>

lemma round_cases:
  "(if a then Some s else if b then Some s1 else if c then Some s2 else if d then Some s3 else t) = Some s' \<longrightarrow>
     a \<and> s' = s \<or> b \<and> s' = s1 \<or> c \<and> s' = s2 \<or> d \<and> s' = s3 \<or> t = Some s'"
  by auto

definition wait_body :: "(kernel \<Rightarrow> bytes \<Rightarrow> daemon \<Rightarrow> daemon option) \<Rightarrow> kernel \<Rightarrow> bytes \<Rightarrow> daemon \<Rightarrow> daemon option" where
  "wait_body f k v s =
     (if v = lit ''trigger_restart_framework'' then Some s
      else let (v1, s1) = property_get k ''vendor.soter.teei.crypto.state'' s in
        if v1 = lit ''unencrypted'' then Some s1
        else let (v2, s2) = property_get k ''ro.crypto.state'' s1 in
          if v2 = lit ''unencrypted'' \<or> v2 = lit ''unsupported'' then Some s2
          else let (v3, s3) = property_get k ''ro.crypto.type'' s2 in
            if v3 = lit ''file'' then Some s3
            else let (_, s4) = sys k (Usleep 10000) s3; (v5, s5) = property_get k ''vold.decrypt'' s4
              in f k v5 s5)"

lemma wait_round:
  assumes "wait_body f k v s = Some s'" "v = lit ''trigger_restart_framework'' \<longrightarrow> allowed s"
  shows "waited s s' \<and> allowed s' \<or>
    (\<exists>v5 s5. waited s s5 \<and> (v5 = lit ''trigger_restart_framework'' \<longrightarrow> allowed s5) \<and> f k v5 s5 = Some s')"
proof -
  obtain v1 s1 where 1: "property_get k ''vendor.soter.teei.crypto.state'' s = (v1, s1)" by fastforce
  obtain v2 s2 where 2: "property_get k ''ro.crypto.state'' s1 = (v2, s2)" by fastforce
  obtain v3 s3 where 3: "property_get k ''ro.crypto.type'' s2 = (v3, s3)" by fastforce
  obtain r4 s4 where 4: "sys k (Usleep 10000) s3 = (r4, s4)" by fastforce
  obtain v5 s5 where 5: "property_get k ''vold.decrypt'' s4 = (v5, s5)" by fastforce
  have w1: "waited s s1" by (rule property_get_waited [OF 1])
  have w2: "waited s s2" by (rule waited_trans [OF w1 property_get_waited [OF 2]])
  have w3: "waited s s3" by (rule waited_trans [OF w2 property_get_waited [OF 3]])
  have w5: "waited s s5"
    by (rule waited_trans [OF waited_trans [OF w3 usleep_waited [OF 4]] property_get_waited [OF 5]])
  have a1: "allowed s1" if "v1 = lit ''unencrypted''" by (rule allowed_get [OF 1]) (simp add: that)
  have a2: "allowed s2" if "v2 = lit ''unencrypted'' \<or> v2 = lit ''unsupported''"
    by (rule allowed_get [OF 2]) (use that in auto)
  have a3: "allowed s3" if "v3 = lit ''file''" by (rule allowed_get [OF 3]) (simp add: that)
  have a5: "v5 = lit ''trigger_restart_framework'' \<longrightarrow> allowed s5"
    by (rule impI, rule allowed_get [OF 5]) simp
  have "wait_body f k v s = Some s' \<longrightarrow> v = lit ''trigger_restart_framework'' \<and> s' = s \<or> v1 = lit ''unencrypted'' \<and> s' = s1 \<or>
      (v2 = lit ''unencrypted'' \<or> v2 = lit ''unsupported'') \<and> s' = s2 \<or> v3 = lit ''file'' \<and> s' = s3 \<or> f k v5 s5 = Some s'"
    unfolding wait_body_def 1 2 3 4 5 Let_def prod.case by (rule round_cases)
  from mp [OF this assms(1)] show ?thesis
  proof (elim disjE conjE)
    assume "v = lit ''trigger_restart_framework''" "s' = s"
    with assms(2) show ?thesis by (intro disjI1 conjI) simp_all
  next
    assume "v1 = lit ''unencrypted''" "s' = s1"
    with a1 w1 show ?thesis by (intro disjI1 conjI) simp_all
  next
    assume "v2 = lit ''unencrypted''" "s' = s2"
    with a2 w2 show ?thesis by (intro disjI1 conjI) simp_all
  next
    assume "v2 = lit ''unsupported''" "s' = s2"
    with a2 w2 show ?thesis by (intro disjI1 conjI) simp_all
  next
    assume "v3 = lit ''file''" "s' = s3"
    with a3 w3 show ?thesis by (intro disjI1 conjI) simp_all
  next
    assume "f k v5 s5 = Some s'"
    with a5 w5 show ?thesis by (intro disjI2 exI conjI)
  qed
qed

definition ready :: "bytes \<Rightarrow> daemon \<Rightarrow> bool" where
  "ready v s \<longleftrightarrow> (v = lit ''trigger_restart_framework'' \<longrightarrow> allowed s)"

lemma wait_decrypted_waited:
  assumes "wait_decrypted k v s = Some s'" "ready v s"
  shows "waited s s' \<and> allowed s'"
proof -
  have "ready v s \<longrightarrow> waited s s' \<and> allowed s'"
  proof (rule wait_decrypted.raw_induct [where P = "\<lambda>k v s s'. ready v s \<longrightarrow> waited s s' \<and> allowed s'",
        folded wait_body_def, OF _ assms(1)])
    fix f k v s s'
    assume IH: "\<And>k v s s'. f k v s = Some s' \<Longrightarrow> ready v s \<longrightarrow> waited s s' \<and> allowed s'"
      and eq: "wait_body f k v s = Some s'"
    show "ready v s \<longrightarrow> waited s s' \<and> allowed s'"
    proof
      assume pre: "ready v s"
      from wait_round [OF eq pre [unfolded ready_def], folded ready_def] show "waited s s' \<and> allowed s'"
      proof (elim disjE exE)
        fix v5 s5
        assume r: "waited s s5 \<and> ready v5 s5 \<and> f k v5 s5 = Some s'"
        have "waited s5 s' \<and> allowed s'" using IH [of k v5 s5 s'] r by simp
        with r show ?thesis using waited_trans [of s s5 s'] by simp
      qed
    qed
  qed
  with assms(2) show ?thesis by simp
qed

text \<open>C20. The thread that loads the secure world unlocks the key master only after it has read a
  property that says the data partition is not encrypted, is encrypted by files, or has been
  decrypted: until then it makes no other call than reading properties and pausing. When it
  ends, the state tells that the key master is unlocked.\<close>

theorem load_tee_unlocks_after_decryption:
  assumes "load_tee_fn k s = Some (r, s')" "hist s = []"
  shows "\<exists>es r1. (\<forall>(c, a) \<in> set es. waits c) \<and> (\<exists>(c, a) \<in> set es. allows c a) \<and>
    hist s' = es @ (Open (lit ''/dev/teei_config'') O_RDWR 0, r1) #
      (if sr_rc r1 < 0 then []
       else let e = (Ioctl (sr_rc r1) (TEEI_CONFIG_IOCTL_UNLOCK 0), k (es @ [(Open (lit ''/dev/teei_config'') O_RDWR 0, r1)])
                (Ioctl (sr_rc r1) (TEEI_CONFIG_IOCTL_UNLOCK 0)))
         in [e, (Close (sr_rc r1), k (es @ [(Open (lit ''/dev/teei_config'') O_RDWR 0, r1), e]) (Close (sr_rc r1)))]) \<and>
    unlock_state s' = 1 \<and> r = 0"
proof -
  obtain v1 s1 where 1: "property_get k ''ro.crypto.state'' s = (v1, s1)" by fastforce
  obtain v2 s2 where 2: "property_get k ''ro.crypto.type'' s1 = (v2, s2)" by fastforce
  obtain v3 s3 where 3: "property_get k ''vold.decrypt'' s2 = (v3, s3)" by fastforce
  have w12: "waited s1 s2" by (rule property_get_waited [OF 2])
  have w02: "waited s s2" by (rule waited_trans [OF property_get_waited [OF 1] w12])
  have w03: "waited s s3" by (rule waited_trans [OF w02 property_get_waited [OF 3]])
  note w = w02 w12 w03
  obtain s4 where s4: "waited s s4" "allowed s4" "s' = (keymaster_unlock k s4)\<lparr>unlock_state := 1\<rparr>" "r = 0"
  proof (cases "v1 \<noteq> lit ''unencrypted'' \<and> v1 \<noteq> lit ''unsupported'' \<and> v2 \<noteq> lit ''file''")
    case True
    with assms(1) obtain s4 where "wait_decrypted k v3 s3 = Some s4"
      "s' = (keymaster_unlock k s4)\<lparr>unlock_state := 1\<rparr>" "r = 0"
      by (auto simp: load_tee_fn_def 1 2 3 split: bind_splits)
    moreover have "ready v3 s3"
      unfolding ready_def by (rule impI, rule allowed_get [OF 3]) simp
    ultimately show thesis
      using that [of s4] waited_trans [OF w(3)] wait_decrypted_waited by metis
  next
    case False
    have "allowed s2"
    proof (cases "v2 = lit ''file''")
      case True
      show ?thesis by (rule allowed_get [OF 2]) (simp add: True)
    next
      case no: False
      have "allowed s1" by (rule allowed_get [OF 1]) (use False no in auto)
      then show ?thesis using waited_mono [OF w(2)] by (auto simp: allowed_def)
    qed
    moreover have "s' = (keymaster_unlock k s2)\<lparr>unlock_state := 1\<rparr>" "r = 0"
      using assms(1) False by (auto simp: load_tee_fn_def 1 2 split: if_splits)
    ultimately show thesis using that w by blast
  qed
  have "(\<forall>(c, a) \<in> set (hist s4). waits c) \<and> (\<exists>(c, a) \<in> set (hist s4). allows c a)"
    using s4(1,2) assms(2) by (auto simp: waited_def allowed_def)
  with s4(3,4) show ?thesis
    by (intro exI [of _ "hist s4"] exI [of _ "k (hist s4) (Open (lit ''/dev/teei_config'') O_RDWR 0)"])
      (simp add: keymaster_unlock_def sys_def Let_def)
qed

definition pauses :: "event list \<Rightarrow> nat" where
  "pauses h = length (filter (\<lambda>(c, r). c = Usleep 10000) h)"

lemma pauses_append [simp]: "pauses (h @ h') = pauses h + pauses h'"
  by (simp add: pauses_def)

text \<open>The decryption is announced at the latest after \<open>n\<close> pauses.\<close>

definition announced_after :: "nat \<Rightarrow> kernel \<Rightarrow> bool" where
  "announced_after n k \<longleftrightarrow> (\<forall>h. n \<le> pauses h \<longrightarrow>
     sr_out (k h (Property_get ''vold.decrypt'')) = lit ''trigger_restart_framework'')"

lemma pauses_get:
  "property_get k key s = (v, s') \<Longrightarrow> pauses (hist s') = pauses (hist s) \<and> v = sr_out (k (hist s) (Property_get key))"
  by (auto simp: property_get_def sys_def Let_def pauses_def)

lemma pauses_usleep: "sys k (Usleep 10000) s = (r, s') \<Longrightarrow> pauses (hist s') = Suc (pauses (hist s))"
  by (auto simp: sys_def Let_def pauses_def)

definition heard :: "nat \<Rightarrow> bytes \<Rightarrow> daemon \<Rightarrow> bool" where
  "heard n v s \<longleftrightarrow> (n \<le> pauses (hist s) \<longrightarrow> v = lit ''trigger_restart_framework'')"

lemma heard_get:
  assumes "announced_after n k" "property_get k ''vold.decrypt'' s = (v, s')"
  shows "heard n v s'"
  using assms(1) pauses_get [OF assms(2)] by (simp add: announced_after_def heard_def)

lemma wait_next:
  assumes "\<And>v5 s5. wait_body f k v s = f k v5 s5 \<Longrightarrow> pauses (hist s5) = Suc (pauses (hist s)) \<Longrightarrow>
      (\<exists>s4. property_get k ''vold.decrypt'' s4 = (v5, s5)) \<Longrightarrow> v \<noteq> lit ''trigger_restart_framework'' \<Longrightarrow> Q"
    "\<And>s'. wait_body f k v s = Some s' \<Longrightarrow> pauses (hist s') = pauses (hist s) \<Longrightarrow> Q"
  shows Q
proof -
  obtain v1 s1 where 1: "property_get k ''vendor.soter.teei.crypto.state'' s = (v1, s1)" by fastforce
  obtain v2 s2 where 2: "property_get k ''ro.crypto.state'' s1 = (v2, s2)" by fastforce
  obtain v3 s3 where 3: "property_get k ''ro.crypto.type'' s2 = (v3, s3)" by fastforce
  obtain r4 s4 where 4: "sys k (Usleep 10000) s3 = (r4, s4)" by fastforce
  obtain v5 s5 where 5: "property_get k ''vold.decrypt'' s4 = (v5, s5)" by fastforce
  have ex: "\<exists>s4. property_get k ''vold.decrypt'' s4 = (v5, s5)" using 5 by blast
  note p = pauses_get [OF 1] pauses_get [OF 2] pauses_get [OF 3] pauses_usleep [OF 4] pauses_get [OF 5]
  have "wait_body f k v s = (if v = lit ''trigger_restart_framework'' then Some s else if v1 = lit ''unencrypted'' then Some s1 else
      if v2 = lit ''unencrypted'' \<or> v2 = lit ''unsupported'' then Some s2 else if v3 = lit ''file'' then Some s3 else f k v5 s5)"
    unfolding wait_body_def 1 2 3 4 5 Let_def prod.case by (rule refl)
  then show Q
    using assms(1) [of v5 s5] assms(2) [of s] assms(2) [of s1] assms(2) [of s2] assms(2) [of s3] p ex
    by (simp split: if_split_asm)
qed

lemma wait_decrypted_returns:
  assumes "announced_after n k" "heard n v s" "n \<le> pauses (hist s) + m"
  shows "\<exists>s'. wait_decrypted k v s = Some s' \<and> pauses (hist s') \<le> max n (pauses (hist s))"
  using assms(2,3)
proof (induction m arbitrary: v s)
  case 0
  then have "v = lit ''trigger_restart_framework''" by (simp add: heard_def)
  then show ?case by (subst wait_decrypted.simps) simp
next
  case (Suc m)
  have unf: "wait_decrypted k v s = wait_body wait_decrypted k v s"
    unfolding wait_body_def by (rule wait_decrypted.simps)
  show ?case
  proof (rule wait_next [of wait_decrypted k v s])
    fix v5 s5
    assume n: "wait_body wait_decrypted k v s = wait_decrypted k v5 s5" "pauses (hist s5) = Suc (pauses (hist s))"
      "\<exists>s4. property_get k ''vold.decrypt'' s4 = (v5, s5)" "v \<noteq> lit ''trigger_restart_framework''"
    have "heard n v5 s5" using n(3) heard_get [OF assms(1)] by blast
    moreover have "n \<le> pauses (hist s5) + m" using n(2) Suc.prems(2) by simp
    ultimately obtain s' where s': "wait_decrypted k v5 s5 = Some s'" "pauses (hist s') \<le> max n (pauses (hist s5))"
      using Suc.IH by blast
    have "pauses (hist s) < n" using Suc.prems(1) n(4) by (simp add: heard_def not_less [symmetric])
    then have "max n (pauses (hist s5)) = n" using n(2) by simp
    with s' n unf show ?thesis by simp
  next
    fix s'
    assume "wait_body wait_decrypted k v s = Some s'" "pauses (hist s') = pauses (hist s)"
    with unf show ?thesis by simp
  qed
qed

lemma load_tee_some:
  assumes "announced_after n k" "hist s = []"
  shows "\<exists>s'. load_tee_fn k s = Some (0, s') \<and> pauses (hist s') \<le> n \<and> unlock_state s' = 1"
proof -
  obtain v1 s1 where 1: "property_get k ''ro.crypto.state'' s = (v1, s1)" by fastforce
  obtain v2 s2 where 2: "property_get k ''ro.crypto.type'' s1 = (v2, s2)" by fastforce
  obtain v3 s3 where 3: "property_get k ''vold.decrypt'' s2 = (v3, s3)" by fastforce
  have p: "pauses (hist s2) = 0" "pauses (hist s3) = 0"
    using pauses_get [OF 1] pauses_get [OF 2] pauses_get [OF 3] assms(2) by (simp_all add: pauses_def)
  obtain s4 where "wait_decrypted k v3 s3 = Some s4" "pauses (hist s4) \<le> n"
    using wait_decrypted_returns [OF assms(1) heard_get [OF assms(1) 3], of n] p by auto
  moreover define st where "st = (if v1 \<noteq> lit ''unencrypted'' \<and> v1 \<noteq> lit ''unsupported'' \<and> v2 \<noteq> lit ''file'' then s4 else s2)"
  ultimately have st: "load_tee_fn k s = Some (0, (keymaster_unlock k st)\<lparr>unlock_state := 1\<rparr>)" "pauses (hist st) \<le> n"
    using p by (simp_all add: load_tee_fn_def 1 2 3)
  have "pauses (hist (keymaster_unlock k s4)) = pauses (hist s4)" for s4
    by (simp add: keymaster_unlock_def sys_def Let_def pauses_def)
  then show ?thesis using st by simp
qed

text \<open>A system that announces the decryption after one pause.\<close>

definition late_kernel :: kernel where
  "late_kernel h c =
     (case c of Property_get key \<Rightarrow>
        ret_data (lit (if key = ''vold.decrypt'' \<and> 1 \<le> pauses h then ''trigger_restart_framework'' else ''encrypted''))
      | _ \<Rightarrow> ret 3)"

definition daemon0 :: daemon where
  "daemon0 = \<lparr>hist = [], errno = 0, init_par = zero_init_param, unlock_state = 0,
     heap = (\<lambda>_. \<lparr>next_node = 0, prev_node = 0\<rparr>), entries = (\<lambda>_. \<lparr>path = [], property_context = []\<rparr>), g_property_list = 1\<rparr>"

lemma announced_late: "announced_after 1 late_kernel"
  by (simp add: announced_after_def late_kernel_def ret_data_def)

text \<open>C21. The wait for the decryption ends: if the system announces at the latest after \<open>n\<close> pauses
  that the data partition is decrypted, the thread returns, pauses at most \<open>n\<close> times, and has
  marked the key master unlocked.\<close>

theorem load_tee_returns:
  assumes "announced_after n k" "hist s = []"
  shows "\<exists>s'. load_tee_fn k s = Some (0, s') \<and> pauses (hist s') \<le> n \<and> unlock_state s' = 1"
  using assms by (rule load_tee_some)

theorem load_tee_returns_witness:
  "\<exists>s'. load_tee_fn late_kernel daemon0 = Some (0, s') \<and> pauses (hist s') \<le> 1 \<and> unlock_state s' = 1"
  by (rule load_tee_returns [OF announced_late]) (simp add: daemon0_def)

theorem load_tee_unlocks_after_decryption_witness:
  "\<exists>s' es es'. load_tee_fn late_kernel daemon0 = Some (0, s') \<and> hist s' = es @ es' \<and> es' \<noteq> [] \<and>
     list_all (\<lambda>(c, a). waits c) es \<and> list_ex (\<lambda>(c, a). allows c a) es \<and> unlock_state s' = 1"
proof -
  have h: "hist daemon0 = []" by (simp add: daemon0_def)
  obtain s' where s': "load_tee_fn late_kernel daemon0 = Some (0, s')"
    using load_tee_some [OF announced_late h] by blast
  have ex: ?thesis if "\<forall>(c, a) \<in> set es. waits c" "\<exists>(c, a) \<in> set es. allows c a" "hist s' = es @ e # t" "unlock_state s' = 1"
    for es e t
    using that s' unfolding list_all_iff list_ex_iff by (intro exI [of _ s'] exI [of _ es] exI [of _ "e # t"]) simp
  from load_tee_unlocks_after_decryption [OF s' h] show ?thesis
    by (elim exE conjE) (rule ex)
qed

section \<open>The queue of properties\<close>

text \<open>Several rounds of the thread, until it returns.\<close>

fun property_setting_rounds :: "kernel \<Rightarrow> nat \<Rightarrow> daemon \<Rightarrow> int + daemon" where
  "property_setting_rounds k 0 s = Inr s"
| "property_setting_rounds k (Suc n) s =
     (case property_setting_step k s of Inl e \<Rightarrow> Inl e | Inr s1 \<Rightarrow> property_setting_rounds k n s1)"

definition daemon_calls :: "event list \<Rightarrow> syscall list" where
  "daemon_calls h = map fst h"

definition set_calls :: "teei_property_struct \<Rightarrow> syscall list" where
  "set_calls e = [Sem_wait, Mutex_lock, Mutex_unlock, Property_set (path e) (property_context e)]"

definition serves :: "kernel \<Rightarrow> bool" where
  "serves k \<longleftrightarrow> (\<forall>h. sr_rc (k h Sem_wait) = 0 \<and> sr_rc (k h Mutex_lock) = 0)"

lemma property_round:
  assumes "is_list (heap s) (g_property_list s) (x # xs)" "x \<noteq> HEAD_OFFSET" "serves k"
  shows "\<exists>s'. property_setting_step k s = Inr s' \<and> is_list (heap s') (g_property_list s') xs \<and>
    daemon_calls (hist s') = daemon_calls (hist s) @ set_calls (entries s x) \<and> entries s' = entries s"
proof -
  have "list_first_node (g_property_list s) (heap s) = x" by (rule is_list_first [OF assms(1)])
  moreover have "is_list (teei_list_del x (heap s)) (g_property_list s) xs"
    using is_list_del [of "heap s" "g_property_list s" "[]" x xs] assms(1) by simp
  ultimately show ?thesis
    using assms(2,3) by (simp add: property_setting_step_def sys_def Let_def serves_def daemon_calls_def set_calls_def)
qed

lemma property_rounds:
  assumes "is_list (heap s) (g_property_list s) xs" "HEAD_OFFSET \<notin> set xs" "serves k"
  shows "\<exists>s'. property_setting_rounds k (length xs) s = Inr s' \<and> is_list (heap s') (g_property_list s') [] \<and>
    daemon_calls (hist s') = daemon_calls (hist s) @ concat (map (\<lambda>x. set_calls (entries s x)) xs)"
  using assms(1,2)
proof (induction xs arbitrary: s)
  case (Cons x xs)
  obtain s1 where s1: "property_setting_step k s = Inr s1" "is_list (heap s1) (g_property_list s1) xs"
    "daemon_calls (hist s1) = daemon_calls (hist s) @ set_calls (entries s x)" "entries s1 = entries s"
    using property_round [OF Cons.prems(1) _ assms(3)] Cons.prems(2) by auto
  with Cons.IH [OF s1(2)] Cons.prems(2) show ?case by simp
qed simp



end
