(* ===== verification/Teei_Log.thy ===== *)
theory Teei_Log
  imports Teei_Daemon
begin

text \<open>
  The log writer of the daemon (\<open>get_tee_log\<close> in \<open>teei_daemon/main.c\<close>, built with
  \<open>SAVE_TEE_LOG\<close>). It never returns, so it is a step function over its labels: waiting for the
  directory, opening the file, copying. The clock is a parameter, which gives the broken-down
  time after a history of calls.
\<close>

section \<open>The date of a log file\<close>

record tm =
  tm_year :: nat \<comment> \<open>since 1900\<close>
  tm_mon :: nat
  tm_mday :: nat
  tm_hour :: nat
  tm_min :: nat
  tm_sec :: nat

fun digits :: "nat \<Rightarrow> bytes" where
  "digits n = (if n < 10 then [of_nat (48 + n)] else digits (n div 10) @ [of_nat (48 + n mod 10)])"

declare digits.simps [simp del]

text \<open>A decimal conversion with a minimal width, filled up with \<open>c\<close>.\<close>

definition pad_int :: "u8 \<Rightarrow> nat \<Rightarrow> nat \<Rightarrow> bytes" where
  "pad_int c w n = replicate (w - length (digits n)) c @ digits n"

definition log_file_date :: "tm \<Rightarrow> bytes" where
  "log_file_date t =
     lit ''>>>>> Date: '' @ pad_int 32 4 (tm_year t + 1900) @ pad_int 48 2 (tm_mon t + 1) @ pad_int 48 2 (tm_mday t) @
     lit ''_'' @ pad_int 48 2 (tm_hour t) @ pad_int 48 2 (tm_min t) @ pad_int 48 2 (tm_sec t)"

section \<open>The labels of the function\<close>

definition MAX_LOG_SIZE :: nat where [simp]: "MAX_LOG_SIZE = 4096"
definition MAX_FILE_SIZE :: u32 where [simp]: "MAX_FILE_SIZE = 2 * 1024 * 1024"

datatype log_phase =
    Retry_access_dir
  | Retry_open_file tm
  | Copy_log int u32 \<comment> \<open>\<open>log_file_fd\<close> and \<open>total_wr_len\<close>\<close>

definition retry_access_dir ::
  "kernel \<Rightarrow> (event list \<Rightarrow> tm) \<Rightarrow> 'a proc_scheme \<Rightarrow> log_phase \<times> 'a proc_scheme" where
  "retry_access_dir k clock s =
     (let timeinfo = clock (hist s);
          (r, s1) = sys k (Access (lit ''/data/vendor/thh/tee_log'')) s in
      if sr_rc r \<noteq> 0 then (Retry_access_dir, snd (sys k (Usleep 1000) s1))
      else (Retry_open_file timeinfo, rename_last_log k s1))"

text \<open>The second \<open>write\<close> passes the size of the literal, which counts its terminator.\<close>

definition retry_open_file :: "kernel \<Rightarrow> tm \<Rightarrow> 'a proc_scheme \<Rightarrow> log_phase \<times> 'a proc_scheme" where
  "retry_open_file k timeinfo s =
     (let (r, s1) = sys k (Open current_log (O_RDWR OR O_SYNC OR O_CREAT) S_IRWXU) s in
      if sr_rc r < 0 then (Retry_open_file timeinfo, snd (sys k (Usleep 1000) s1))
      else
        let (_, s2) = sys k (Write (sr_rc r) (log_file_date timeinfo)) s1;
            (_, s3) = sys k (Write (sr_rc r) (lit '' <<<<<'' @ [10, 10, 10, 0])) s2
        in (Copy_log (sr_rc r) 0, s3))"

definition copy_log ::
  "kernel \<Rightarrow> int \<Rightarrow> int \<Rightarrow> u32 \<Rightarrow> 'a proc_scheme \<Rightarrow> log_phase \<times> 'a proc_scheme" where
  "copy_log k config_fd log_file_fd total_wr_len s =
     (let (r, s1) = sys k (Read config_fd MAX_LOG_SIZE) s in
      if sr_rc r < 0 then (Copy_log log_file_fd total_wr_len, s1)
      else
        let (w, s2) = sys k (Write log_file_fd (sr_out r)) s1 in
        if sr_rc w < 0 then (Copy_log log_file_fd total_wr_len, s2)
        else
          let total = total_wr_len + of_int (sr_rc w) in
          if MAX_FILE_SIZE \<le> total then (Retry_access_dir, snd (sys k (Close log_file_fd) s2))
          else (Copy_log log_file_fd total, s2))"

fun get_tee_log_step ::
  "kernel \<Rightarrow> (event list \<Rightarrow> tm) \<Rightarrow> int \<Rightarrow> log_phase \<times> 'a proc_scheme \<Rightarrow> log_phase \<times> 'a proc_scheme" where
  "get_tee_log_step k clock config_fd (Retry_access_dir, s) = retry_access_dir k clock s"
| "get_tee_log_step k clock config_fd (Retry_open_file t, s) = retry_open_file k t s"
| "get_tee_log_step k clock config_fd (Copy_log fd n, s) = copy_log k config_fd fd n s"

section \<open>What the writer holds\<close>

text \<open>The bytes of the log that went into a file, and the calls of the copying phase.\<close>

fun log_bytes :: "event \<Rightarrow> int" where
  "log_bytes (Write fd bs, r) = max 0 (sr_rc r)"
| "log_bytes _ = 0"

definition copied :: "event list \<Rightarrow> int" where
  "copied es = sum_list (map log_bytes es)"

fun copy_call :: "int \<Rightarrow> int \<Rightarrow> syscall \<Rightarrow> bool" where
  "copy_call config_fd fd (Read d n) \<longleftrightarrow> d = config_fd"
| "copy_call config_fd fd (Write d bs) \<longleftrightarrow> d = fd \<and> length bs \<le> MAX_LOG_SIZE"
| "copy_call config_fd fd _ \<longleftrightarrow> False"

text \<open>
  The invariant: outside the copying phase the writer holds no descriptor of its own (\<open>F\<close> are
  those it started with). In the copying phase the calls end with the opening of the current
  log, the two parts of its header, and the copied log, whose size is the counter.
\<close>

fun log_inv :: "int set \<Rightarrow> int \<Rightarrow> log_phase \<Rightarrow> event list \<Rightarrow> bool" where
  "log_inv F config_fd (Copy_log fd n) h \<longleftrightarrow>
     (\<exists>h0 r t r1 r2 es. h = h0 @ [(Open current_log (O_RDWR OR O_SYNC OR O_CREAT) S_IRWXU, r),
          (Write fd (log_file_date t), r1), (Write fd (lit '' <<<<<'' @ [10, 10, 10, 0]), r2)] @ es \<and>
        sr_rc r = fd \<and> 0 \<le> fd \<and> fd \<notin> F \<and> open_fds h0 = F \<and> list_all (copy_call config_fd fd \<circ> fst) es \<and>
        int (unat n) = copied es \<and> n < MAX_FILE_SIZE)"
| "log_inv F config_fd _ h \<longleftrightarrow> open_fds h = F"

definition write_bounded :: "kernel \<Rightarrow> bool" where
  "write_bounded k \<longleftrightarrow> (\<forall>h fd bs. sr_rc (k h (Write fd bs)) \<le> int (length bs))"

lemma open_fds_append: "open_fds (h @ es) = fold fd_effect es (open_fds h)"
  by (simp add: open_fds_def)

lemma fold_copy_calls: "list_all (copy_call c fd \<circ> fst) es \<Longrightarrow> fold fd_effect es G = G"
proof (induction es arbitrary: G)
  case (Cons e es)
  moreover have "fd_effect e G = G" using Cons.prems by (cases "(e, G)" rule: fd_effect.cases) auto
  ultimately show ?case by simp
qed simp

lemma sys_open_fds: "sys k c s = (r, s') \<Longrightarrow> open_fds (hist s') = fd_effect (c, r) (open_fds (hist s))"
  by (simp add: sys_eqD(2))

lemma sys_open_fds_snd: "open_fds (hist (snd (sys k c s))) = fd_effect (c, k (hist s) c) (open_fds (hist s))"
  by (simp add: sys_def Let_def)

lemma rename_if_open_fds [simp]: "open_fds (hist (rename_if k a b s)) = open_fds (hist s)"
proof -
  obtain r s1 where s1: "sys k (Access a) s = (r, s1)" by fastforce
  with sys_open_fds [OF s1] show ?thesis by (simp add: rename_if_def sys_open_fds_snd)
qed

lemma rotate_logs_open_fds [simp]: "open_fds (hist (rotate_logs k i s)) = open_fds (hist s)"
proof (induction k i s rule: rotate_logs.induct)
  case (1 k i s)
  then show ?case by (subst rotate_logs.simps) simp
qed

lemma rename_last_log_open_fds [simp]: "open_fds (hist (rename_last_log k s)) = open_fds (hist s)"
  by (simp add: rename_last_log_def)

lemma retry_access_dir_inv:
  assumes "retry_access_dir k clock s = (p, s')" "open_fds (hist s) = F"
  shows "log_inv F c p (hist s')"
proof -
  obtain r s1 where s1: "sys k (Access (lit ''/data/vendor/thh/tee_log'')) s = (r, s1)" by fastforce
  note step = assms(1) [unfolded retry_access_dir_def s1 Let_def prod.case]
  have "open_fds (hist s1) = F" using assms(2) sys_open_fds [OF s1] by simp
  then show ?thesis
    using step by (cases "sr_rc r = 0") (auto simp: sys_open_fds_snd)
qed

lemma retry_open_file_inv:
  assumes "retry_open_file k t s = (p, s')" "open_fds (hist s) = F" "fresh_fds k"
  shows "log_inv F c p (hist s')"
proof -
  let ?o = "Open current_log (O_RDWR OR O_SYNC OR O_CREAT) S_IRWXU"
  obtain r s1 where s1: "sys k ?o s = (r, s1)" by fastforce
  obtain r1 s2 where s2: "sys k (Write (sr_rc r) (log_file_date t)) s1 = (r1, s2)" by fastforce
  obtain r2 s3 where s3: "sys k (Write (sr_rc r) (lit '' <<<<<'' @ [10, 10, 10, 0])) s2 = (r2, s3)" by fastforce
  note step = assms(1) [unfolded retry_open_file_def s1 Let_def prod.case s2 s3]
  show ?thesis
  proof (cases "sr_rc r < 0")
    case True
    with step have "p = Retry_open_file t" "s' = snd (sys k (Usleep 1000) s1)" by simp_all
    with True assms(2) sys_open_fds [OF s1] show ?thesis by (simp add: sys_open_fds_snd)
  next
    case False
    with step have p: "p = Copy_log (sr_rc r) 0" "s' = s3" by simp_all
    have "sr_rc r \<notin> F"
      using assms(2,3) sys_eqD(1) [OF s1] unfolding fresh_fds_def by blast
    moreover have "hist s3 = hist s @ [(?o, r), (Write (sr_rc r) (log_file_date t), r1),
        (Write (sr_rc r) (lit '' <<<<<'' @ [10, 10, 10, 0]), r2)] @ []"
      by (simp add: sys_eqD(2) [OF s1] sys_eqD(2) [OF s2] sys_eqD(2) [OF s3])
    moreover have "copied [] = 0" by (simp add: copied_def)
    ultimately show ?thesis
      unfolding p log_inv.simps using False assms(2)
      by (intro exI [of _ "hist s"] exI [of _ r] exI [of _ t] exI [of _ r1] exI [of _ r2] exI [of _ "[]"] conjI) simp_all
  qed
qed

text \<open>Extending the copied part by calls of the copying phase.\<close>

lemma log_inv_extend:
  assumes "log_inv F c (Copy_log fd n) h" "list_all (copy_call c fd \<circ> fst) es"
    "int (unat m) = int (unat n) + copied es" "m < MAX_FILE_SIZE"
  shows "log_inv F c (Copy_log fd m) (h @ es)"
proof -
  from assms(1) obtain h0 r t r1 r2 es0 where h: "h = h0 @ [(Open current_log (O_RDWR OR O_SYNC OR O_CREAT) S_IRWXU, r),
          (Write fd (log_file_date t), r1), (Write fd (lit '' <<<<<'' @ [10, 10, 10, 0]), r2)] @ es0"
    "sr_rc r = fd" "0 \<le> fd" "fd \<notin> F" "open_fds h0 = F" "list_all (copy_call c fd \<circ> fst) es0" "int (unat n) = copied es0"
    unfolding log_inv.simps by blast
  have "copied (es0 @ es) = copied es0 + copied es" by (simp add: copied_def)
  with h assms(2-4) show ?thesis
    unfolding log_inv.simps
    by (intro exI [of _ h0] exI [of _ r] exI [of _ t] exI [of _ r1] exI [of _ r2] exI [of _ "es0 @ es"] conjI) simp_all
qed

lemma log_inv_open_fds: "log_inv F c (Copy_log fd n) h \<Longrightarrow> open_fds h = insert fd F \<and> fd \<notin> F"
  by (auto simp: open_fds_append fold_copy_calls)

lemma copy_log_inv:
  assumes "copy_log k c fd n s = (p, s')" "log_inv F c (Copy_log fd n) (hist s)" "io_bounded k" "write_bounded k"
  shows "log_inv F c p (hist s')"
proof -
  obtain r s1 where s1: "sys k (Read c MAX_LOG_SIZE) s = (r, s1)" by fastforce
  obtain w s2 where s2: "sys k (Write fd (sr_out r)) s1 = (w, s2)" by fastforce
  note step = assms(1) [unfolded copy_log_def s1 Let_def prod.case s2]
  have lt: "n < MAX_FILE_SIZE" using assms(2) by (simp only: log_inv.simps) blast
  have len: "length (sr_out r) \<le> MAX_LOG_SIZE"
    using io_boundedD [OF assms(3), of "Read c MAX_LOG_SIZE" "hist s"] sys_eqD(1) [OF s1] by auto
  have wr: "sr_rc w \<le> 4096"
    using assms(4) len sys_eqD(1) [OF s2] order_trans [of "sr_rc w" "int (length (sr_out r))" 4096]
    by (simp add: write_bounded_def)
  have h1: "hist s1 = hist s @ [(Read c MAX_LOG_SIZE, r)]" by (rule sys_eqD(2) [OF s1])
  have h2: "hist s2 = hist s @ [(Read c MAX_LOG_SIZE, r), (Write fd (sr_out r), w)]"
    by (simp add: h1 sys_eqD(2) [OF s2])
  have calls: "list_all (copy_call c fd \<circ> fst) [(Read c MAX_LOG_SIZE, r)]"
    "list_all (copy_call c fd \<circ> fst) [(Read c MAX_LOG_SIZE, r), (Write fd (sr_out r), w)]"
    using len by simp_all
  consider "sr_rc r < 0" | "0 \<le> sr_rc r" "sr_rc w < 0" | "0 \<le> sr_rc r" "0 \<le> sr_rc w" by linarith
  then show ?thesis
  proof cases
    case 1
    then have "p = Copy_log fd n" "s' = s1" using step by simp_all
    then show ?thesis
      using log_inv_extend [OF assms(2) calls(1), of n] lt by (simp only: h1) (simp add: copied_def)
  next
    case 2
    then have "p = Copy_log fd n" "s' = s2" using step by simp_all
    then show ?thesis
      using log_inv_extend [OF assms(2) calls(2), of n] lt 2 by (simp only: h2) (simp add: copied_def)
  next
    case 3
    have sum: "int (unat (n + of_int (sr_rc w))) = int (unat n) + sr_rc w"
    proof -
      have "unat n < 2 * 1024 * 1024" using lt by (simp add: word_less_nat_alt)
      moreover have w: "unat (of_int (sr_rc w) :: u32) = nat (sr_rc w)"
        using 3 wr by (simp add: unat_eq_nat_uint uint_word_of_int)
      ultimately have "unat n + unat (of_int (sr_rc w) :: u32) < 2 ^ 32" using wr by simp
      then have "unat (n + of_int (sr_rc w)) = unat n + nat (sr_rc w)"
        using w iffD1 [OF unat_add_lem, of n "of_int (sr_rc w)"] by simp
      then show ?thesis using 3 by (simp only: of_nat_add int_nat_eq if_True)
    qed
    show ?thesis
    proof (cases "MAX_FILE_SIZE \<le> n + of_int (sr_rc w)")
      case True
      then have "p = Retry_access_dir" "s' = snd (sys k (Close fd) s2)" using step 3 by simp_all
      moreover have "open_fds (hist s2) = insert fd F" "fd \<notin> F"
        using log_inv_open_fds [OF assms(2)] by (simp_all add: h2 open_fds_append)
      ultimately show ?thesis by (simp add: sys_open_fds_snd)
    next
      case False
      then have "p = Copy_log fd (n + of_int (sr_rc w))" "s' = s2" using step 3 by simp_all
      then show ?thesis
        using log_inv_extend [OF assms(2) calls(2) _ iffD1 [OF not_le False]] 3 sum
        by (simp only: h2) (simp add: copied_def)
    qed
  qed
qed

section \<open>Property\<close>

inductive log_reachable :: "kernel \<Rightarrow> (event list \<Rightarrow> tm) \<Rightarrow> int \<Rightarrow> 'a proc_scheme \<Rightarrow> log_phase \<times> 'a proc_scheme \<Rightarrow> bool"
  for k clock config_fd s0 where
  log_start: "log_reachable k clock config_fd s0 (Retry_access_dir, s0)"
| log_step: "log_reachable k clock config_fd s0 x \<Longrightarrow> log_reachable k clock config_fd s0 (get_tee_log_step k clock config_fd x)"

text \<open>C30. The log writer in every state it reaches: outside the copying phase it holds no
  descriptor besides those it started with; while it copies, it holds exactly one, that of a
  current log it opened and headed with the date, every later call reads the driver or writes
  at most one buffer to that file, and the counter is the number of log bytes in it, less than
  two megabytes and not wrapped around.\<close>

theorem log_writer_invariant:
  assumes "log_reachable k clock config_fd s0 (p, s)" "fresh_fds k" "io_bounded k" "write_bounded k"
  shows "log_inv (open_fds (hist s0)) config_fd p (hist s)"
proof -
  have "log_inv (open_fds (hist s0)) config_fd (fst (p, s)) (hist (snd (p, s)))"
    using assms(1)
  proof (induction rule: log_reachable.induct)
    case log_start
    show ?case by simp
  next
    case (log_step x)
    obtain q t where x: "x = (q, t)" by fastforce
    obtain q' t' where y: "get_tee_log_step k clock config_fd (q, t) = (q', t')" by fastforce
    have "log_inv (open_fds (hist s0)) config_fd q' (hist t')"
      using log_step.IH y retry_access_dir_inv [of k clock t q' t'] retry_open_file_inv [OF _ _ assms(2), of _ t q' t']
        copy_log_inv [OF _ _ assms(3,4), of config_fd _ _ t q' t' "open_fds (hist s0)"]
      unfolding x by (cases q) (simp_all del: log_inv.simps(1))
    then show ?case by (simp add: x y)
  qed
  then show ?thesis by simp
qed

theorem log_writer_invariant_witness:
  "\<exists>p s. log_inv {} 7 p (hist s) \<and> log_reachable calm (\<lambda>h. \<lparr>tm_year = 121, tm_mon = 0, tm_mday = 9, tm_hour = 8, tm_min = 7, tm_sec = 6\<rparr>)
     7 \<lparr>hist = [], errno = 0\<rparr> (p, s) \<and> (\<exists>n. p = Copy_log n 0)"
proof -
  let ?t = "\<lparr>tm_year = 121, tm_mon = 0, tm_mday = 9, tm_hour = 8, tm_min = 7, tm_sec = 6\<rparr>"
  let ?s = "\<lparr>hist = [], errno = 0\<rparr> :: proc"
  let ?R = "log_reachable calm (\<lambda>h. ?t) 7 ?s"
  obtain p1 s1 where 1: "get_tee_log_step calm (\<lambda>h. ?t) 7 (Retry_access_dir, ?s) = (p1, s1)" by fastforce
  obtain p2 s2 where 2: "get_tee_log_step calm (\<lambda>h. ?t) 7 (p1, s1) = (p2, s2)" by fastforce
  have r: "?R (p2, s2)"
    using log_step [OF log_step [OF log_start, of calm "\<lambda>h. ?t" 7 ?s]] by (simp only: 1 2)
  have "p1 = Retry_open_file ?t \<and> next_fd (hist s1) < 2 ^ 31"
    using 1 by (auto simp: retry_access_dir_def sys_def Let_def calm_def ret_def rename_last_log_def rename_if_def rotate_logs.simps next_fd_def split: if_splits)
  then have "\<exists>n. p2 = Copy_log n 0"
    using 2 by (auto simp: retry_open_file_def sys_def Let_def calm_def ret_def next_fd_def split: if_splits)
  moreover have "write_bounded calm" by (simp add: write_bounded_def calm_def ret_def)
  then have "log_inv {} 7 p2 (hist s2)"
    using log_writer_invariant [OF r calm_ok(1) calm_ok(2)] by simp
  ultimately show ?thesis using r by blast
qed

end
