(* ===== verification/Tipc_Messages.thy ===== *)
theory Tipc_Messages
  imports Tipc "HOL-Library.Sublist"
begin

text \<open>
  What the clients of the secure services have in common: the messages that a history of calls
  has written, operations that send a prefix of the messages they have to send and all of them
  when they succeed, and the cutting of a buffer into pieces.
\<close>

section \<open>Messages sent\<close>

fun sent_by :: "event \<Rightarrow> bytes list" where
  "sent_by (Write fd bs, r) = [bs]"
| "sent_by _ = []"

definition sent :: "event list \<Rightarrow> bytes list" where
  "sent h = concat (map sent_by h)"

lemma sent_simps [simp]: "sent [] = []" "sent (h @ h') = sent h @ sent h'" "sent (e # h) = sent_by e @ sent h"
  by (simp_all add: sent_def)

text \<open>A call that fails says why, with a positive number.\<close>

definition errno_positive :: "kernel \<Rightarrow> bool" where
  "errno_positive k \<longleftrightarrow> (\<forall>h c. sr_rc (k h c) < 0 \<longrightarrow> 0 < sr_err (k h c))"

lemma errno_positiveD: "errno_positive k \<Longrightarrow> sys k c s = (r, s') \<Longrightarrow> sr_rc r < 0 \<Longrightarrow> 0 < errno s'"
  by (auto simp: errno_positive_def sys_def Let_def)

text \<open>
  From \<open>s\<close> to \<open>s'\<close> an operation with answer \<open>rc\<close> has sent a prefix of \<open>ms\<close>, everything when it
  succeeded, and holds the same descriptors as before.
\<close>

definition sends :: "int \<Rightarrow> bytes list \<Rightarrow> 'a proc_scheme \<Rightarrow> 'a proc_scheme \<Rightarrow> bool" where
  "sends rc ms s s' \<longleftrightarrow> (\<exists>ms1. sent (hist s') = sent (hist s) @ ms1 \<and> prefix ms1 ms \<and> (0 \<le> rc \<longrightarrow> ms1 = ms)) \<and>
     open_fds (hist s') = open_fds (hist s)"

lemma sends_refl [simp]: "sends rc [] s s"
  by (simp add: sends_def)

lemma sends_fail: "rc < 0 \<Longrightarrow> sends rc ms s s' \<Longrightarrow> sends rc (ms @ ms') s s'"
  by (auto simp: sends_def)

lemma sends_trans:
  assumes "0 \<le> rc" "sends rc ms s s1" "sends rc' ms' s1 s2"
  shows "sends rc' (ms @ ms') s s2"
  using assms by (fastforce simp: sends_def)

text \<open>A call that neither writes nor changes the descriptors.\<close>

fun silent :: "syscall \<Rightarrow> bool" where
  "silent (Open p fl m) = False"
| "silent (Close fd) = False"
| "silent (Write fd bs) = False"
| "silent _ = True"

lemma silent_effect: "silent c \<Longrightarrow> sent_by (c, r) = [] \<and> fd_effect (c, r) F = F"
  by (cases c) simp_all

lemma sends_silent:
  assumes "sys k c s = (r, s1)" "silent c"
  shows "sends rc ms s1 s' \<longleftrightarrow> sends rc ms s s'"
  using silent_effect [OF assms(2), of r] by (simp add: sends_def sys_eqD(2) [OF assms(1)])

lemma sends_silent_end:
  assumes "sys k c s1 = (r, s')" "silent c"
  shows "sends rc ms s s' \<longleftrightarrow> sends rc ms s s1"
  using silent_effect [OF assms(2), of r] by (simp add: sends_def sys_eqD(2) [OF assms(1)])

lemma sends_write:
  assumes "sys k (Write fd bs) s = (r, s')"
  shows "sends rc [bs] s s'"
  by (simp add: sends_def sys_eqD(2) [OF assms])

section \<open>Pieces of a buffer\<close>

fun pieces :: "nat \<Rightarrow> 'a list \<Rightarrow> 'a list list" where
  "pieces n xs = (if n = 0 \<or> xs = [] then [] else take n xs # pieces n (drop n xs))"

declare pieces.simps [simp del]

lemma pieces_Nil [simp]: "pieces n [] = []"
  by (simp add: pieces.simps)

lemma concat_pieces: "0 < n \<Longrightarrow> concat (pieces n xs) = xs"
proof (induction n xs rule: pieces.induct)
  case (1 n xs)
  then show ?case by (cases "xs = []") (simp_all add: pieces.simps [of n xs])
qed

lemma pieces_bound: "ys \<in> set (pieces n xs) \<Longrightarrow> 0 < length ys \<and> length ys \<le> n"
proof (induction n xs rule: pieces.induct)
  case (1 n xs)
  then show ?case by (cases "n = 0 \<or> xs = []") (auto simp: pieces.simps [of n xs])
qed

end
