(* ===== verification/Gatekeeper.thy ===== *)
theory Gatekeeper
  imports Tipc_Messages
begin

text \<open>
  The gatekeeper of the lite variant: the connection (\<open>trusty_gatekeeper_ipc.c\<close>) and the device
  (\<open>trusty_gatekeeper.cpp\<close>) that enrolls and verifies passwords. The messages are written and
  read by the AOSP gatekeeper library: the writing of requests and the reading of responses are
  parameters. \<open>None\<close> is a crash: the source uses the result of \<open>malloc\<close> unchecked.
\<close>

section \<open>Connection\<close>

definition GATEKEEPER_PORT :: bytes where "GATEKEEPER_PORT = lit ''com.android.trusty.gatekeeper''"
definition gk_device :: bytes where "gk_device = lit ''/dev/trusty-ipc-dev0''"
definition GK_RESP_BIT :: u32 where "GK_RESP_BIT = 1"

datatype gatekeeper_command = GK_ENROLL | GK_VERIFY

fun gk_code :: "gatekeeper_command \<Rightarrow> u32" where
  "gk_code GK_ENROLL = 0"
| "gk_code GK_VERIFY = 2"

definition gatekeeper_message :: "gatekeeper_command \<Rightarrow> bytes \<Rightarrow> bytes" where
  "gatekeeper_message cmd payload = put_u32 (gk_code cmd) @ payload"

record gk = proc +
  gk_handle :: int
  gk_error :: int

definition trusty_gatekeeper_connect :: "kernel \<Rightarrow> gk \<Rightarrow> int \<times> gk" where
  "trusty_gatekeeper_connect k s =
     (let (rc, s1) = tipc_connect k gk_device GATEKEEPER_PORT s in
      if rc < 0 then (rc, s1) else (0, s1\<lparr>gk_handle := rc\<rparr>))"

definition trusty_gatekeeper_disconnect :: "kernel \<Rightarrow> gk \<Rightarrow> gk" where
  "trusty_gatekeeper_disconnect k s = (if gk_handle s \<noteq> 0 then tipc_close k (gk_handle s) s else s)"

text \<open>The answer, the payload of the response, and the state.\<close>

definition trusty_gatekeeper_call ::
  "kernel \<Rightarrow> gatekeeper_command \<Rightarrow> bytes \<Rightarrow> nat \<Rightarrow> gk \<Rightarrow> (int \<times> bytes \<times> gk) option" where
  "trusty_gatekeeper_call k cmd inp out_size s =
     (if gk_handle s = 0 then Some (- EINVAL, [], s)
      else
        let (m, s1) = sys k (Malloc (length inp + 4)) s in
        if sr_rc m < 0 then None
        else
          let (w, s2) = sys k (Write (gk_handle s1) (gatekeeper_message cmd inp)) s1 in
          if sr_rc w < 0 then Some (- errno s2, [], s2)
          else
            let (r, s3) = sys k (Read (gk_handle s2) out_size) s2 in
            if sr_rc r < 0 then Some (- errno s3, [], s3)
            else if sr_rc r < 4 then Some (- EINVAL, [], s3)
            else if gk_code cmd OR GK_RESP_BIT \<noteq> get_u32 (sr_out r) 0 then Some (- EINVAL, [], s3)
            else Some (sr_rc r, drop 4 (sr_out r), s3))"

section \<open>Device\<close>

definition SEND_BUF_SIZE :: nat where [simp]: "SEND_BUF_SIZE = 8192"
definition RECV_BUF_SIZE :: nat where [simp]: "RECV_BUF_SIZE = 8192"

datatype gatekeeper_error_t =
  ERROR_NONE | ERROR_INVALID | ERROR_RETRY | ERROR_MEMORY_ALLOCATION_FAILED | ERROR_other int

datatype GatekeeperStatusCode =
  STATUS_REENROLL | STATUS_OK | ERROR_GENERAL_FAILURE | ERROR_RETRY_TIMEOUT | ERROR_NOT_IMPLEMENTED

text \<open>The fields of a response that the device reads; the last one only of a verification.\<close>

record gk_response =
  response_error :: gatekeeper_error_t
  retry_timeout :: u32
  response_data :: bytes \<comment> \<open>\<open>enrolled_password_handle\<close> or \<open>auth_token\<close>\<close>
  request_reenroll :: bool

text \<open>What is given to the callback: status, timeout and data.\<close>

type_synonym gk_reply = "GatekeeperStatusCode \<times> u32 \<times> bytes"

definition TrustyGateKeeperDevice :: "kernel \<Rightarrow> gk \<Rightarrow> gk" where
  "TrustyGateKeeperDevice k s = (let (rc, s1) = trusty_gatekeeper_connect k s in s1\<lparr>gk_error := rc\<rparr>)"

definition gk_destructor :: "kernel \<Rightarrow> gk \<Rightarrow> gk" where
  "gk_destructor k s = trusty_gatekeeper_disconnect k s"

text \<open>\<open>deser\<close> answers an error and the response.\<close>

definition gk_Send ::
  "kernel \<Rightarrow> (bytes \<Rightarrow> gatekeeper_error_t \<times> gk_response) \<Rightarrow> gatekeeper_command \<Rightarrow> bytes \<Rightarrow> gk \<Rightarrow>
    ((gatekeeper_error_t \<times> gk_response option) \<times> gk) option" where
  "gk_Send k deser cmd request s =
     (if SEND_BUF_SIZE < length request then Some ((ERROR_INVALID, None), s)
      else do {
        (rc, payload, s1) \<leftarrow> trusty_gatekeeper_call k cmd request RECV_BUF_SIZE s;
        Some (if rc < 0 then (ERROR_INVALID, None) else map_prod id Some (deser payload), s1)
      })"

text \<open>What both operations answer for the result of \<open>gk_Send\<close>; \<open>good\<close> is the status of a success.\<close>

definition gk_answer :: "(gk_response \<Rightarrow> GatekeeperStatusCode) \<Rightarrow> gatekeeper_error_t \<times> gk_response option \<Rightarrow> gk_reply" where
  "gk_answer good er =
     (case snd er of
        None \<Rightarrow> (ERROR_GENERAL_FAILURE, 0, [])
      | Some response \<Rightarrow>
          if fst er \<noteq> ERROR_NONE then (ERROR_GENERAL_FAILURE, 0, [])
          else if response_error response = ERROR_RETRY then (ERROR_RETRY_TIMEOUT, retry_timeout response, [])
          else if response_error response \<noteq> ERROR_NONE then (ERROR_GENERAL_FAILURE, 0, [])
          else (good response, retry_timeout response, response_data response))"

definition hidl_vec2sized_buffer :: "bytes \<Rightarrow> bytes" where
  "hidl_vec2sized_buffer v = (if length v = 0 \<or> 2 ^ 32 \<le> length v then [] else v)"

definition gk_enroll ::
  "kernel \<Rightarrow> (u32 \<Rightarrow> bytes \<Rightarrow> bytes \<Rightarrow> bytes \<Rightarrow> bytes) \<Rightarrow> (bytes \<Rightarrow> gatekeeper_error_t \<times> gk_response) \<Rightarrow>
    u32 \<Rightarrow> bytes \<Rightarrow> bytes \<Rightarrow> bytes \<Rightarrow> gk \<Rightarrow> (gk_reply \<times> gk) option" where
  "gk_enroll k ser deser uid currentPasswordHandle currentPassword desiredPassword s =
     (if gk_error s \<noteq> 0 then Some ((ERROR_GENERAL_FAILURE, 0, []), s)
      else if length desiredPassword = 0 then Some ((ERROR_GENERAL_FAILURE, 0, []), s)
      else do {
        (er, s1) \<leftarrow> gk_Send k deser GK_ENROLL
          (ser uid (hidl_vec2sized_buffer currentPasswordHandle) (hidl_vec2sized_buffer desiredPassword)
             (hidl_vec2sized_buffer currentPassword)) s;
        Some (gk_answer (\<lambda>r. STATUS_OK) er, s1)
      })"

definition gk_verify ::
  "kernel \<Rightarrow> (u32 \<Rightarrow> u64 \<Rightarrow> bytes \<Rightarrow> bytes \<Rightarrow> bytes) \<Rightarrow> (bytes \<Rightarrow> gatekeeper_error_t \<times> gk_response) \<Rightarrow>
    u32 \<Rightarrow> u64 \<Rightarrow> bytes \<Rightarrow> bytes \<Rightarrow> gk \<Rightarrow> (gk_reply \<times> gk) option" where
  "gk_verify k ser deser uid challenge enrolledPasswordHandle providedPassword s =
     (if gk_error s \<noteq> 0 then Some ((ERROR_GENERAL_FAILURE, 0, []), s)
      else if length enrolledPasswordHandle = 0 then Some ((ERROR_GENERAL_FAILURE, 0, []), s)
      else do {
        (er, s1) \<leftarrow> gk_Send k deser GK_VERIFY
          (ser uid challenge (hidl_vec2sized_buffer enrolledPasswordHandle) (hidl_vec2sized_buffer providedPassword)) s;
        Some (gk_answer (\<lambda>r. if request_reenroll r then STATUS_REENROLL else STATUS_OK) er, s1)
      })"

definition gk_deleteUser :: "u32 \<Rightarrow> gk_reply" where
  "gk_deleteUser uid = (ERROR_NOT_IMPLEMENTED, 0, [])"

definition gk_deleteAllUsers :: gk_reply where
  "gk_deleteAllUsers = (ERROR_NOT_IMPLEMENTED, 0, [])"

section \<open>What a success means\<close>

text \<open>
  The exchange behind a reply: one message was written, the last call read an answer with the
  code of the command, and its payload was read as a response without error.
\<close>

definition exchanged ::
  "(bytes \<Rightarrow> gatekeeper_error_t \<times> gk_response) \<Rightarrow> gatekeeper_command \<Rightarrow> bytes \<Rightarrow> gk \<Rightarrow> gk \<Rightarrow> gk_response \<Rightarrow> bool" where
  "exchanged deser cmd request s s' rsp \<longleftrightarrow>
     (\<exists>m w r. hist s' = hist s @ [(Malloc (length request + 4), m), (Write (gk_handle s) (gatekeeper_message cmd request), w),
          (Read (gk_handle s) RECV_BUF_SIZE, r)] \<and>
        4 \<le> sr_rc r \<and> get_u32 (sr_out r) 0 = gk_code cmd OR GK_RESP_BIT \<and>
        deser (drop 4 (sr_out r)) = (ERROR_NONE, rsp) \<and> response_error rsp = ERROR_NONE)"

lemma gatekeeper_call_ok:
  assumes "trusty_gatekeeper_call k cmd request n s = Some (rc, payload, s')" "errno_positive k" "0 \<le> rc"
  shows "\<exists>m w r. hist s' = hist s @ [(Malloc (length request + 4), m), (Write (gk_handle s) (gatekeeper_message cmd request), w),
      (Read (gk_handle s) n, r)] \<and> 4 \<le> sr_rc r \<and> get_u32 (sr_out r) 0 = gk_code cmd OR GK_RESP_BIT \<and> payload = drop 4 (sr_out r)"
proof -
  obtain m s1 where 1: "sys k (Malloc (length request + 4)) s = (m, s1)" by fastforce
  have h1: "gk_handle s1 = gk_handle s" by (simp add: sys_eqD(3) [OF 1])
  obtain w s2 where 2: "sys k (Write (gk_handle s) (gatekeeper_message cmd request)) s1 = (w, s2)" by fastforce
  have h2: "gk_handle s2 = gk_handle s" by (simp add: sys_eqD(3) [OF 2] h1)
  obtain r s3 where 3: "sys k (Read (gk_handle s) n) s2 = (r, s3)" by fastforce
  have w: "0 \<le> sr_rc w" and r: "4 \<le> sr_rc r" "get_u32 (sr_out r) 0 = gk_code cmd OR GK_RESP_BIT" and e: "payload = drop 4 (sr_out r)" "s' = s3"
    using assms(1,3) errno_positiveD [OF assms(2) 2] errno_positiveD [OF assms(2) 3]
    by (auto simp: trusty_gatekeeper_call_def 1 h1 2 h2 3 Let_def split: if_splits)
  have "hist s3 = hist s @ [(Malloc (length request + 4), m), (Write (gk_handle s) (gatekeeper_message cmd request), w),
      (Read (gk_handle s) n, r)]"
    by (simp add: sys_eqD(2) [OF 1] sys_eqD(2) [OF 2] sys_eqD(2) [OF 3])
  with r e show ?thesis by blast
qed

lemma gk_answer_exchanged:
  assumes "gk_Send k deser cmd request s = Some (er, s')" "errno_positive k" "gk_answer good er = (status, timeout, data)"
    and "status \<notin> {ERROR_GENERAL_FAILURE, ERROR_RETRY_TIMEOUT}"
  shows "\<exists>rsp. exchanged deser cmd request s s' rsp \<and> status = good rsp \<and> data = response_data rsp \<and> length request \<le> SEND_BUF_SIZE"
proof -
  from assms(3,4) obtain rsp where rsp: "er = (ERROR_NONE, Some rsp)" "response_error rsp = ERROR_NONE" "status = good rsp" "data = response_data rsp"
    by (cases er) (auto simp: gk_answer_def split: option.splits if_splits)
  from assms(1) rsp(1) obtain rc payload where c: "trusty_gatekeeper_call k cmd request RECV_BUF_SIZE s = Some (rc, payload, s')"
    "\<not> rc < 0" "map_prod id Some (deser payload) = (ERROR_NONE, Some rsp)" and len: "length request \<le> SEND_BUF_SIZE"
    by (auto simp: gk_Send_def bind_eq_Some_conv split: if_splits)
  have d: "deser payload = (ERROR_NONE, rsp)" using c(3) by (cases "deser payload") simp
  have "0 \<le> rc" using c(2) by simp
  from gatekeeper_call_ok [OF c(1) assms(2) this] d rsp len show ?thesis unfolding exchanged_def by blast
qed

lemma gk_answer_failure:
  assumes "gk_answer good er = (status, timeout, data)" "status \<in> {ERROR_GENERAL_FAILURE, ERROR_RETRY_TIMEOUT}"
    and "\<And>r. good r \<noteq> ERROR_GENERAL_FAILURE" "\<And>r. good r \<noteq> ERROR_RETRY_TIMEOUT"
  shows "data = []"
  using assms(1,2) by (auto simp: gk_answer_def assms(3,4) split: option.splits if_splits)

lemma enroll_success:
  assumes "errno_positive k" "gk_enroll k ser deser uid h p d s = Some ((status, timeout, data), s')" "status = STATUS_OK \<or> data \<noteq> []"
  shows "gk_error s = 0 \<and> d \<noteq> [] \<and> status = STATUS_OK \<and>
      (\<exists>rsp. exchanged deser GK_ENROLL (ser uid (hidl_vec2sized_buffer h) (hidl_vec2sized_buffer d) (hidl_vec2sized_buffer p)) s s' rsp \<and>
        data = response_data rsp)"
proof -
  have g: "gk_error s = 0" "d \<noteq> []" using assms(2,3) by (auto simp: gk_enroll_def split: if_splits)
  with assms(2) obtain er where er: "gk_Send k deser GK_ENROLL (ser uid (hidl_vec2sized_buffer h) (hidl_vec2sized_buffer d) (hidl_vec2sized_buffer p)) s = Some (er, s')"
    "gk_answer (\<lambda>r. STATUS_OK) er = (status, timeout, data)"
    by (auto simp: gk_enroll_def bind_eq_Some_conv)
  have "status \<notin> {ERROR_GENERAL_FAILURE, ERROR_RETRY_TIMEOUT}" using gk_answer_failure [OF er(2)] assms(3) by auto
  from gk_answer_exchanged [OF er(1) assms(1) er(2) this] g show ?thesis by blast
qed

lemma verify_success:
  assumes "errno_positive k" "gk_verify k ser deser uid ch h p s = Some ((status, timeout, data), s')"
    and "status = STATUS_OK \<or> status = STATUS_REENROLL \<or> data \<noteq> []"
  shows "gk_error s = 0 \<and> h \<noteq> [] \<and>
      (\<exists>rsp. exchanged deser GK_VERIFY (ser uid ch (hidl_vec2sized_buffer h) (hidl_vec2sized_buffer p)) s s' rsp \<and>
        data = response_data rsp \<and> status = (if request_reenroll rsp then STATUS_REENROLL else STATUS_OK))"
proof -
  let ?good = "\<lambda>r. if request_reenroll r then STATUS_REENROLL else STATUS_OK"
  have g: "gk_error s = 0" "h \<noteq> []" using assms(2,3) by (auto simp: gk_verify_def split: if_splits)
  with assms(2) obtain er where er: "gk_Send k deser GK_VERIFY (ser uid ch (hidl_vec2sized_buffer h) (hidl_vec2sized_buffer p)) s = Some (er, s')"
    "gk_answer ?good er = (status, timeout, data)"
    by (auto simp: gk_verify_def bind_eq_Some_conv)
  have "?good r \<noteq> ERROR_GENERAL_FAILURE" "?good r \<noteq> ERROR_RETRY_TIMEOUT" for r by simp_all
  from gk_answer_failure [OF er(2) _ this] assms(3)
  have "status \<notin> {ERROR_GENERAL_FAILURE, ERROR_RETRY_TIMEOUT}" by auto
  from gk_answer_exchanged [OF er(1) assms(1) er(2) this] g show ?thesis by blast
qed

text \<open>C28. A password is accepted only on the word of the secure world: enrolling answers success,
  or any data, and verifying answers success or a request to enroll again, or any data, only
  when the device is connected and the required argument is not empty, exactly one message
  with the request was written, and the last call read an answer that carries the code of this
  command and is a response without error; the data are those of that response, and the
  request to enroll again is the one it contains.\<close>

theorem gatekeeper_success:
  assumes "errno_positive k"
  shows "(gk_enroll k ser deser uid h p d s = Some ((status, timeout, data), s') \<and> (status = STATUS_OK \<or> data \<noteq> []) \<longrightarrow>
      gk_error s = 0 \<and> d \<noteq> [] \<and> status = STATUS_OK \<and>
      (\<exists>rsp. exchanged deser GK_ENROLL (ser uid (hidl_vec2sized_buffer h) (hidl_vec2sized_buffer d) (hidl_vec2sized_buffer p)) s s' rsp \<and>
        data = response_data rsp)) \<and>
    (gk_verify k vser deser uid ch h p s = Some ((status, timeout, data), s') \<and>
      (status = STATUS_OK \<or> status = STATUS_REENROLL \<or> data \<noteq> []) \<longrightarrow>
      gk_error s = 0 \<and> h \<noteq> [] \<and>
      (\<exists>rsp. exchanged deser GK_VERIFY (vser uid ch (hidl_vec2sized_buffer h) (hidl_vec2sized_buffer p)) s s' rsp \<and>
        data = response_data rsp \<and> status = (if request_reenroll rsp then STATUS_REENROLL else STATUS_OK)))"
  by (rule conjI; rule impI; elim conjE; rule enroll_success [OF assms] verify_success [OF assms]; assumption)

text \<open>A secure world that verifies every password.\<close>

definition verifying :: kernel where
  "verifying h c = (case c of Read fd n \<Rightarrow> ret_data (put_u32 3) | _ \<Rightarrow> ret 0)"

definition token_response :: gk_response where
  "token_response = \<lparr>response_error = ERROR_NONE, retry_timeout = 0, response_data = [42], request_reenroll = False\<rparr>"

definition gk_connected :: gk where
  "gk_connected = \<lparr>hist = [], errno = 0, gk_handle = 5, gk_error = 0\<rparr>"

theorem gatekeeper_success_witness:
  "\<exists>s' rsp. gk_verify verifying (\<lambda>uid ch h p. p) (\<lambda>bs. (ERROR_NONE, token_response)) 10 0 [1] [2] gk_connected = Some ((STATUS_OK, 0, [42]), s') \<and>
     exchanged (\<lambda>bs. (ERROR_NONE, token_response)) GK_VERIFY [2] gk_connected s' rsp"
proof -
  have "errno_positive verifying"
    by (auto simp: errno_positive_def verifying_def answer_defs split: syscall.splits)
  note g = mp [OF conjunct2 [OF gatekeeper_success [OF this, where vser = "\<lambda>uid ch h p. p" and deser = "\<lambda>bs. (ERROR_NONE, token_response)"
      and uid = 10 and ch = 0 and h = "[1]" and p = "[2]" and s = gk_connected and status = STATUS_OK and timeout = 0 and data = "[42]"]]]
  obtain s' where s': "gk_verify verifying (\<lambda>uid ch h p. p) (\<lambda>bs. (ERROR_NONE, token_response)) 10 0 [1] [2] gk_connected = Some ((STATUS_OK, 0, [42]), s')"
    using get_put_u32 [of 3 "[]"]
    by (simp add: gk_verify_def gk_Send_def trusty_gatekeeper_call_def verifying_def sys_def Let_def answer_defs gk_connected_def
        hidl_vec2sized_buffer_def gk_answer_def token_response_def GK_RESP_BIT_def)
  from g s' obtain rsp where "exchanged (\<lambda>bs. (ERROR_NONE, token_response)) GK_VERIFY (hidl_vec2sized_buffer [2]) gk_connected s' rsp"
    by blast
  moreover have "hidl_vec2sized_buffer [2] = [2]" by (simp add: hidl_vec2sized_buffer_def)
  ultimately show ?thesis using s' by metis
qed

section \<open>The connection\<close>

interpretation gatekeeper_client: tipc_client trusty_gatekeeper_connect trusty_gatekeeper_disconnect gk_handle hist "\<lambda>s. True" "\<lambda>s. gk_handle s \<noteq> 0"
proof unfold_locales
  fix s s' :: gk and k rc
  assume c: "trusty_gatekeeper_connect k s = (rc, s')"
  obtain r s1 where 1: "tipc_connect k gk_device GATEKEEPER_PORT s = (r, s1)" by fastforce
  have *: "(if r < 0 then (r, s1) else (0, s1\<lparr>gk_handle := r\<rparr>)) = (rc, s')"
    using c by (simp only: trusty_gatekeeper_connect_def 1 Let_def prod.case)
  then show "rc \<le> 0" by (simp split: if_splits)
  have more: "gk_handle s1 = gk_handle s" using tipc_connect_frame [OF 1] by (cases s; cases s1) simp
  assume "fresh_fds k"
  note fds = tipc_connect_open_fds [OF 1 this]
  show "open_fds (hist s') = open_fds (hist s) \<and> gk_handle s' = gk_handle s" if "rc < 0"
    using * fds that more by (cases "r < 0") auto
next
  fix s s' :: gk and k
  assume c: "trusty_gatekeeper_connect k s = (0, s')" and "fresh_fds k"
  obtain r s1 where 1: "tipc_connect k gk_device GATEKEEPER_PORT s = (r, s1)" by fastforce
  have *: "(if r < 0 then (r, s1) else (0, s1\<lparr>gk_handle := r\<rparr>)) = (0, s')"
    using c by (simp only: trusty_gatekeeper_connect_def 1 Let_def prod.case)
  note fds = tipc_connect_open_fds [OF 1 \<open>fresh_fds k\<close>]
  show "open_fds (hist s') = insert (gk_handle s') (open_fds (hist s)) \<and> gk_handle s' \<notin> open_fds (hist s) \<and> 0 \<le> gk_handle s'"
    using * fds by (cases "r < 0") auto
next
  fix s :: gk and k
  assume "gk_handle s \<noteq> 0"
  then show "open_fds (hist (trusty_gatekeeper_disconnect k s)) = open_fds (hist s) - {gk_handle s}"
    by (simp add: trusty_gatekeeper_disconnect_def tipc_close_def sys_def Let_def)
qed

text \<open>Creating and destroying the device leaks no descriptor, when descriptor 0 is in use.\<close>

lemma gk_device_balanced:
  assumes "fresh_fds k" "0 \<in> open_fds (hist s)" "gk_handle s = 0"
  shows "open_fds (hist (gk_destructor k (TrustyGateKeeperDevice k s))) = open_fds (hist s)"
proof -
  obtain rc s1 where 1: "trusty_gatekeeper_connect k s = (rc, s1)" by fastforce
  let ?s = "s1\<lparr>gk_error := rc\<rparr>"
  have d: "hist (trusty_gatekeeper_disconnect k ?s) = hist (trusty_gatekeeper_disconnect k s1)"
    by (simp add: trusty_gatekeeper_disconnect_def tipc_close_def sys_def Let_def)
  show ?thesis
  proof (cases "rc < 0")
    case True
    with gatekeeper_client.connect_fail [OF _ assms(1) 1] assms(3) show ?thesis
      by (simp add: gk_destructor_def TrustyGateKeeperDevice_def 1 trusty_gatekeeper_disconnect_def)
  next
    case False
    then have "rc = 0" using gatekeeper_client.connect_answer [OF _ 1] by simp
    with gatekeeper_client.connect_ok [OF _ assms(1), of s s1] 1 assms(2) have "gk_handle s1 \<noteq> 0" by auto
    with gatekeeper_client.session_balanced [OF _ assms(1) 1] False d show ?thesis
      by (simp add: gk_destructor_def TrustyGateKeeperDevice_def 1)
  qed
qed

end
