(* ===== verification/Teec_Device.thy ===== *)
theory Teec_Device
  imports Teec_Invoke
begin

text \<open>
  An example device for the clients of the library: the calls by which a client is connected
  succeed, the heap gives out address 8192 and mappings start at 65536.
\<close>

definition device_kernel :: kernel where
  "device_kernel h c = (case c of
       Open path fl m \<Rightarrow> ret 7
     | Ioctl fd TEE_IOC_VERSION \<Rightarrow> \<lparr>sr_rc = 0, sr_err = 0, sr_out = put_u32 1 @ put_u32 0 @ put_u32 1\<rparr>
     | Ioctl fd (TEE_IOC_SHM_ID p) \<Rightarrow> ret 5
     | Mmap n fd \<Rightarrow> ret 65536
     | Malloc n \<Rightarrow> ret 8192
     | _ \<Rightarrow> ret 0)"

lemma device_calls [simp]:
  "device_kernel h (Open path fl m) = ret 7" "device_kernel h (Mmap n fd) = ret 65536" "device_kernel h (Malloc n) = ret 8192"
  "device_kernel h (Ioctl fd TEE_IOC_VERSION) = \<lparr>sr_rc = 0, sr_err = 0, sr_out = put_u32 1 @ put_u32 0 @ put_u32 1\<rparr>"
  "device_kernel h (Ioctl fd (TEE_IOC_SHM_ID p)) = ret 5" "device_kernel h (Ioctl fd (TEE_IOC_OPEN_SESSION buf)) = ret 0"
  "device_kernel h (Ioctl fd (TEE_IOC_INVOKE buf)) = ret 0" "device_kernel h (Ioctl fd (TEE_IOC_SET_HOSTNAME nm)) = ret 0"
  "device_kernel h (Ioctl fd (TEE_IOC_SHM_RELEASE i)) = ret 0" "device_kernel h (Ioctl fd (TEE_IOC_CLOSE_SESSION j)) = ret 0"
  "device_kernel h (Munmap q n) = ret 0" "device_kernel h (Close fd) = ret 0"
  by (simp_all add: device_kernel_def)

text \<open>The same device when nothing can be mapped.\<close>

definition full_kernel :: kernel where
  "full_kernel h c = (case c of Mmap n fd \<Rightarrow> fail ENOMEM | _ \<Rightarrow> device_kernel h c)"

lemma full_calls [simp]: "full_kernel h (Mmap n fd) = fail ENOMEM" "full_kernel h (Open path fl m) = ret 7"
  "full_kernel h (Ioctl fd q) = device_kernel h (Ioctl fd q)" "full_kernel h (Close fd) = ret 0"
  by (simp_all add: full_kernel_def)

text \<open>A kernel that connects, and an application that is silent until it is given a command.\<close>

definition connects :: "kernel \<Rightarrow> bool" where
  "connects k \<longleftrightarrow> (\<forall>h path fl m. k h (Open path fl m) = ret 7) \<and> (\<forall>h fd q. k h (Ioctl fd q) = device_kernel h (Ioctl fd q))"

lemma connects_device: "connects device_kernel" "connects full_kernel"
  by (simp_all add: connects_def)

definition quiet :: "secure_world \<Rightarrow> bool" where
  "quiet w \<longleftrightarrow> (\<forall>h fd buf. w h (Ioctl fd (TEE_IOC_OPEN_SESSION buf)) = [])"

lemma mem_read_write_prefix:
  "length bs \<le> n \<Longrightarrow> mem_read p n (mem_write p bs h) = bs @ mem_read (p + length bs) (n - length bs) h"
  by (rule nth_equalityI) (auto simp: mem_read_def mem_write_def nth_append)

lemma get_params_invoke: "length ps = 4 \<Longrightarrow> get_params 24 (put_invoke_arg a @ put_params ps) = ps"
  using get_params_put_params [of ps "put_invoke_arg a"] by simp

lemma device_initialize:
  assumes "connects k" "ctx \<noteq> 0"
  shows "\<exists>s'. TEEC_InitializeContext k False (Some name) ctx s = (TEEC_SUCCESS, s') \<and> contexts s' ctx = \<lparr>ctx_fd = 7\<rparr> \<and>
     contextMap s' = map_insert ctx (contextMap s) \<and> sessionMap s' = sessionMap s \<and> mem s' = mem s \<and> teec_mutex s' = teec_mutex s \<and>
     shms s' = shms s"
  using assms
  by (simp add: TEEC_InitializeContext_def init_context_loop.simps teec_open_dev_def sys_def Let_def ret_def choose_hostname_def
      has_flag_def connects_def get_put_u32 [of _ "[]", simplified])

lemma device_open_session:
  assumes "contexts s ctx = \<lparr>ctx_fd = 7\<rparr>" "connects k" "quiet w" "ctx \<noteq> 0" "ses \<noteq> 0" "length (uuid_to_octets u) = 16"
  shows "\<exists>s'. TEEC_OpenSession k w ctx ses (Some u) TEEC_LOGIN_PUBLIC 0 0 eo s = Some (TEEC_SUCCESS, s') \<and>
     sessionMap s' = map_insert ses (sessionMap s) \<and> sessions s' ses = \<lparr>sess_ctx = ctx, session_id = 0\<rparr> \<and>
     contexts s' = contexts s \<and> contextMap s' = contextMap s \<and> mem s' = mem s \<and> teec_mutex s' = teec_mutex s \<and> shms s' = shms s"
  using assms
  by (simp add: TEEC_OpenSession_def login_error_def teec_pre_process_operation_def Let_def tee_call_def sys_def quiet_def
        connects_def ret_def teec_post_process_operation_def teec_free_temp_refs_def set_origin_def)

end
