(* ===== verification/Teec_Calls.thy ===== *)
theory Teec_Calls
  imports Teec_Invoke
begin

text \<open>
  The history of calls that the functions of the library leave behind: they extend it, and a
  command that does not fail has been given to the driver and answered by it.
\<close>

definition grows :: "teec \<Rightarrow> teec \<Rightarrow> bool" where
  "grows s s' \<longleftrightarrow> (\<exists>es. hist s' = hist s @ es)"

lemma grows_refl [simp, intro]: "grows s s"
  by (simp add: grows_def)

lemma grows_trans [trans]: "grows s s1 \<Longrightarrow> grows s1 s2 \<Longrightarrow> grows s s2"
  by (auto simp: grows_def)

lemma grows_only_calls: "only_calls s s' \<Longrightarrow> grows s s'"
  by (simp add: grows_def only_callsD)

lemma initialize_grows:
  assumes "TEEC_InitializeContext k g name ctx s = (res, s')"
  shows "grows s s'"
proof -
  have "grows s s'" if "init_context_loop k g name ctx n s = (res, s')" for n s
    using that
  proof (induction k g name ctx n s rule: init_context_loop.induct)
    case (1 k g name ctx n s)
    obtain fd s1 where o: "teec_open_dev k g (dev_name n) name s = (fd, s1)" by fastforce
    have "grows s s1" using teec_open_dev_only_calls [OF o] by (rule grows_only_calls)
    with 1(1) [OF _ o [symmetric] refl] 1(2) show ?case
      by (auto simp: init_context_loop.simps [of _ _ _ _ n] o grows_def split: if_splits)
  qed
  with assms show ?thesis by (auto simp: TEEC_InitializeContext_def split: if_splits)
qed

lemma open_session_grows:
  assumes "TEEC_OpenSession k w ctx session dest meth data 0 eo s = Some (res, s')"
  shows "grows s s'"
  using assms
  by (cases dest) (auto simp: TEEC_OpenSession_def Let_def teec_pre_process_operation_def teec_post_process_operation_def teec_free_temp_refs_def
      set_origin_def tee_call_def sys_def grows_def split: if_splits option.splits)

lemma register_grows: "grows s (snd (TEEC_RegisterSharedMemory k ctx shm s))"
  by (auto simp: TEEC_RegisterSharedMemory_def register_shm_def mmap_def teec_shm_get_id_def sys_def Let_def grows_def)

lemma release_grows: "grows s (TEEC_ReleaseSharedMemory k shm s)"
  by (auto simp: TEEC_ReleaseSharedMemory_def grows_def split: prod.splits dest!: only_calls_release simp: only_calls_def)

lemma close_session_grows: "TEEC_CloseSession k session s = Some s' \<Longrightarrow> grows s s'"
  by (auto simp: TEEC_CloseSession_def ut_close_session_def Let_def sys_def grows_def split: if_splits)

lemma finalize_sessions_grows: "finalize_sessions k ctx i s = Some s' \<Longrightarrow> grows s s'"
proof (induction k ctx i s rule: finalize_sessions.induct)
  case (1 k ctx i s)
  let ?p = "sessionMap s ! i"
  show ?case
  proof (cases "\<not> length (sessionMap s) \<le> i \<and> sess_ctx (sessions s ?p) = ctx")
    case True
    with 1(3) obtain s1 where s1: "ut_close_session k ?p s = Some s1"
      by (auto simp: finalize_sessions.simps [of k ctx i] Let_def split: option.splits)
    let ?s2 = "s1\<lparr>sessionMap := take i (sessionMap s) @ drop (Suc i) (sessionMap s)\<rparr>"
    from 1(3) True s1 have rest: "i \<noteq> length (sessionMap ?s2)" "finalize_sessions k ctx (Suc i) ?s2 = Some s'"
      by (auto simp: finalize_sessions.simps [of k ctx i] Let_def split: if_splits)
    have "grows s ?s2" using s1 by (auto simp: ut_close_session_def Let_def sys_def grows_def split: if_splits)
    also have "grows ?s2 s'" using 1(1) [OF _ refl _ s1 refl] True rest by simp
    finally show ?thesis .
  next
    case False
    with 1 show ?thesis by (auto simp: finalize_sessions.simps [of k ctx i] Let_def split: if_splits)
  qed
qed

lemma finalize_grows: "TEEC_FinalizeContext k ctx s = Some s' \<Longrightarrow> grows s s'"
  by (auto simp: TEEC_FinalizeContext_def bind_eq_Some_conv ut_close_fd_def sys_def Let_def grows_def dest!: finalize_sessions_grows
      split: if_splits)

text \<open>A command that succeeds has been given to the driver, which answered it.\<close>

definition invoked :: "u32 \<Rightarrow> event list \<Rightarrow> bool" where
  "invoked cmd es \<longleftrightarrow> (\<exists>fd sid ps r. (Ioctl fd (TEE_IOC_INVOKE (put_invoke_arg
     \<lparr>ia_func = cmd, ia_session = sid, ia_cancel_id = 0, ia_ret = 0, ia_ret_origin = 0, ia_num_params = 4\<rparr> @ put_params ps)), r) \<in> set es \<and>
     sr_rc r = 0)"

lemma pre_param_result:
  assumes "pre_process_param k ctx t p param shm s = Some (res, param', shm', s')"
  shows "res \<in> {TEEC_SUCCESS, TEEC_ERROR_BAD_PARAMETERS, TEEC_ERROR_OUT_OF_MEMORY}"
  using assms
  by (auto simp: pre_process_param_def teec_pre_process_tmpref_def teec_pre_process_whole_def teec_pre_process_partial_def
      allocate_shm_def Let_def bind_eq_Some_conv split: if_splits option.splits prod.splits)

lemma pre_loop_result:
  "pre_process_loop k ctx oper ns params shm s = Some (res, params', shm', s') \<Longrightarrow>
   res \<in> {TEEC_SUCCESS, TEEC_ERROR_BAD_PARAMETERS, TEEC_ERROR_OUT_OF_MEMORY}"
proof (induction ns arbitrary: params shm s)
  case (Cons n ns)
  then obtain r p m s1 where r: "pre_process_param k ctx (TEEC_PARAM_TYPE_GET (paramTypes oper) n)
      (op_params oper ! n) (params ! n) (shm ! n) s = Some (r, p, m, s1)"
    by (auto simp: bind_eq_Some_conv)
  show ?case
  proof (cases "r = TEEC_SUCCESS")
    case True
    with Cons r show ?thesis by simp
  next
    case False
    with Cons.prems pre_param_result [OF r] r show ?thesis by auto
  qed
qed simp

lemma negative_results: "sint TEEC_ERROR_BAD_PARAMETERS < 0" "sint TEEC_ERROR_OUT_OF_MEMORY < 0" "sint TEEC_ERROR_GENERIC < 0"
  by code_simp+

lemma pre_operation_result:
  assumes "teec_pre_process_operation k ctx operation params s = Some (res, params', shm, s')"
  shows "res = TEEC_SUCCESS \<or> sint res < 0"
  using assms by (auto simp: teec_pre_process_operation_def Let_def split: if_splits dest!: pre_loop_result)

lemma ioctl_errno_negative: "sint (ioctl_errno_to_res e) < 0"
  using negative_results by (simp add: ioctl_errno_to_res_def)

lemma invoke_success_invoked:
  assumes "TEEC_InvokeCommand k w session cmd operation eo s = Some (res, s')" "0 \<le> sint res" "session \<noteq> 0"
  shows "\<exists>es. hist s' = hist s @ es \<and> invoked cmd es"
proof -
  from assms obtain s1 res2 params shm s2 where
    s1: "store_op_session operation session s = Some s1"
    and s2: "teec_pre_process_operation k (sess_ctx (sessions s1 session)) operation
      (replicate TEEC_CONFIG_PAYLOAD_REF_COUNT zero_param) s1 = Some (res2, params, shm, s2)"
    unfolding TEEC_InvokeCommand_def Let_def by (auto split: bind_splits)
  let ?q = "Ioctl (ctx_fd (contexts s2 (sess_ctx (sessions s1 session)))) (TEE_IOC_INVOKE (put_invoke_arg \<lparr>ia_func = cmd,
    ia_session = session_id (sessions s session), ia_cancel_id = 0, ia_ret = 0, ia_ret_origin = 0, ia_num_params = 4\<rparr> @ put_params params))"
  obtain r s3 where c: "tee_call k w ?q s2 = (r, s3)" by fastforce
  have no: "res \<noteq> ioctl_errno_to_res e" for e using ioctl_errno_negative [of e] assms(2) by auto
  have "res2 = TEEC_SUCCESS"
    using assms s1 s2 pre_operation_result [OF s2] unfolding TEEC_InvokeCommand_def Let_def by (auto split: if_splits)
  with assms s1 s2 c no obtain ps s4 v where r: "sr_rc r = 0" "teec_post_process_operation operation ps shm s3 = Some s4"
    "s' = set_origin eo v (teec_free_temp_refs k operation shm s4)"
    unfolding TEEC_InvokeCommand_def Let_def by (auto split: bind_splits if_splits)
  have h3: "hist s3 = hist s2 @ [(?q, r)]" using c by (auto simp: tee_call_def sys_def Let_def)
  obtain es2 where "hist s2 = hist s1 @ es2" using pre_operation_frame [OF s2] by (auto dest: calls_and_memD)
  moreover have "hist s1 = hist s" using store_op_session_frame [OF s1] by simp
  moreover obtain es4 where "hist s4 = hist s3 @ es4" using post_operation_frame [OF r(2)] by (auto simp: writes_def)
  moreover obtain es5 where "hist s' = hist s4 @ es5"
    using only_callsD(10) [OF free_temp_refs_only_calls, of k operation shm s4] r(3) by (auto simp: set_origin_def split: if_splits)
  ultimately have "hist s' = hist s @ es2 @ [(?q, r)] @ es4 @ es5" using h3 by simp
  moreover have "invoked cmd (es2 @ [(?q, r)] @ es4 @ es5)" unfolding invoked_def using r(1) by fastforce
  ultimately show ?thesis by blast
qed

lemma invoked_later:
  assumes "grows s s1" "hist s2 = hist s1 @ es" "invoked cmd es" "grows s2 s3"
  shows "\<exists>es. hist s3 = hist s @ es \<and> invoked cmd es"
proof -
  from assms(1,4) obtain es1 es3 where "hist s1 = hist s @ es1" "hist s3 = hist s2 @ es3" by (auto simp: grows_def)
  moreover have "invoked cmd (es1 @ es @ es3)" using assms(3) unfolding invoked_def by fastforce
  ultimately show ?thesis using assms(2) by (intro exI [of _ "es1 @ es @ es3"]) simp
qed

lemma invoke_grows:
  assumes "TEEC_InvokeCommand k w session cmd operation eo s = Some (res, s')"
  shows "grows s s'"
proof (cases "session = 0")
  case False
  from invoke_shape [OF assms False] obtain s1 res2 params shm s2 sx v where
    s1: "store_op_session operation session s = Some s1"
    and s2: "teec_pre_process_operation k (sess_ctx (sessions s1 session)) operation
        (replicate TEEC_CONFIG_PAYLOAD_REF_COUNT zero_param) s1 = Some (res2, params, shm, s2)"
    and sx: "exchange k w operation shm s2 sx"
    and s': "s' = set_origin eo v (teec_free_temp_refs k operation shm sx)"
    by metis
  have "grows s s1" using store_op_session_frame [OF s1] by (simp add: grows_def)
  also have "grows s1 s2" using pre_operation_frame [OF s2] by (auto simp: grows_def dest: calls_and_memD)
  also have "grows s2 sx" using exchange_frame [OF sx] by (auto simp: grows_def writes_def)
  also have "grows sx s'"
    using only_callsD(10) [OF free_temp_refs_only_calls, of k operation shm sx] s' by (auto simp: set_origin_def grows_def)
  finally show ?thesis .
qed (use assms in \<open>auto simp: TEEC_InvokeCommand_def set_origin_def grows_def\<close>)

lemma sys_grows: "grows s (snd (sys k c s))"
  by (simp add: grows_def sys_def Let_def)

end
