(* ===== verification/Ut_Gatekeeper.thy ===== *)
theory Ut_Gatekeeper
  imports Teec_Device Teec_Calls
begin

text \<open>
  The gatekeeper of the 400 variant (\<open>400/gatekeeper/ut_gatekeeper.cpp\<close>), a client of the TEE
  client library: requests and responses are packed structures in one transfer buffer that is
  registered as shared memory for a single command. Passwords and handles are given by their
  bytes, \<open>None\<close> standing for \<open>NULL\<close>; the objects that the library is passed by pointer have
  the addresses \<open>loc\<close>. \<open>None\<close> as a result is undefined behaviour: a copy from behind the end of
  the transfer buffer, or what is undefined in the library.
\<close>

section \<open>The transfer buffer\<close>

definition CMD_ID_ENROLL :: u8 where [simp]: "CMD_ID_ENROLL = 1"
definition CMD_ID_VARIFY :: u8 where [simp]: "CMD_ID_VARIFY = 2"
definition CMD_ID_DELETE_USER :: u8 where [simp]: "CMD_ID_DELETE_USER = 3"
definition CMD_ID_DELETE_ALL_USERS :: u8 where [simp]: "CMD_ID_DELETE_ALL_USERS = 4"
definition GATEKEEPER_BUFF_SIZE :: nat where [simp]: "GATEKEEPER_BUFF_SIZE = 4096"
definition GK_COMMAND_MAGIC :: u32 where [simp]: "GK_COMMAND_MAGIC = 0x51"

text \<open>\<open>sizeof (password_handle_t)\<close>, packed: version, user, flags, salt, signature, a flag.\<close>

definition PASSWORD_HANDLE_SIZE :: nat where [simp]: "PASSWORD_HANDLE_SIZE = 1 + 8 + 8 + 8 + 32 + 1"

datatype ut_gatekeeper_error =
  UT_ERROR_NONE | UT_ERROR_INVALID | UT_ERROR_RETRY | UT_ERROR_UNKNOWN | UT_ERROR_PASSWORD_WRONG
  | UT_ERROR_UID_NOTFOUND | UT_ERROR_CMD_WRONG

fun ut_error_code :: "ut_gatekeeper_error \<Rightarrow> u32" where
  "ut_error_code UT_ERROR_NONE = 0"
| "ut_error_code UT_ERROR_INVALID = 1"
| "ut_error_code UT_ERROR_RETRY = 2"
| "ut_error_code UT_ERROR_UNKNOWN = 3"
| "ut_error_code UT_ERROR_PASSWORD_WRONG = 4"
| "ut_error_code UT_ERROR_UID_NOTFOUND = 5"
| "ut_error_code UT_ERROR_CMD_WRONG = 6"

text \<open>
  \<open>ut_gk_struct_t\<close>: command, user, and a union of sixteen bytes; \<open>sizeof\<close> is 21. The rest of
  the buffer is zero, since it comes from \<open>calloc\<close>.
\<close>

definition UT_GK_STRUCT_SIZE :: nat where [simp]: "UT_GK_STRUCT_SIZE = 1 + 4 + 16"

definition fill :: "bytes \<Rightarrow> bytes" where
  "fill bs = bs @ replicate (GATEKEEPER_BUFF_SIZE - length bs) 0"

definition ut_gk_struct :: "u8 \<Rightarrow> u32 \<Rightarrow> bytes \<Rightarrow> bytes" where
  "ut_gk_struct cmd uid args = [cmd] @ put_u32 uid @ args @ replicate (16 - length args) 0"

definition ut_gk_enroll_args :: "u32 \<Rightarrow> u32 \<Rightarrow> u32 \<Rightarrow> bytes" where
  "ut_gk_enroll_args handle_len password_len desired_len = put_u32 handle_len @ put_u32 password_len @ put_u32 desired_len"

definition ut_gk_verify_args :: "u64 \<Rightarrow> u32 \<Rightarrow> u32 \<Rightarrow> bytes" where
  "ut_gk_verify_args challenge handle_len password_len = put_u64 challenge @ put_u32 handle_len @ put_u32 password_len"

definition enroll_buffer :: "u32 \<Rightarrow> bytes \<Rightarrow> bytes \<Rightarrow> bytes \<Rightarrow> bytes" where
  "enroll_buffer uid handle password desired =
     fill (ut_gk_struct CMD_ID_ENROLL uid
        (ut_gk_enroll_args (of_nat (length handle)) (of_nat (length password)) (of_nat (length desired))) @
        handle @ password @ desired)"

definition verify_buffer :: "u32 \<Rightarrow> u64 \<Rightarrow> bytes \<Rightarrow> bytes \<Rightarrow> bytes" where
  "verify_buffer uid challenge handle password =
     fill (ut_gk_struct CMD_ID_VARIFY uid
        (ut_gk_verify_args challenge (of_nat (length handle)) (of_nat (length password))) @ handle @ password)"

section \<open>One exchange with the application\<close>

record gk_locals =
  loc_context :: ptr
  loc_session :: ptr
  loc_operation :: ptr
  loc_sharedmem :: ptr
  loc_origin :: ptr

definition gk_uuid :: TEEC_UUID where
  "gk_uuid = \<lparr>timeLow = 0xc1882f2d, timeMid = 0x885e, timeHiAndVersion = 0x4e13,
     clockSeqAndNode = [0xa8, 0xc8, 0xe2, 0x62, 0x24, 0x61, 0xb2, 0xfa]\<rparr>"

definition zero_parameter :: TEEC_Parameter where
  "zero_parameter = \<lparr>tmpref = \<lparr>tmp_buffer = 0, tmp_size = 0\<rparr>, memref = \<lparr>ref_parent = 0, ref_size = 0, ref_offset = 0\<rparr>,
     value_ab = \<lparr>val_a = 0, val_b = 0\<rparr>\<rparr>"

definition gk_operation :: "ptr \<Rightarrow> TEEC_Operation" where
  "gk_operation sharedmem =
     \<lparr>started = 1, paramTypes = TEEC_PARAM_TYPES TEEC_MEMREF_WHOLE TEEC_NONE TEEC_NONE TEEC_NONE,
      op_params = zero_parameter\<lparr>memref := \<lparr>ref_parent = sharedmem, ref_size = of_nat GATEKEEPER_BUFF_SIZE, ref_offset = 0\<rparr>\<rparr> #
        replicate 3 zero_parameter,
      op_session = 0\<rparr>"

text \<open>From the registration of the buffer to its release (labels \<open>release_4\<close> and \<open>release_3\<close>).\<close>

definition gk_command :: "kernel \<Rightarrow> secure_world \<Rightarrow> gk_locals \<Rightarrow> ptr \<Rightarrow> teec \<Rightarrow> (TEEC_Result \<times> teec) option" where
  "gk_command k w l buff s =
     (let s1 = s\<lparr>shms := (shms s)(loc_sharedmem l := (shms s (loc_sharedmem l))
            \<lparr>shm_buffer := buff, shm_size := of_nat GATEKEEPER_BUFF_SIZE, shm_flags := TEEC_MEM_INPUT OR TEEC_MEM_OUTPUT\<rparr>)\<rparr>;
          (res, s2) = TEEC_RegisterSharedMemory k (loc_context l) (loc_sharedmem l) s1 in
      if res \<noteq> TEEC_SUCCESS then Some (res, s2)
      else do {
        (res2, s3) \<leftarrow> TEEC_InvokeCommand k w (loc_session l) GK_COMMAND_MAGIC (loc_operation l) 0
          (s2\<lparr>operations := (operations s2)(loc_operation l := gk_operation (loc_sharedmem l))\<rparr>);
        Some (res2, TEEC_ReleaseSharedMemory k (loc_sharedmem l) s3)
      })"

text \<open>When no session is opened, the context is finalized twice.\<close>

definition ut_gk_transfer_buff ::
  "kernel \<Rightarrow> secure_world \<Rightarrow> bool \<Rightarrow> gk_locals \<Rightarrow> ptr \<Rightarrow> teec \<Rightarrow> (bool \<times> teec) option" where
  "ut_gk_transfer_buff k w gptee l buff s =
     (if buff = 0 then Some (False, s)
      else
        let (res, s1) = TEEC_InitializeContext k gptee (Some (lit ''bta_loader'')) (loc_context l)
              (s\<lparr>contexts := (contexts s)(loc_context l := \<lparr>ctx_fd = 0\<rparr>),
                 sessions := (sessions s)(loc_session l := \<lparr>sess_ctx = 0, session_id = 0\<rparr>),
                 origins := (origins s)(loc_origin l := 0)\<rparr>) in
        if res \<noteq> TEEC_SUCCESS then Some (False, s1)
        else do {
          (res2, s2) \<leftarrow> TEEC_OpenSession k w (loc_context l) (loc_session l) (Some gk_uuid) TEEC_LOGIN_PUBLIC 0 0 (loc_origin l) s1;
          if res2 \<noteq> TEEC_SUCCESS then do {
            s3 \<leftarrow> TEEC_FinalizeContext k (loc_context l) s2;
            s4 \<leftarrow> TEEC_FinalizeContext k (loc_context l) s3;
            Some (False, s4)
          }
          else do {
            (res3, s3) \<leftarrow> gk_command k w l buff s2;
            s4 \<leftarrow> TEEC_CloseSession k (loc_session l) s3;
            s5 \<leftarrow> TEEC_FinalizeContext k (loc_context l) s4;
            Some (res3 = TEEC_SUCCESS, s5)
          }
        })"

section \<open>Requests\<close>

text \<open>
  \<open>calloc\<close> of the transfer buffer, the exchange, and what the buffer holds afterwards; \<open>None\<close>
  inside when there is no buffer or the exchange fails.
\<close>

definition gk_exchange ::
  "kernel \<Rightarrow> secure_world \<Rightarrow> bool \<Rightarrow> gk_locals \<Rightarrow> bytes \<Rightarrow> teec \<Rightarrow> (bytes option \<times> teec) option" where
  "gk_exchange k w gptee l request s =
     (let (m, s1) = sys k (Malloc GATEKEEPER_BUFF_SIZE) s in
      if sr_rc m \<le> 0 then Some (None, s1)
      else do {
        (ok, s2) \<leftarrow> ut_gk_transfer_buff k w gptee l (nat (sr_rc m)) (s1\<lparr>mem := mem_write (nat (sr_rc m)) request (mem s1)\<rparr>);
        Some (if ok then Some (mem_read (nat (sr_rc m)) GATEKEEPER_BUFF_SIZE (mem s2)) else None, s2)
      })"

text \<open>
  \<open>calloc\<close> of a result of \<open>n\<close> bytes that follow the header of the response, and the copy; an
  empty allocation succeeds.
\<close>

definition copy_out :: "kernel \<Rightarrow> nat \<Rightarrow> u32 \<Rightarrow> bytes \<Rightarrow> teec \<Rightarrow> (bytes option \<times> teec) option" where
  "copy_out k header n buf s =
     (let (m, s1) = sys k (Malloc (unat n)) s in
      if sr_rc m \<le> 0 then Some (None, s1)
      else if GATEKEEPER_BUFF_SIZE < header + unat n then None
      else Some (Some (take (unat n) (drop header buf)), s1))"

definition opt_bytes :: "bytes option \<Rightarrow> bytes" where
  "opt_bytes p = (case p of None \<Rightarrow> [] | Some bs \<Rightarrow> bs)"

text \<open>
  The answer of \<open>ut_gk_enroll\<close> and the handle it gives out. \<open>outs\<close>: both pointers for results
  are valid. The first test is for the longest password that is allowed, 99 bytes.
\<close>

definition ut_gk_enroll ::
  "kernel \<Rightarrow> secure_world \<Rightarrow> bool \<Rightarrow> gk_locals \<Rightarrow> bool \<Rightarrow> u32 \<Rightarrow> bytes option \<Rightarrow> bytes option \<Rightarrow> bytes option \<Rightarrow> teec \<Rightarrow>
    ((int \<times> bytes option) \<times> teec) option" where
  "ut_gk_enroll k w gptee l outs uid handle password desired s =
     (if 100 \<le> length (opt_bytes desired) then Some ((- 1, None), s)
      else if \<not> outs \<or> opt_bytes desired = [] then Some ((- 1, None), s)
      else
        let fresh = (opt_bytes handle = [] \<or> opt_bytes password = []);
            h = (if fresh then [] else opt_bytes handle);
            p = (if fresh then [] else opt_bytes password) in
        if \<not> fresh \<and> (length h \<noteq> PASSWORD_HANDLE_SIZE \<or> 100 \<le> length p) then Some ((- 1, None), s)
        else do {
          (resp, s1) \<leftarrow> gk_exchange k w gptee l (enroll_buffer uid h p (opt_bytes desired)) s;
          (case resp of
             None \<Rightarrow> Some ((- 1, None), s1)
           | Some buf \<Rightarrow>
               if get_u32 buf 0 = ut_error_code UT_ERROR_RETRY then Some ((sint (get_u32 buf 8), None), s1)
               else if get_u32 buf 0 \<noteq> ut_error_code UT_ERROR_NONE then Some ((- 1, None), s1)
               else do {
                 (res, s2) \<leftarrow> copy_out k 12 (get_u32 buf 4) buf s1;
                 Some (case res of None \<Rightarrow> (- 1, None) | Some bs \<Rightarrow> (0, Some bs), s2)
               })
        })"

text \<open>The answer of \<open>ut_gk_verify\<close>, and token and flag that it gives out.\<close>

definition ut_gk_verify ::
  "kernel \<Rightarrow> secure_world \<Rightarrow> bool \<Rightarrow> gk_locals \<Rightarrow> bool \<Rightarrow> u32 \<Rightarrow> u64 \<Rightarrow> bytes option \<Rightarrow> bytes option \<Rightarrow> teec \<Rightarrow>
    ((int \<times> (bytes \<times> bool) option) \<times> teec) option" where
  "ut_gk_verify k w gptee l outs uid challenge handle password s =
     (if opt_bytes handle = [] \<or> opt_bytes password = [] \<or> \<not> outs \<or> length (opt_bytes handle) \<noteq> PASSWORD_HANDLE_SIZE
      then Some ((- 1, None), s)
      else
        let p = (if 100 \<le> length (opt_bytes password) then take 17 (opt_bytes password) else opt_bytes password) in
        do {
          (resp, s1) \<leftarrow> gk_exchange k w gptee l (verify_buffer uid challenge (opt_bytes handle) p) s;
          (case resp of
             None \<Rightarrow> Some ((- 1, None), s1)
           | Some buf \<Rightarrow>
               if get_u32 buf 0 = ut_error_code UT_ERROR_RETRY then Some ((sint (get_u32 buf 9), None), s1)
               else if get_u32 buf 0 \<noteq> ut_error_code UT_ERROR_NONE then Some ((- 1, None), s1)
               else do {
                 (res, s2) \<leftarrow> copy_out k 13 (get_u32 buf 4) buf s1;
                 Some (case res of None \<Rightarrow> (- 1, None) | Some bs \<Rightarrow> (0, Some (bs, buf ! 8 \<noteq> 0)), s2)
               })
        })"

definition delete_answer :: "bytes option \<times> teec \<Rightarrow> int \<times> teec" where
  "delete_answer r =
     (case fst r of None \<Rightarrow> (- 1, snd r)
      | Some buf \<Rightarrow> (if get_u32 buf 0 \<noteq> ut_error_code UT_ERROR_NONE then - 1 else 0, snd r))"

definition ut_gk_delete_user ::
  "kernel \<Rightarrow> secure_world \<Rightarrow> bool \<Rightarrow> gk_locals \<Rightarrow> u32 \<Rightarrow> teec \<Rightarrow> (int \<times> teec) option" where
  "ut_gk_delete_user k w gptee l uid s =
     map_option delete_answer (gk_exchange k w gptee l (fill (ut_gk_struct CMD_ID_DELETE_USER uid [])) s)"

definition ut_gk_delete_all_users ::
  "kernel \<Rightarrow> secure_world \<Rightarrow> bool \<Rightarrow> gk_locals \<Rightarrow> teec \<Rightarrow> (int \<times> teec) option" where
  "ut_gk_delete_all_users k w gptee l s =
     map_option delete_answer (gk_exchange k w gptee l (fill (ut_gk_struct CMD_ID_DELETE_ALL_USERS 0 [])) s)"

section \<open>The hardware module\<close>

text \<open>\<open>hardware_gatekeeper\<close> is the name that \<open>hardware/gatekeeper.h\<close> defines.\<close>

definition ut_gk_open :: "kernel \<Rightarrow> bytes \<Rightarrow> bytes \<Rightarrow> 'a proc_scheme \<Rightarrow> int \<times> 'a proc_scheme" where
  "ut_gk_open k hardware_gatekeeper name s =
     (if name \<noteq> hardware_gatekeeper then (- EINVAL, s)
      else let (m, s1) = sys k (Malloc 1) s in if sr_rc m \<le> 0 then (- EFAULT, s1) else (0, s1))"

section \<open>What is asked and what is answered\<close>

text \<open>A buffer asks to verify: its fields, read at their offsets.\<close>

definition asks_verify :: "bytes \<Rightarrow> u32 \<Rightarrow> u64 \<Rightarrow> bytes \<Rightarrow> bytes \<Rightarrow> bool" where
  "asks_verify buf uid challenge handle password \<longleftrightarrow>
     length buf = GATEKEEPER_BUFF_SIZE \<and> buf ! 0 = CMD_ID_VARIFY \<and> get_u32 buf 1 = uid \<and> get_u64 buf 5 = challenge \<and>
     unat (get_u32 buf 13) = length handle \<and> unat (get_u32 buf 17) = length password \<and>
     take (length handle) (drop UT_GK_STRUCT_SIZE buf) = handle \<and>
     take (length password) (drop (UT_GK_STRUCT_SIZE + length handle) buf) = password"

definition asks_enroll :: "bytes \<Rightarrow> u32 \<Rightarrow> bytes \<Rightarrow> bytes \<Rightarrow> bytes \<Rightarrow> bool" where
  "asks_enroll buf uid handle password desired \<longleftrightarrow>
     length buf = GATEKEEPER_BUFF_SIZE \<and> buf ! 0 = CMD_ID_ENROLL \<and> get_u32 buf 1 = uid \<and>
     unat (get_u32 buf 5) = length handle \<and> unat (get_u32 buf 9) = length password \<and> unat (get_u32 buf 13) = length desired \<and>
     take (length handle) (drop UT_GK_STRUCT_SIZE buf) = handle \<and>
     take (length password) (drop (UT_GK_STRUCT_SIZE + length handle) buf) = password \<and>
     take (length desired) (drop (UT_GK_STRUCT_SIZE + length handle + length password) buf) = desired"

lemma get_Cons [simp]:
  "get_u32 (x # xs) (Suc n) = get_u32 xs n" "get_u32 (x # xs) (numeral m) = get_u32 xs (pred_numeral m)"
  "get_u64 (x # xs) (Suc n) = get_u64 xs n" "get_u64 (x # xs) (numeral m) = get_u64 xs (pred_numeral m)"
  by (simp_all add: get_u32_def get_u64_def numeral_eq_Suc)

lemma unat_length: "length xs \<le> 4096 \<Longrightarrow> unat (of_nat (length xs) :: u32) = length xs"
  by (simp add: unat_of_nat take_bit_nat_eq_self)

lemma verify_buffer_asks:
  assumes "length handle + length password \<le> 4000"
  shows "asks_verify (verify_buffer uid challenge handle password) uid challenge handle password"
proof -
  let ?b = "verify_buffer uid challenge handle password" and ?pad = "replicate (4096 - (21 + length handle + length password)) 0"
  have b: "?b = CMD_ID_VARIFY # put_u32 uid @ put_u64 challenge @ put_u32 (of_nat (length handle)) @ put_u32 (of_nat (length password)) @
      handle @ password @ ?pad"
    by (simp add: verify_buffer_def fill_def ut_gk_struct_def ut_gk_verify_args_def)
  have n: "unat (of_nat (length handle) :: u32) = length handle" "unat (of_nat (length password) :: u32) = length password"
    using assms by (simp_all add: unat_length)
  have l: "length ?b = GATEKEEPER_BUFF_SIZE" unfolding b using assms by simp
  have g: "get_u32 ?b 1 = uid" "get_u64 ?b 5 = challenge" "get_u32 ?b 13 = of_nat (length handle)" "get_u32 ?b 17 = of_nat (length password)"
    unfolding b One_nat_def by simp_all
  have d: "drop UT_GK_STRUCT_SIZE ?b = handle @ password @ ?pad" unfolding b by simp
  have d2: "drop (UT_GK_STRUCT_SIZE + length handle) ?b = password @ ?pad"
    using d by (simp add: add.commute flip: drop_drop)
  show ?thesis unfolding asks_verify_def using l g d d2 n by (simp add: b)
qed

lemma enroll_buffer_asks:
  assumes "length handle + length password + length desired \<le> 4000"
  shows "asks_enroll (enroll_buffer uid handle password desired) uid handle password desired"
proof -
  let ?b = "enroll_buffer uid handle password desired"
    and ?pad = "replicate (4096 - (21 + length handle + length password + length desired)) 0"
  have b: "?b = CMD_ID_ENROLL # put_u32 uid @ put_u32 (of_nat (length handle)) @ put_u32 (of_nat (length password)) @
      put_u32 (of_nat (length desired)) @ replicate 4 0 @ handle @ password @ desired @ ?pad"
    by (simp add: enroll_buffer_def fill_def ut_gk_struct_def ut_gk_enroll_args_def add.assoc)
  have n: "unat (of_nat (length handle) :: u32) = length handle" "unat (of_nat (length password) :: u32) = length password"
    "unat (of_nat (length desired) :: u32) = length desired"
    using assms by (simp_all add: unat_length)
  have l: "length ?b = GATEKEEPER_BUFF_SIZE" unfolding b using assms by simp
  have g: "get_u32 ?b 1 = uid" "get_u32 ?b 5 = of_nat (length handle)" "get_u32 ?b 9 = of_nat (length password)" "get_u32 ?b 13 = of_nat (length desired)"
    unfolding b One_nat_def by simp_all
  have d: "drop UT_GK_STRUCT_SIZE ?b = handle @ password @ desired @ ?pad" unfolding b by simp
  have d2: "drop (UT_GK_STRUCT_SIZE + length handle) ?b = password @ desired @ ?pad"
    using d by (simp add: add.commute flip: drop_drop)
  have d3: "drop (UT_GK_STRUCT_SIZE + length handle + length password) ?b = desired @ ?pad"
    using d2 by (simp add: add.commute flip: drop_drop)
  show ?thesis unfolding asks_enroll_def using l g d d2 d3 n by (simp add: b)
qed

section \<open>Calls of an exchange\<close>

lemma gk_command_invoked:
  assumes "gk_command k w l buff s = Some (TEEC_SUCCESS, s')" "loc_session l \<noteq> 0"
  shows "\<exists>es. hist s' = hist s @ es \<and> invoked GK_COMMAND_MAGIC es"
proof -
  let ?s1 = "s\<lparr>shms := (shms s)(loc_sharedmem l := (shms s (loc_sharedmem l))
            \<lparr>shm_buffer := buff, shm_size := of_nat GATEKEEPER_BUFF_SIZE, shm_flags := TEEC_MEM_INPUT OR TEEC_MEM_OUTPUT\<rparr>)\<rparr>"
  obtain res s2 where reg: "TEEC_RegisterSharedMemory k (loc_context l) (loc_sharedmem l) ?s1 = (res, s2)" by fastforce
  let ?s2 = "s2\<lparr>operations := (operations s2)(loc_operation l := gk_operation (loc_sharedmem l))\<rparr>"
  from assms(1) reg consider (no) "res \<noteq> TEEC_SUCCESS" "TEEC_SUCCESS = res"
    | (yes) s3 where "TEEC_InvokeCommand k w (loc_session l) GK_COMMAND_MAGIC (loc_operation l) 0 ?s2 = Some (TEEC_SUCCESS, s3)"
    "s' = TEEC_ReleaseSharedMemory k (loc_sharedmem l) s3"
    unfolding gk_command_def Let_def reg prod.case by (auto simp: bind_eq_Some_conv split: if_splits)
  then show ?thesis
  proof cases
    case yes
    have "grows s ?s2" using register_grows [of ?s1 k "loc_context l" "loc_sharedmem l"] reg by (simp add: grows_def)
    moreover obtain es where "hist s3 = hist ?s2 @ es" "invoked GK_COMMAND_MAGIC es"
      using invoke_success_invoked [OF yes(1) _ assms(2)] by auto
    ultimately show ?thesis unfolding yes(2) using release_grows by (rule invoked_later)
  qed simp
qed

lemma transfer_invoked:
  assumes "ut_gk_transfer_buff k w gptee l buff s = Some (True, s')" "loc_session l \<noteq> 0"
  shows "\<exists>es. hist s' = hist s @ es \<and> invoked GK_COMMAND_MAGIC es"
proof -
  let ?s = "s\<lparr>contexts := (contexts s)(loc_context l := \<lparr>ctx_fd = 0\<rparr>), sessions := (sessions s)(loc_session l := \<lparr>sess_ctx = 0, session_id = 0\<rparr>),
     origins := (origins s)(loc_origin l := 0)\<rparr>"
  obtain res s1 where i: "TEEC_InitializeContext k gptee (Some (lit ''bta_loader'')) (loc_context l) ?s = (res, s1)" by fastforce
  from assms(1) obtain s2 s3 s4 where o: "TEEC_OpenSession k w (loc_context l) (loc_session l) (Some gk_uuid) TEEC_LOGIN_PUBLIC 0 0 (loc_origin l) s1 =
      Some (TEEC_SUCCESS, s2)"
    and c: "gk_command k w l buff s2 = Some (TEEC_SUCCESS, s3)" "TEEC_CloseSession k (loc_session l) s3 = Some s4"
    "TEEC_FinalizeContext k (loc_context l) s4 = Some s'"
    unfolding ut_gk_transfer_buff_def Let_def i prod.case by (auto simp: bind_eq_Some_conv split: if_splits)
  have "grows s s2" using initialize_grows [OF i] open_session_grows [OF o] by (auto simp: grows_def)
  moreover obtain es where "hist s3 = hist s2 @ es" "invoked GK_COMMAND_MAGIC es"
    using gk_command_invoked [OF c(1) assms(2)] by blast
  moreover have "grows s3 s'" using close_session_grows [OF c(2)] finalize_grows [OF c(3)] by (rule grows_trans)
  ultimately show ?thesis by (rule invoked_later)
qed

text \<open>An exchange that took place: the buffer when the application was called, and afterwards.\<close>

definition transferred ::
  "kernel \<Rightarrow> secure_world \<Rightarrow> bool \<Rightarrow> gk_locals \<Rightarrow> bytes \<Rightarrow> bytes \<Rightarrow> bool" where
  "transferred k w gptee l before after \<longleftrightarrow>
     (\<exists>a s1 s2. a \<noteq> 0 \<and> mem_read a GATEKEEPER_BUFF_SIZE (mem s1) = before \<and> ut_gk_transfer_buff k w gptee l a s1 = Some (True, s2) \<and>
        mem_read a GATEKEEPER_BUFF_SIZE (mem s2) = after \<and> (\<exists>es. hist s2 = hist s1 @ es \<and> invoked GK_COMMAND_MAGIC es))"

lemma gk_exchange_transferred:
  assumes "gk_exchange k w gptee l request s = Some (Some buf, s')" "length request = GATEKEEPER_BUFF_SIZE" "loc_session l \<noteq> 0"
  shows "transferred k w gptee l request buf"
proof -
  obtain m s1 where m: "sys k (Malloc GATEKEEPER_BUFF_SIZE) s = (m, s1)" by fastforce
  let ?a = "nat (sr_rc m)" and ?s1 = "s1\<lparr>mem := mem_write (nat (sr_rc m)) request (mem s1)\<rparr>"
  from assms(1) m have t: "0 < sr_rc m" "ut_gk_transfer_buff k w gptee l ?a ?s1 = Some (True, s')"
    "buf = mem_read ?a GATEKEEPER_BUFF_SIZE (mem s')"
    by (auto simp: gk_exchange_def Let_def bind_eq_Some_conv split: if_splits prod.splits)
  have "mem_read ?a GATEKEEPER_BUFF_SIZE (mem ?s1) = request" using mem_read_write [of ?a request "mem s1"] assms(2) by simp
  moreover have "\<exists>es. hist s' = hist ?s1 @ es \<and> invoked GK_COMMAND_MAGIC es" by (rule transfer_invoked [OF t(2) assms(3)])
  ultimately show ?thesis using t unfolding transferred_def by (intro exI [of _ ?a] exI [of _ ?s1] exI [of _ s']) simp
qed

lemma copy_out_some:
  assumes "copy_out k header n buf s = Some (Some bs, s')"
  shows "header + unat n \<le> GATEKEEPER_BUFF_SIZE \<and> bs = take (unat n) (drop header buf)"
  using assms by (auto simp: copy_out_def Let_def split: if_splits prod.splits)


section \<open>Examples\<close>

text \<open>An application that answers with a token of two bytes.\<close>

definition ut_gk_answer :: bytes where
  "ut_gk_answer = put_u32 0 @ put_u32 2 @ [1] @ put_u32 0 @ [0xAA, 0xBB]"

definition gk_app :: secure_world where
  "gk_app h c = (case c of Ioctl fd (TEE_IOC_INVOKE buf) \<Rightarrow> [(65536, ut_gk_answer)] | _ \<Rightarrow> [])"

definition gk_loc :: gk_locals where
  "gk_loc = \<lparr>loc_context = 100, loc_session = 200, loc_operation = 300, loc_sharedmem = 400, loc_origin = 500\<rparr>"

lemma gk_loc_fields [simp]: "loc_context gk_loc = 100" "loc_session gk_loc = 200" "loc_operation gk_loc = 300"
  "loc_sharedmem gk_loc = 400" "loc_origin gk_loc = 500"
  by (simp_all add: gk_loc_def)

lemma gk_types:
  "paramTypes (gk_operation p) = 0xc" "TEEC_PARAM_TYPE_GET 0xc 0 = 0xc" "TEEC_PARAM_TYPE_GET 0xc (Suc 0) = 0"
  "TEEC_PARAM_TYPE_GET 0xc 2 = 0" "TEEC_PARAM_TYPE_GET 0xc 3 = 0"
proof -
  have "TEEC_PARAM_TYPES 0xc 0 0 0 = 0xc" by code_simp
  then show "paramTypes (gk_operation p) = 0xc" by (simp add: gk_operation_def)
  show "TEEC_PARAM_TYPE_GET 0xc 0 = 0xc" "TEEC_PARAM_TYPE_GET 0xc (Suc 0) = 0" "TEEC_PARAM_TYPE_GET 0xc 2 = 0"
    "TEEC_PARAM_TYPE_GET 0xc 3 = 0" by code_simp+
qed

text \<open>The buffer is copied to the mapping, overwritten there by the answer, and copied back.\<close>

definition gk_after :: "memory \<Rightarrow> memory" where
  "gk_after h = mem_write 65536 ut_gk_answer (mem_write 65536 (mem_read 8192 4096 h) h)"

lemma gk_command_run:
  assumes "contexts s 100 = \<lparr>ctx_fd = 7\<rparr>" "sessions s 200 = \<lparr>sess_ctx = 100, session_id = 0\<rparr>" "\<not> teec_mutex s"
  shows "\<exists>s'. gk_command device_kernel gk_app gk_loc 8192 s = Some (TEEC_SUCCESS, s') \<and>
     mem s' = mem_write 8192 (mem_read 65536 4096 (gk_after (mem s))) (gk_after (mem s)) \<and>
     sessionMap s' = sessionMap s \<and> contextMap s' = contextMap s \<and> contexts s' = contexts s \<and> sessions s' = sessions s"
proof -
  let ?s1 = "s\<lparr>shms := (shms s)(400 := (shms s 400)\<lparr>shm_buffer := 8192, shm_size := 4096, shm_flags := TEEC_MEM_INPUT OR TEEC_MEM_OUTPUT\<rparr>)\<rparr>"
  let ?v = "(shms s 400)\<lparr>shm_buffer := 8192, shm_size := 4096, shm_flags := 3, shm_id := 5, alloced_size := 4096,
      shadow_buffer := 65536, registered_fd := 7\<rparr>"
  obtain s2 where s2: "TEEC_RegisterSharedMemory device_kernel 100 400 ?s1 = (TEEC_SUCCESS, s2)" "shms s2 400 = ?v" "mem s2 = mem s"
    "contexts s2 = contexts s" "sessions s2 = sessions s" "\<not> teec_mutex s2" "sessionMap s2 = sessionMap s" "contextMap s2 = contextMap s"
    using assms by (simp add: TEEC_RegisterSharedMemory_def register_shm_def shm_flags_ok_def mmap_def teec_shm_get_id_def sys_def
        Let_def ret_def MAP_FAILED_def)
  let ?s2 = "s2\<lparr>operations := (operations s2)(300 := gk_operation 400)\<rparr>"
  obtain s3 where s3: "TEEC_InvokeCommand device_kernel gk_app 200 GK_COMMAND_MAGIC 300 0 ?s2 = Some (TEEC_SUCCESS, s3)"
     "mem s3 = mem_write 8192 (mem_read 65536 4096 (gk_after (mem s))) (gk_after (mem s))"
     "sessionMap s3 = sessionMap s" "contextMap s3 = contextMap s" "contexts s3 = contexts s" "sessions s3 = sessions s" "shms s3 400 = ?v"
    using assms(1,2) s2 gk_types
    by (simp add: get_params_invoke TEEC_InvokeCommand_def store_op_session_def teec_mutex_lock_def teec_mutex_unlock_def teec_pre_process_operation_def
        param_indices_list replicate_4 pre_process_param_def is_value_type_def temp_type_def teec_pre_process_whole_def memcpy_def
        tee_call_def sys_def ret_def gk_app_def teec_post_process_operation_def post_process_param_def partial_type_def
        teec_post_process_whole_def set_param_def teec_free_temp_refs_def set_origin_def gk_operation_def Let_def gk_after_def
        has_flag_def zero_param_def zero_parameter_def)
  show ?thesis
    using s2 s3 by (simp add: gk_command_def Let_def TEEC_ReleaseSharedMemory_def release_shm_def sys_def ret_def)
qed

lemma gk_transfer_run:
  assumes "\<not> teec_mutex s" "sessionMap s = []" "contextMap s = []"
  shows "\<exists>s'. ut_gk_transfer_buff device_kernel gk_app False gk_loc 8192 s = Some (True, s') \<and>
     mem s' = mem_write 8192 (mem_read 65536 4096 (gk_after (mem s))) (gk_after (mem s))"
proof -
  let ?s = "s\<lparr>contexts := (contexts s)(100 := \<lparr>ctx_fd = 0\<rparr>), sessions := (sessions s)(200 := \<lparr>sess_ctx = 0, session_id = 0\<rparr>),
     origins := (origins s)(500 := 0)\<rparr>"
  have uuid: "length (uuid_to_octets gk_uuid) = 16" by code_simp
  obtain s1 where s1: "TEEC_InitializeContext device_kernel False (Some (lit ''bta_loader'')) 100 ?s = (TEEC_SUCCESS, s1)"
    "contexts s1 100 = \<lparr>ctx_fd = 7\<rparr>" "contextMap s1 = [100]" "sessionMap s1 = []" "mem s1 = mem s" "\<not> teec_mutex s1"
    using device_initialize [OF connects_device(1), of 100 "lit ''bta_loader''" ?s] assms by (auto simp: map_insert_def)
  obtain s2 where s2: "TEEC_OpenSession device_kernel gk_app 100 200 (Some gk_uuid) TEEC_LOGIN_PUBLIC 0 0 500 s1 = Some (TEEC_SUCCESS, s2)"
     "sessionMap s2 = [200]" "sessions s2 200 = \<lparr>sess_ctx = 100, session_id = 0\<rparr>" "contexts s2 = contexts s1" "contextMap s2 = [100]"
     "mem s2 = mem s" "\<not> teec_mutex s2"
    using device_open_session [OF s1(2) connects_device(1) _ _ _ uuid, of gk_app 200 500] s1 by (auto simp: map_insert_def quiet_def gk_app_def)
  obtain s3 where s3: "gk_command device_kernel gk_app gk_loc 8192 s2 = Some (TEEC_SUCCESS, s3)"
     "mem s3 = mem_write 8192 (mem_read 65536 4096 (gk_after (mem s))) (gk_after (mem s))"
     "sessionMap s3 = [200]" "contextMap s3 = [100]" "contexts s3 100 = \<lparr>ctx_fd = 7\<rparr>" "sessions s3 200 = \<lparr>sess_ctx = 100, session_id = 0\<rparr>"
    using gk_command_run [of s2] s1 s2 by auto
  obtain s4 where s4: "TEEC_CloseSession device_kernel 200 s3 = Some s4" "sessionMap s4 = []" "contextMap s4 = [100]" "mem s4 = mem s3"
    using s3 by (simp add: TEEC_CloseSession_def ut_close_session_def sys_def Let_def ret_def)
  obtain s5 where s5: "TEEC_FinalizeContext device_kernel 100 s4 = Some s5" "mem s5 = mem s4"
    using s4 by (simp add: TEEC_FinalizeContext_def finalize_sessions.simps ut_close_fd_def sys_def Let_def ret_def)
  show ?thesis using s1 s2 s3 s4 s5 by (simp add: ut_gk_transfer_buff_def)
qed

lemma gk_exchange_run:
  assumes "\<not> teec_mutex s" "sessionMap s = []" "contextMap s = []"
  shows "\<exists>rest s'. gk_exchange device_kernel gk_app False gk_loc request s = Some (Some (ut_gk_answer @ rest), s') \<and> length rest = 4081"
proof -
  obtain s1 where m: "sys device_kernel (Malloc 4096) s = (ret 8192, s1)" "\<not> teec_mutex s1" "sessionMap s1 = []" "contextMap s1 = []"
    using assms by (simp add: sys_def Let_def)
  let ?s1 = "s1\<lparr>mem := mem_write 8192 request (mem s1)\<rparr>"
  obtain s' where s': "ut_gk_transfer_buff device_kernel gk_app False gk_loc 8192 ?s1 = Some (True, s')"
     "mem s' = mem_write 8192 (mem_read 65536 4096 (gk_after (mem ?s1))) (gk_after (mem ?s1))"
    using gk_transfer_run [of ?s1] m by auto
  define h where "h = mem_write 65536 (mem_read 8192 4096 (mem ?s1)) (mem ?s1)"
  have l: "length ut_gk_answer = 15" by (simp add: ut_gk_answer_def)
  have "mem_read 8192 4096 (mem s') = mem_read 65536 4096 (mem_write 65536 ut_gk_answer h)"
    using mem_read_write [of 8192 "mem_read 65536 4096 (gk_after (mem ?s1))"] s'(2) by (simp add: gk_after_def h_def)
  also have "\<dots> = ut_gk_answer @ mem_read (65536 + 15) (4096 - 15) h"
    using mem_read_write_prefix [of ut_gk_answer 4096 65536 h] l by simp
  finally show ?thesis using m s'(1) by (simp add: gk_exchange_def ret_def)
qed


end
