(* ===== verification/Km_Params.thy ===== *)
theory Km_Params
  imports Prelude
begin

text \<open>
  The parameters of the key master devices: their conversion between the types of the HIDL
  interface and those of the AOSP key master library, certificates, and authentication tokens
  (the anonymous namespace of \<open>km4.1/40/BeanpodKeymaster4Device.cpp\<close>). Interface and library are
  not part of the repository: \<open>km_lib\<close> holds their constants and functions. A union is the value
  that was stored in it; reading another member is \<open>None\<close>.
\<close>

section \<open>Types\<close>

datatype keymaster_tag_type_t =
  KM_INVALID | KM_ENUM | KM_ENUM_REP | KM_UINT | KM_UINT_REP | KM_ULONG | KM_DATE | KM_BOOL | KM_BIGNUM | KM_BYTES | KM_ULONG_REP

text \<open>\<open>hw_auth_token_t\<close>, the token as the application expects it.\<close>

record hw_auth_token_t =
  tk_version :: u8
  tk_challenge :: u64
  tk_user_id :: u64
  tk_authenticator_id :: u64
  tk_authenticator_type :: u32
  tk_timestamp :: u64
  tk_hmac :: bytes

text \<open>What is used of the headers: tags, the type of a tag, the bytes of a token and the size of its \<open>hmac\<close>.\<close>

record km_lib =
  keymaster_tag_get_type :: "u32 \<Rightarrow> keymaster_tag_type_t"
  KM_TAG_INVALID :: u32
  TAG_APPLICATION_ID :: u32
  TAG_APPLICATION_DATA :: u32
  TAG_AUTH_TOKEN :: u32
  TAG_ASSOCIATED_DATA :: u32
  put_auth_token :: "hw_auth_token_t \<Rightarrow> bytes"
  hmac_size :: nat

text \<open>\<open>KeyParameter\<close> of the interface: a tag, a union of numbers, and a blob.\<close>

record KeyParameter =
  tag :: u32
  f_bits :: u64
  blob :: bytes

definition f_integer :: "KeyParameter \<Rightarrow> u32" where "f_integer p = ucast (f_bits p)"
definition f_boolValue :: "KeyParameter \<Rightarrow> bool" where "f_boolValue p \<longleftrightarrow> (ucast (f_bits p) :: u8) \<noteq> 0"

text \<open>\<open>keymaster_key_param_t\<close> of the library: a tag and a union.\<close>

datatype km_value = Enumerated u32 | Integer u32 | Long_integer u64 | Date_time u64 | Boolean bool | Blob bytes | No_value

record keymaster_key_param_t =
  km_tag :: u32
  km_val :: km_value

section \<open>Conversions\<close>

definition invalid_param :: "km_lib \<Rightarrow> keymaster_key_param_t" where
  "invalid_param L = \<lparr>km_tag = KM_TAG_INVALID L, km_val = No_value\<rparr>"

text \<open>One round of the loop in the constructor of \<open>KmParamSet\<close>.\<close>

definition hidl2km :: "km_lib \<Rightarrow> KeyParameter \<Rightarrow> keymaster_key_param_t" where
  "hidl2km L p =
     (case keymaster_tag_get_type L (tag p) of
        KM_ENUM \<Rightarrow> \<lparr>km_tag = tag p, km_val = Enumerated (f_integer p)\<rparr>
      | KM_ENUM_REP \<Rightarrow> \<lparr>km_tag = tag p, km_val = Enumerated (f_integer p)\<rparr>
      | KM_UINT \<Rightarrow> \<lparr>km_tag = tag p, km_val = Integer (f_integer p)\<rparr>
      | KM_UINT_REP \<Rightarrow> \<lparr>km_tag = tag p, km_val = Integer (f_integer p)\<rparr>
      | KM_ULONG \<Rightarrow> \<lparr>km_tag = tag p, km_val = Long_integer (f_bits p)\<rparr>
      | KM_ULONG_REP \<Rightarrow> \<lparr>km_tag = tag p, km_val = Long_integer (f_bits p)\<rparr>
      | KM_DATE \<Rightarrow> \<lparr>km_tag = tag p, km_val = Date_time (f_bits p)\<rparr>
      | KM_BOOL \<Rightarrow> if f_boolValue p then \<lparr>km_tag = tag p, km_val = Boolean True\<rparr> else invalid_param L
      | KM_BIGNUM \<Rightarrow> \<lparr>km_tag = tag p, km_val = Blob (blob p)\<rparr>
      | KM_BYTES \<Rightarrow> \<lparr>km_tag = tag p, km_val = Blob (blob p)\<rparr>
      | KM_INVALID \<Rightarrow> invalid_param L)"

definition KmParamSet :: "km_lib \<Rightarrow> KeyParameter list \<Rightarrow> keymaster_key_param_t list" where
  "KmParamSet L keyParams = map (hidl2km L) keyParams"

text \<open>One round of the loop of \<open>kmParamSet2Hidl\<close>.\<close>

definition km2hidl :: "km_lib \<Rightarrow> keymaster_key_param_t \<Rightarrow> KeyParameter option" where
  "km2hidl L q =
     (let r = (\<lambda>n. Some \<lparr>tag = km_tag q, f_bits = n, blob = []\<rparr>) in
      case keymaster_tag_get_type L (km_tag q) of
        KM_ENUM \<Rightarrow> (case km_val q of Enumerated v \<Rightarrow> r (ucast v) | _ \<Rightarrow> None)
      | KM_ENUM_REP \<Rightarrow> (case km_val q of Enumerated v \<Rightarrow> r (ucast v) | _ \<Rightarrow> None)
      | KM_UINT \<Rightarrow> (case km_val q of Integer v \<Rightarrow> r (ucast v) | _ \<Rightarrow> None)
      | KM_UINT_REP \<Rightarrow> (case km_val q of Integer v \<Rightarrow> r (ucast v) | _ \<Rightarrow> None)
      | KM_ULONG \<Rightarrow> (case km_val q of Long_integer v \<Rightarrow> r v | _ \<Rightarrow> None)
      | KM_ULONG_REP \<Rightarrow> (case km_val q of Long_integer v \<Rightarrow> r v | _ \<Rightarrow> None)
      | KM_DATE \<Rightarrow> (case km_val q of Date_time v \<Rightarrow> r v | _ \<Rightarrow> None)
      | KM_BOOL \<Rightarrow> (case km_val q of Boolean v \<Rightarrow> r (if v then 1 else 0) | _ \<Rightarrow> None)
      | KM_BIGNUM \<Rightarrow> (case km_val q of Blob bs \<Rightarrow> Some \<lparr>tag = km_tag q, f_bits = 0, blob = bs\<rparr> | _ \<Rightarrow> None)
      | KM_BYTES \<Rightarrow> (case km_val q of Blob bs \<Rightarrow> Some \<lparr>tag = km_tag q, f_bits = 0, blob = bs\<rparr> | _ \<Rightarrow> None)
      | KM_INVALID \<Rightarrow> r 0)"

definition kmParamSet2Hidl :: "km_lib \<Rightarrow> keymaster_key_param_t list \<Rightarrow> KeyParameter list option" where
  "kmParamSet2Hidl L params = those (map (km2hidl L) params)"

text \<open>A chain is \<open>None\<close> when it has no array of entries.\<close>

definition kmCertChain2Hidl :: "bytes list option \<Rightarrow> bytes list" where
  "kmCertChain2Hidl chain = (case chain of None \<Rightarrow> [] | Some cs \<Rightarrow> cs)"

definition addClientAndAppData :: "km_lib \<Rightarrow> bytes \<Rightarrow> bytes \<Rightarrow> keymaster_key_param_t list" where
  "addClientAndAppData L clientId appData =
     (if clientId \<noteq> [] then [\<lparr>km_tag = TAG_APPLICATION_ID L, km_val = Blob clientId\<rparr>] else []) @
     (if appData \<noteq> [] then [\<lparr>km_tag = TAG_APPLICATION_DATA L, km_val = Blob appData\<rparr>] else [])"

section \<open>Tokens\<close>

text \<open>The loop of \<open>SwapBytes\<close> with its two pointers, as indices into the array.\<close>

function swap_loop :: "int \<Rightarrow> int \<Rightarrow> bytes \<Rightarrow> bytes" where
  "swap_loop i j bs =
     (if i < j
      then swap_loop (i + 1) (j - 1) (bs[nat i := bs ! nat j, nat j := bs ! nat i])
      else bs)"
  by pat_completeness auto
termination by (relation "measure (\<lambda>(i, j, bs). nat (j - i))") auto

declare swap_loop.simps [simp del]

definition SwapBytes :: "bytes \<Rightarrow> bytes" where
  "SwapBytes bs = swap_loop 0 (int (length bs) - 1) bs"

text \<open>\<open>HardwareAuthToken\<close> of the interface.\<close>

record HardwareAuthToken =
  challenge :: u64
  userId :: u64
  authenticatorId :: u64
  authenticatorType :: u32
  timestamp :: u64
  mac :: bytes

text \<open>The token that is appended to the parameters; the copy of \<open>mac\<close> is not limited to the size of \<open>hmac\<close>.\<close>

definition auth_token :: "km_lib \<Rightarrow> HardwareAuthToken \<Rightarrow> hw_auth_token_t option" where
  "auth_token L t =
     (if hmac_size L < length (mac t) then None
      else Some \<lparr>tk_version = 0, tk_challenge = challenge t, tk_user_id = userId t, tk_authenticator_id = authenticatorId t,
        tk_authenticator_type = get_u32 (SwapBytes (put_u32 (authenticatorType t))) 0,
        tk_timestamp = get_u64 (SwapBytes (put_u64 (timestamp t))) 0,
        tk_hmac = mac t @ replicate (hmac_size L - length (mac t)) 0\<rparr>)"

definition push_auth_token ::
  "km_lib \<Rightarrow> HardwareAuthToken \<Rightarrow> keymaster_key_param_t list \<Rightarrow> keymaster_key_param_t list option" where
  "push_auth_token L t params =
     map_option (\<lambda>tk. params @ [\<lparr>km_tag = TAG_AUTH_TOKEN L, km_val = Blob (put_auth_token L tk)\<rparr>]) (auth_token L t)"

section \<open>Round trip\<close>

text \<open>A parameter as it comes back: only the member of its type, and nothing when it is invalid or false.\<close>

definition canonical :: "km_lib \<Rightarrow> KeyParameter \<Rightarrow> KeyParameter" where
  "canonical L p =
     (let ty = keymaster_tag_get_type L (tag p) in
      if ty = KM_INVALID \<or> ty = KM_BOOL \<and> \<not> f_boolValue p then \<lparr>tag = KM_TAG_INVALID L, f_bits = 0, blob = []\<rparr>
      else if ty = KM_BIGNUM \<or> ty = KM_BYTES then p\<lparr>f_bits := 0\<rparr>
      else if ty = KM_BOOL then p\<lparr>f_bits := 1, blob := []\<rparr>
      else if ty = KM_ULONG \<or> ty = KM_ULONG_REP \<or> ty = KM_DATE then p\<lparr>blob := []\<rparr>
      else p\<lparr>f_bits := ucast (f_integer p), blob := []\<rparr>)"

lemma km2hidl_hidl2km:
  assumes "keymaster_tag_get_type L (KM_TAG_INVALID L) = KM_INVALID"
  shows "km2hidl L (hidl2km L p) = Some (canonical L p)"
  using assms
  by (cases "keymaster_tag_get_type L (tag p)")
    (auto simp: km2hidl_def hidl2km_def canonical_def invalid_param_def Let_def)

lemma ucast_32_64 [simp]: "(ucast (ucast (x :: u32) :: u64) :: u32) = x"
  by (rule bit_word_eqI) (simp add: bit_simps)

lemma canonical_idem:
  assumes "keymaster_tag_get_type L (KM_TAG_INVALID L) = KM_INVALID"
  shows "canonical L (canonical L p) = canonical L p"
  using assms
  by (cases "keymaster_tag_get_type L (tag p)")
    (auto simp: canonical_def Let_def f_boolValue_def f_integer_def)

lemma those_map_Some: "(\<And>x. x \<in> set xs \<Longrightarrow> f x = Some (g x)) \<Longrightarrow> those (map f xs) = Some (map g xs)"
  by (induction xs) simp_all

section \<open>Members of the union\<close>

text \<open>The member that belongs to a type of tags.\<close>

fun member_of :: "keymaster_tag_type_t \<Rightarrow> km_value \<Rightarrow> bool" where
  "member_of KM_ENUM (Enumerated _) = True"
| "member_of KM_ENUM_REP (Enumerated _) = True"
| "member_of KM_UINT (Integer _) = True"
| "member_of KM_UINT_REP (Integer _) = True"
| "member_of KM_ULONG (Long_integer _) = True"
| "member_of KM_ULONG_REP (Long_integer _) = True"
| "member_of KM_DATE (Date_time _) = True"
| "member_of KM_BOOL (Boolean _) = True"
| "member_of KM_BIGNUM (Blob _) = True"
| "member_of KM_BYTES (Blob _) = True"
| "member_of KM_INVALID _ = True"
| "member_of _ _ = False"

definition well_typed :: "km_lib \<Rightarrow> keymaster_key_param_t \<Rightarrow> bool" where
  "well_typed L q \<longleftrightarrow> member_of (keymaster_tag_get_type L (km_tag q)) (km_val q)"

lemma km2hidl_defined: "km2hidl L q \<noteq> None \<longleftrightarrow> well_typed L q"
  by (cases "keymaster_tag_get_type L (km_tag q)"; cases "km_val q") (simp_all add: km2hidl_def well_typed_def)

lemma those_defined: "those xs \<noteq> None \<longleftrightarrow> None \<notin> set xs"
  by (induction xs) (auto split: option.splits)


section \<open>There and back\<close>

text \<open>C39. Parameters of the interface that are converted for the library and back are the canonical
  ones, in the same order: for numbers the member of the type of the tag, for blobs the bytes, and
  the invalid tag for invalid tags and for booleans that are false. Canonical parameters come back
  unchanged.\<close>

theorem key_parameters_roundtrip:
  assumes "keymaster_tag_get_type L (KM_TAG_INVALID L) = KM_INVALID"
  shows "kmParamSet2Hidl L (KmParamSet L ps) = Some (map (canonical L) ps) \<and>
    kmParamSet2Hidl L (KmParamSet L (map (canonical L) ps)) = Some (map (canonical L) ps)"
proof -
  have "kmParamSet2Hidl L (KmParamSet L ps) = Some (map (canonical L) ps)" for ps
    using those_map_Some [of ps "km2hidl L \<circ> hidl2km L" "canonical L"] km2hidl_hidl2km [OF assms]
    by (simp add: kmParamSet2Hidl_def KmParamSet_def)
  then show ?thesis by (simp add: canonical_idem [OF assms])
qed

section \<open>The order of the bytes\<close>

lemma put_get_u64:
  assumes "length bs = 8"
  shows "put_u64 (get_u64 bs 0) = bs"
proof -
  have "le_nat bs < 2 ^ 64" using le_nat_bound [of bs] assms by simp
  then have "unat (get_u64 bs 0) = le_nat bs"
    using assms by (simp add: get_u64_def unat_of_nat take_bit_nat_eq_self_iff)
  then show ?thesis using le_bytes_le_nat [of bs] assms by (simp add: put_u64_def)
qed

lemma swap_loop_rev:
  assumes "length a = length c" "int (length a) = i" "j = i + int (length bs) - 1"
  shows "swap_loop i j (a @ bs @ c) = a @ rev bs @ c"
  using assms
proof (induction "length bs" arbitrary: a bs c i j rule: less_induct)
  case less
  show ?case
  proof (cases "i < j")
    case False
    with less.prems have "length bs \<le> 1" by simp
    then have "rev bs = bs" by (cases bs) auto
    with False show ?thesis by (simp add: swap_loop.simps [of i])
  next
    case True
    with less.prems obtain x y m where bs: "bs = x # m @ [y]"
      by (cases bs; cases "tl bs" rule: rev_cases) auto
    let ?i = "length a" and ?j = "length a + length m + 1"
    have ij: "nat i = ?i" "nat j = ?j" using less.prems bs by auto
    have "(a @ bs @ c)[?i := (a @ bs @ c) ! ?j, ?j := (a @ bs @ c) ! ?i] = (a @ [y]) @ m @ (x # c)"
      by (simp add: bs nth_append list_update_append)
    then have "swap_loop i j (a @ bs @ c) = swap_loop (i + 1) (j - 1) ((a @ [y]) @ m @ (x # c))"
      using True ij by (subst swap_loop.simps) simp
    also have "\<dots> = (a @ [y]) @ rev m @ (x # c)"
      by (rule less.hyps) (use less.prems bs in auto)
    finally show ?thesis by (simp add: bs)
  qed
qed

lemma SwapBytes_rev: "SwapBytes bs = rev bs"
  unfolding SwapBytes_def using swap_loop_rev [of "[]" "[]" 0 "int (length bs) - 1" bs] by simp

text \<open>The token that accompanies an operation is defined exactly when the code of the caller's token
  fits into the field for it; this code is its beginning, followed by zeros up to its size, the type
  of the authenticator and the time stand there in network order, and the numbers that identify
  user, authenticator and challenge as they are.\<close>

lemma auth_token_network_order:
  "(auth_token L t = None \<longleftrightarrow> hmac_size L < length (mac t)) \<and>
   (\<forall>tk. auth_token L t = Some tk \<longrightarrow>
      put_u32 (tk_authenticator_type tk) = rev (put_u32 (authenticatorType t)) \<and>
      put_u64 (tk_timestamp tk) = rev (put_u64 (timestamp t)) \<and>
      length (tk_hmac tk) = hmac_size L \<and> take (length (mac t)) (tk_hmac tk) = mac t \<and>
      set (drop (length (mac t)) (tk_hmac tk)) \<subseteq> {0} \<and>
      tk_challenge tk = challenge t \<and> tk_user_id tk = userId t \<and> tk_authenticator_id tk = authenticatorId t)"
  by (auto simp: auth_token_def SwapBytes_rev put_get_u32 put_get_u64)

section \<open>Examples\<close>

text \<open>Tags whose upper four bits are their type, as in the headers of the library.\<close>

definition sample_lib :: km_lib where
  "sample_lib =
     \<lparr>keymaster_tag_get_type = (\<lambda>tg. if tg AND 0xF0000000 = 0x30000000 then KM_UINT else if tg AND 0xF0000000 = 0x70000000 then KM_BOOL
        else if tg AND 0xF0000000 = 0x90000000 then KM_BYTES else KM_INVALID),
      KM_TAG_INVALID = 0, TAG_APPLICATION_ID = 0x90000259, TAG_APPLICATION_DATA = 0x900002BC, TAG_AUTH_TOKEN = 0x900003E7,
      TAG_ASSOCIATED_DATA = 0x900003E8, put_auth_token = (\<lambda>tk. put_u64 (tk_challenge tk) @ tk_hmac tk), hmac_size = 32\<rparr>"

definition sample_params :: "KeyParameter list" where
  "sample_params = [\<lparr>tag = 0x30000003, f_bits = 0x100000100, blob = [9]\<rparr>, \<lparr>tag = 0x700001F7, f_bits = 0, blob = []\<rparr>,
     \<lparr>tag = 0x90000259, f_bits = 5, blob = [1, 2]\<rparr>]"


theorem key_parameters_roundtrip_witness:
  "kmParamSet2Hidl sample_lib (KmParamSet sample_lib sample_params) =
     Some [\<lparr>tag = 0x30000003, f_bits = 0x100, blob = []\<rparr>, \<lparr>tag = 0, f_bits = 0, blob = []\<rparr>, \<lparr>tag = 0x90000259, f_bits = 0, blob = [1, 2]\<rparr>]"
  using key_parameters_roundtrip [of sample_lib sample_params]
  by (simp add: sample_lib_def sample_params_def canonical_def f_integer_def f_boolValue_def)

definition sample_token :: HardwareAuthToken where
  "sample_token = \<lparr>challenge = 1, userId = 2, authenticatorId = 3, authenticatorType = 1, timestamp = 0x0102, mac = [7, 8]\<rparr>"

lemma auth_token_example:
  "\<exists>tk. auth_token sample_lib sample_token = Some tk \<and> put_u32 (tk_authenticator_type tk) = [0, 0, 0, 1] \<and>
     put_u64 (tk_timestamp tk) = [0, 0, 0, 0, 0, 0, 1, 2] \<and> take 2 (tk_hmac tk) = [7, 8]"
proof -
  obtain tk where tk: "auth_token sample_lib sample_token = Some tk"
    by (simp add: auth_token_def sample_lib_def sample_token_def)
  have bytes: "put_u32 (authenticatorType sample_token) = [1, 0, 0, 0]"
    "put_u64 (timestamp sample_token) = [2, 1, 0, 0, 0, 0, 0, 0]"
    by (simp_all add: sample_token_def put_u32_def put_u64_def le_bytes_def)
  have m: "mac sample_token = [7, 8]" by (simp add: sample_token_def)
  have "put_u32 (tk_authenticator_type tk) = rev (put_u32 (authenticatorType sample_token)) \<and>
      put_u64 (tk_timestamp tk) = rev (put_u64 (timestamp sample_token)) \<and> take (length (mac sample_token)) (tk_hmac tk) = mac sample_token"
    using auth_token_network_order [of sample_lib sample_token] tk by blast
  then show ?thesis unfolding bytes m using tk by (simp add: numeral_2_eq_2)
qed

end
