(* ===== verification/Keymaster_Ipc.thy ===== *)
theory Keymaster_Ipc
  imports Tipc_Messages
begin

text \<open>
  The connection of the key master service to its trusted application
  (\<open>lite/km4.1/common/beanpod_keymaster_ipc.cpp\<close>): a request is sent in pieces, the response is
  put together from pieces, and an error resets the connection. How requests and responses are
  written as bytes is decided by the library of the AOSP key master: a request appears as its
  bytes, the reading of a response as a parameter.
\<close>

section \<open>State and constants\<close>

definition KEYMASTER_PORT :: bytes where "KEYMASTER_PORT = lit ''com.android.trusty.keymaster''"
definition KEYMASTER_MAX_BUFFER_LENGTH :: u32 where [simp]: "KEYMASTER_MAX_BUFFER_LENGTH = 4096"
definition KEYMASTER_RESP_BIT :: u32 where "KEYMASTER_RESP_BIT = 1"
definition KEYMASTER_STOP_BIT :: u32 where "KEYMASTER_STOP_BIT = 2"
definition MAX_SEND_BUF_SIZE :: nat where [simp]: "MAX_SEND_BUF_SIZE = 3 * 1024"
definition km_device :: bytes where "km_device = lit ''/dev/trusty-ipc-dev0''"

record km = proc +
  km_handle :: int

definition km_init :: km where
  "km_init = \<lparr>hist = [], errno = 0, km_handle = - 1\<rparr>"

text \<open>\<open>struct keymaster_message\<close>.\<close>

definition keymaster_message :: "u32 \<Rightarrow> bytes \<Rightarrow> bytes" where
  "keymaster_message cmd payload = put_u32 cmd @ payload"

section \<open>Connection\<close>

definition bp_keymaster_connect :: "kernel \<Rightarrow> km \<Rightarrow> int \<times> km" where
  "bp_keymaster_connect k s =
     (let (rc, s1) = tipc_connect k km_device KEYMASTER_PORT s in
      if rc < 0 then (rc, s1) else (0, s1\<lparr>km_handle := rc\<rparr>))"

definition bp_keymaster_disconnect :: "kernel \<Rightarrow> km \<Rightarrow> km" where
  "bp_keymaster_disconnect k s =
     (let s1 = (if 0 \<le> km_handle s then tipc_close k (km_handle s) s else s) in s1\<lparr>km_handle := - 1\<rparr>)"

section \<open>A call\<close>

text \<open>The loop that sends the request; the answer 0 when everything is sent.\<close>

function send_loop :: "kernel \<Rightarrow> u32 \<Rightarrow> bytes \<Rightarrow> km \<Rightarrow> int \<times> km" where
  "send_loop k cmd send_buf s =
     (let last_one = (length send_buf \<le> MAX_SEND_BUF_SIZE);
          payload = take MAX_SEND_BUF_SIZE send_buf;
          (m, s1) = sys k (Malloc (length payload + 4)) s in
      if sr_rc m < 0 then (- EINVAL, s1)
      else
        let (w, s2) = sys k (Write (km_handle s1) (keymaster_message (if last_one then cmd else cmd OR KEYMASTER_STOP_BIT) payload)) s1 in
        if sr_rc w < 0 then (- errno s2, s2)
        else if last_one then (0, s2)
        else send_loop k cmd (drop MAX_SEND_BUF_SIZE send_buf) s2)"
  by pat_completeness auto
termination by (relation "measure (\<lambda>(k, cmd, send_buf, s). length send_buf)") auto

declare send_loop.simps [simp del]

text \<open>
  The loop that receives: \<open>out\<close> is what is already in the buffer of size \<open>out_max_size\<close>. The
  sizes of the two vectors are those of the header and of the room that is left.
\<close>

definition iov_len :: "u32 \<Rightarrow> bytes \<Rightarrow> u32" where
  "iov_len out_max_size out = min KEYMASTER_MAX_BUFFER_LENGTH (out_max_size - of_nat (length out))"

partial_function (option) recv_loop ::
  "kernel \<Rightarrow> u32 \<Rightarrow> u32 \<Rightarrow> bytes \<Rightarrow> km \<Rightarrow> (int \<times> bytes \<times> km) option" where
  "recv_loop k cmd out_max_size out s =
     (let (r, s1) = sys k (Readv (km_handle s) [4, unat (iov_len out_max_size out)]) s;
          header = get_u32 (sr_out r) 0 in
      if sr_rc r < 0 then Some (- errno s1, out, s1)
      else if sr_rc r < 4 then Some (- EINVAL, out, s1)
      else if cmd OR KEYMASTER_RESP_BIT \<noteq> header AND NOT KEYMASTER_STOP_BIT then Some (- EINVAL, out, s1)
      else
        let out1 = out @ drop 4 (sr_out r) in
        if has_flag header KEYMASTER_STOP_BIT then Some (sr_rc r, out1, s1)
        else recv_loop k cmd out_max_size out1 s1)"

definition bp_keymaster_call :: "kernel \<Rightarrow> u32 \<Rightarrow> bytes \<Rightarrow> u32 \<Rightarrow> km \<Rightarrow> (int \<times> bytes \<times> km) option" where
  "bp_keymaster_call k cmd inp out_size s =
     (if km_handle s < 0 then Some (- EINVAL, [], s)
      else
        let (rc, s1) = send_loop k cmd inp s in
        if rc < 0 then Some (rc, [], s1) else recv_loop k cmd out_size [] s1)"

section \<open>Requests\<close>

datatype keymaster_error_t =
    KM_ERROR_OK
  | KM_ERROR_SECURE_HW_ACCESS_DENIED
  | KM_ERROR_OPERATION_CANCELLED
  | KM_ERROR_UNIMPLEMENTED
  | KM_ERROR_MEMORY_ALLOCATION_FAILED
  | KM_ERROR_SECURE_HW_BUSY
  | KM_ERROR_SECURE_HW_COMMUNICATION_FAILED
  | KM_ERROR_INVALID_INPUT_LENGTH
  | KM_ERROR_UNKNOWN_ERROR
  | BEANPOD_KM_INVALID_INPUT_LENGTH
  | KM_other int \<comment> \<open>an error of the application\<close>

definition translate_error :: "int \<Rightarrow> keymaster_error_t" where
  "translate_error err =
     (if err = 0 then KM_ERROR_OK
      else if err = - EPERM \<or> err = - EACCES then KM_ERROR_SECURE_HW_ACCESS_DENIED
      else if err = - ECANCELED then KM_ERROR_OPERATION_CANCELLED
      else if err = - ENODEV then KM_ERROR_UNIMPLEMENTED
      else if err = - ENOMEM then KM_ERROR_MEMORY_ALLOCATION_FAILED
      else if err = - EBUSY then KM_ERROR_SECURE_HW_BUSY
      else if err = - EIO then KM_ERROR_SECURE_HW_COMMUNICATION_FAILED
      else if err = - EOVERFLOW then KM_ERROR_INVALID_INPUT_LENGTH
      else KM_ERROR_UNKNOWN_ERROR)"

definition BP_KEYMASTER_SEND_BUF_SIZE :: nat where [simp]: "BP_KEYMASTER_SEND_BUF_SIZE = 17 * 4096"
definition BP_KEYMASTER_RECV_BUF_SIZE :: u32 where [simp]: "BP_KEYMASTER_RECV_BUF_SIZE = 17 * KEYMASTER_MAX_BUFFER_LENGTH"

text \<open>
  Both functions that send share what happens after the call. \<open>deser\<close> reads a response from
  bytes and \<open>rsp_error\<close> is its field \<open>error\<close>; the size of a request fits 32 bits.
\<close>

definition reset_connection :: "kernel \<Rightarrow> km \<Rightarrow> km" where
  "reset_connection k s = snd (bp_keymaster_connect k (bp_keymaster_disconnect k s))"

definition send_and_read ::
  "kernel \<Rightarrow> (bytes \<Rightarrow> 'r option) \<Rightarrow> ('r \<Rightarrow> keymaster_error_t) \<Rightarrow> u32 \<Rightarrow> bytes \<Rightarrow> km \<Rightarrow>
    (keymaster_error_t \<times> 'r option \<times> km) option" where
  "send_and_read k deser rsp_error command req s =
     do {
       (rc, recv_buf, s1) \<leftarrow> bp_keymaster_call k command req BP_KEYMASTER_RECV_BUF_SIZE s;
       if rc < 0 then Some (translate_error rc, None, reset_connection k s1)
       else
         case deser recv_buf of
           None \<Rightarrow> Some (KM_ERROR_UNKNOWN_ERROR, None, s1)
         | Some rsp \<Rightarrow> Some (rsp_error rsp, Some rsp, s1)
     }"

definition bp_keymaster_send ::
  "kernel \<Rightarrow> (bytes \<Rightarrow> 'r option) \<Rightarrow> ('r \<Rightarrow> keymaster_error_t) \<Rightarrow> u32 \<Rightarrow> bytes \<Rightarrow> km \<Rightarrow>
    (keymaster_error_t \<times> 'r option \<times> km) option" where
  "bp_keymaster_send k deser rsp_error command req s =
     (if BP_KEYMASTER_SEND_BUF_SIZE < length req then Some (BEANPOD_KM_INVALID_INPUT_LENGTH, None, s)
      else send_and_read k deser rsp_error command req s)"

definition bp_keymaster_send_no_request ::
  "kernel \<Rightarrow> (bytes \<Rightarrow> 'r option) \<Rightarrow> ('r \<Rightarrow> keymaster_error_t) \<Rightarrow> u32 \<Rightarrow> km \<Rightarrow>
    (keymaster_error_t \<times> 'r option \<times> km) option" where
  "bp_keymaster_send_no_request k deser rsp_error command s = send_and_read k deser rsp_error command [] s"

section \<open>Sending a request\<close>

text \<open>The messages of a request: every piece but the last carries the bit.\<close>

fun request_messages :: "u32 \<Rightarrow> bytes \<Rightarrow> bytes list" where
  "request_messages cmd req =
     (if length req \<le> MAX_SEND_BUF_SIZE then [keymaster_message cmd req]
      else keymaster_message (cmd OR KEYMASTER_STOP_BIT) (take MAX_SEND_BUF_SIZE req) #
        request_messages cmd (drop MAX_SEND_BUF_SIZE req))"

declare request_messages.simps [simp del]

lemma request_messages_payload: "concat (map (drop 4) (request_messages cmd req)) = req"
proof (induction cmd req rule: request_messages.induct)
  case (1 cmd req)
  then show ?case by (subst request_messages.simps) (simp add: keymaster_message_def)
qed

lemma request_messages_bound: "m \<in> set (request_messages cmd req) \<Longrightarrow> length m \<le> 3076"
proof (induction cmd req rule: request_messages.induct)
  case (1 cmd req)
  show ?case
  proof (cases "length req \<le> MAX_SEND_BUF_SIZE")
    case True
    with "1.prems" show ?thesis by (simp add: request_messages.simps [of cmd req] keymaster_message_def)
  next
    case False
    with "1.prems" "1.IH" show ?thesis
      by (auto simp: request_messages.simps [of cmd req] keymaster_message_def)
  qed
qed

lemma send_loop_sends:
  assumes "send_loop k cmd req s = (rc, s')" "errno_positive k"
  shows "sends rc (request_messages cmd req) s s' \<and> rc \<le> 0 \<and> km_handle s' = km_handle s"
  using assms(1)
proof (induction "length req" arbitrary: req s rule: less_induct)
  case less
  define l where "l \<longleftrightarrow> length req \<le> MAX_SEND_BUF_SIZE"
  define msg where "msg = keymaster_message (if l then cmd else cmd OR KEYMASTER_STOP_BIT) (take MAX_SEND_BUF_SIZE req)"
  define rest where "rest = drop MAX_SEND_BUF_SIZE req"
  obtain m s1 where m: "sys k (Malloc (length (take MAX_SEND_BUF_SIZE req) + 4)) s = (m, s1)" by fastforce
  obtain w s2 where w: "sys k (Write (km_handle s1) msg) s1 = (w, s2)" by fastforce
  have msgs: "request_messages cmd req = (if l then [msg] else msg # request_messages cmd rest)"
    by (subst request_messages.simps) (simp add: l_def msg_def rest_def)
  have h: "km_handle s1 = km_handle s" "km_handle s2 = km_handle s"
    by (simp_all add: sys_eqD(3) [OF m] sys_eqD(3) [OF w])
  have step: "(if sr_rc m < 0 then (- EINVAL, s1) else if sr_rc w < 0 then (- errno s2, s2)
      else if l then (0, s2) else send_loop k cmd rest s2) = (rc, s')"
    using less.prems unfolding send_loop.simps [of k cmd req s] Let_def m prod.case l_def [symmetric] msg_def [symmetric] rest_def [symmetric] w .
  have none: "c < 0 \<Longrightarrow> sends c ms s s1" for c ms
    using sends_silent [OF m, of c "[]" s1] sends_fail [of c "[]" s s1 ms] by simp
  have one: "sends c [msg] s s2" for c
    using sends_write [OF w, of c] sends_silent [OF m, of c] by simp
  consider "sr_rc m < 0" | "0 \<le> sr_rc m" "sr_rc w < 0" | "0 \<le> sr_rc m" "0 \<le> sr_rc w" l | "0 \<le> sr_rc m" "0 \<le> sr_rc w" "\<not> l"
    by linarith
  then show ?case
  proof cases
    case 1
    with step none h show ?thesis by auto
  next
    case 2
    then have *: "rc = - errno s2" "s' = s2" using step by auto
    have neg: "rc < 0" using * errno_positiveD [OF assms(2) w 2(2)] by simp
    have "sends rc (request_messages cmd req) s s2"
      using one [of rc] sends_fail [OF neg one, of "request_messages cmd rest"] by (simp add: msgs)
    with * neg h show ?thesis by simp
  next
    case 3
    with step one h show ?thesis by (simp add: msgs)
  next
    case 4
    then have "length rest < length req" "send_loop k cmd rest s2 = (rc, s')"
      using step by (simp_all add: l_def rest_def)
    from less.hyps [OF this] have ih: "sends rc (request_messages cmd rest) s2 s'" "rc \<le> 0" "km_handle s' = km_handle s2"
      by simp_all
    with sends_trans [OF order.refl one ih(1)] 4(3) h show ?thesis by (simp add: msgs)
  qed
qed

section \<open>Receiving a response\<close>

lemma recv_loop_unfold:
  assumes "sys k (Readv (km_handle s) [4, unat (iov_len n out)]) s = (r, s1)"
  shows "recv_loop k cmd n out s =
    (if sr_rc r < 0 then Some (- errno s1, out, s1)
     else if sr_rc r < 4 \<or> cmd OR KEYMASTER_RESP_BIT \<noteq> get_u32 (sr_out r) 0 AND NOT KEYMASTER_STOP_BIT
     then Some (- EINVAL, out, s1)
     else if has_flag (get_u32 (sr_out r) 0) KEYMASTER_STOP_BIT then Some (sr_rc r, out @ drop 4 (sr_out r), s1)
     else recv_loop k cmd n (out @ drop 4 (sr_out r)) s1)"
  by (subst recv_loop.simps) (simp add: assms Let_def)

lemma iov_len_unat:
  assumes "length out \<le> unat n"
  shows "unat (iov_len n out) = min 4096 (unat n - length out)"
proof -
  have "unat (of_nat (length out) :: u32) = length out"
    using assms unat_word_less(2) [of n] by (simp add: unat_of_nat take_bit_nat_eq_self)
  then have "unat (n - of_nat (length out)) = unat n - length out"
    using assms by (simp add: unat_sub word_le_nat_alt)
  then show ?thesis by (simp add: iov_len_def min_def word_le_nat_alt)
qed

text \<open>Whatever arrives stays in the buffer, and nothing is written or opened.\<close>

definition received :: "u32 \<Rightarrow> km \<Rightarrow> int \<times> bytes \<times> km \<Rightarrow> bool" where
  "received n s = (\<lambda>(rc, out, s'). length out \<le> unat n \<and> sends 0 [] s s' \<and> km_handle s' = km_handle s)"

lemma recv_loop_received:
  assumes "recv_loop k cmd n out s = Some x" "length out \<le> unat n" "io_bounded k"
  shows "received n s x"
proof -
  have "io_bounded k \<longrightarrow> length out \<le> unat n \<longrightarrow> received n s x"
  proof (rule recv_loop.raw_induct [where P = "\<lambda>k cmd n out s x. io_bounded k \<longrightarrow> length out \<le> unat n \<longrightarrow> received n s x", OF _ assms(1)], intro impI)
    fix f k cmd n out s x
    assume IH: "\<And>k cmd n out s x. f k cmd n out s = Some x \<Longrightarrow> io_bounded k \<longrightarrow> length out \<le> unat n \<longrightarrow> received n s x"
      and eq: "(let (r, s1) = sys k (Readv (km_handle s) [4, unat (iov_len n out)]) s; header = get_u32 (sr_out r) 0
        in if sr_rc r < 0 then Some (- errno s1, out, s1)
           else if sr_rc r < 4 then Some (- EINVAL, out, s1)
           else if cmd OR KEYMASTER_RESP_BIT \<noteq> header AND NOT KEYMASTER_STOP_BIT then Some (- EINVAL, out, s1)
           else let out1 = out @ drop 4 (sr_out r)
             in if has_flag header KEYMASTER_STOP_BIT then Some (sr_rc r, out1, s1) else f k cmd n out1 s1) = Some x"
      and io: "io_bounded k" and len: "length out \<le> unat n"
    obtain r s1 where 1: "sys k (Readv (km_handle s) [4, unat (iov_len n out)]) s = (r, s1)" by fastforce
    let ?out1 = "out @ drop 4 (sr_out r)"
    have h: "sends 0 [] s s1" "km_handle s1 = km_handle s"
      using sends_silent [OF 1, of 0 "[]" s1] by (simp_all add: sys_eqD(3) [OF 1])
    have "sr_rc r \<le> int (4 + unat (iov_len n out))" "length (sr_out r) = nat (sr_rc r)"
      using io_boundedD [OF io, of "Readv (km_handle s) [4, unat (iov_len n out)]" "hist s"] sys_eqD(1) [OF 1] by simp_all
    then have "length (sr_out r) \<le> 4 + unat (iov_len n out)" by (simp only: nat_le_iff)
    then have len1: "length ?out1 \<le> unat n" using iov_len_unat [OF len] len by simp
    have stop: "received n s (rc, out, s1)" "received n s (rc, ?out1, s1)" for rc
      using len len1 h by (simp_all add: received_def)
    have again: "received n s x" if "f k cmd n ?out1 s1 = Some x"
    proof -
      obtain rc o2 s2 where x: "x = (rc, o2, s2)" by (metis surj_pair)
      have r: "received n s1 x" using IH [OF that] io len1 by simp
      have "sends 0 [] s s2" using sends_trans [OF order.refl h(1), of 0 "[]" s2] r by (simp add: received_def x)
      with r h(2) show ?thesis by (simp add: received_def x)
    qed
    show "received n s x"
      using eq stop again by (auto simp: 1 Let_def split: if_splits)
  qed
  with assms(2,3) show ?thesis by simp
qed

lemma call_sends:
  assumes "bp_keymaster_call k cmd req n s = Some (rc, out, s')" "errno_positive k" "io_bounded k"
  shows "sends rc (request_messages cmd req) s s' \<and> length out \<le> unat n \<and> km_handle s' = km_handle s"
proof -
  obtain rc1 s1 where 1: "send_loop k cmd req s = (rc1, s1)" by fastforce
  note s1 = send_loop_sends [OF 1 assms(2)]
  consider "km_handle s < 0" | "0 \<le> km_handle s" "rc1 < 0" | "0 \<le> km_handle s" "rc1 = 0" using s1 by linarith
  then show ?thesis
  proof cases
    case 1
    then show ?thesis using assms(1) by (auto simp: bp_keymaster_call_def sends_def)
  next
    case 2
    then show ?thesis using assms(1) s1 1 by (auto simp: bp_keymaster_call_def)
  next
    case 3
    then have "recv_loop k cmd n [] s1 = Some (rc, out, s')" using assms(1) by (simp add: bp_keymaster_call_def 1)
    from recv_loop_received [OF this _ assms(3)] have r: "length out \<le> unat n" "sends 0 [] s1 s'" "km_handle s' = km_handle s1"
      by (simp_all add: received_def)
    have "sends rc [] s1 s'" using r(2) by (auto simp: sends_def)
    from sends_trans [OF _ conjunct1 [OF s1] this] 3(2) r s1 show ?thesis by simp
  qed
qed

text \<open>C25. A call of the key master application: whatever the kernel answers, what is written is a
  prefix of the request cut into pieces, no message is longer than 3076 bytes and the pieces
  put together are the request; the answer is not negative only when all of it was sent; the
  response stays inside the buffer; and the connection is kept.\<close>

theorem keymaster_call_protocol:
  assumes "bp_keymaster_call k cmd req n s = Some (rc, out, s')" "errno_positive k" "io_bounded k"
  shows "sends rc (request_messages cmd req) s s' \<and> length out \<le> unat n \<and> km_handle s' = km_handle s \<and>
    concat (map (drop 4) (request_messages cmd req)) = req \<and> (\<forall>m \<in> set (request_messages cmd req). length m \<le> 3076)"
  using call_sends [OF assms] request_messages_payload request_messages_bound by blast

section \<open>A service that answers\<close>

fun is_readv :: "event \<Rightarrow> bool" where
  "is_readv (Readv fd ns, r) = True"
| "is_readv _ = False"

definition reads :: "event list \<Rightarrow> nat" where
  "reads h = length (filter is_readv h)"

lemma reads_append [simp]: "reads (h @ h') = reads h + reads h'"
  by (simp add: reads_def)

text \<open>The kernel accepts what is written and delivers the pieces \<open>cs\<close> of a response to \<open>cmd\<close> where there is room.\<close>

definition delivers :: "kernel \<Rightarrow> u32 \<Rightarrow> bytes list \<Rightarrow> bool" where
  "delivers k cmd cs \<longleftrightarrow>
     (\<forall>h n. 0 \<le> sr_rc (k h (Malloc n))) \<and> (\<forall>h fd bs. 0 \<le> sr_rc (k h (Write fd bs))) \<and>
     (\<forall>h fd ns. reads h < length cs \<longrightarrow> 4 + length (cs ! reads h) \<le> sum_list ns \<longrightarrow> k h (Readv fd ns) =
        ret_data (keymaster_message (cmd OR KEYMASTER_RESP_BIT OR (if Suc (reads h) = length cs then KEYMASTER_STOP_BIT else 0)) (cs ! reads h)))"

lemma send_loop_reads:
  "delivers k cmd cs \<Longrightarrow> \<exists>s'. send_loop k cmd req s = (0, s') \<and> reads (hist s') = reads (hist s)"
proof (induction "length req" arbitrary: req s rule: less_induct)
  case less
  obtain m s1 where m: "sys k (Malloc (length (take MAX_SEND_BUF_SIZE req) + 4)) s = (m, s1)" by fastforce
  obtain w s2 where w: "sys k (Write (km_handle s1) (keymaster_message (if length req \<le> MAX_SEND_BUF_SIZE then cmd
      else cmd OR KEYMASTER_STOP_BIT) (take MAX_SEND_BUF_SIZE req))) s1 = (w, s2)" by fastforce
  have ok: "0 \<le> sr_rc m" "0 \<le> sr_rc w"
    using less.prems sys_eqD(1) [OF m] sys_eqD(1) [OF w] by (simp_all add: delivers_def)
  have h: "reads (hist s2) = reads (hist s)"
    by (simp add: sys_eqD(2) [OF m] sys_eqD(2) [OF w] reads_def)
  have "send_loop k cmd req s = (if length req \<le> MAX_SEND_BUF_SIZE then (0, s2) else send_loop k cmd (drop MAX_SEND_BUF_SIZE req) s2)"
    unfolding send_loop.simps [of k cmd req s] Let_def m prod.case w using ok by simp
  with less.hyps [of "drop MAX_SEND_BUF_SIZE req" s2, OF _ less.prems] h show ?case by simp
qed

lemma response_header:
  assumes "\<not> bit cmd 1"
  shows "(cmd OR KEYMASTER_RESP_BIT OR KEYMASTER_STOP_BIT) AND NOT KEYMASTER_STOP_BIT = cmd OR KEYMASTER_RESP_BIT"
    "(cmd OR KEYMASTER_RESP_BIT) AND NOT KEYMASTER_STOP_BIT = cmd OR KEYMASTER_RESP_BIT"
    "has_flag (cmd OR KEYMASTER_RESP_BIT OR KEYMASTER_STOP_BIT) KEYMASTER_STOP_BIT"
    "\<not> has_flag (cmd OR KEYMASTER_RESP_BIT) KEYMASTER_STOP_BIT"
proof -
  have b: "bit KEYMASTER_STOP_BIT i \<longleftrightarrow> i = 1" "bit KEYMASTER_RESP_BIT i \<longleftrightarrow> i = 0" for i
    by (auto simp: KEYMASTER_STOP_BIT_def KEYMASTER_RESP_BIT_def bit_1_iff bit_simps)
  show "(cmd OR KEYMASTER_RESP_BIT OR KEYMASTER_STOP_BIT) AND NOT KEYMASTER_STOP_BIT = cmd OR KEYMASTER_RESP_BIT"
    "(cmd OR KEYMASTER_RESP_BIT) AND NOT KEYMASTER_STOP_BIT = cmd OR KEYMASTER_RESP_BIT"
    by (rule bit_word_eqI; use assms in \<open>auto simp: bit_or_iff bit_and_iff bit_not_iff b\<close>)+
  have f: "has_flag x KEYMASTER_STOP_BIT \<longleftrightarrow> bit x 1" for x
    using and_exp_eq_0_iff_not_bit [of x 1] by (simp add: has_flag_def KEYMASTER_STOP_BIT_def)
  show "has_flag (cmd OR KEYMASTER_RESP_BIT OR KEYMASTER_STOP_BIT) KEYMASTER_STOP_BIT"
    "\<not> has_flag (cmd OR KEYMASTER_RESP_BIT) KEYMASTER_STOP_BIT"
    using assms by (simp_all add: f bit_or_iff b)
qed

lemma recv_loop_delivers:
  assumes "delivers k cmd cs" "\<not> bit cmd 1" "\<forall>c \<in> set cs. length c \<le> 4096" "reads (hist s) < length cs"
    and "length out + length (concat (drop (reads (hist s)) cs)) \<le> unat n"
  shows "\<exists>rc s'. recv_loop k cmd n out s = Some (rc, out @ concat (drop (reads (hist s)) cs), s') \<and> 4 \<le> rc"
  using assms(4,5)
proof (induction "length cs - reads (hist s)" arbitrary: out s rule: less_induct)
  case less
  let ?i = "reads (hist s)"
  let ?stop = "Suc ?i = length cs"
  let ?h = "cmd OR KEYMASTER_RESP_BIT OR (if ?stop then KEYMASTER_STOP_BIT else 0)"
  obtain r s1 where 1: "sys k (Readv (km_handle s) [4, unat (iov_len n out)]) s = (r, s1)" by fastforce
  have i1: "reads (hist s1) = Suc ?i" by (simp add: sys_eqD(2) [OF 1] reads_def)
  have cs: "drop ?i cs = cs ! ?i # drop (Suc ?i) cs" using less.prems(1) by (rule Cons_nth_drop_Suc [symmetric])
  have "length (cs ! ?i) \<le> unat (iov_len n out)"
    using assms(3) less.prems cs by (simp add: iov_len_unat)
  then have r: "r = ret_data (put_u32 ?h @ cs ! ?i)"
    using assms(1) less.prems(1) sys_eqD(1) [OF 1] by (simp add: delivers_def keymaster_message_def)
  have unf: "recv_loop k cmd n out s = (if ?stop then Some (sr_rc r, out @ cs ! ?i, s1) else recv_loop k cmd n (out @ cs ! ?i) s1)"
    using recv_loop_unfold [OF 1, of cmd] response_header [OF assms(2)] by (simp add: r ret_data_def)
  show ?case
  proof (cases ?stop)
    case True
    with unf cs show ?thesis by (simp add: r ret_data_def)
  next
    case False
    then have "length cs - reads (hist s1) < length cs - ?i" "reads (hist s1) < length cs"
      using less.prems(1) i1 by simp_all
    from less.hyps [OF this, of "out @ cs ! ?i"] less.prems(2) i1 False unf cs show ?thesis by simp
  qed
qed

text \<open>The call returns the response of the application: when the kernel accepts the request
  and delivers a response in any number of pieces of at most 4096 bytes that fit the buffer
  together, the call returns after as many reads with
  the pieces put together, for a command that leaves the bit of the last piece free.\<close>

theorem keymaster_call_reassembles:
  assumes "delivers k cmd cs" "cs \<noteq> []" "\<forall>c \<in> set cs. length c \<le> 4096" "length (concat cs) \<le> unat n"
    and "\<not> bit cmd 1" "0 \<le> km_handle s" "reads (hist s) = 0"
  shows "\<exists>rc s'. bp_keymaster_call k cmd req n s = Some (rc, concat cs, s') \<and> 4 \<le> rc"
proof -
  obtain s1 where 1: "send_loop k cmd req s = (0, s1)" "reads (hist s1) = 0"
    using send_loop_reads [OF assms(1)] assms(7) by metis
  with recv_loop_delivers [OF assms(1,5,3), of s1 "[]" n] assms(2,4,6) show ?thesis
    by (simp add: bp_keymaster_call_def)
qed

section \<open>The connection\<close>

interpretation keymaster_client: tipc_client bp_keymaster_connect bp_keymaster_disconnect km_handle hist "\<lambda>s. True" "\<lambda>s. 0 \<le> km_handle s"
proof unfold_locales
  fix s s' :: km and k rc
  assume c: "bp_keymaster_connect k s = (rc, s')"
  obtain r s1 where 1: "tipc_connect k km_device KEYMASTER_PORT s = (r, s1)" by fastforce
  have *: "(if r < 0 then (r, s1) else (0, s1\<lparr>km_handle := r\<rparr>)) = (rc, s')"
    using c by (simp only: bp_keymaster_connect_def 1 Let_def prod.case)
  then show "rc \<le> 0" by (simp split: if_splits)
  have more: "km_handle s1 = km_handle s" using tipc_connect_frame [OF 1] by (cases s; cases s1) simp
  assume "fresh_fds k"
  note fds = tipc_connect_open_fds [OF 1 this]
  show "open_fds (hist s') = open_fds (hist s) \<and> km_handle s' = km_handle s" if "rc < 0"
    using * fds that more by (cases "r < 0") auto
next
  fix s s' :: km and k
  assume c: "bp_keymaster_connect k s = (0, s')" and "fresh_fds k"
  obtain r s1 where 1: "tipc_connect k km_device KEYMASTER_PORT s = (r, s1)" by fastforce
  have *: "(if r < 0 then (r, s1) else (0, s1\<lparr>km_handle := r\<rparr>)) = (0, s')"
    using c by (simp only: bp_keymaster_connect_def 1 Let_def prod.case)
  note fds = tipc_connect_open_fds [OF 1 \<open>fresh_fds k\<close>]
  show "open_fds (hist s') = insert (km_handle s') (open_fds (hist s)) \<and> km_handle s' \<notin> open_fds (hist s) \<and> 0 \<le> km_handle s'"
    using * fds by (cases "r < 0") auto
next
  fix s :: km and k
  assume "0 \<le> km_handle s"
  then show "open_fds (hist (bp_keymaster_disconnect k s)) = open_fds (hist s) - {km_handle s}"
    by (simp add: bp_keymaster_disconnect_def tipc_close_def sys_def Let_def)
qed

text \<open>
  Besides the descriptors \<open>F\<close> of others, the process holds its handle when it is connected, and
  nothing else.
\<close>

definition km_inv :: "int set \<Rightarrow> km \<Rightarrow> bool" where
  "km_inv F s \<longleftrightarrow> (if 0 \<le> km_handle s then km_handle s \<notin> F \<and> open_fds (hist s) = insert (km_handle s) F
     else open_fds (hist s) = F)"

lemma disconnect_inv: "km_inv F s \<Longrightarrow> km_inv F (bp_keymaster_disconnect k s) \<and> km_handle (bp_keymaster_disconnect k s) = - 1"
  using keymaster_client.disconnect_closes [of s k]
  by (auto simp: km_inv_def bp_keymaster_disconnect_def split: if_splits)

lemma connect_inv:
  assumes "km_inv F s" "km_handle s = - 1" "fresh_fds k" "bp_keymaster_connect k s = (rc, s')"
  shows "km_inv F s'"
proof (cases "rc < 0")
  case True
  with keymaster_client.connect_fail [OF _ assms(3,4)] assms(1,2) show ?thesis by (simp add: km_inv_def)
next
  case False
  with keymaster_client.connect_answer [OF _ assms(4)] have "rc = 0" by simp
  with keymaster_client.connect_ok [OF _ assms(3), of s s'] assms(1,2,4) show ?thesis by (simp add: km_inv_def)
qed

lemma reset_inv: "km_inv F s \<Longrightarrow> fresh_fds k \<Longrightarrow> km_inv F (reset_connection k s)"
  unfolding reset_connection_def using disconnect_inv connect_inv by (metis prod.collapse)

text \<open>Sending keeps this, and a request that fails is never reported as a success.\<close>

lemma send_and_read_inv:
  assumes "send_and_read k deser rsp_error cmd req s = Some (e, rsp, s')"
    and "km_inv F s" "fresh_fds k" "errno_positive k" "io_bounded k"
  shows "km_inv F s' \<and> (rsp = None \<longrightarrow> e \<noteq> KM_ERROR_OK)"
proof -
  obtain rc out s1 where 1: "bp_keymaster_call k cmd req BP_KEYMASTER_RECV_BUF_SIZE s = Some (rc, out, s1)"
    using assms(1) by (auto simp: send_and_read_def bind_eq_Some_conv)
  note unf = assms(1) [unfolded send_and_read_def 1 Option.bind.bind_lunit prod.case]
  have "sends rc (request_messages cmd req) s s1 \<and> km_handle s1 = km_handle s"
    using call_sends [OF 1 assms(4,5)] by simp
  then have inv: "km_inv F s1" using assms(2) by (simp add: km_inv_def sends_def)
  show ?thesis
  proof (cases "rc < 0")
    case True
    with unf have "e = translate_error rc" "s' = reset_connection k s1" by auto
    with reset_inv [OF inv assms(3)] True show ?thesis by (auto simp: translate_error_def)
  next
    case False
    with unf inv show ?thesis by (auto split: option.splits)
  qed
qed

lemma bp_keymaster_send_inv:
  assumes "bp_keymaster_send k deser rsp_error cmd req s = Some (e, rsp, s')"
    and "km_inv F s" "fresh_fds k" "errno_positive k" "io_bounded k"
  shows "km_inv F s' \<and> (rsp = None \<longrightarrow> e \<noteq> KM_ERROR_OK)"
  using assms(1,2) send_and_read_inv [OF _ assms(2-5), of deser rsp_error cmd req e rsp s']
  by (auto simp: bp_keymaster_send_def split: if_splits)

text \<open>A kernel whose service answers every request to add entropy with two pieces.\<close>

definition add_entropy :: u32 where [simp]: "add_entropy = 32"

definition answering :: kernel where
  "answering h c =
     (case c of
        Readv fd ns \<Rightarrow>
          if reads h < 2 \<and> 5 \<le> sum_list ns
          then ret_data (keymaster_message (add_entropy OR KEYMASTER_RESP_BIT OR (if Suc (reads h) = 2 then KEYMASTER_STOP_BIT else 0)) ([[7], [8]] ! reads h))
          else ret_data []
      | _ \<Rightarrow> calm h c)"

lemma answering_ok: "fresh_fds answering" "errno_positive answering" "io_bounded answering" "delivers answering add_entropy [[7], [8]]"
proof -
  show "fresh_fds answering" using calm_ok(1) by (simp add: fresh_fds_def answering_def)
  have "sr_rc (calm h c) < 0 \<longrightarrow> 0 < sr_err (calm h c)" for h c
    by (cases c) (auto simp: calm_def answer_defs next_fd_def)
  then show "errno_positive answering"
    by (auto simp: errno_positive_def answering_def ret_data_def split: syscall.splits)
  have "io_answer_ok c (answering h c)" for h c
  proof (cases c)
    case (Readv fd ns)
    have "length ([[7], [8 :: u8]] ! reads h) = 1" if "reads h < 2"
      using that by (cases "reads h") auto
    then show ?thesis by (auto simp: Readv answering_def ret_data_def keymaster_message_def)
  qed (use io_boundedD [OF calm_ok(2), of c h] in \<open>simp_all add: answering_def\<close>)
  then show "io_bounded answering" by (simp add: io_bounded_def)
  show "delivers answering add_entropy [[7], [8]]"
  proof -
    have "answering h (Readv fd ns) = ret_data (keymaster_message (add_entropy OR KEYMASTER_RESP_BIT OR (if Suc (reads h) = 2 then KEYMASTER_STOP_BIT else 0)) ([[7], [8]] ! reads h))"
      if "reads h < 2" "4 + length ([[7], [8 :: u8]] ! reads h) \<le> sum_list ns" for h fd ns
      using that by (cases "reads h") (auto simp: answering_def)
    then show ?thesis by (simp add: delivers_def answering_def calm_def ret_def numeral_2_eq_2)
  qed
qed

definition km_connected :: km where
  "km_connected = \<lparr>hist = [(Open km_device O_RDWR 0, ret 5)], errno = 0, km_handle = 5\<rparr>"

lemma km_connected_ok: "reads (hist km_connected) = 0" "0 \<le> km_handle km_connected" "km_inv {} km_connected"
  by (simp_all add: km_connected_def reads_def km_inv_def open_fds_def ret_def)

lemma answering_call: "\<exists>rc s'. bp_keymaster_call answering add_entropy [1, 2] 100 km_connected = Some (rc, [7, 8], s')"
proof -
  obtain s1 where 1: "send_loop answering add_entropy [1, 2] km_connected = (0, s1)" "reads (hist s1) = 0"
    using send_loop_reads [OF answering_ok(4)] km_connected_ok(1) by metis
  with recv_loop_delivers [OF answering_ok(4), of s1 "[]" 100] km_connected_ok(2) show ?thesis
    by (auto simp: bp_keymaster_call_def bit_iff_odd)
qed

theorem keymaster_call_protocol_witness:
  "\<exists>rc s'. bp_keymaster_call answering add_entropy [1, 2] 100 km_connected = Some (rc, [7, 8], s') \<and>
     sends rc (request_messages add_entropy [1, 2]) km_connected s' \<and> length [7, 8 :: u8] \<le> unat (100 :: u32)"
proof -
  obtain rc s' where c: "bp_keymaster_call answering add_entropy [1, 2] 100 km_connected = Some (rc, [7, 8], s')"
    using answering_call by blast
  with keymaster_call_protocol [OF c answering_ok(2,3)] show ?thesis by blast
qed

theorem keymaster_call_reassembles_witness:
  "\<exists>rc s'. bp_keymaster_call answering add_entropy [1, 2] 100 km_connected = Some (rc, [7, 8], s') \<and> 4 \<le> rc"
  using keymaster_call_reassembles [OF answering_ok(4), of 100 km_connected "[1, 2]"] km_connected_ok(1,2)
  by (simp add: bit_iff_odd)

end
