(* ===== verification/Beanpod_Keymaster.thy ===== *)
theory Beanpod_Keymaster
  imports Keymaster_Ipc
begin

text \<open>
  The key master of the lite variant (\<open>lite/km4.1/common/BeanpodKeymaster.cpp\<close>): every method
  forwards its request as one command. Requests and responses are those of the AOSP key master
  library: a request appears as its bytes, \<open>deser\<close> reads a response and \<open>rsp_error\<close> is its
  error. \<open>dated\<close> stands for adding the creation time to a description of a key that has none.
\<close>

section \<open>Commands\<close>

datatype keymaster_command =
    KM_GENERATE_KEY | KM_BEGIN_OPERATION | KM_UPDATE_OPERATION | KM_FINISH_OPERATION | KM_ABORT_OPERATION
  | KM_IMPORT_KEY | KM_EXPORT_KEY | KM_GET_VERSION | KM_ADD_RNG_ENTROPY | KM_GET_SUPPORTED_ALGORITHMS
  | KM_GET_SUPPORTED_BLOCK_MODES | KM_GET_SUPPORTED_PADDING_MODES | KM_GET_SUPPORTED_DIGESTS
  | KM_GET_SUPPORTED_IMPORT_FORMATS | KM_GET_SUPPORTED_EXPORT_FORMATS | KM_GET_KEY_CHARACTERISTICS
  | KM_ATTEST_KEY | KM_UPGRADE_KEY | KM_CONFIGURE | KM_GET_HMAC_SHARING_PARAMETERS
  | KM_COMPUTE_SHARED_HMAC | KM_VERIFY_AUTHORIZATION | KM_DELETE_KEY | KM_DELETE_ALL_KEYS
  | KM_DESTROY_ATTESTATION_IDS | KM_IMPORT_WRAPPED_KEY | KM_DEVICE_LOCKED | KM_EARLY_BOOT_ENDED

fun request_number :: "keymaster_command \<Rightarrow> nat" where
  "request_number KM_GENERATE_KEY = 0"
| "request_number KM_BEGIN_OPERATION = 1"
| "request_number KM_UPDATE_OPERATION = 2"
| "request_number KM_FINISH_OPERATION = 3"
| "request_number KM_ABORT_OPERATION = 4"
| "request_number KM_IMPORT_KEY = 5"
| "request_number KM_EXPORT_KEY = 6"
| "request_number KM_GET_VERSION = 7"
| "request_number KM_ADD_RNG_ENTROPY = 8"
| "request_number KM_GET_SUPPORTED_ALGORITHMS = 9"
| "request_number KM_GET_SUPPORTED_BLOCK_MODES = 10"
| "request_number KM_GET_SUPPORTED_PADDING_MODES = 11"
| "request_number KM_GET_SUPPORTED_DIGESTS = 12"
| "request_number KM_GET_SUPPORTED_IMPORT_FORMATS = 13"
| "request_number KM_GET_SUPPORTED_EXPORT_FORMATS = 14"
| "request_number KM_GET_KEY_CHARACTERISTICS = 15"
| "request_number KM_ATTEST_KEY = 16"
| "request_number KM_UPGRADE_KEY = 17"
| "request_number KM_CONFIGURE = 18"
| "request_number KM_GET_HMAC_SHARING_PARAMETERS = 19"
| "request_number KM_COMPUTE_SHARED_HMAC = 20"
| "request_number KM_VERIFY_AUTHORIZATION = 21"
| "request_number KM_DELETE_KEY = 22"
| "request_number KM_DELETE_ALL_KEYS = 23"
| "request_number KM_DESTROY_ATTESTATION_IDS = 24"
| "request_number KM_IMPORT_WRAPPED_KEY = 25"
| "request_number KM_DEVICE_LOCKED = 26"
| "request_number KM_EARLY_BOOT_ENDED = 27"

definition KEYMASTER_REQ_SHIFT :: nat where [simp]: "KEYMASTER_REQ_SHIFT = 2"

definition km_code :: "keymaster_command \<Rightarrow> u32" where
  "km_code c = push_bit KEYMASTER_REQ_SHIFT (of_nat (request_number c))"

section \<open>Methods\<close>

text \<open>What a method leaves in its response: the error, and the response where one was read.\<close>

type_synonym 'r km_result = "(keymaster_error_t \<times> 'r option \<times> km) option"

definition ForwardCommand ::
  "kernel \<Rightarrow> (bytes \<Rightarrow> 'r option) \<Rightarrow> ('r \<Rightarrow> keymaster_error_t) \<Rightarrow> keymaster_command \<Rightarrow> bytes \<Rightarrow> km \<Rightarrow> 'r km_result" where
  "ForwardCommand k deser rsp_error command req s = bp_keymaster_send k deser rsp_error (km_code command) req s"

definition ForwardCommandNoRequest ::
  "kernel \<Rightarrow> (bytes \<Rightarrow> 'r option) \<Rightarrow> ('r \<Rightarrow> keymaster_error_t) \<Rightarrow> keymaster_command \<Rightarrow> km \<Rightarrow> 'r km_result" where
  "ForwardCommandNoRequest k deser rsp_error command s = bp_keymaster_send_no_request k deser rsp_error (km_code command) s"

datatype km_method =
    GetVersion | SupportedAlgorithms | SupportedBlockModes | SupportedPaddingModes | SupportedDigests
  | SupportedImportFormats | SupportedExportFormats | AddRngEntropy | Configure | GenerateKey
  | GetKeyCharacteristics | ImportKey | ImportWrappedKey | ExportKey | AttestKey | UpgradeKey
  | DeleteKey | DeleteAllKeys | BeginOperation | UpdateOperation | FinishOperation | AbortOperation
  | GetHmacSharingParameters | ComputeSharedHmac | VerifyAuthorization | DeviceLocked | EarlyBootEnded

fun method_command :: "km_method \<Rightarrow> keymaster_command" where
  "method_command GetVersion = KM_GET_VERSION"
| "method_command SupportedAlgorithms = KM_GET_SUPPORTED_ALGORITHMS"
| "method_command SupportedBlockModes = KM_GET_SUPPORTED_BLOCK_MODES"
| "method_command SupportedPaddingModes = KM_GET_SUPPORTED_PADDING_MODES"
| "method_command SupportedDigests = KM_GET_SUPPORTED_DIGESTS"
| "method_command SupportedImportFormats = KM_GET_SUPPORTED_IMPORT_FORMATS"
| "method_command SupportedExportFormats = KM_GET_SUPPORTED_EXPORT_FORMATS"
| "method_command AddRngEntropy = KM_ADD_RNG_ENTROPY"
| "method_command Configure = KM_CONFIGURE"
| "method_command GenerateKey = KM_GENERATE_KEY"
| "method_command GetKeyCharacteristics = KM_GET_KEY_CHARACTERISTICS"
| "method_command ImportKey = KM_IMPORT_KEY"
| "method_command ImportWrappedKey = KM_IMPORT_WRAPPED_KEY"
| "method_command ExportKey = KM_EXPORT_KEY"
| "method_command AttestKey = KM_ATTEST_KEY"
| "method_command UpgradeKey = KM_UPGRADE_KEY"
| "method_command DeleteKey = KM_DELETE_KEY"
| "method_command DeleteAllKeys = KM_DELETE_ALL_KEYS"
| "method_command BeginOperation = KM_BEGIN_OPERATION"
| "method_command UpdateOperation = KM_UPDATE_OPERATION"
| "method_command FinishOperation = KM_FINISH_OPERATION"
| "method_command AbortOperation = KM_ABORT_OPERATION"
| "method_command GetHmacSharingParameters = KM_GET_HMAC_SHARING_PARAMETERS"
| "method_command ComputeSharedHmac = KM_COMPUTE_SHARED_HMAC"
| "method_command VerifyAuthorization = KM_VERIFY_AUTHORIZATION"
| "method_command DeviceLocked = KM_DEVICE_LOCKED"
| "method_command EarlyBootEnded = KM_EARLY_BOOT_ENDED"

fun no_request :: "km_method \<Rightarrow> bool" where
  "no_request GetHmacSharingParameters = True"
| "no_request EarlyBootEnded = True"
| "no_request _ = False"

definition km_method_call ::
  "kernel \<Rightarrow> (bytes \<Rightarrow> bytes) \<Rightarrow> (bytes \<Rightarrow> 'r option) \<Rightarrow> ('r \<Rightarrow> keymaster_error_t) \<Rightarrow> km_method \<Rightarrow> bytes \<Rightarrow> km \<Rightarrow> 'r km_result" where
  "km_method_call k dated deser rsp_error m req s =
     (if no_request m then ForwardCommandNoRequest k deser rsp_error (method_command m) s
      else ForwardCommand k deser rsp_error (method_command m) (if m = GenerateKey then dated req else req) s)"

text \<open>\<open>configure\<close> are the bytes of the request with the version of the system and its patch level.\<close>

definition km_Initialize ::
  "kernel \<Rightarrow> (bytes \<Rightarrow> 'r option) \<Rightarrow> ('r \<Rightarrow> keymaster_error_t) \<Rightarrow> bytes \<Rightarrow> km \<Rightarrow> (int \<times> km) option" where
  "km_Initialize k deser rsp_error configure s =
     (let (err, s1) = bp_keymaster_connect k s in
      if err \<noteq> 0 then Some (err, s1)
      else do {
        (e, rsp, s2) \<leftarrow> ForwardCommand k deser rsp_error KM_CONFIGURE configure s1;
        Some (if e \<noteq> KM_ERROR_OK then - 1 else 0, s2)
      })"

definition km_destructor :: "kernel \<Rightarrow> km \<Rightarrow> km" where
  "km_destructor k s = bp_keymaster_disconnect k s"

section \<open>Facts\<close>

lemma request_number_inj: "request_number a = request_number b \<Longrightarrow> a = b"
  by (cases a; cases b; simp)

lemma request_number_less: "request_number c < 28"
  by (cases c) simp_all

lemma km_code_bits: "\<not> bit (km_code c) 0" "\<not> bit (km_code c) 1"
  by (simp_all add: km_code_def bit_push_bit_iff)

lemma km_code_inj: "km_code a = km_code b \<Longrightarrow> a = b"
proof -
  assume "km_code a = km_code b"
  then have "unat (km_code a) = unat (km_code b)" by simp
  moreover have "unat (km_code c) = 4 * request_number c" for c
    using request_number_less [of c]
    by (simp add: km_code_def push_bit_eq_mult unat_word_ariths unat_of_nat take_bit_nat_eq_self mult.commute)
  ultimately show "a = b" by (intro request_number_inj) simp
qed

section \<open>Properties\<close>

definition forwarded :: "(bytes \<Rightarrow> bytes) \<Rightarrow> km_method \<Rightarrow> bytes \<Rightarrow> bytes" where
  "forwarded dated m req = (if no_request m then [] else if m = GenerateKey then dated req else req)"

lemma km_method_call_send:
  "length (forwarded dated m req) \<le> BP_KEYMASTER_SEND_BUF_SIZE \<Longrightarrow>
   km_method_call k dated deser rsp_error m req s =
     send_and_read k deser rsp_error (km_code (method_command m)) (forwarded dated m req) s"
  by (auto simp: km_method_call_def ForwardCommand_def ForwardCommandNoRequest_def forwarded_def
      bp_keymaster_send_def bp_keymaster_send_no_request_def)

lemma method_command_inj: "method_command a = method_command b \<Longrightarrow> a = b"
  by (cases a; cases b; simp)


text \<open>A sequence of method calls.\<close>

fun km_calls ::
  "kernel \<Rightarrow> (bytes \<Rightarrow> bytes) \<Rightarrow> (bytes \<Rightarrow> 'r option) \<Rightarrow> ('r \<Rightarrow> keymaster_error_t) \<Rightarrow> (km_method \<times> bytes) list \<Rightarrow> km \<Rightarrow> km option" where
  "km_calls k dated deser rsp_error [] s = Some s"
| "km_calls k dated deser rsp_error ((m, req) # ops) s =
     do { (e, rsp, s1) \<leftarrow> km_method_call k dated deser rsp_error m req s; km_calls k dated deser rsp_error ops s1 }"

lemma km_method_call_inv:
  assumes "km_method_call k dated deser rsp_error m req s = Some (e, rsp, s')"
    and "km_inv F s" "fresh_fds k" "errno_positive k" "io_bounded k"
  shows "km_inv F s'"
proof (cases "no_request m")
  case True
  then have "send_and_read k deser rsp_error (km_code (method_command m)) [] s = Some (e, rsp, s')"
    using assms(1) by (simp add: km_method_call_def ForwardCommandNoRequest_def bp_keymaster_send_no_request_def)
  from send_and_read_inv [OF this assms(2-5)] show ?thesis by simp
next
  case False
  then have "bp_keymaster_send k deser rsp_error (km_code (method_command m)) (if m = GenerateKey then dated req else req) s = Some (e, rsp, s')"
    using assms(1) by (simp add: km_method_call_def ForwardCommand_def)
  from bp_keymaster_send_inv [OF this assms(2-5)] show ?thesis by simp
qed

lemma km_calls_inv:
  assumes "km_calls k dated deser rsp_error ops s = Some s'" "km_inv F s" "fresh_fds k" "errno_positive k" "io_bounded k"
  shows "km_inv F s'"
  using assms(1,2)
proof (induction ops arbitrary: s)
  case (Cons op ops)
  obtain m req where op: "op = (m, req)" by (cases op)
  from Cons.prems(1) obtain e rsp s1 where 1: "km_method_call k dated deser rsp_error m req s = Some (e, rsp, s1)"
    "km_calls k dated deser rsp_error ops s1 = Some s'"
    by (auto simp: op bind_eq_Some_conv)
  from Cons.IH [OF 1(2) km_method_call_inv [OF 1(1) Cons.prems(2) assms(3-5)]] show ?case .
qed simp

lemma km_Initialize_inv:
  assumes "km_Initialize k deser rsp_error configure s = Some (rc, s')" "km_inv F s" "km_handle s = - 1"
    and "fresh_fds k" "errno_positive k" "io_bounded k"
  shows "km_inv F s'"
proof -
  obtain err s1 where 1: "bp_keymaster_connect k s = (err, s1)" by fastforce
  have inv: "km_inv F s1" by (rule connect_inv [OF assms(2,3,4) 1])
  show ?thesis
  proof (cases "err = 0")
    case True
    then obtain e rsp where "ForwardCommand k deser rsp_error KM_CONFIGURE configure s1 = Some (e, rsp, s')"
      using assms(1) by (auto simp: km_Initialize_def 1 bind_eq_Some_conv)
    from bp_keymaster_send_inv [OF this [unfolded ForwardCommand_def] inv assms(4-6)] show ?thesis by simp
  next
    case False
    with assms(1) inv show ?thesis by (simp add: km_Initialize_def 1)
  qed
qed

text \<open>C27. The life of the key master leaks no descriptor: after its initialisation, successful or
  not, any sequence of method calls that return, with all the connections that were closed and
  opened again after errors, and its destruction, the process holds exactly the descriptors it
  held before.\<close>

theorem keymaster_life_balanced:
  assumes "km_Initialize k deser rsp_error configure s = Some (rc, s1)" "km_handle s = - 1"
    and "km_calls k dated deser rsp_error ops s1 = Some s2"
    and "fresh_fds k" "errno_positive k" "io_bounded k"
  shows "open_fds (hist (km_destructor k s2)) = open_fds (hist s) \<and> km_handle (km_destructor k s2) = - 1"
proof -
  have "km_inv (open_fds (hist s)) s" using assms(2) by (simp add: km_inv_def)
  from km_calls_inv [OF assms(3) km_Initialize_inv [OF assms(1) this assms(2,4-6)] assms(4-6)]
  have "km_inv (open_fds (hist s)) s2" .
  from disconnect_inv [OF this, of k] show ?thesis by (simp add: km_destructor_def km_inv_def)
qed

lemma entropy_code: "km_code (method_command AddRngEntropy) = add_entropy"
  by (simp add: km_code_def push_bit_eq_mult)


text \<open>A kernel without the device: every initialisation fails.\<close>

definition no_device :: kernel where
  "no_device h c = (case c of Readv fd ns \<Rightarrow> fail EIO | Read fd n \<Rightarrow> fail EIO | Pread fd n off \<Rightarrow> fail EIO | _ \<Rightarrow> fail ENOENT)"

lemma no_device_ok: "fresh_fds no_device" "errno_positive no_device" "io_bounded no_device"
proof -
  have "0 \<le> fd" if "fd \<in> open_fds h" for fd h
    using that
  proof (induction h rule: rev_induct)
    case (snoc e h)
    then show ?case by (cases "fst e"; cases e) (auto split: if_splits)
  qed simp
  then show "fresh_fds no_device" by (fastforce simp: fresh_fds_def no_device_def fail_def)
  show "errno_positive no_device"
    by (auto simp: errno_positive_def no_device_def fail_def split: syscall.splits)
  have "io_answer_ok c (no_device h c)" for h c
    by (cases c) (simp_all add: no_device_def fail_def)
  then show "io_bounded no_device" by (simp add: io_bounded_def)
qed

theorem keymaster_life_balanced_witness:
  "\<exists>s1 s2. km_Initialize no_device (\<lambda>bs. Some ()) (\<lambda>r. KM_ERROR_OK) [1] km_init = Some (- ENOENT, s1) \<and>
     km_calls no_device (\<lambda>r. r) (\<lambda>bs. Some ()) (\<lambda>r. KM_ERROR_OK) [(GetVersion, [2])] s1 = Some s2 \<and>
     open_fds (hist (km_destructor no_device s2)) = open_fds (hist km_init)"
proof -
  obtain s1 where 1: "km_Initialize no_device (\<lambda>bs. Some ()) (\<lambda>r. KM_ERROR_OK) [1] km_init = Some (- ENOENT, s1)" "km_handle s1 = - 1"
    by (simp add: km_Initialize_def bp_keymaster_connect_def tipc_connect_def sys_def Let_def no_device_def fail_def km_init_def)
  obtain s2 where 2: "km_calls no_device (\<lambda>r. r) (\<lambda>bs. Some ()) (\<lambda>r. KM_ERROR_OK) [(GetVersion, [2])] s1 = Some s2"
    using 1(2) by (auto simp: km_method_call_def ForwardCommand_def bp_keymaster_send_def send_and_read_def bp_keymaster_call_def)
  have "km_handle km_init = - 1" by (simp add: km_init_def)
  from keymaster_life_balanced [OF 1(1) this 2 no_device_ok] 1 2 show ?thesis by blast
qed

end
