(* ===== verification/Keymaster4_Device.thy ===== *)
theory Keymaster4_Device
  imports Km_Params Beanpod_Keymaster
begin

text \<open>
  The key master devices of the HIDL interface, versions 4.0 and 4.1
  (\<open>km4.1/40/BeanpodKeymaster4Device.cpp\<close>, \<open>km4.1/41/BeanpodKeymaster41Device.cpp\<close>). A method fills
  a request of the AOSP library, hands it to the service (\<open>impl\<close>) and passes the members of the
  response on. Requests and responses are the library's: a request is what was filled in, a
  response has the members that the devices read, and \<open>fresh\<close> is a response as it is when no
  answer could be read. The arguments of the callbacks are returned.
\<close>

section \<open>Requests and responses\<close>

record 'p VerificationToken =
  vt_challenge :: u64
  vt_timestamp :: u64
  vt_parameters :: "'p list"
  vt_security_level :: u32
  vt_mac :: bytes

type_synonym km_params = "keymaster_key_param_t list"

text \<open>The key that signs an attestation: its blob, parameters and the name of the issuer.\<close>

type_synonym 'p attestation_key = "bytes \<times> 'p list \<times> bytes"

datatype km_request =
    NoRequest
  | ComputeSharedHmacRequest "(bytes \<times> bytes) list"
  | VerifyAuthorizationRequest u64 km_params HardwareAuthToken
  | AddEntropyRequest bytes
  | GenerateKeyRequest km_params "keymaster_key_param_t attestation_key option"
  | GetKeyCharacteristicsRequest bytes km_params
  | ImportKeyRequest km_params u32 bytes "keymaster_key_param_t attestation_key option"
  | ImportWrappedKeyRequest bytes bytes bytes km_params u64 u64
  | ExportKeyRequest u32 bytes km_params
  | AttestKeyRequest bytes km_params
  | UpgradeKeyRequest bytes km_params
  | DeleteKeyRequest bytes
  | DeleteAllKeysRequest
  | BeginOperationRequest u32 bytes km_params
  | UpdateOperationRequest u64 bytes km_params
  | FinishOperationRequest u64 bytes bytes km_params
  | AbortOperationRequest u64
  | DeviceLockedRequest bool "keymaster_key_param_t VerificationToken"
  | DeviceLockedTimeRequest bool "(u64 \<times> u64 \<times> bytes) option" \<comment> \<open>as the key mint device fills it\<close>
  | GenerateTimestampTokenRequest u64
  | GenerateRkpKeyRequest bool
  | GenerateCsrRequest bool "bytes list" bytes bytes

record km_response =
  rsp_seed :: bytes
  rsp_nonce :: bytes
  rsp_sharing_check :: bytes
  rsp_token :: "keymaster_key_param_t VerificationToken"
  rsp_key_blob :: bytes
  rsp_enforced :: km_params
  rsp_unenforced :: km_params
  rsp_key_data :: bytes
  rsp_chain :: "bytes list option"
  rsp_upgraded_key :: bytes
  rsp_output_params :: km_params
  rsp_op_handle :: u64
  rsp_input_consumed :: u32
  rsp_output :: bytes
  rsp_maced_public_key :: bytes
  rsp_device_info :: bytes
  rsp_protected_data :: bytes
  rsp_keys_to_sign_mac :: bytes

type_synonym ('m, 's) km_impl = "'m \<Rightarrow> km_request \<Rightarrow> 's \<Rightarrow> (keymaster_error_t \<times> km_response option \<times> 's) option"

record ('m, 's) km_hal =
  impl :: "('m, 's) km_impl"
  lib :: km_lib
  fresh :: km_response

definition ask :: "('m, 's) km_hal \<Rightarrow> 'm \<Rightarrow> km_request \<Rightarrow> 's \<Rightarrow> (keymaster_error_t \<times> km_response \<times> 's) option" where
  "ask D m rq s =
     do { (e, rsp, s') \<leftarrow> impl D m rq s; Some (e, case rsp of None \<Rightarrow> fresh D | Some r \<Rightarrow> r, s') }"

type_synonym 's km4_device = "(km_method, 's) km_hal"

section \<open>Information and shared secrets\<close>

datatype SecurityLevel = SOFTWARE | TRUSTED_ENVIRONMENT | STRONGBOX | KEYSTORE

definition getHardwareInfo :: "SecurityLevel \<times> string \<times> string" where
  "getHardwareInfo = (TRUSTED_ENVIRONMENT, ''BeanpodwareKeymasterDevice'', ''Beanpod'')"

text \<open>The parameters of the callback, where they are written.\<close>

definition getHmacSharingParameters :: "'s km4_device \<Rightarrow> 's \<Rightarrow> (keymaster_error_t \<times> (bytes \<times> bytes) option \<times> 's) option" where
  "getHmacSharingParameters D s =
     do {
       (e, r, s') \<leftarrow> ask D Beanpod_Keymaster.GetHmacSharingParameters NoRequest s;
       Some (e, if e = KM_ERROR_OK then Some (rsp_seed r, rsp_nonce r) else None, s')
     }"

definition computeSharedHmac :: "'s km4_device \<Rightarrow> (bytes \<times> bytes) list \<Rightarrow> 's \<Rightarrow> (keymaster_error_t \<times> bytes \<times> 's) option" where
  "computeSharedHmac D params s =
     do {
       (e, r, s') \<leftarrow> ask D ComputeSharedHmac (ComputeSharedHmacRequest params) s;
       Some (e, if e = KM_ERROR_OK then rsp_sharing_check r else [], s')
     }"

text \<open>The token is passed on whatever the error is.\<close>

definition verifyAuthorization ::
  "'s km4_device \<Rightarrow> u64 \<Rightarrow> KeyParameter list \<Rightarrow> HardwareAuthToken \<Rightarrow> 's \<Rightarrow> (keymaster_error_t \<times> KeyParameter VerificationToken \<times> 's) option" where
  "verifyAuthorization D chall parametersToVerify authToken s =
     do {
       (e, r, s') \<leftarrow> ask D VerifyAuthorization (VerifyAuthorizationRequest chall (KmParamSet (lib D) parametersToVerify) authToken) s;
       ps \<leftarrow> kmParamSet2Hidl (lib D) (vt_parameters (rsp_token r));
       Some (e, \<lparr>vt_challenge = vt_challenge (rsp_token r), vt_timestamp = vt_timestamp (rsp_token r), vt_parameters = ps,
         vt_security_level = vt_security_level (rsp_token r), vt_mac = vt_mac (rsp_token r)\<rparr>, s')
     }"

definition addRngEntropy :: "'s km4_device \<Rightarrow> bytes \<Rightarrow> 's \<Rightarrow> (keymaster_error_t \<times> 's) option" where
  "addRngEntropy D dat s =
     (if dat = [] then Some (KM_ERROR_OK, s)
      else do { (e, r, s') \<leftarrow> ask D AddRngEntropy (AddEntropyRequest dat) s; Some (e, s') })"

section \<open>Keys\<close>

text \<open>\<open>KeyCharacteristics\<close>: what the hardware and what the software enforces.\<close>

type_synonym hidl_characteristics = "KeyParameter list \<times> KeyParameter list"

definition characteristics :: "km_lib \<Rightarrow> km_response \<Rightarrow> hidl_characteristics option" where
  "characteristics L r =
     do { hw \<leftarrow> kmParamSet2Hidl L (rsp_enforced r); sw \<leftarrow> kmParamSet2Hidl L (rsp_unenforced r); Some (hw, sw) }"

text \<open>The part of the three methods that make a key after the answer.\<close>

definition new_key ::
  "'s km4_device \<Rightarrow> keymaster_error_t \<times> km_response \<times> 's \<Rightarrow> (keymaster_error_t \<times> bytes \<times> hidl_characteristics \<times> 's) option" where
  "new_key D a =
     (case a of (e, r, s') \<Rightarrow>
        if e = KM_ERROR_OK then do { c \<leftarrow> characteristics (lib D) r; Some (e, rsp_key_blob r, c, s') }
        else Some (e, [], ([], []), s'))"

definition generateKey ::
  "'s km4_device \<Rightarrow> KeyParameter list \<Rightarrow> 's \<Rightarrow> (keymaster_error_t \<times> bytes \<times> hidl_characteristics \<times> 's) option" where
  "generateKey D keyParams s = ask D GenerateKey (GenerateKeyRequest (KmParamSet (lib D) keyParams) None) s \<bind> new_key D"

definition getKeyCharacteristics ::
  "'s km4_device \<Rightarrow> bytes \<Rightarrow> bytes \<Rightarrow> bytes \<Rightarrow> 's \<Rightarrow> (keymaster_error_t \<times> hidl_characteristics \<times> 's) option" where
  "getKeyCharacteristics D keyBlob clientId appData s =
     do {
       (e, r, s') \<leftarrow> ask D GetKeyCharacteristics (GetKeyCharacteristicsRequest keyBlob (addClientAndAppData (lib D) clientId appData)) s;
       if e = KM_ERROR_OK then do { c \<leftarrow> characteristics (lib D) r; Some (e, c, s') } else Some (e, ([], []), s')
     }"

definition importKey ::
  "'s km4_device \<Rightarrow> KeyParameter list \<Rightarrow> u32 \<Rightarrow> bytes \<Rightarrow> 's \<Rightarrow> (keymaster_error_t \<times> bytes \<times> hidl_characteristics \<times> 's) option" where
  "importKey D params keyFormat keyData s =
     ask D ImportKey (ImportKeyRequest (KmParamSet (lib D) params) keyFormat keyData None) s \<bind> new_key D"

definition importWrappedKey ::
  "'s km4_device \<Rightarrow> bytes \<Rightarrow> bytes \<Rightarrow> bytes \<Rightarrow> KeyParameter list \<Rightarrow> u64 \<Rightarrow> u64 \<Rightarrow> 's \<Rightarrow>
    (keymaster_error_t \<times> bytes \<times> hidl_characteristics \<times> 's) option" where
  "importWrappedKey D wrappedKeyData wrappingKeyBlob maskingKey unwrappingParams passwordSid biometricSid s =
     ask D ImportWrappedKey
       (ImportWrappedKeyRequest wrappedKeyData wrappingKeyBlob maskingKey (KmParamSet (lib D) unwrappingParams) passwordSid biometricSid) s
     \<bind> new_key D"

definition exportKey :: "'s km4_device \<Rightarrow> u32 \<Rightarrow> bytes \<Rightarrow> bytes \<Rightarrow> bytes \<Rightarrow> 's \<Rightarrow> (keymaster_error_t \<times> bytes \<times> 's) option" where
  "exportKey D exportFormat keyBlob clientId appData s =
     do {
       (e, r, s') \<leftarrow> ask D ExportKey (ExportKeyRequest exportFormat keyBlob (addClientAndAppData (lib D) clientId appData)) s;
       Some (e, if e = KM_ERROR_OK then rsp_key_data r else [], s')
     }"

definition attestKey :: "'s km4_device \<Rightarrow> bytes \<Rightarrow> KeyParameter list \<Rightarrow> 's \<Rightarrow> (keymaster_error_t \<times> bytes list \<times> 's) option" where
  "attestKey D keyToAttest attestParams s =
     do {
       (e, r, s') \<leftarrow> ask D AttestKey (AttestKeyRequest keyToAttest (KmParamSet (lib D) attestParams)) s;
       Some (e, if e = KM_ERROR_OK then kmCertChain2Hidl (rsp_chain r) else [], s')
     }"

definition upgradeKey :: "'s km4_device \<Rightarrow> bytes \<Rightarrow> KeyParameter list \<Rightarrow> 's \<Rightarrow> (keymaster_error_t \<times> bytes \<times> 's) option" where
  "upgradeKey D keyBlobToUpgrade upgradeParams s =
     do {
       (e, r, s') \<leftarrow> ask D UpgradeKey (UpgradeKeyRequest keyBlobToUpgrade (KmParamSet (lib D) upgradeParams)) s;
       if e = KM_ERROR_OK then Some (KM_ERROR_OK, rsp_upgraded_key r, s') else Some (e, [], s')
     }"

text \<open>These three ask nothing of the service.\<close>

definition deleteKey :: "bytes \<Rightarrow> keymaster_error_t" where "deleteKey keyBlob = KM_ERROR_UNIMPLEMENTED"
definition deleteAllKeys :: keymaster_error_t where "deleteAllKeys = KM_ERROR_UNIMPLEMENTED"
definition destroyAttestationIds :: keymaster_error_t where "destroyAttestationIds = KM_ERROR_UNIMPLEMENTED"

section \<open>Operations\<close>

definition km4_begin ::
  "'s km4_device \<Rightarrow> u32 \<Rightarrow> bytes \<Rightarrow> KeyParameter list \<Rightarrow> HardwareAuthToken \<Rightarrow> 's \<Rightarrow> (keymaster_error_t \<times> KeyParameter list \<times> u64 \<times> 's) option" where
  "km4_begin D purpose key inParams authToken s =
     do {
       ps \<leftarrow> push_auth_token (lib D) authToken (KmParamSet (lib D) inParams);
       (e, r, s') \<leftarrow> ask D BeginOperation (BeginOperationRequest purpose key ps) s;
       out \<leftarrow> if e = KM_ERROR_OK then kmParamSet2Hidl (lib D) (rsp_output_params r) else Some [];
       Some (e, out, rsp_op_handle r, s')
     }"

definition km4_abort :: "'s km4_device \<Rightarrow> u64 \<Rightarrow> 's \<Rightarrow> (keymaster_error_t \<times> 's) option" where
  "km4_abort D operationHandle s =
     do { (e, r, s') \<leftarrow> ask D AbortOperation (AbortOperationRequest operationHandle) s; Some (e, s') }"

definition km4_update ::
  "'s km4_device \<Rightarrow> u64 \<Rightarrow> KeyParameter list \<Rightarrow> bytes \<Rightarrow> HardwareAuthToken \<Rightarrow> 's \<Rightarrow>
    (keymaster_error_t \<times> u32 \<times> KeyParameter list \<times> bytes \<times> 's) option" where
  "km4_update D operationHandle inParams input authToken s =
     do {
       ps \<leftarrow> push_auth_token (lib D) authToken (KmParamSet (lib D) inParams);
       (e, r, s') \<leftarrow> ask D UpdateOperation (UpdateOperationRequest operationHandle input ps) s;
       if e = KM_ERROR_OK then do {
         out \<leftarrow> kmParamSet2Hidl (lib D) (rsp_output_params r);
         Some (e, rsp_input_consumed r, out, rsp_output r, s')
       }
       else if e = BEANPOD_KM_INVALID_INPUT_LENGTH then do {
         (ea, s2) \<leftarrow> km4_abort D operationHandle s';
         Some (KM_ERROR_INVALID_INPUT_LENGTH, 0, [], [], s2)
       }
       else Some (e, 0, [], [], s')
     }"

definition km4_finish ::
  "'s km4_device \<Rightarrow> u64 \<Rightarrow> KeyParameter list \<Rightarrow> bytes \<Rightarrow> bytes \<Rightarrow> HardwareAuthToken \<Rightarrow> 's \<Rightarrow>
    (keymaster_error_t \<times> KeyParameter list \<times> bytes \<times> 's) option" where
  "km4_finish D operationHandle inParams input signature authToken s =
     do {
       ps \<leftarrow> push_auth_token (lib D) authToken (KmParamSet (lib D) inParams);
       (e, r, s') \<leftarrow> ask D FinishOperation (FinishOperationRequest operationHandle input signature ps) s;
       if e = KM_ERROR_OK then do {
         out \<leftarrow> kmParamSet2Hidl (lib D) (rsp_output_params r);
         Some (e, out, rsp_output r, s')
       }
       else if e = BEANPOD_KM_INVALID_INPUT_LENGTH then do {
         (ea, s2) \<leftarrow> km4_abort D operationHandle s';
         Some (KM_ERROR_INVALID_INPUT_LENGTH, [], [], s2)
       }
       else Some (e, [], [], s')
     }"

section \<open>Version 4.1\<close>

text \<open>The conversion of the parameters is a function of the library here.\<close>

definition km41_deviceLocked ::
  "(KeyParameter list \<Rightarrow> km_params) \<Rightarrow> 's km4_device \<Rightarrow> bool \<Rightarrow> KeyParameter VerificationToken \<Rightarrow> 's \<Rightarrow> (keymaster_error_t \<times> 's) option" where
  "km41_deviceLocked hidlKeyParams2Km D passwordOnly verificationToken s =
     do {
       (e, r, s') \<leftarrow> ask D DeviceLocked (DeviceLockedRequest passwordOnly
         \<lparr>vt_challenge = vt_challenge verificationToken, vt_timestamp = vt_timestamp verificationToken,
          vt_parameters = hidlKeyParams2Km (vt_parameters verificationToken),
          vt_security_level = vt_security_level verificationToken, vt_mac = vt_mac verificationToken\<rparr>) s;
       Some (e, s')
     }"

definition km41_earlyBootEnded :: "'s km4_device \<Rightarrow> 's \<Rightarrow> (keymaster_error_t \<times> 's) option" where
  "km41_earlyBootEnded D s = do { (e, r, s') \<leftarrow> ask D EarlyBootEnded NoRequest s; Some (e, s') }"

end
