(* ===== verification/Ut_Keymaster.thy ===== *)
theory Ut_Keymaster
  imports Teec_Device Keymaster_Ipc
begin

text \<open>
  The connection of the key master services of the 400 variant to their trusted application, over
  the TEE client library (\<open>400/km4.1/common/beanpod_keymaster_ipc.cpp\<close> and its copy
  \<open>400/keymint1.0/common/beanpod_keymaster_ipc.cpp\<close>). The copies differ in the size of the
  buffers and in what happens when a buffer cannot be allocated; both are given by a
  \<open>km_variant\<close>. \<open>None\<close> is undefined behaviour: a copy to or from an address that is not mapped
  or past the end of a buffer, or what is undefined in the library.
\<close>

section \<open>State\<close>

record km_variant =
  falls_through :: bool
  buffer_length :: u32

definition km41 :: km_variant where [simp]: "km41 = \<lparr>falls_through = True, buffer_length = 1024 * 70\<rparr>"
definition keymint :: km_variant where [simp]: "keymint = \<lparr>falls_through = False, buffer_length = 1024 * 140\<rparr>"

text \<open>The addresses of the global objects, of the operation and of the origin of an error.\<close>

record km_objects =
  km_context :: ptr
  km_session :: ptr
  km_input :: ptr
  km_output :: ptr
  km_operation :: ptr
  km_origin :: ptr

record ut_km =
  ut_handle :: int
  ut_teec :: teec

definition KM_TA_UUID :: TEEC_UUID where
  "KM_TA_UUID = \<lparr>timeLow = 0xc09c9c5d, timeMid = 0xaa50, timeHiAndVersion = 0x4b78,
     clockSeqAndNode = [0xb0, 0xe4, 0x6e, 0xda, 0x61, 0x55, 0x6c, 0x3a]\<rparr>"

definition host_name :: bytes where "host_name = lit ''bta_loader''"

section \<open>Connection\<close>

definition km_clear :: "km_objects \<Rightarrow> teec \<Rightarrow> teec" where
  "km_clear g t = t\<lparr>contexts := (contexts t)(km_context g := \<lparr>ctx_fd = 0\<rparr>),
     sessions := (sessions t)(km_session g := \<lparr>sess_ctx = 0, session_id = 0\<rparr>)\<rparr>"

definition km_allocate :: "kernel \<Rightarrow> km_objects \<Rightarrow> ptr \<Rightarrow> u32 \<Rightarrow> u32 \<Rightarrow> teec \<Rightarrow> bool \<times> teec" where
  "km_allocate k g m n flags t =
     (let (res, t1) = TEEC_AllocateSharedMemory k (km_context g) m
            (t\<lparr>shms := (shms t)(m := (shms t m)\<lparr>shm_size := ucast n, shm_flags := flags\<rparr>)\<rparr>) in
      (res = TEEC_SUCCESS \<and> shm_buffer (shms t1 m) \<noteq> 0, t1))"

definition km_abandon :: "kernel \<Rightarrow> km_objects \<Rightarrow> teec \<Rightarrow> teec option" where
  "km_abandon k g t = do { t1 \<leftarrow> TEEC_CloseSession k (km_session g) t; TEEC_FinalizeContext k (km_context g) t1 }"

text \<open>The two buffers; the answer tells whether the function goes on.\<close>

definition km_buffers :: "km_variant \<Rightarrow> kernel \<Rightarrow> km_objects \<Rightarrow> teec \<Rightarrow> (bool \<times> teec) option" where
  "km_buffers v k g t =
     (let (ok, t1) = km_allocate k g (km_input g) (buffer_length v) TEEC_MEM_INPUT t in
      do {
        t2 \<leftarrow> (if ok then Some t1 else km_abandon k g t1);
        if \<not> ok \<and> \<not> falls_through v then Some (False, t2)
        else
          let (ok2, t3) = km_allocate k g (km_output g) (buffer_length v) TEEC_MEM_OUTPUT t2 in
          do {
            t4 \<leftarrow> (if ok2 then Some t3 else km_abandon k g (TEEC_ReleaseSharedMemory k (km_input g) t3));
            Some (ok2 \<or> falls_through v, t4)
          }
      })"

definition ut_km_connect ::
  "km_variant \<Rightarrow> kernel \<Rightarrow> secure_world \<Rightarrow> bool \<Rightarrow> km_objects \<Rightarrow> ut_km \<Rightarrow> (int \<times> ut_km) option" where
  "ut_km_connect v k w gptee g s =
     (if 0 < ut_handle s then Some (0, s)
      else
        let t = km_clear g (ut_teec s);
            (res, t1) = TEEC_InitializeContext k gptee (Some host_name) (km_context g)
              (t\<lparr>origins := (origins t)(km_origin g := 0)\<rparr>) in
        if res \<noteq> TEEC_SUCCESS then Some (sint res, s\<lparr>ut_teec := t1\<rparr>)
        else do {
          (res2, t2) \<leftarrow> TEEC_OpenSession k w (km_context g) (km_session g) (Some KM_TA_UUID) TEEC_LOGIN_PUBLIC 0 0 (km_origin g) t1;
          if res2 \<noteq> TEEC_SUCCESS then do {
            t3 \<leftarrow> TEEC_FinalizeContext k (km_context g) t2;
            Some (sint res2, s\<lparr>ut_teec := t3\<rparr>)
          }
          else do {
            (go, t3) \<leftarrow> km_buffers v k g t2;
            Some (if go then (0, \<lparr>ut_handle = ctx_fd (contexts t3 (km_context g)), ut_teec = t3\<rparr>)
                  else (- 1, s\<lparr>ut_teec := t3\<rparr>))
          }
        })"

definition ut_km_disconnect :: "kernel \<Rightarrow> km_objects \<Rightarrow> ut_km \<Rightarrow> ut_km option" where
  "ut_km_disconnect k g s =
     (if 0 < ut_handle s then do {
        let t1 = TEEC_ReleaseSharedMemory k (km_input g) (TEEC_ReleaseSharedMemory k (km_output g) (ut_teec s));
        t2 \<leftarrow> km_abandon k g t1;
        Some \<lparr>ut_handle = - 1, ut_teec = km_clear g t2\<rparr>
      }
      else Some (s\<lparr>ut_handle := - 1\<rparr>))"

section \<open>Calls\<close>

definition usable :: "ptr \<Rightarrow> bool" where
  "usable p \<longleftrightarrow> p \<noteq> 0 \<and> p \<noteq> MAP_FAILED"

definition km_parameter :: "ptr \<Rightarrow> u64 \<Rightarrow> TEEC_Parameter" where
  "km_parameter m n = \<lparr>tmpref = \<lparr>tmp_buffer = 0, tmp_size = 0\<rparr>, memref = \<lparr>ref_parent = m, ref_size = n, ref_offset = 0\<rparr>,
     value_ab = \<lparr>val_a = 0, val_b = 0\<rparr>\<rparr>"

text \<open>
  What both calls share: the output buffer is cleared, the operation is set up and invoked, and
  the answer is taken from the output buffer. \<open>room\<close> is the size of the caller's buffer \<open>out\<close>.
\<close>

definition km_exchange ::
  "km_variant \<Rightarrow> kernel \<Rightarrow> secure_world \<Rightarrow> km_objects \<Rightarrow> u32 \<Rightarrow> u32 \<Rightarrow> TEEC_Parameter \<Rightarrow> u32 \<Rightarrow> ut_km \<Rightarrow>
    (int \<times> bytes option \<times> ut_km) option" where
  "km_exchange v k w g cmd types param1 room s =
     (let t = ut_teec s; outb = shm_buffer (shms t (km_output g)) in
      if \<not> usable outb then None
      else do {
        (res, t1) \<leftarrow> TEEC_InvokeCommand k w (km_session g) cmd (km_operation g) 0
          (t\<lparr>shms := (shms t)(km_output g := (shms t (km_output g))\<lparr>shm_size := ucast (buffer_length v)\<rparr>),
             mem := mem_write outb (replicate (unat (buffer_length v)) 0) (mem t),
             operations := (operations t)(km_operation g :=
               \<lparr>started = 1, paramTypes = types,
                op_params = [km_parameter 0 0, param1, km_parameter (km_output g) (ucast (buffer_length v)), km_parameter 0 0],
                op_session = 0\<rparr>)\<rparr>);
        let ps = op_params (operations t1 (km_operation g));
        let a = val_a (value_ab (ps ! 0));
        let n = (ucast (ref_size (memref (ps ! 2))) :: u32);
        if res \<noteq> TEEC_SUCCESS then Some (sint res, None, s\<lparr>ut_teec := t1\<rparr>)
        else if a \<noteq> 0 then Some (sint a, None, s\<lparr>ut_teec := t1\<rparr>)
        else if room < n then None
        else Some (0, Some (mem_read outb (unat n) (mem t1)), s\<lparr>ut_teec := t1\<rparr>)
      })"

text \<open>
  \<open>bp_keymaster_call\<close> with a request; \<open>invalid_length\<close> is the constant
  \<open>KM_ERROR_INVALID_INPUT_LENGTH\<close> of the key master library. A request has less than \<open>2 ^ 32\<close>
  bytes.
\<close>

definition ut_km_call ::
  "km_variant \<Rightarrow> kernel \<Rightarrow> secure_world \<Rightarrow> int \<Rightarrow> km_objects \<Rightarrow> u32 \<Rightarrow> bytes \<Rightarrow> u32 \<Rightarrow> ut_km \<Rightarrow>
    (int \<times> bytes option \<times> ut_km) option" where
  "ut_km_call v k w invalid_length g cmd inp out_size s =
     (if ut_handle s < 0 then Some (- EINVAL, None, s)
      else if unat (buffer_length v) < length inp \<or> buffer_length v < out_size then Some (invalid_length, None, s)
      else
        let t = ut_teec s; m = km_input g; inb = shm_buffer (shms t m); n = (of_nat (length inp) :: u64) in
        if inp \<noteq> [] \<and> \<not> usable inb then None
        else km_exchange v k w g cmd
          (TEEC_PARAM_TYPES TEEC_VALUE_INOUT TEEC_MEMREF_PARTIAL_INPUT TEEC_MEMREF_PARTIAL_OUTPUT TEEC_NONE)
          (km_parameter m n) out_size
          (s\<lparr>ut_teec := t\<lparr>shms := (shms t)(m := (shms t m)\<lparr>shm_size := n\<rparr>), mem := mem_write inb inp (mem t)\<rparr>\<rparr>))"

definition ut_km_call_no_input ::
  "km_variant \<Rightarrow> kernel \<Rightarrow> secure_world \<Rightarrow> km_objects \<Rightarrow> u32 \<Rightarrow> u32 \<Rightarrow> ut_km \<Rightarrow> (int \<times> bytes option \<times> ut_km) option" where
  "ut_km_call_no_input v k w g cmd out_size s =
     (if ut_handle s < 0 then Some (- EINVAL, None, s)
      else km_exchange v k w g cmd (TEEC_PARAM_TYPES TEEC_NONE TEEC_NONE TEEC_MEMREF_PARTIAL_OUTPUT TEEC_NONE)
        (km_parameter 0 0) out_size s)"

section \<open>Requests\<close>

definition ut_km_reset ::
  "km_variant \<Rightarrow> kernel \<Rightarrow> secure_world \<Rightarrow> bool \<Rightarrow> km_objects \<Rightarrow> ut_km \<Rightarrow> ut_km option" where
  "ut_km_reset v k w gptee g s =
     do { s1 \<leftarrow> ut_km_disconnect k g s; (rc, s2) \<leftarrow> ut_km_connect v k w gptee g s1; Some s2 }"

text \<open>
  The part after the call. \<open>stack\<close> are the bytes of \<open>recv_buf\<close> before it is written: a code of the
  application that is positive counts as success, and the buffer is read as it is.
\<close>

definition ut_km_answer ::
  "km_variant \<Rightarrow> kernel \<Rightarrow> secure_world \<Rightarrow> bool \<Rightarrow> km_objects \<Rightarrow> (bytes \<Rightarrow> 'r option) \<Rightarrow> ('r \<Rightarrow> keymaster_error_t) \<Rightarrow> bytes \<Rightarrow>
    int \<times> bytes option \<times> ut_km \<Rightarrow> (keymaster_error_t \<times> 'r option \<times> ut_km) option" where
  "ut_km_answer v k w gptee g deser rsp_error stack r =
     (case r of (rc, out, s) \<Rightarrow>
        if rc < 0 then do { s1 \<leftarrow> ut_km_reset v k w gptee g s; Some (translate_error rc, None, s1) }
        else
          case deser (case out of None \<Rightarrow> stack | Some bs \<Rightarrow> bs) of
            None \<Rightarrow> Some (KM_ERROR_UNKNOWN_ERROR, None, s)
          | Some rsp \<Rightarrow> Some (rsp_error rsp, Some rsp, s))"

definition ut_km_send ::
  "km_variant \<Rightarrow> kernel \<Rightarrow> secure_world \<Rightarrow> bool \<Rightarrow> int \<Rightarrow> km_objects \<Rightarrow> (bytes \<Rightarrow> 'r option) \<Rightarrow> ('r \<Rightarrow> keymaster_error_t) \<Rightarrow>
    bytes \<Rightarrow> u32 \<Rightarrow> bytes \<Rightarrow> ut_km \<Rightarrow> (keymaster_error_t \<times> 'r option \<times> ut_km) option" where
  "ut_km_send v k w gptee invalid_length g deser rsp_error stack command req s =
     (if unat (buffer_length v) < length req then Some (BEANPOD_KM_INVALID_INPUT_LENGTH, None, s)
      else ut_km_call v k w invalid_length g command req (buffer_length v) s \<bind>
        ut_km_answer v k w gptee g deser rsp_error stack)"

definition ut_km_send_no_request ::
  "km_variant \<Rightarrow> kernel \<Rightarrow> secure_world \<Rightarrow> bool \<Rightarrow> km_objects \<Rightarrow> (bytes \<Rightarrow> 'r option) \<Rightarrow> ('r \<Rightarrow> keymaster_error_t) \<Rightarrow>
    bytes \<Rightarrow> u32 \<Rightarrow> ut_km \<Rightarrow> (keymaster_error_t \<times> 'r option \<times> ut_km) option" where
  "ut_km_send_no_request v k w gptee g deser rsp_error stack command s =
     ut_km_call_no_input v k w g command (buffer_length v) s \<bind> ut_km_answer v k w gptee g deser rsp_error stack"

section \<open>Connected states\<close>

definition km_objects_ok :: "km_objects \<Rightarrow> bool" where
  "km_objects_ok g \<longleftrightarrow> 0 \<notin> {km_context g, km_session g, km_input g, km_output g, km_operation g} \<and> km_input g \<noteq> km_output g"

text \<open>A buffer that is mapped on the device of the context and shared with these flags.\<close>

definition km_buffer_ok :: "km_variant \<Rightarrow> int \<Rightarrow> u32 \<Rightarrow> TEEC_SharedMemory \<Rightarrow> bool" where
  "km_buffer_ok v fd flags m \<longleftrightarrow> usable (shm_buffer m) \<and> shadow_buffer m = 0 \<and> shm_flags m = flags \<and>
     alloced_size m = ucast (buffer_length v) \<and> registered_fd m = fd"

definition ut_km_connected :: "km_variant \<Rightarrow> km_objects \<Rightarrow> ut_km \<Rightarrow> bool" where
  "ut_km_connected v g s \<longleftrightarrow>
     (let t = ut_teec s; fd = ut_handle s in
      0 \<le> fd \<and> contexts t (km_context g) = \<lparr>ctx_fd = fd\<rparr> \<and> sess_ctx (sessions t (km_session g)) = km_context g \<and>
      km_context g \<in> set (contextMap t) \<and> km_session g \<in> set (sessionMap t) \<and> \<not> teec_mutex t \<and>
      km_buffer_ok v fd TEEC_MEM_INPUT (shms t (km_input g)) \<and> km_buffer_ok v fd TEEC_MEM_OUTPUT (shms t (km_output g)))"

lemma set_map_insert [simp]: "set (map_insert p xs) = insert p (set xs)"
  by (auto simp: map_insert_def set_insort_key)

lemma sint_nonzero: "(x :: u32) \<noteq> 0 \<Longrightarrow> sint x \<noteq> 0"
  by (metis signed_eq_0_iff)

lemma initialize_ok:
  assumes "TEEC_InitializeContext k gptee name ctx t = (TEEC_SUCCESS, t')" "ctx \<noteq> 0"
  shows "(\<exists>fd \<ge> 0. contexts t' = (contexts t)(ctx := \<lparr>ctx_fd = fd\<rparr>)) \<and> contextMap t' = map_insert ctx (contextMap t) \<and>
    sessionMap t' = sessionMap t \<and> sessions t' = sessions t \<and> teec_mutex t' = teec_mutex t \<and> shms t' = shms t"
proof -
  have "(\<exists>fd \<ge> 0. contexts t' = (contexts t)(ctx := \<lparr>ctx_fd = fd\<rparr>)) \<and> contextMap t' = map_insert ctx (contextMap t) \<and>
    sessionMap t' = sessionMap t \<and> sessions t' = sessions t \<and> teec_mutex t' = teec_mutex t \<and> shms t' = shms t"
    if "init_context_loop k gptee name ctx n t = (TEEC_SUCCESS, t')" for n t
    using that
  proof (induction k gptee name ctx n t rule: init_context_loop.induct)
    case (1 k gptee name ctx n t)
    obtain fd t1 where o: "teec_open_dev k gptee (dev_name n) name t = (fd, t1)" by fastforce
    note oc = only_callsD [OF teec_open_dev_only_calls [OF o]]
    show ?case
    proof (cases "0 \<le> fd")
      case True
      with 1(2) oc show ?thesis by (auto simp: init_context_loop.simps [of _ _ _ _ n] o split: if_splits)
    next
      case False
      with 1(1) [OF _ o [symmetric] refl] 1(2) oc show ?thesis
        by (auto simp: init_context_loop.simps [of _ _ _ _ n] o split: if_splits)
    qed
  qed
  with assms show ?thesis by (simp add: TEEC_InitializeContext_def)
qed

lemma open_ok:
  assumes "TEEC_OpenSession k w ctx session (Some u) meth 0 0 eo t = Some (TEEC_SUCCESS, t')" "login_error meth 0 = None"
    "ctx \<noteq> 0" "session \<noteq> 0"
  shows "sess_ctx (sessions t' session) = ctx \<and> sessionMap t' = map_insert session (sessionMap t) \<and> contexts t' = contexts t \<and>
    contextMap t' = contextMap t \<and> teec_mutex t' = teec_mutex t \<and> shms t' = shms t"
  using assms
  by (auto simp: TEEC_OpenSession_def Let_def teec_pre_process_operation_def teec_post_process_operation_def teec_free_temp_refs_def
      set_origin_def tee_call_def sys_def ioctl_errno_to_res_def split: if_splits)

lemma unat_ucast_64: "unat (ucast (x :: u32) :: u64) = unat x"
  by transfer simp

lemma allocate_ok:
  assumes "km_allocate k g m n flags t = (ok, t')" "m \<noteq> 0" "km_context g \<noteq> 0" "n \<noteq> 0" "flags = TEEC_MEM_INPUT \<or> flags = TEEC_MEM_OUTPUT"
  shows "contexts t' = contexts t \<and> sessions t' = sessions t \<and> contextMap t' = contextMap t \<and> sessionMap t' = sessionMap t \<and>
    teec_mutex t' = teec_mutex t \<and> (\<forall>m'. m' \<noteq> m \<longrightarrow> shms t' m' = shms t m') \<and> (\<exists>es. hist t' = hist t @ es) \<and>
    (if ok then usable (shm_buffer (shms t' m)) \<and> shadow_buffer (shms t' m) = 0 \<and> shm_flags (shms t' m) = flags \<and>
       alloced_size (shms t' m) = ucast n \<and> registered_fd (shms t' m) = ctx_fd (contexts t (km_context g))
     else \<not> usable (shm_buffer (shms t' m)))"
proof -
  have n: "(ucast n :: u64) \<noteq> 0" using assms(4) by (metis unat_ucast_64 unsigned_0 unat_eq_zero)
  show ?thesis using assms(1-3,5) n
    by (auto simp: km_allocate_def TEEC_AllocateSharedMemory_def allocate_shm_def shm_flags_ok_def mmap_def teec_shm_get_id_def sys_def
        Let_def usable_def split: if_splits)
qed

text \<open>The states between the steps when connecting answers 0.\<close>

lemma connect_steps:
  assumes "ut_km_connect v k w gptee g s = Some (0, s')" "ut_handle s \<le> 0" "km_objects_ok g"
  obtains t t' fd where "0 \<le> fd" "contexts t (km_context g) = \<lparr>ctx_fd = fd\<rparr>" "km_context g \<in> set (contextMap t)"
    "sessionMap t = map_insert (km_session g) (sessionMap (ut_teec s))" "sess_ctx (sessions t (km_session g)) = km_context g"
    "teec_mutex t = teec_mutex (ut_teec s)" "km_buffers v k g t = Some (True, t')"
    "s' = \<lparr>ut_handle = ctx_fd (contexts t' (km_context g)), ut_teec = t'\<rparr>"
proof -
  have g: "km_context g \<noteq> 0" "km_session g \<noteq> 0" using assms(3) by (auto simp: km_objects_ok_def)
  define t0 where "t0 = (km_clear g (ut_teec s))\<lparr>origins := (origins (km_clear g (ut_teec s)))(km_origin g := 0)\<rparr>"
  obtain res t1 where i: "TEEC_InitializeContext k gptee (Some host_name) (km_context g) t0 = (res, t1)" by fastforce
  note step = assms(1) [unfolded ut_km_connect_def if_not_P [OF leD [OF assms(2)]] Let_def t0_def [symmetric] i prod.case]
  from step obtain t t' where res: "res = TEEC_SUCCESS"
    and o: "TEEC_OpenSession k w (km_context g) (km_session g) (Some KM_TA_UUID) TEEC_LOGIN_PUBLIC 0 0 (km_origin g) t1 = Some (TEEC_SUCCESS, t)"
    and b: "km_buffers v k g t = Some (True, t')" and s': "s' = \<lparr>ut_handle = ctx_fd (contexts t' (km_context g)), ut_teec = t'\<rparr>"
    by (auto simp: bind_eq_Some_conv sint_nonzero split: if_splits)
  have login: "login_error TEEC_LOGIN_PUBLIC 0 = None" by (simp add: login_error_def)
  note t1 = initialize_ok [OF i [unfolded res] g(1)] and t = open_ok [OF o login g]
  from t1 obtain fd where "0 \<le> fd" "contexts t1 = (contexts t0)(km_context g := \<lparr>ctx_fd = fd\<rparr>)" by blast
  with t1 t b s' show thesis by (intro that [of fd t t']) (simp_all add: t0_def km_clear_def)
qed

lemma connect_ok:
  assumes "ut_km_connect v k w gptee g s = Some (0, s')" "ut_handle s \<le> 0" "km_objects_ok g" "\<not> teec_mutex (ut_teec s)"
    "buffer_length v \<noteq> 0" "\<not> falls_through v"
  shows "ut_km_connected v g s'"
proof -
  have g: "km_context g \<noteq> 0" "km_input g \<noteq> 0" "km_output g \<noteq> 0" "km_input g \<noteq> km_output g"
    using assms(3) by (auto simp: km_objects_ok_def)
  from connect_steps [OF assms(1-3)] obtain t t' fd where t: "0 \<le> fd" "contexts t (km_context g) = \<lparr>ctx_fd = fd\<rparr>"
      "km_context g \<in> set (contextMap t)" "sessionMap t = map_insert (km_session g) (sessionMap (ut_teec s))"
      "sess_ctx (sessions t (km_session g)) = km_context g" "\<not> teec_mutex t"
    and b: "km_buffers v k g t = Some (True, t')" and s': "s' = \<lparr>ut_handle = ctx_fd (contexts t' (km_context g)), ut_teec = t'\<rparr>"
    using assms(4) by metis
  obtain ok u where u: "km_allocate k g (km_input g) (buffer_length v) TEEC_MEM_INPUT t = (ok, u)" by fastforce
  obtain ok2 u2 where u2: "km_allocate k g (km_output g) (buffer_length v) TEEC_MEM_OUTPUT u = (ok2, u2)" by fastforce
  have oks: "ok" "ok2" "t' = u2"
    using b assms(6) unfolding km_buffers_def u Let_def prod.case
    by (auto simp: bind_eq_Some_conv u2 simp del: TEEC_MEM_OUTPUT_def split: if_splits)
  from allocate_ok [OF u g(2,1) assms(5)] allocate_ok [OF u2 g(3,1) assms(5)] t oks g(4) show ?thesis
    by (simp add: s' ut_km_connected_def km_buffer_ok_def)
qed

section \<open>A call in a connected state\<close>

text \<open>The parameters that the driver is given for a request of \<open>n\<close> bytes, and the buffer with them.\<close>

definition km_ioctl_params :: "km_variant \<Rightarrow> km_objects \<Rightarrow> u64 \<Rightarrow> teec \<Rightarrow> tee_ioctl_param list" where
  "km_ioctl_params v g n t =
     [\<lparr>attr = ucast TEEC_VALUE_INOUT, u0 = 0, u1 = 0, u2 = 0\<rparr>,
      \<lparr>attr = TEE_IOCTL_PARAM_ATTR_TYPE_MEMREF_INPUT, u0 = 0, u1 = n, u2 = word_of_int (shm_id (shms t (km_input g)))\<rparr>,
      \<lparr>attr = TEE_IOCTL_PARAM_ATTR_TYPE_MEMREF_OUTPUT, u0 = 0, u1 = ucast (buffer_length v),
       u2 = word_of_int (shm_id (shms t (km_output g)))\<rparr>, zero_param]"

definition km_ioctl :: "km_variant \<Rightarrow> km_objects \<Rightarrow> u32 \<Rightarrow> u64 \<Rightarrow> teec \<Rightarrow> bytes" where
  "km_ioctl v g cmd n t = put_invoke_arg \<lparr>ia_func = cmd, ia_session = session_id (sessions t (km_session g)), ia_cancel_id = 0,
     ia_ret = 0, ia_ret_origin = 0, ia_num_params = 4\<rparr> @ put_params (km_ioctl_params v g n t)"

lemma km_types:
  "TEEC_PARAM_TYPES 3 0xd 0xe 0 = 0xed3" "TEEC_PARAM_TYPE_GET 0xed3 0 = 3" "TEEC_PARAM_TYPE_GET 0xed3 (Suc 0) = 0xd"
  "TEEC_PARAM_TYPE_GET 0xed3 2 = 0xe" "TEEC_PARAM_TYPE_GET 0xed3 3 = 0"
  by code_simp+

lemma km_invoke_run:
  fixes k w v g cmd n t
  defines "x \<equiv> km_operation g" and "buf \<equiv> km_ioctl v g cmd n t" and "ctx \<equiv> km_context g"
  defines "call \<equiv> Ioctl (ctx_fd (contexts t ctx)) (TEE_IOC_INVOKE buf)"
  defines "r \<equiv> k (hist t) call"
  assumes "km_objects_ok g" "sess_ctx (sessions t (km_session g)) = ctx" "\<not> teec_mutex t"
    "shm_flags (shms t (km_input g)) = TEEC_MEM_INPUT" "shadow_buffer (shms t (km_input g)) = 0"
    "shm_flags (shms t (km_output g)) = TEEC_MEM_OUTPUT" "shadow_buffer (shms t (km_output g)) = 0"
    "operations t x = \<lparr>started = 1, paramTypes = 0xed3, op_params = [km_parameter 0 0, km_parameter (km_input g) n,
        km_parameter (km_output g) (ucast (buffer_length v)), km_parameter 0 0], op_session = 0\<rparr>"
  shows "\<exists>t'. TEEC_InvokeCommand k w (km_session g) cmd x 0 t =
      Some (if sr_rc r \<noteq> 0 then ioctl_errno_to_res (errno t') else ia_ret (get_invoke_arg (ioctl_back buf (sr_out r))), t') \<and>
    mem t' = fold (\<lambda>(q, bs). mem_write q bs) (w (hist t) call) (mem t) \<and> hist t' = hist t @ [(call, r)] \<and>
    contexts t' = contexts t \<and> sessions t' = sessions t \<and> contextMap t' = contextMap t \<and> sessionMap t' = sessionMap t \<and>
    \<not> teec_mutex t' \<and> shms t' = shms t \<and>
    (sr_rc r = 0 \<longrightarrow>
      val_a (value_ab (op_params (operations t' x) ! 0)) = ucast (u0 (get_params 24 (ioctl_back buf (sr_out r)) ! 0)) \<and>
      ref_size (memref (op_params (operations t' x) ! 2)) = u1 (get_params 24 (ioctl_back buf (sr_out r)) ! 2))"
  using assms(6-) km_types
  by (simp add: TEEC_InvokeCommand_def store_op_session_def teec_mutex_lock_def teec_mutex_unlock_def teec_pre_process_operation_def
        param_indices_list replicate_4 pre_process_param_def is_value_type_def temp_type_def partial_type_def teec_pre_process_partial_def
        tee_call_def sys_def teec_post_process_operation_def post_process_param_def km_objects_ok_def x_def buf_def ctx_def call_def r_def
        teec_post_process_partial_def set_param_def teec_free_temp_refs_def set_origin_def Let_def km_parameter_def
        km_ioctl_def km_ioctl_params_def zero_param_def)

lemma mem_write_apart:
  assumes "{p..<p + length bs} \<inter> {q..<q + length cs} = {}"
  shows "mem_read p (length bs) (mem_write q cs (mem_write p bs h)) = bs"
proof (rule nth_equalityI)
  fix i assume "i < length (mem_read p (length bs) (mem_write q cs (mem_write p bs h)))"
  then have i: "i < length bs" by simp
  then have "p + i \<notin> {q..<q + length cs}" using assms by (metis Int_iff atLeastLessThan_iff empty_iff le_add1 nat_add_left_cancel_less)
  then show "mem_read p (length bs) (mem_write q cs (mem_write p bs h)) ! i = bs ! i"
    using i by (simp add: mem_read_def mem_write_outside) (simp add: mem_write_def)
qed simp

text \<open>What is expected of a state when the operation is invoked.\<close>

definition km_ready :: "km_variant \<Rightarrow> km_objects \<Rightarrow> teec \<Rightarrow> bool" where
  "km_ready v g t \<longleftrightarrow> sess_ctx (sessions t (km_session g)) = km_context g \<and> \<not> teec_mutex t \<and>
     shm_flags (shms t (km_input g)) = TEEC_MEM_INPUT \<and> shadow_buffer (shms t (km_input g)) = 0 \<and>
     shm_flags (shms t (km_output g)) = TEEC_MEM_OUTPUT \<and> shadow_buffer (shms t (km_output g)) = 0 \<and>
     usable (shm_buffer (shms t (km_output g)))"

lemma errno_no_success: "ioctl_errno_to_res e \<noteq> 0"
  by (simp add: ioctl_errno_to_res_def)

lemma km_exchange_run:
  fixes v k w g cmd m s u
  defines "outb \<equiv> shm_buffer (shms u (km_output g))" and "buf \<equiv> km_ioctl v g cmd m u"
  defines "call \<equiv> Ioctl (ctx_fd (contexts u (km_context g))) (TEE_IOC_INVOKE buf)"
    and "given \<equiv> mem_write outb (replicate (unat (buffer_length v)) 0) (mem u)"
  defines "r \<equiv> k (hist u) call" and "left \<equiv> fold (\<lambda>(q, bs). mem_write q bs) (w (hist u) call) given"
  defines "back \<equiv> ioctl_back buf (sr_out r)"
  defines "a \<equiv> ucast (u0 (get_params 24 back ! 0)) :: u32" and "n \<equiv> ucast (u1 (get_params 24 back ! 2)) :: u32"
  assumes "km_objects_ok g" "km_ready v g u"
  shows "\<exists>t'. hist t' = hist u @ [(call, r)] \<and> mem t' = left \<and> contexts t' = contexts u \<and> sessions t' = sessions u \<and>
      contextMap t' = contextMap u \<and> sessionMap t' = sessionMap u \<and> \<not> teec_mutex t' \<and>
      shms t' = (shms u)(km_output g := (shms u (km_output g))\<lparr>shm_size := ucast (buffer_length v)\<rparr>) \<and>
      km_exchange v k w g cmd 0xed3 (km_parameter (km_input g) m) room (s\<lparr>ut_teec := u\<rparr>) =
         (if sr_rc r \<noteq> 0 then Some (sint (ioctl_errno_to_res (errno t')), None, s\<lparr>ut_teec := t'\<rparr>)
          else if ia_ret (get_invoke_arg back) \<noteq> TEEC_SUCCESS then Some (sint (ia_ret (get_invoke_arg back)), None, s\<lparr>ut_teec := t'\<rparr>)
          else if a \<noteq> 0 then Some (sint a, None, s\<lparr>ut_teec := t'\<rparr>)
          else if room < n then None
          else Some (0, Some (mem_read outb (unat n) left), s\<lparr>ut_teec := t'\<rparr>))"
proof -
  have io: "km_input g \<noteq> km_output g" using assms(10) by (simp add: km_objects_ok_def)
  define t1 where "t1 = u\<lparr>shms := (shms u)(km_output g := (shms u (km_output g))\<lparr>shm_size := ucast (buffer_length v)\<rparr>), mem := given,
      operations := (operations u)(km_operation g := \<lparr>started = 1, paramTypes = 0xed3, op_params = [km_parameter 0 0,
        km_parameter (km_input g) m, km_parameter (km_output g) (ucast (buffer_length v)), km_parameter 0 0], op_session = 0\<rparr>)\<rparr>"
  have same: "km_ioctl v g cmd m t1 = buf" "hist t1 = hist u" "mem t1 = given" "contexts t1 = contexts u" "sessions t1 = sessions u"
    "contextMap t1 = contextMap u" "sessionMap t1 = sessionMap u"
    "shms t1 = (shms u)(km_output g := (shms u (km_output g))\<lparr>shm_size := ucast (buffer_length v)\<rparr>)"
    using io by (simp_all add: buf_def km_ioctl_def km_ioctl_params_def t1_def)
  have ready: "sess_ctx (sessions t1 (km_session g)) = km_context g" "\<not> teec_mutex t1"
      "shm_flags (shms t1 (km_input g)) = TEEC_MEM_INPUT" "shadow_buffer (shms t1 (km_input g)) = 0"
      "shm_flags (shms t1 (km_output g)) = TEEC_MEM_OUTPUT" "shadow_buffer (shms t1 (km_output g)) = 0"
    using assms(11) io by (simp_all add: t1_def km_ready_def)
  have op: "operations t1 (km_operation g) = \<lparr>started = 1, paramTypes = 0xed3, op_params = [km_parameter 0 0, km_parameter (km_input g) m,
        km_parameter (km_output g) (ucast (buffer_length v)), km_parameter 0 0], op_session = 0\<rparr>"
    by (simp add: t1_def)
  obtain t' where t': "TEEC_InvokeCommand k w (km_session g) cmd (km_operation g) 0 t1 =
      Some (if sr_rc r \<noteq> 0 then ioctl_errno_to_res (errno t') else ia_ret (get_invoke_arg back), t')"
    and m: "mem t' = left" "hist t' = hist u @ [(call, r)]" and f: "contexts t' = contexts u" "sessions t' = sessions u"
    "contextMap t' = contextMap u" "sessionMap t' = sessionMap u" "\<not> teec_mutex t'" "shms t' = (shms u)(km_output g := (shms u (km_output g))\<lparr>shm_size := ucast (buffer_length v)\<rparr>)"
    and vals: "sr_rc r = 0 \<Longrightarrow> val_a (value_ab (op_params (operations t' (km_operation g)) ! 0)) = a"
    "sr_rc r = 0 \<Longrightarrow> (ucast (ref_size (memref (op_params (operations t' (km_operation g)) ! 2))) :: u32) = n"
    using km_invoke_run [OF assms(10) ready op, of k w cmd, unfolded same, folded call_def,
        folded r_def, folded left_def back_def] unfolding a_def n_def by auto
  have "usable outb" using assms(11) by (simp add: km_ready_def outb_def)
  with t' vals m(1) have "km_exchange v k w g cmd 0xed3 (km_parameter (km_input g) m) room (s\<lparr>ut_teec := u\<rparr>) =
         (if sr_rc r \<noteq> 0 then Some (sint (ioctl_errno_to_res (errno t')), None, s\<lparr>ut_teec := t'\<rparr>)
          else if ia_ret (get_invoke_arg back) \<noteq> TEEC_SUCCESS then Some (sint (ia_ret (get_invoke_arg back)), None, s\<lparr>ut_teec := t'\<rparr>)
          else if a \<noteq> 0 then Some (sint a, None, s\<lparr>ut_teec := t'\<rparr>)
          else if room < n then None
          else Some (0, Some (mem_read outb (unat n) left), s\<lparr>ut_teec := t'\<rparr>))"
    by (simp add: km_exchange_def Let_def outb_def [symmetric] given_def [symmetric] t1_def [symmetric] errno_no_success)
  with m f show ?thesis by (intro exI [of _ t']) simp
qed

lemma ut_km_call_run:
  fixes v k w g cmd inp s
  defines "t \<equiv> ut_teec s" and "inb \<equiv> shm_buffer (shms (ut_teec s) (km_input g))" and "outb \<equiv> shm_buffer (shms (ut_teec s) (km_output g))"
    and "len \<equiv> unat (buffer_length v)"
  defines "given \<equiv> mem_write outb (replicate len 0) (mem_write inb inp (mem t))"
    and "buf \<equiv> km_ioctl v g cmd (of_nat (length inp)) t"
  defines "call \<equiv> Ioctl (ut_handle s) (TEE_IOC_INVOKE buf)"
  defines "r \<equiv> k (hist t) call" and "left \<equiv> fold (\<lambda>(q, bs). mem_write q bs) (w (hist t) call) given"
  defines "back \<equiv> ioctl_back buf (sr_out r)"
  defines "a \<equiv> ucast (u0 (get_params 24 back ! 0)) :: u32" and "n \<equiv> ucast (u1 (get_params 24 back ! 2)) :: u32"
  assumes "ut_km_connected v g s" "km_objects_ok g" "length inp \<le> len" "room \<le> buffer_length v"
  shows "\<exists>s'. ut_km_connected v g s' \<and> hist (ut_teec s') = hist t @ [(call, r)] \<and> mem (ut_teec s') = left \<and>
       ut_km_call v k w invalid_length g cmd inp room s =
         (if sr_rc r \<noteq> 0 then Some (sint (ioctl_errno_to_res (errno (ut_teec s'))), None, s')
          else if ia_ret (get_invoke_arg back) \<noteq> TEEC_SUCCESS then Some (sint (ia_ret (get_invoke_arg back)), None, s')
          else if a \<noteq> 0 then Some (sint a, None, s')
          else if room < n then None
          else Some (0, Some (mem_read outb (unat n) left), s'))"
proof -
  note c = assms(13) [unfolded ut_km_connected_def Let_def t_def [symmetric]]
  have io: "km_input g \<noteq> km_output g" using assms(14) by (simp add: km_objects_ok_def)
  define u where "u = t\<lparr>shms := (shms t)(km_input g := (shms t (km_input g))\<lparr>shm_size := of_nat (length inp)\<rparr>), mem := mem_write inb inp (mem t)\<rparr>"
  have same: "km_ioctl v g cmd (of_nat (length inp)) u = buf" "hist u = hist t" "contexts u (km_context g) = \<lparr>ctx_fd = ut_handle s\<rparr>"
    "mem u = mem_write inb inp (mem t)" "shm_buffer (shms u (km_output g)) = outb"
    using io c by (simp_all add: buf_def km_ioctl_def km_ioctl_params_def u_def outb_def t_def)
  have "km_ready v g u" using c io by (simp add: km_ready_def km_buffer_ok_def u_def)
  then obtain t' where t': "hist t' = hist t @ [(call, r)]" "mem t' = left" "contexts t' = contexts u" "sessions t' = sessions u"
      "contextMap t' = contextMap u" "sessionMap t' = sessionMap u" "\<not> teec_mutex t'"
      "shms t' = (shms u)(km_output g := (shms u (km_output g))\<lparr>shm_size := ucast (buffer_length v)\<rparr>)"
      "km_exchange v k w g cmd 0xed3 (km_parameter (km_input g) (of_nat (length inp))) room (s\<lparr>ut_teec := u\<rparr>) =
         (if sr_rc r \<noteq> 0 then Some (sint (ioctl_errno_to_res (errno t')), None, s\<lparr>ut_teec := t'\<rparr>)
          else if ia_ret (get_invoke_arg back) \<noteq> TEEC_SUCCESS then Some (sint (ia_ret (get_invoke_arg back)), None, s\<lparr>ut_teec := t'\<rparr>)
          else if a \<noteq> 0 then Some (sint a, None, s\<lparr>ut_teec := t'\<rparr>)
          else if room < n then None
          else Some (0, Some (mem_read outb (unat n) left), s\<lparr>ut_teec := t'\<rparr>))"
    using km_exchange_run [OF assms(14), where v = v and u = u and k = k and cmd = cmd and m = "of_nat (length inp)" and w = w and room = room and s = s, unfolded same TEEC_Context.simps,
        folded call_def len_def, folded r_def given_def, folded left_def back_def, folded a_def n_def] by blast
  have conn: "ut_km_connected v g (s\<lparr>ut_teec := t'\<rparr>)"
    using c t' io by (simp add: ut_km_connected_def km_buffer_ok_def u_def)
  have "0 \<le> ut_handle s" "usable inb" using c by (simp_all add: km_buffer_ok_def inb_def t_def)
  with leD [OF assms(15)] leD [OF assms(16)] have "ut_km_call v k w invalid_length g cmd inp room s =
      km_exchange v k w g cmd 0xed3 (km_parameter (km_input g) (of_nat (length inp))) room (s\<lparr>ut_teec := u\<rparr>)"
    by (simp add: ut_km_call_def Let_def km_types u_def t_def [symmetric] inb_def len_def)
  with conn t' show ?thesis
    by (intro exI [of _ "s\<lparr>ut_teec := t'\<rparr>"]) simp
qed

text \<open>C32. A call in a connected state, on every branch: when the driver is called, once, with the
  command and the two buffers as parameters, the input buffer holds the request and the output
  buffer is clear; if the driver fails, the application refuses, or it reports a code, the
  caller learns this and gets no data; otherwise it gets as many bytes of the output buffer as
  the application says, and a number larger than the caller's buffer is not caught. Whatever
  happens the state stays connected.\<close>

theorem ut_km_call_exchange:
  fixes v k w g cmd inp s
  defines "t \<equiv> ut_teec s" and "inb \<equiv> shm_buffer (shms (ut_teec s) (km_input g))" and "outb \<equiv> shm_buffer (shms (ut_teec s) (km_output g))"
    and "len \<equiv> unat (buffer_length v)"
  defines "given \<equiv> mem_write outb (replicate len 0) (mem_write inb inp (mem t))"
    and "buf \<equiv> km_ioctl v g cmd (of_nat (length inp)) t"
  defines "call \<equiv> Ioctl (ut_handle s) (TEE_IOC_INVOKE buf)"
  defines "r \<equiv> k (hist t) call" and "left \<equiv> fold (\<lambda>(q, bs). mem_write q bs) (w (hist t) call) given"
  defines "back \<equiv> ioctl_back buf (sr_out r)"
  defines "a \<equiv> ucast (u0 (get_params 24 back ! 0)) :: u32" and "n \<equiv> ucast (u1 (get_params 24 back ! 2)) :: u32"
  assumes "ut_km_connected v g s" "km_objects_ok g" "length inp \<le> len" "room \<le> buffer_length v"
    and "{inb..<inb + length inp} \<inter> {outb..<outb + len} = {}"
  shows "mem_read inb (length inp) given = inp \<and> mem_read outb len given = replicate len 0 \<and>
    (\<exists>s'. ut_km_connected v g s' \<and> hist (ut_teec s') = hist t @ [(call, r)] \<and> mem (ut_teec s') = left \<and>
       ut_km_call v k w invalid_length g cmd inp room s =
         (if sr_rc r \<noteq> 0 then Some (sint (ioctl_errno_to_res (errno (ut_teec s'))), None, s')
          else if ia_ret (get_invoke_arg back) \<noteq> TEEC_SUCCESS then Some (sint (ia_ret (get_invoke_arg back)), None, s')
          else if a \<noteq> 0 then Some (sint a, None, s')
          else if room < n then None
          else Some (0, Some (mem_read outb (unat n) left), s')))"
proof (intro conjI)
  show "mem_read inb (length inp) given = inp"
    unfolding given_def using assms(17) by (intro mem_write_apart) simp
  show "mem_read outb len given = replicate len 0"
    unfolding given_def using mem_read_write [of outb "replicate len 0"] by simp
qed (unfold assms(1-12), rule ut_km_call_run [OF assms(13,14) assms(15) [unfolded len_def] assms(16)])

section \<open>Without memory\<close>

lemma close_session_frame:
  assumes "TEEC_CloseSession k p t = Some t'"
  shows "contexts t' = contexts t \<and> shms t' = shms t \<and> set (sessionMap t') \<subseteq> set (sessionMap t) \<and>
    (distinct (sessionMap t) \<longrightarrow> distinct (sessionMap t') \<and> p \<notin> set (sessionMap t'))"
  using assms set_remove1_subset [of p "sessionMap t"]
  by (auto simp: TEEC_CloseSession_def ut_close_session_def Let_def sys_def split: if_splits)

lemma finalize_sessions_frame:
  "finalize_sessions k ctx i t = Some t' \<Longrightarrow> contexts t' = contexts t \<and> shms t' = shms t \<and> set (sessionMap t') \<subseteq> set (sessionMap t)"
proof (induction k ctx i t rule: finalize_sessions.induct)
  case (1 k ctx i t)
  let ?p = "sessionMap t ! i"
  show ?case
  proof (cases "\<not> length (sessionMap t) \<le> i \<and> sess_ctx (sessions t ?p) = ctx")
    case True
    with 1(3) obtain t1 where t1: "ut_close_session k ?p t = Some t1"
      by (auto simp: finalize_sessions.simps [of k ctx i] Let_def split: option.splits)
    let ?t2 = "t1\<lparr>sessionMap := take i (sessionMap t) @ drop (Suc i) (sessionMap t)\<rparr>"
    from 1(3) True t1 have rest: "i \<noteq> length (sessionMap ?t2)" "finalize_sessions k ctx (Suc i) ?t2 = Some t'"
      by (auto simp: finalize_sessions.simps [of k ctx i] Let_def split: if_splits)
    have "contexts t' = contexts ?t2 \<and> shms t' = shms ?t2 \<and> set (sessionMap t') \<subseteq> set (sessionMap ?t2)"
      using 1(1) [OF _ refl _ t1 refl] True rest by simp
    moreover have "contexts t1 = contexts t" "shms t1 = shms t"
      using t1 by (auto simp: ut_close_session_def Let_def sys_def split: if_splits)
    moreover have "set (sessionMap ?t2) \<subseteq> set (sessionMap t)" by (auto dest: in_set_takeD in_set_dropD)
    ultimately show ?thesis by auto
  next
    case False
    with 1 show ?thesis by (auto simp: finalize_sessions.simps [of k ctx i] Let_def split: if_splits)
  qed
qed

lemma abandon_frame:
  assumes "km_abandon k g t = Some t'"
  shows "contexts t' = contexts t \<and> shms t' = shms t \<and> set (sessionMap t') \<subseteq> set (sessionMap t) \<and>
    (distinct (sessionMap t) \<longrightarrow> km_session g \<notin> set (sessionMap t'))"
proof -
  from assms obtain t1 t2 where t1: "TEEC_CloseSession k (km_session g) t = Some t1" and t2: "finalize_sessions k (km_context g) 0 t1 = Some t2"
    and t': "contexts t' = contexts t2" "shms t' = shms t2" "sessionMap t' = sessionMap t2"
    by (auto simp: km_abandon_def TEEC_FinalizeContext_def bind_eq_Some_conv ut_close_fd_def sys_def Let_def split: if_splits)
  from close_session_frame [OF t1] finalize_sessions_frame [OF t2] t' show ?thesis by auto
qed

lemma allocate_fails:
  assumes "\<forall>h n fd. sr_rc (k h (Mmap n fd)) < 0"
  shows "\<not> fst (km_allocate k g m n flags t)"
  using assms
  by (auto simp: km_allocate_def TEEC_AllocateSharedMemory_def allocate_shm_def mmap_def sys_def Let_def split: if_splits)

lemma buffers_without_memory:
  assumes "km_buffers v k g t = Some (go, t')" "\<forall>h n fd. sr_rc (k h (Mmap n fd)) < 0" "km_objects_ok g" "distinct (sessionMap t)"
    "buffer_length v \<noteq> 0"
  shows "go = falls_through v \<and> contexts t' = contexts t \<and> km_session g \<notin> set (sessionMap t') \<and>
    (go \<longrightarrow> \<not> usable (shm_buffer (shms t' (km_output g))))"
proof -
  have g: "km_context g \<noteq> 0" "km_input g \<noteq> 0" "km_output g \<noteq> 0" "km_input g \<noteq> km_output g"
    using assms(3) by (auto simp: km_objects_ok_def)
  obtain ok t1 where 1: "km_allocate k g (km_input g) (buffer_length v) TEEC_MEM_INPUT t = (ok, t1)" by fastforce
  have ok: "\<not> ok" using allocate_fails [OF assms(2)] 1 by (metis fst_conv)
  note step = assms(1) [unfolded km_buffers_def Let_def 1 prod.case]
  from step ok obtain t2 where 2: "km_abandon k g t1 = Some t2" by (auto simp: bind_eq_Some_conv)
  have f1: "contexts t1 = contexts t" "sessionMap t1 = sessionMap t" using allocate_ok [OF 1 g(2,1) assms(5)] by simp_all
  have f2: "contexts t2 = contexts t" "km_session g \<notin> set (sessionMap t2)"
    using abandon_frame [OF 2] f1 assms(4) by auto
  show ?thesis
  proof (cases "falls_through v")
    case False
    with step ok 2 f2 show ?thesis by simp
  next
    case True
    obtain ok2 t3 where 3: "km_allocate k g (km_output g) (buffer_length v) TEEC_MEM_OUTPUT t2 = (ok2, t3)" by fastforce
    have ok2: "\<not> ok2" using allocate_fails [OF assms(2)] 3 by (metis fst_conv)
    note f3 = allocate_ok [OF 3 g(3,1) assms(5)]
    obtain v' t4 where 4: "release_shm k (shms t3 (km_input g)) t3 = (v', t4)" by fastforce
    let ?t4 = "TEEC_ReleaseSharedMemory k (km_input g) t3"
    have f4: "contexts ?t4 = contexts t3" "sessionMap ?t4 = sessionMap t3" "shms ?t4 (km_output g) = shms t3 (km_output g)"
      using g(2,4) 4 only_callsD [OF only_calls_release [OF 4]] by (simp_all add: TEEC_ReleaseSharedMemory_def)
    from step ok ok2 2 3 True have 5: "go" "km_abandon k g ?t4 = Some t'"
      by (auto simp: bind_eq_Some_conv simp del: TEEC_MEM_OUTPUT_def)
    with abandon_frame [OF 5(2)] f2 f3 f4 ok2 True show ?thesis by auto
  qed
qed

section \<open>Properties of the connection\<close>

text \<open>The key mint service: when connecting answers 0, the context and the session are open
  in the library, the session belongs to the context, the handle is the descriptor of the
  device, and both buffers are mapped on it with the right direction and size.\<close>

theorem keymint_connected:
  assumes "ut_km_connect keymint k w gptee g s = Some (0, s')" "ut_handle s \<le> 0" "km_objects_ok g" "\<not> teec_mutex (ut_teec s)"
  shows "ut_km_connected keymint g s'"
  by (rule connect_ok [OF assms]) simp_all

text \<open>C33. The key master 4.1 service goes on when its buffers cannot be allocated: if the device
  cannot be mapped and connecting answers 0, the session that the handle stands for has been
  closed, and every later call with an acceptable request is undefined, since it writes
  through the address of the failed mapping.\<close>

theorem km41_without_memory:
  assumes "ut_km_connect km41 k w gptee g s = Some (0, s')" "ut_handle s \<le> 0" "km_objects_ok g" "distinct (sessionMap (ut_teec s))"
    and "\<forall>h n fd. sr_rc (k h (Mmap n fd)) < 0"
  shows "0 \<le> ut_handle s' \<and> km_session g \<notin> set (sessionMap (ut_teec s')) \<and>
    (length inp \<le> unat (buffer_length km41) \<and> room \<le> buffer_length km41 \<longrightarrow>
       ut_km_call km41 k w invalid_length g cmd inp room s' = None)"
proof -
  have io: "km_input g \<noteq> km_output g" using assms(3) by (simp add: km_objects_ok_def)
  from connect_steps [OF assms(1-3)] obtain t t' fd where t: "0 \<le> fd" "contexts t (km_context g) = \<lparr>ctx_fd = fd\<rparr>"
      "sessionMap t = map_insert (km_session g) (sessionMap (ut_teec s))"
    and b: "km_buffers km41 k g t = Some (True, t')" and s': "s' = \<lparr>ut_handle = ctx_fd (contexts t' (km_context g)), ut_teec = t'\<rparr>"
    by metis
  have "distinct (sessionMap t)" using t(3) assms(4) by (auto simp: map_insert_def distinct_insort)
  from buffers_without_memory [OF b assms(5,3) this] t
  have t': "contexts t' (km_context g) = \<lparr>ctx_fd = fd\<rparr>" "km_session g \<notin> set (sessionMap t')" "\<not> usable (shm_buffer (shms t' (km_output g)))"
    by simp_all
  have "ut_km_call km41 k w invalid_length g cmd inp room s' = None"
    if "length inp \<le> unat (buffer_length km41)" "room \<le> buffer_length km41"
    using leD [OF that(1)] leD [OF that(2)] t(1) t'(1,3) io
    by (simp add: ut_km_call_def km_exchange_def Let_def s')
  then show ?thesis using t(1) t' by (simp add: s')
qed

section \<open>Examples\<close>

definition km_g :: km_objects where
  "km_g = \<lparr>km_context = 100, km_session = 200, km_input = 300, km_output = 400, km_operation = 500, km_origin = 600\<rparr>"

lemma km_g_fields [simp]: "km_context km_g = 100" "km_session km_g = 200" "km_input km_g = 300" "km_output km_g = 400"
  "km_operation km_g = 500" "km_origin km_g = 600" "km_objects_ok km_g"
  by (simp_all add: km_g_def km_objects_ok_def)

definition km_app :: secure_world where
  "km_app h c = (case c of Ioctl fd (TEE_IOC_INVOKE buf) \<Rightarrow> [(262144, [0xAA, 0xBB])] | _ \<Rightarrow> [])"

definition km_start :: ut_km where
  "km_start = \<lparr>ut_handle = - 1, ut_teec = tee_initial\<rparr>"

lemma km_start_fields [simp]: "ut_handle km_start = - 1" "sessionMap (ut_teec km_start) = []" "\<not> teec_mutex (ut_teec km_start)"
  "contextMap (ut_teec km_start) = []" "quiet km_app"
  by (simp_all add: km_start_def tee_initial_def quiet_def km_app_def)

lemma connect_example:
  assumes "connects k" "quiet w" "ut_handle s \<le> 0" "sessionMap (ut_teec s) = []" "contextMap (ut_teec s) = []"
    and "\<And>t. sessionMap t = [200] \<Longrightarrow> contextMap t = [100] \<Longrightarrow> contexts t 100 = \<lparr>ctx_fd = 7\<rparr> \<Longrightarrow>
     sessions t 200 = \<lparr>sess_ctx = 100, session_id = 0\<rparr> \<Longrightarrow> \<exists>t'. km_buffers v k km_g t = Some (True, t')"
  shows "\<exists>s'. ut_km_connect v k w False km_g s = Some (0, s')"
proof -
  let ?t = "(km_clear km_g (ut_teec s))\<lparr>origins := (origins (km_clear km_g (ut_teec s)))(600 := 0)\<rparr>"
  have uuid: "length (uuid_to_octets KM_TA_UUID) = 16" by code_simp
  obtain t1 where t1: "TEEC_InitializeContext k False (Some host_name) 100 ?t = (TEEC_SUCCESS, t1)" "contexts t1 100 = \<lparr>ctx_fd = 7\<rparr>"
      "contextMap t1 = [100]" "sessionMap t1 = []"
    using device_initialize [OF assms(1), of 100 host_name ?t] assms(4,5) by (auto simp: km_clear_def map_insert_def)
  obtain t2 where t2: "TEEC_OpenSession k w 100 200 (Some KM_TA_UUID) TEEC_LOGIN_PUBLIC 0 0 600 t1 = Some (TEEC_SUCCESS, t2)"
      "sessionMap t2 = [200]" "contextMap t2 = [100]" "contexts t2 100 = \<lparr>ctx_fd = 7\<rparr>" "sessions t2 200 = \<lparr>sess_ctx = 100, session_id = 0\<rparr>"
    using device_open_session [OF t1(2) assms(1,2) _ _ uuid, of 200 600] t1 by (auto simp: map_insert_def)
  obtain t3 where "km_buffers v k km_g t2 = Some (True, t3)" using assms(6) [OF t2(2-5)] by blast
  with t1 t2 assms(3) show ?thesis by (simp add: ut_km_connect_def Let_def)
qed

theorem keymint_connected_witness:
  "\<exists>s'. ut_km_connect keymint device_kernel km_app False km_g km_start = Some (0, s') \<and> ut_km_connected keymint km_g s'"
proof -
  have "\<exists>t'. km_buffers keymint device_kernel km_g t = Some (True, t')" if "contexts t 100 = \<lparr>ctx_fd = 7\<rparr>" for t
    using that
    by (simp add: km_buffers_def km_allocate_def TEEC_AllocateSharedMemory_def allocate_shm_def shm_flags_ok_def mmap_def
        teec_shm_get_id_def sys_def Let_def ret_def MAP_FAILED_def)
  then obtain s' where "ut_km_connect keymint device_kernel km_app False km_g km_start = Some (0, s')"
    using connect_example [OF connects_device(1), of km_app km_start keymint] by auto
  with keymint_connected [OF this] show ?thesis by simp
qed

theorem km41_without_memory_witness:
  "\<exists>s'. ut_km_connect km41 full_kernel km_app False km_g km_start = Some (0, s') \<and> 200 \<notin> set (sessionMap (ut_teec s')) \<and>
     ut_km_call km41 full_kernel km_app (- 21) km_g 4 [1, 2, 3] 4096 s' = None"
proof -
  have "\<exists>t'. km_buffers km41 full_kernel km_g t = Some (True, t')"
    if "sessionMap t = [200]" "contextMap t = [100]" "contexts t 100 = \<lparr>ctx_fd = 7\<rparr>" "sessions t 200 = \<lparr>sess_ctx = 100, session_id = 0\<rparr>" for t
    using that
    by (simp add: km_buffers_def km_allocate_def TEEC_AllocateSharedMemory_def allocate_shm_def shm_flags_ok_def mmap_def km_abandon_def
        TEEC_CloseSession_def TEEC_FinalizeContext_def finalize_sessions.simps ut_close_session_def ut_close_fd_def TEEC_ReleaseSharedMemory_def
        release_shm_def teec_shm_get_id_def sys_def Let_def fail_def ret_def MAP_FAILED_def)
  then obtain s' where c: "ut_km_connect km41 full_kernel km_app False km_g km_start = Some (0, s')"
    using connect_example [OF connects_device(2), of km_app km_start km41] by auto
  have "\<forall>h n fd. sr_rc (full_kernel h (Mmap n fd)) < 0" by (simp add: fail_def)
  from km41_without_memory [OF c _ _ _ this, of "[1, 2, 3]" 4096 "- 21" 4] c show ?thesis by simp
qed

text \<open>A connected state with buffers at 65536 and 262144.\<close>

definition km_buffer :: "ptr \<Rightarrow> u32 \<Rightarrow> TEEC_SharedMemory" where
  "km_buffer p flags = \<lparr>shm_buffer = p, shm_size = 71680, shm_flags = flags, shm_id = 5, alloced_size = 71680, shadow_buffer = 0, registered_fd = 7\<rparr>"

definition km_connection :: ut_km where
  "km_connection = \<lparr>ut_handle = 7, ut_teec = tee_initial\<lparr>contexts := (\<lambda>_. \<lparr>ctx_fd = 7\<rparr>),
     sessions := (\<lambda>_. \<lparr>sess_ctx = 100, session_id = 9\<rparr>), contextMap := [100], sessionMap := [200],
     shms := (\<lambda>m. if m = 300 then km_buffer 65536 TEEC_MEM_INPUT else km_buffer 262144 TEEC_MEM_OUTPUT)\<rparr>\<rparr>"

lemma km_connection_ok: "ut_km_connected km41 km_g km_connection"
  by (simp add: ut_km_connected_def km_connection_def km_buffer_ok_def km_buffer_def usable_def MAP_FAILED_def tee_initial_def)

theorem ut_km_call_exchange_witness:
  "\<exists>s' out. ut_km_call km41 device_kernel km_app (- 21) km_g 4 [1, 2, 3] 71680 km_connection = Some (0, Some out, s') \<and>
     take 2 out = [0xAA, 0xBB] \<and> ut_km_connected km41 km_g s'"
proof -
  let ?t = "ut_teec km_connection"
  define buf where "buf = km_ioctl km41 km_g 4 (of_nat (length [1 :: u8, 2, 3])) ?t"
  let ?given = "mem_write 262144 (replicate (unat (buffer_length km41)) 0) (mem_write 65536 [1, 2, 3] (mem ?t))"
  have bufs: "shm_buffer (shms ?t (km_input km_g)) = 65536" "shm_buffer (shms ?t (km_output km_g)) = 262144" "ut_handle km_connection = 7"
    by (simp_all add: km_connection_def km_buffer_def)
  have ps: "get_params 24 buf = km_ioctl_params km41 km_g 3 ?t"
    by (simp add: buf_def km_ioctl_def get_params_invoke km_ioctl_params_def)
  have ia: "ia_ret (get_invoke_arg buf) = 0" by (simp add: buf_def km_ioctl_def)
  have left: "fold (\<lambda>(q, bs). mem_write q bs) (km_app (hist ?t) (Ioctl 7 (TEE_IOC_INVOKE buf))) ?given = mem_write 262144 [0xAA, 0xBB] ?given"
    by (simp add: km_app_def)
  have k: "device_kernel (hist ?t) (Ioctl 7 (TEE_IOC_INVOKE buf)) = \<lparr>sr_rc = 0, sr_err = 0, sr_out = []\<rparr>" by (simp add: ret_def)
  have "\<exists>s'. ut_km_connected km41 km_g s' \<and> ut_km_call km41 device_kernel km_app (- 21) km_g 4 [1, 2, 3] 71680 km_connection =
      Some (0, Some (mem_read 262144 71680 (mem_write 262144 [0xAA, 0xBB] ?given)), s')"
    using ut_km_call_exchange [where v = km41 and g = km_g and s = km_connection and inp = "[1, 2, 3]" and cmd = 4 and room = 71680
        and k = device_kernel and w = km_app and invalid_length = "- 21", OF km_connection_ok, unfolded bufs, folded buf_def, unfolded k left]
    by (auto simp: ps ia km_ioctl_params_def)
  moreover have "take 2 (mem_read 262144 71680 (mem_write 262144 [0xAA, 0xBB] ?given)) = [0xAA, 0xBB]"
    by (subst mem_read_write_prefix) simp_all
  ultimately show ?thesis by blast
qed

end
