(* ===== verification/Keymint.thy ===== *)
theory Keymint
  imports Ut_Keymaster Beanpod_Keymaster Teec_Calls
begin

text \<open>
  The key mint service of the 400 variant (\<open>400/keymint1.0/common/BeanpodKeymaster.cpp\<close>) and the
  key master 4.1 service beside it (\<open>400/km4.1/common/BeanpodKeymaster.cpp\<close>), over the connection
  of \<open>Ut_Keymaster\<close>. The key mint service initialises itself when it is first used: it waits for
  the daemon, connects, and configures the application by three commands. What the AOSP key
  master library and the property service decide is in the environment: how responses are read
  (\<open>deser\<close>, given the command), the error of a response, how the two requests with a patch level
  are written, the values of system properties once they exist, and the rewriting of a request
  for a new key.
\<close>

section \<open>Environment and state\<close>

record 'r km_env =
  kernel_of :: kernel
  world :: secure_world
  gptee_of :: bool
  invalid_length_of :: int
  objects :: km_objects
  deser :: "u32 \<Rightarrow> bytes \<Rightarrow> 'r option"
  rsp_error :: "'r \<Rightarrow> keymaster_error_t"
  stack_of :: bytes
  os_version :: u32
  os_patchlevel :: u32
  vendor_patchlevel :: u32
  property_of :: "string \<Rightarrow> bytes"
  put_vendor :: "u32 \<Rightarrow> bytes"
  put_boot :: "u32 \<Rightarrow> bytes"
  dated :: "bytes \<Rightarrow> bytes"

record keymint_state =
  link :: ut_km
  initialized :: bool

type_synonym 'r km_answer = "keymaster_error_t \<times> 'r option \<times> ut_km"

section \<open>Forwarding\<close>

definition ut_forward :: "km_variant \<Rightarrow> 'r km_env \<Rightarrow> u32 \<Rightarrow> bytes \<Rightarrow> ut_km \<Rightarrow> 'r km_answer option" where
  "ut_forward v E command req s =
     ut_km_send v (kernel_of E) (world E) (gptee_of E) (invalid_length_of E) (objects E) (deser E command) (rsp_error E)
       (stack_of E) command req s"

definition ut_forward_no_request :: "km_variant \<Rightarrow> 'r km_env \<Rightarrow> u32 \<Rightarrow> ut_km \<Rightarrow> 'r km_answer option" where
  "ut_forward_no_request v E command s =
     ut_km_send_no_request v (kernel_of E) (world E) (gptee_of E) (objects E) (deser E command) (rsp_error E) (stack_of E) command s"

section \<open>The key master 4.1 service\<close>

definition km41_method_call :: "'r km_env \<Rightarrow> km_method \<Rightarrow> bytes \<Rightarrow> ut_km \<Rightarrow> 'r km_answer option" where
  "km41_method_call E m req s =
     (if no_request m then ut_forward_no_request km41 E (km_code (method_command m)) s
      else ut_forward km41 E (km_code (method_command m)) (if m = GenerateKey then dated E req else req) s)"

definition km41_Initialize :: "'r km_env \<Rightarrow> bytes \<Rightarrow> ut_km \<Rightarrow> (int \<times> ut_km) option" where
  "km41_Initialize E configure s =
     do {
       (err, s1) \<leftarrow> ut_km_connect km41 (kernel_of E) (world E) (gptee_of E) (objects E) s;
       if err \<noteq> 0 then Some (err, s1)
       else do {
         (e, rsp, s2) \<leftarrow> km41_method_call E Configure configure s1;
         Some (if e \<noteq> KM_ERROR_OK then - 1 else 0, s2)
       }
     }"

definition km41_destructor :: "'r km_env \<Rightarrow> ut_km \<Rightarrow> ut_km option" where
  "km41_destructor E s = ut_km_disconnect (kernel_of E) (objects E) s"

section \<open>The key mint service: configuration\<close>

definition km_debug_prop :: string where "km_debug_prop = ''vendor.soter.teei.km.init''"

definition set_status :: "'r km_env \<Rightarrow> string \<Rightarrow> ut_km \<Rightarrow> ut_km" where
  "set_status E v s = s\<lparr>ut_teec := snd (sys (kernel_of E) (Property_set km_debug_prop v) (ut_teec s))\<rparr>"

text \<open>
  The request with the properties of the device: a property is copied by \<open>memcpy\<close> into a zeroed
  array of 92 bytes, with no test of its length.
\<close>

definition MAX_ANDROID_PROP_LEN :: nat where [simp]: "MAX_ANDROID_PROP_LEN = 92"

definition prop_field :: "bytes \<Rightarrow> bytes option" where
  "prop_field v = (if MAX_ANDROID_PROP_LEN < length v then None else Some (v @ replicate (MAX_ANDROID_PROP_LEN - length v) 0))"

definition BPConfigureRequest :: "'r km_env \<Rightarrow> bytes option" where
  "BPConfigureRequest E =
     do {
       brand \<leftarrow> prop_field (property_of E ''ro.product.brand'');
       manufacturer \<leftarrow> prop_field (property_of E ''ro.product.manufacturer'');
       product \<leftarrow> prop_field (property_of E ''ro.product.name'');
       model \<leftarrow> prop_field (property_of E ''ro.product.model'');
       board \<leftarrow> prop_field (property_of E ''ro.product.board'');
       Some (put_u32 (os_version E) @ put_u32 (os_patchlevel E) @ brand @ manufacturer @ product @ model @ board)
     }"

definition KM_GENERATE_RKP_KEY :: u32 where "KM_GENERATE_RKP_KEY = push_bit KEYMASTER_REQ_SHIFT 29"
definition KM_GENERATE_CSR :: u32 where "KM_GENERATE_CSR = push_bit KEYMASTER_REQ_SHIFT 30"
definition KM_GENERATE_TIMESTAMPTOKEN :: u32 where "KM_GENERATE_TIMESTAMPTOKEN = push_bit KEYMASTER_REQ_SHIFT 31"
definition KM_CONFIGURE_VENDOR_PATCHLEVEL :: u32 where "KM_CONFIGURE_VENDOR_PATCHLEVEL = push_bit KEYMASTER_REQ_SHIFT 33"
definition KM_CONFIGURE_BOOT_PATCHLEVEL :: u32 where "KM_CONFIGURE_BOOT_PATCHLEVEL = push_bit KEYMASTER_REQ_SHIFT 0xd0000"

definition ConfigDeviceInfo :: "'r km_env \<Rightarrow> ut_km \<Rightarrow> (int \<times> ut_km) option" where
  "ConfigDeviceInfo E s =
     do {
       req \<leftarrow> BPConfigureRequest E;
       (e, rsp, s1) \<leftarrow> ut_forward keymint E (km_code KM_CONFIGURE) req (set_status E ''configure'' s);
       Some (if e \<noteq> KM_ERROR_OK then (- 1, set_status E ''configure_failed'' s1)
             else (0, set_status E ''configure_success'' s1))
     }"

definition ConfigPatchLevel :: "'r km_env \<Rightarrow> ut_km \<Rightarrow> (int \<times> ut_km) option" where
  "ConfigPatchLevel E s =
     do {
       (e, rsp, s1) \<leftarrow> ut_forward keymint E KM_CONFIGURE_VENDOR_PATCHLEVEL (put_vendor E (vendor_patchlevel E))
         (set_status E ''config_patch_level'' s);
       if e \<noteq> KM_ERROR_OK then Some (- 1, set_status E ''configure_vendor_pl_failed'' s1)
       else do {
         (e2, rsp2, s2) \<leftarrow> ut_forward keymint E KM_CONFIGURE_BOOT_PATCHLEVEL (put_boot E (os_patchlevel E * 100 + 1)) s1;
         Some (if e2 \<noteq> KM_ERROR_OK then (- 1, set_status E ''configure_boot_pl_failed'' s2)
               else (0, set_status E ''config_patch_level_sucess'' s2))
       }
     }"

text \<open>The loop that waits until the daemon has announced that it is ready.\<close>

definition teei_init_prop :: string where "teei_init_prop = ''vendor.soter.teei.init''"

definition pause_200ms :: "kernel \<Rightarrow> teec \<Rightarrow> teec" where
  "pause_200ms k t = snd (sys k (Usleep 200000) (snd (sys k (Property_set km_debug_prop ''wait_teei_daemon'') t)))"

partial_function (option) wait_teei_daemon :: "kernel \<Rightarrow> teec \<Rightarrow> teec option" where
  "wait_teei_daemon k t =
     (let (r, t1) = sys k (Property_get teei_init_prop) t in
      if sr_out r \<noteq> [] then Some t1 else wait_teei_daemon k (pause_200ms k t1))"

definition keymint_Initialize :: "'r km_env \<Rightarrow> keymint_state \<Rightarrow> (int \<times> keymint_state) option" where
  "keymint_Initialize E s =
     (if initialized s then Some (0, s)
      else do {
        let s0 = set_status E ''load_ta'' (link s);
        t \<leftarrow> wait_teei_daemon (kernel_of E) (ut_teec s0);
        (err, s1) \<leftarrow> ut_km_connect keymint (kernel_of E) (world E) (gptee_of E) (objects E) (s0\<lparr>ut_teec := t\<rparr>);
        if err \<noteq> 0 then Some (err, s\<lparr>link := set_status E ''load_ta_failed'' s1\<rparr>)
        else do {
          (e1, s2) \<leftarrow> ConfigDeviceInfo E (set_status E ''load_ta_success'' s1);
          if e1 \<noteq> 0 then Some (- 1, s\<lparr>link := s2\<rparr>)
          else do {
            (e2, s3) \<leftarrow> ConfigPatchLevel E s2;
            Some (if e2 \<noteq> 0 then (- 1, s\<lparr>link := s3\<rparr>) else (0, s\<lparr>link := s3, initialized := True\<rparr>))
          }
        }
      })"

section \<open>The key mint service: methods\<close>

datatype keymint_method =
    Common km_method | GenerateRkpKey | GenerateCsr | GenerateTimestampToken | ConfigureVendorPatchLevel | ConfigureBootPatchLevel

fun keymint_code :: "keymint_method \<Rightarrow> u32" where
  "keymint_code (Common m) = km_code (method_command m)"
| "keymint_code GenerateRkpKey = KM_GENERATE_RKP_KEY"
| "keymint_code GenerateCsr = KM_GENERATE_CSR"
| "keymint_code GenerateTimestampToken = KM_GENERATE_TIMESTAMPTOKEN"
| "keymint_code ConfigureVendorPatchLevel = KM_CONFIGURE_VENDOR_PATCHLEVEL"
| "keymint_code ConfigureBootPatchLevel = KM_CONFIGURE_BOOT_PATCHLEVEL"

text \<open>The methods without the macro \<open>INITIALIZE\<close>.\<close>

fun initializes :: "keymint_method \<Rightarrow> bool" where
  "initializes (Common m) = (m \<notin> {Configure, UpdateOperation, FinishOperation, AbortOperation})"
| "initializes ConfigureVendorPatchLevel = False"
| "initializes ConfigureBootPatchLevel = False"
| "initializes _ = True"

definition keymint_forward :: "'r km_env \<Rightarrow> keymint_method \<Rightarrow> bytes \<Rightarrow> ut_km \<Rightarrow> 'r km_answer option" where
  "keymint_forward E m req s =
     (if (case m of Common c \<Rightarrow> no_request c | _ \<Rightarrow> False) then ut_forward_no_request keymint E (keymint_code m) s
      else ut_forward keymint E (keymint_code m) (if m = Common GenerateKey then dated E req else req) s)"

definition keymint_method_call ::
  "'r km_env \<Rightarrow> keymint_method \<Rightarrow> bytes \<Rightarrow> keymint_state \<Rightarrow> (keymaster_error_t \<times> 'r option \<times> keymint_state) option" where
  "keymint_method_call E m req s =
     do {
       (err, s1) \<leftarrow> (if initializes m then keymint_Initialize E s else Some (0, s));
       if err \<noteq> 0 then Some (KM_other (- 1000), None, s1)
       else do {
         (e, rsp, u) \<leftarrow> keymint_forward E m req (link s1);
         Some (e, rsp, s1\<lparr>link := u\<rparr>)
       }
     }"

definition keymint_destructor :: "'r km_env \<Rightarrow> keymint_state \<Rightarrow> keymint_state option" where
  "keymint_destructor E s = map_option (\<lambda>u. s\<lparr>link := u\<rparr>) (ut_km_disconnect (kernel_of E) (objects E) (link s))"

section \<open>Calls of the connection\<close>

lemma allocate_grows: "grows t (snd (km_allocate k g m n flags t))"
  by (auto simp: km_allocate_def TEEC_AllocateSharedMemory_def allocate_shm_def mmap_def teec_shm_get_id_def sys_def Let_def grows_def)

lemma abandon_grows: "km_abandon k g t = Some t' \<Longrightarrow> grows t t'"
  by (auto simp: km_abandon_def bind_eq_Some_conv dest!: close_session_grows finalize_grows intro: grows_trans)

lemma buffers_grow:
  assumes "km_buffers v k g t = Some (go, t')"
  shows "grows t t'"
proof -
  obtain ok t1 where 1: "km_allocate k g (km_input g) (buffer_length v) TEEC_MEM_INPUT t = (ok, t1)" by fastforce
  note step = assms [unfolded km_buffers_def Let_def 1 prod.case]
  have g1: "grows t t1" using allocate_grows [of t k g "km_input g"] 1 by (metis snd_conv)
  from step obtain t2 where 2: "(if ok then Some t1 else km_abandon k g t1) = Some t2" by (auto simp: bind_eq_Some_conv)
  then have g2: "grows t1 t2" by (auto split: if_splits dest: abandon_grows)
  obtain ok2 t3 where 3: "km_allocate k g (km_output g) (buffer_length v) TEEC_MEM_OUTPUT t2 = (ok2, t3)" by fastforce
  have g3: "grows t2 t3" using allocate_grows [of t2 k g "km_output g"] 3 by (metis snd_conv)
  have "grows t3 t'" if "(if ok2 then Some t3 else km_abandon k g (TEEC_ReleaseSharedMemory k (km_input g) t3)) = Some t'"
    using that release_grows [of t3 k "km_input g"] by (auto split: if_splits dest!: abandon_grows intro: grows_trans)
  with step g1 g2 g3 show ?thesis
    unfolding 2 Option.bind.bind_lunit 3 prod.case by (auto simp: bind_eq_Some_conv split: if_splits intro: grows_trans)
qed

lemma connect_grows:
  assumes "ut_km_connect v k w gptee g s = Some (rc, s')"
  shows "grows (ut_teec s) (ut_teec s')"
proof (cases "0 < ut_handle s")
  case False
  define t where "t = (km_clear g (ut_teec s))\<lparr>origins := (origins (km_clear g (ut_teec s)))(km_origin g := 0)\<rparr>"
  have t: "grows (ut_teec s) t" by (simp add: t_def km_clear_def grows_def)
  obtain res t1 where i: "TEEC_InitializeContext k gptee (Some host_name) (km_context g) t = (res, t1)" by fastforce
  note step = assms [unfolded ut_km_connect_def if_not_P [OF False] Let_def t_def [symmetric] i prod.case]
  have g1: "grows (ut_teec s) t1" using t initialize_grows [OF i] by (rule grows_trans)
  show ?thesis
  proof (cases "res = TEEC_SUCCESS")
    case True
    with step obtain res2 t2 where o: "TEEC_OpenSession k w (km_context g) (km_session g) (Some KM_TA_UUID) TEEC_LOGIN_PUBLIC 0 0 (km_origin g) t1 =
        Some (res2, t2)" by (auto simp: bind_eq_Some_conv)
    have "grows (ut_teec s) t2" using g1 open_session_grows [OF o] by (rule grows_trans)
    with step True o show ?thesis
      by (auto simp: bind_eq_Some_conv split: if_splits dest!: finalize_grows buffers_grow intro: grows_trans)
  qed (use step g1 in auto)
qed (use assms in \<open>simp add: ut_km_connect_def\<close>)

lemma disconnect_grows:
  assumes "ut_km_disconnect k g s = Some s'"
  shows "grows (ut_teec s) (ut_teec s')"
proof -
  have "grows (ut_teec s) (TEEC_ReleaseSharedMemory k (km_input g) (TEEC_ReleaseSharedMemory k (km_output g) (ut_teec s)))"
    using release_grows by (rule grows_trans) (rule release_grows)
  then show ?thesis
    using assms by (auto simp: ut_km_disconnect_def Let_def bind_eq_Some_conv km_clear_def grows_def split: if_splits dest!: abandon_grows)
qed

lemma reset_grows: "ut_km_reset v k w gptee g s = Some s' \<Longrightarrow> grows (ut_teec s) (ut_teec s')"
  by (auto simp: ut_km_reset_def bind_eq_Some_conv dest!: disconnect_grows connect_grows intro: grows_trans)

lemma exchange_calls:
  assumes "km_exchange v k w g cmd types p room s = Some (rc, out, s')" "km_session g \<noteq> 0"
  shows "grows (ut_teec s) (ut_teec s') \<and> (0 \<le> rc \<longrightarrow> (\<exists>es. hist (ut_teec s') = hist (ut_teec s) @ es \<and> invoked cmd es))"
proof -
  from assms(1) obtain t res t1 where i: "TEEC_InvokeCommand k w (km_session g) cmd (km_operation g) 0 t = Some (res, t1)"
    and t: "hist t = hist (ut_teec s)" and s': "ut_teec s' = t1" and rc: "0 \<le> rc \<Longrightarrow> 0 \<le> sint res"
    by (auto simp: km_exchange_def Let_def bind_eq_Some_conv split: if_splits)
  from invoke_grows [OF i] invoke_success_invoked [OF i _ assms(2)] t s' rc show ?thesis by (auto simp: grows_def)
qed

lemma translate_error_ok: "translate_error e = KM_ERROR_OK \<Longrightarrow> e = 0"
  by (simp add: translate_error_def split: if_splits)

text \<open>What a step says about the history: it is extended, and by the command if all went well.\<close>

definition asked :: "u32 \<Rightarrow> bool \<Rightarrow> ut_km \<Rightarrow> ut_km \<Rightarrow> bool" where
  "asked cmd well s s' \<longleftrightarrow> grows (ut_teec s) (ut_teec s') \<and>
     (well \<longrightarrow> (\<exists>es. hist (ut_teec s') = hist (ut_teec s) @ es \<and> invoked cmd es))"

lemma answer_asked:
  assumes "ut_km_answer v k w gptee g des err stack (rc, out, s1) = Some (e, rsp, s')" "asked cmd (0 \<le> rc) s s1"
  shows "asked cmd (e = KM_ERROR_OK) s s'"
proof (cases "rc < 0")
  case True
  with assms(1) have r: "ut_km_reset v k w gptee g s1 = Some s'" "e = translate_error rc"
    by (auto simp: ut_km_answer_def bind_eq_Some_conv)
  from reset_grows [OF r(1)] assms(2) have "grows (ut_teec s) (ut_teec s')" by (auto simp: asked_def intro: grows_trans)
  moreover have "e \<noteq> KM_ERROR_OK" using translate_error_ok [of rc] True r(2) by auto
  ultimately show ?thesis by (simp add: asked_def)
next
  case False
  with assms show ?thesis by (auto simp: ut_km_answer_def asked_def split: option.splits)
qed

lemma call_asked:
  assumes "ut_km_call v k w il g cmd req (buffer_length v) s = Some (rc, out, s')" "km_session g \<noteq> 0" "length req \<le> unat (buffer_length v)"
  shows "asked cmd (0 \<le> rc) s s'"
proof (cases "ut_handle s < 0")
  case False
  let ?t = "ut_teec s"
  from assms(1,3) False have "km_exchange v k w g cmd
          (TEEC_PARAM_TYPES TEEC_VALUE_INOUT TEEC_MEMREF_PARTIAL_INPUT TEEC_MEMREF_PARTIAL_OUTPUT TEEC_NONE)
          (km_parameter (km_input g) (of_nat (length req))) (buffer_length v)
          (s\<lparr>ut_teec := ?t\<lparr>shms := (shms ?t)(km_input g := (shms ?t (km_input g))\<lparr>shm_size := of_nat (length req)\<rparr>),
             mem := mem_write (shm_buffer (shms ?t (km_input g))) req (mem ?t)\<rparr>\<rparr>) = Some (rc, out, s')"
    by (auto simp: ut_km_call_def Let_def split: if_splits)
  from exchange_calls [OF this assms(2)] show ?thesis by (simp add: asked_def grows_def)
qed (use assms in \<open>auto simp: ut_km_call_def asked_def\<close>)

lemma call_no_input_asked:
  assumes "ut_km_call_no_input v k w g cmd room s = Some (rc, out, s')" "km_session g \<noteq> 0"
  shows "asked cmd (0 \<le> rc) s s'"
proof (cases "ut_handle s < 0")
  case False
  with assms(1) have "km_exchange v k w g cmd (TEEC_PARAM_TYPES TEEC_NONE TEEC_NONE TEEC_MEMREF_PARTIAL_OUTPUT TEEC_NONE)
        (km_parameter 0 0) room s = Some (rc, out, s')" by (simp add: ut_km_call_no_input_def)
  from exchange_calls [OF this assms(2)] show ?thesis by (simp add: asked_def)
qed (use assms in \<open>auto simp: ut_km_call_no_input_def asked_def\<close>)

lemma forward_asked:
  assumes "ut_forward v E cmd req s = Some (e, rsp, s')" "km_session (objects E) \<noteq> 0"
  shows "asked cmd (e = KM_ERROR_OK) s s'"
proof (cases "unat (buffer_length v) < length req")
  case False
  with assms(1) obtain rc out s1 where
    c: "ut_km_call v (kernel_of E) (world E) (invalid_length_of E) (objects E) cmd req (buffer_length v) s = Some (rc, out, s1)"
    and a: "ut_km_answer v (kernel_of E) (world E) (gptee_of E) (objects E) (deser E cmd) (rsp_error E) (stack_of E) (rc, out, s1) =
      Some (e, rsp, s')"
    by (auto simp: ut_forward_def ut_km_send_def bind_eq_Some_conv)
  show ?thesis by (rule answer_asked [OF a call_asked [OF c assms(2)]]) (use False in simp)
qed (use assms in \<open>auto simp: ut_forward_def ut_km_send_def asked_def\<close>)

lemma forward_no_request_asked:
  assumes "ut_forward_no_request v E cmd s = Some (e, rsp, s')" "km_session (objects E) \<noteq> 0"
  shows "asked cmd (e = KM_ERROR_OK) s s'"
proof -
  from assms(1) obtain rc out s1 where
    c: "ut_km_call_no_input v (kernel_of E) (world E) (objects E) cmd (buffer_length v) s = Some (rc, out, s1)"
    and a: "ut_km_answer v (kernel_of E) (world E) (gptee_of E) (objects E) (deser E cmd) (rsp_error E) (stack_of E) (rc, out, s1) =
      Some (e, rsp, s')"
    by (auto simp: ut_forward_no_request_def ut_km_send_no_request_def bind_eq_Some_conv)
  show ?thesis by (rule answer_asked [OF a call_no_input_asked [OF c assms(2)]])
qed

section \<open>Configuration comes first\<close>

text \<open>The application has accepted the three commands, in this order.\<close>

definition configured :: "event list \<Rightarrow> bool" where
  "configured h \<longleftrightarrow> (\<exists>a b c d. h = a @ b @ c @ d \<and> invoked (km_code KM_CONFIGURE) b \<and>
     invoked KM_CONFIGURE_VENDOR_PATCHLEVEL c \<and> invoked KM_CONFIGURE_BOOT_PATCHLEVEL d)"

lemma invoked_append: "invoked cmd es \<Longrightarrow> invoked cmd (xs @ es @ ys)"
  unfolding invoked_def by fastforce

lemma configured_grows: "configured (hist t) \<Longrightarrow> grows t t' \<Longrightarrow> configured (hist t')"
  using invoked_append [of _ _ "[]"] unfolding configured_def grows_def by (metis append.assoc append_Nil)

lemma set_status_grows: "grows (ut_teec s) (ut_teec (set_status E v s))"
  by (simp add: set_status_def sys_grows)

lemma asked_before: "grows (ut_teec s) (ut_teec s1) \<Longrightarrow> asked cmd well s1 s2 \<Longrightarrow> asked cmd well s s2"
  using invoked_append [of cmd _ _ "[]"] unfolding asked_def grows_def by (fastforce simp: append.assoc)

lemma asked_after: "asked cmd well s s1 \<Longrightarrow> grows (ut_teec s1) (ut_teec s2) \<Longrightarrow> asked cmd well s s2"
  using invoked_append [of cmd _ "[]"] unfolding asked_def grows_def by (fastforce simp: append.assoc)

lemma config_device_asked:
  assumes "ConfigDeviceInfo E s = Some (rc, s')" "km_session (objects E) \<noteq> 0"
  shows "asked (km_code KM_CONFIGURE) (rc = 0) s s'"
proof -
  from assms(1) obtain req e rsp s1 where
    f: "ut_forward keymint E (km_code KM_CONFIGURE) req (set_status E ''configure'' s) = Some (e, rsp, s1)"
    and r: "rc = (if e = KM_ERROR_OK then 0 else - 1)" "grows (ut_teec s1) (ut_teec s')"
    by (auto simp: ConfigDeviceInfo_def bind_eq_Some_conv set_status_grows split: if_splits)
  from asked_after [OF asked_before [OF set_status_grows forward_asked [OF f assms(2)]] r(2)] r(1) show ?thesis
    by (simp add: asked_def split: if_splits)
qed

lemma config_patch_asked:
  assumes "ConfigPatchLevel E s = Some (rc, s')" "km_session (objects E) \<noteq> 0"
  shows "grows (ut_teec s) (ut_teec s') \<and> (rc = 0 \<longrightarrow> (\<exists>c d. hist (ut_teec s') = hist (ut_teec s) @ c @ d \<and>
     invoked KM_CONFIGURE_VENDOR_PATCHLEVEL c \<and> invoked KM_CONFIGURE_BOOT_PATCHLEVEL d))"
proof -
  obtain e rsp s1 where f: "ut_forward keymint E KM_CONFIGURE_VENDOR_PATCHLEVEL (put_vendor E (vendor_patchlevel E))
         (set_status E ''config_patch_level'' s) = Some (e, rsp, s1)"
    using assms(1) by (auto simp: ConfigPatchLevel_def bind_eq_Some_conv)
  have a1: "asked KM_CONFIGURE_VENDOR_PATCHLEVEL (e = KM_ERROR_OK) s s1"
    by (rule asked_before [OF set_status_grows forward_asked [OF f assms(2)]])
  show ?thesis
  proof (cases "e = KM_ERROR_OK")
    case False
    with assms(1) f have "rc = - 1" "s' = set_status E ''configure_vendor_pl_failed'' s1" by (auto simp: ConfigPatchLevel_def)
    with asked_after [OF a1 set_status_grows, of E "''configure_vendor_pl_failed''"] show ?thesis by (simp add: asked_def)
  next
    case True
    with assms(1) f obtain e2 rsp2 s2 where
      f2: "ut_forward keymint E KM_CONFIGURE_BOOT_PATCHLEVEL (put_boot E (os_patchlevel E * 100 + 1)) s1 = Some (e2, rsp2, s2)"
      and r: "rc = (if e2 = KM_ERROR_OK then 0 else - 1)" "grows (ut_teec s2) (ut_teec s')"
      by (auto simp: ConfigPatchLevel_def bind_eq_Some_conv set_status_grows split: if_splits)
    have a2: "asked KM_CONFIGURE_BOOT_PATCHLEVEL (e2 = KM_ERROR_OK) s1 s'"
      by (rule asked_after [OF forward_asked [OF f2 assms(2)] r(2)])
    from a1 a2 True r(1) show ?thesis by (auto simp: asked_def intro: grows_trans split: if_splits)
  qed
qed

lemma wait_grows:
  assumes "wait_teei_daemon k t = Some t'"
  shows "grows t t'"
proof (rule wait_teei_daemon.raw_induct [where P = "\<lambda>k t t'. grows t t'", OF _ assms])
  fix wait k t t'
  assume 1: "\<And>k t t'. wait k t = Some t' \<Longrightarrow> grows t t'"
    "(let (r, t1) = sys k (Property_get teei_init_prop) t in
      if sr_out r \<noteq> [] then Some t1 else wait k (pause_200ms k t1)) = Some t'"
  obtain r t1 where r: "sys k (Property_get teei_init_prop) t = (r, t1)" by fastforce
  have g1: "grows t t1" using sys_grows [of t k] r by (metis snd_conv)
  have g2: "grows t1 (pause_200ms k t1)" unfolding pause_200ms_def by (rule grows_trans [OF sys_grows sys_grows])
  from 1(2) have "t' = t1 \<or> wait k (pause_200ms k t1) = Some t'" by (simp add: r split: if_splits)
  then show "grows t t'"
  proof
    assume "wait k (pause_200ms k t1) = Some t'"
    from 1(1) [OF this] show ?thesis by (rule grows_trans [OF grows_trans [OF g1 g2]])
  qed (use g1 in simp)
qed

lemma initialize_configures:
  assumes "keymint_Initialize E s = Some (rc, s')" "km_session (objects E) \<noteq> 0"
  shows "grows (ut_teec (link s)) (ut_teec (link s')) \<and>
    (if initialized s then rc = 0 \<and> s' = s else initialized s' = (rc = 0) \<and> (rc = 0 \<longrightarrow> configured (hist (ut_teec (link s')))))"
proof (cases "initialized s")
  case False
  let ?s0 = "set_status E ''load_ta'' (link s)"
  from assms(1) False obtain t rc1 s1 where t: "wait_teei_daemon (kernel_of E) (ut_teec ?s0) = Some t"
    and c: "ut_km_connect keymint (kernel_of E) (world E) (gptee_of E) (objects E) (?s0\<lparr>ut_teec := t\<rparr>) = Some (rc1, s1)"
    by (auto simp: keymint_Initialize_def Let_def bind_eq_Some_conv)
  note step = assms(1) [unfolded keymint_Initialize_def if_not_P [OF False] Let_def t Option.bind.bind_lunit c prod.case]
  have g1: "grows (ut_teec (link s)) (ut_teec s1)"
    using set_status_grows [of "link s" E] wait_grows [OF t] connect_grows [OF c] by (fastforce intro: grows_trans)
  show ?thesis
  proof (cases "rc1 = 0")
    case no: False
    with step have "rc = rc1" "s' = s\<lparr>link := set_status E ''load_ta_failed'' s1\<rparr>" by auto
    with no False g1 set_status_grows [of s1 E] show ?thesis by (auto intro: grows_trans)
  next
    case True
    with step obtain rc2 s2 where d: "ConfigDeviceInfo E (set_status E ''load_ta_success'' s1) = Some (rc2, s2)"
      by (auto simp: bind_eq_Some_conv)
    have a2: "asked (km_code KM_CONFIGURE) (rc2 = 0) (link s) s2"
      by (rule asked_before [OF grows_trans [OF g1 set_status_grows] config_device_asked [OF d assms(2)]])
    show ?thesis
    proof (cases "rc2 = 0")
      case no: False
      with step True d have "rc = - 1" "s' = s\<lparr>link := s2\<rparr>" by auto
      with False a2 show ?thesis by (simp add: asked_def)
    next
      case ok: True
      with step True d obtain rc3 s3 where p: "ConfigPatchLevel E s2 = Some (rc3, s3)"
        and r: "(rc, s') = (if rc3 \<noteq> 0 then (- 1, s\<lparr>link := s3\<rparr>) else (0, s\<lparr>link := s3, initialized := True\<rparr>))"
        by (auto simp: bind_eq_Some_conv split: if_splits)
      note a3 = config_patch_asked [OF p assms(2)]
      have g: "grows (ut_teec (link s)) (ut_teec s3)" using a2 a3 by (auto simp: asked_def intro: grows_trans)
      have "configured (hist (ut_teec s3))" if "rc3 = 0"
        using a2 a3 ok that unfolding asked_def configured_def by fastforce
      with g r False show ?thesis by (auto split: if_splits)
    qed
  qed
qed (use assms in \<open>simp add: keymint_Initialize_def\<close>)

section \<open>Properties\<close>

text \<open>The states of the service: it starts without a connection, then its methods are called.\<close>

inductive keymint_reach :: "'r km_env \<Rightarrow> keymint_state \<Rightarrow> bool" for E :: "'r km_env" where
  start: "\<not> initialized s \<Longrightarrow> ut_handle (link s) = - 1 \<Longrightarrow> keymint_reach E s"
| call: "keymint_reach E s \<Longrightarrow> keymint_method_call E m req s = Some (e, rsp, s') \<Longrightarrow> keymint_reach E s'"

lemma keymint_forward_asked:
  assumes "keymint_forward E m req u = Some (e, rsp, u')" "km_session (objects E) \<noteq> 0"
  shows "asked (keymint_code m) (e = KM_ERROR_OK) u u'"
  using assms by (auto simp: keymint_forward_def split: if_splits dest: forward_asked forward_no_request_asked)

lemma method_steps:
  assumes "keymint_method_call E m req s = Some (e, rsp, s')" "km_session (objects E) \<noteq> 0"
  shows "\<exists>(rc :: int) (s1 :: keymint_state). grows (ut_teec (link s)) (ut_teec (link s1)) \<and> (initialized s \<or> initializes m \<and> rc = 0 \<longleftrightarrow> initialized s1) \<and>
    (initialized s1 \<and> \<not> initialized s \<longrightarrow> configured (hist (ut_teec (link s1)))) \<and>
    initialized s' = initialized s1 \<and> asked (keymint_code m) (e = KM_ERROR_OK) (link s1) (link s') \<and> (e = KM_ERROR_OK \<longrightarrow> rc = 0)"
proof -
  from assms(1) obtain rc s1 where i: "(if initializes m then keymint_Initialize E s else Some (0, s)) = Some (rc, s1)"
    by (auto simp: keymint_method_call_def bind_eq_Some_conv)
  have s1: "grows (ut_teec (link s)) (ut_teec (link s1))" "initialized s \<or> initializes m \<and> rc = 0 \<longleftrightarrow> initialized s1"
    "initialized s1 \<and> \<not> initialized s \<longrightarrow> configured (hist (ut_teec (link s1)))"
    using i initialize_configures [OF _ assms(2), of s rc s1] by (auto split: if_splits)
  show ?thesis
  proof (cases "rc = 0")
    case True
    with assms(1) i obtain u where u: "keymint_forward E m req (link s1) = Some (e, rsp, u)" "s' = s1\<lparr>link := u\<rparr>"
      by (auto simp: keymint_method_call_def bind_eq_Some_conv)
    show ?thesis
      by (rule exI [of _ rc], rule exI [of _ s1]) (use keymint_forward_asked [OF u(1) assms(2)] u(2) True s1 in simp)
  next
    case False
    with assms(1) i have "e = KM_other (- 1000)" "s' = s1" by (auto simp: keymint_method_call_def)
    then show ?thesis by (intro exI [of _ rc] exI [of _ s1]) (use s1 in \<open>simp add: asked_def\<close>)
  qed
qed

lemma keymint_reach_configured:
  assumes "keymint_reach E s" "km_session (objects E) \<noteq> 0" "initialized s"
  shows "configured (hist (ut_teec (link s)))"
  using assms(1,3)
proof induction
  case (call s m req e rsp s')
  obtain rc :: int and s1 :: keymint_state where s1: "grows (ut_teec (link s)) (ut_teec (link s1))"
    "initialized s1 \<and> \<not> initialized s \<longrightarrow> configured (hist (ut_teec (link s1)))" "initialized s' = initialized s1"
    "asked (keymint_code m) (e = KM_ERROR_OK) (link s1) (link s')"
    using method_steps [OF call(2) assms(2)] by blast
  have "configured (hist (ut_teec (link s1)))" using call s1 configured_grows by blast
  with s1(4) show ?case by (auto simp: asked_def intro: configured_grows)
qed simp


text \<open>The codes of the methods are distinct.\<close>

fun method_number :: "keymint_method \<Rightarrow> nat" where
  "method_number (Common m) = request_number (method_command m)"
| "method_number GenerateRkpKey = 29"
| "method_number GenerateCsr = 30"
| "method_number GenerateTimestampToken = 31"
| "method_number ConfigureVendorPatchLevel = 33"
| "method_number ConfigureBootPatchLevel = 0xd0000"

lemma keymint_code_number: "keymint_code m = push_bit 2 (of_nat (method_number m))"
  by (cases m) (simp_all add: km_code_def KM_GENERATE_RKP_KEY_def KM_GENERATE_CSR_def KM_GENERATE_TIMESTAMPTOKEN_def
      KM_CONFIGURE_VENDOR_PATCHLEVEL_def KM_CONFIGURE_BOOT_PATCHLEVEL_def)

lemma method_number_bound: "method_number m \<le> 0xd0000"
proof (cases m)
  case (Common c)
  then show ?thesis using request_number_less [of "method_command c"] by simp
qed simp_all

lemma request_number_other:
  "request_number c \<noteq> 29" "request_number c \<noteq> 30" "request_number c \<noteq> 31" "request_number c \<noteq> 33" "request_number c \<noteq> 0xd0000"
  using request_number_less [of c] by linarith+

lemma method_number_inj: "method_number a = method_number b \<Longrightarrow> a = b"
  using request_number_other request_number_other [symmetric]
  by (cases a; cases b) (simp_all, metis request_number_inj method_command_inj)

lemma keymint_code_inj: "keymint_code a = keymint_code b \<Longrightarrow> a = b"
proof -
  assume "keymint_code a = keymint_code b"
  then have "unat (keymint_code a) = unat (keymint_code b)" by simp
  moreover have "unat (keymint_code m) = 4 * method_number m" for m
    using method_number_bound [of m]
    by (simp add: keymint_code_number push_bit_eq_mult unat_word_ariths unat_of_nat take_bit_nat_eq_self mult.commute)
  ultimately show "a = b" by (intro method_number_inj) simp
qed

text \<open>Waiting ends once the property is set, if it stays so.\<close>

lemma wait_returns:
  assumes "\<And>h. n \<le> length h \<Longrightarrow> sr_out (k h (Property_get teei_init_prop)) \<noteq> []"
  shows "\<exists>t'. wait_teei_daemon k t = Some t'"
proof (induction "n - length (hist t)" arbitrary: t rule: less_induct)
  case less
  obtain r t1 where r: "sys k (Property_get teei_init_prop) t = (r, t1)" by fastforce
  show ?case
  proof (cases "sr_out r = []")
    case True
    then have "length (hist t) < n" using assms [of "hist t"] r by (fastforce simp: sys_def Let_def)
    moreover have "length (hist (pause_200ms k t1)) = length (hist t) + 3"
      using r by (auto simp: pause_200ms_def sys_def Let_def)
    ultimately have "\<exists>t'. wait_teei_daemon k (pause_200ms k t1) = Some t'" by (intro less) simp
    with r True show ?thesis by (subst wait_teei_daemon.simps) simp
  next
    case False
    with r show ?thesis by (subst wait_teei_daemon.simps) simp
  qed
qed

text \<open>The request with the properties of the device, field by field.\<close>

lemma bp_configure_request:
  assumes "BPConfigureRequest E = Some b"
  shows "length b = 468" "get_u32 b 0 = os_version E" "get_u32 b 4 = os_patchlevel E"
    "length (property_of E ''ro.product.brand'') \<le> 92"
    "take (length (property_of E ''ro.product.brand'')) (drop 8 b) = property_of E ''ro.product.brand''"
  using assms by (auto simp: BPConfigureRequest_def prop_field_def bind_eq_Some_conv split: if_splits)

section \<open>Examples\<close>

text \<open>The example device when the daemon is ready, and an application whose answers are all fine.\<close>

definition ready_kernel :: kernel where
  "ready_kernel h c = (case c of Property_get key \<Rightarrow> \<lparr>sr_rc = 1, sr_err = 0, sr_out = [1]\<rparr> | _ \<Rightarrow> device_kernel h c)"

definition km_E :: "unit km_env" where
  "km_E = \<lparr>kernel_of = ready_kernel, world = (\<lambda>_ _. []), gptee_of = False, invalid_length_of = - 21, objects = km_g,
     deser = (\<lambda>_ _. Some ()), rsp_error = (\<lambda>_. KM_ERROR_OK), stack_of = [], os_version = 12, os_patchlevel = 202112,
     vendor_patchlevel = 20211205, property_of = (\<lambda>_. [65]), put_vendor = put_u32, put_boot = put_u32, dated = (\<lambda>r. r)\<rparr>"

lemma km_E_fields [simp]: "kernel_of km_E = ready_kernel" "world km_E = (\<lambda>_ _. [])" "gptee_of km_E = False" "objects km_E = km_g"
  "deser km_E = (\<lambda>_ _. Some ())" "rsp_error km_E = (\<lambda>_. KM_ERROR_OK)" "put_vendor km_E = put_u32" "put_boot km_E = put_u32"
  "property_of km_E = (\<lambda>_. [65])" "dated km_E = (\<lambda>r. r)"
  by (simp_all add: km_E_def)

lemma ready_calls [simp]: "ready_kernel h (Ioctl fd q) = device_kernel h (Ioctl fd q)" "ready_kernel h (Mmap n fd) = ret 65536"
  "ready_kernel h (Property_get key) = \<lparr>sr_rc = 1, sr_err = 0, sr_out = [1]\<rparr>" "ready_kernel h (Open path fl m) = ret 7"
  by (simp_all add: ready_kernel_def)

lemma ready_connects: "connects ready_kernel" "quiet (\<lambda>_ _. [])"
  by (simp_all add: connects_def quiet_def)

lemma connected_status [simp]: "ut_km_connected v g (set_status E st s) = ut_km_connected v g s"
  by (simp add: ut_km_connected_def set_status_def sys_def Let_def)

lemma forward_example:
  assumes "ut_km_connected keymint km_g s" "length req \<le> 143360"
  shows "\<exists>s'. ut_forward keymint km_E cmd req s = Some (KM_ERROR_OK, Some (), s') \<and> ut_km_connected keymint km_g s'"
proof -
  define buf where "buf = km_ioctl keymint km_g cmd (of_nat (length req)) (ut_teec s)"
  have ps: "get_params 24 buf = km_ioctl_params keymint km_g (of_nat (length req)) (ut_teec s)"
    by (simp add: buf_def km_ioctl_def get_params_invoke km_ioctl_params_def)
  have ia: "ia_ret (get_invoke_arg buf) = 0" by (simp add: buf_def km_ioctl_def)
  have k: "ready_kernel h (Ioctl fd (TEE_IOC_INVOKE buf)) = \<lparr>sr_rc = 0, sr_err = 0, sr_out = []\<rparr>" for h fd by (simp add: ret_def)
  obtain s' out where "ut_km_call keymint ready_kernel (\<lambda>_ _. []) (invalid_length_of km_E) km_g cmd req 143360 s = Some (0, Some out, s')"
    "ut_km_connected keymint km_g s'"
    using ut_km_call_run [OF assms(1), where inp = req and cmd = cmd and room = 143360 and k = ready_kernel and w = "\<lambda>_ _. []"
        and invalid_length = "invalid_length_of km_E", folded buf_def, unfolded k] assms(2)
    by (auto simp: ps ia km_ioctl_params_def)
  then show ?thesis using assms(2) by (simp add: ut_forward_def ut_km_send_def ut_km_answer_def)
qed

lemma wait_example: "wait_teei_daemon ready_kernel t = Some (snd (sys ready_kernel (Property_get teei_init_prop) t))"
  by (subst wait_teei_daemon.simps) (simp add: sys_def Let_def)

lemma initialize_example:
  assumes "\<not> initialized s" "ut_handle (link s) = - 1" "sessionMap (ut_teec (link s)) = []" "contextMap (ut_teec (link s)) = []"
    "\<not> teec_mutex (ut_teec (link s))"
  shows "\<exists>s'. keymint_Initialize km_E s = Some (0, s') \<and> ut_km_connected keymint km_g (link s')"
proof -
  let ?s0 = "set_status km_E ''load_ta'' (link s)"
  obtain t where t: "wait_teei_daemon ready_kernel (ut_teec ?s0) = Some t" "sessionMap t = []" "contextMap t = []" "\<not> teec_mutex t"
    using wait_example [of "ut_teec ?s0"] assms(3-5) by (simp add: sys_def Let_def set_status_def)
  have "\<exists>t'. km_buffers keymint ready_kernel km_g t = Some (True, t')" if "contexts t 100 = \<lparr>ctx_fd = 7\<rparr>" for t
    using that
    by (simp add: km_buffers_def km_allocate_def TEEC_AllocateSharedMemory_def allocate_shm_def shm_flags_ok_def mmap_def
        teec_shm_get_id_def sys_def Let_def ret_def MAP_FAILED_def)
  then obtain s1 where s1: "ut_km_connect keymint ready_kernel (\<lambda>_ _. []) False km_g (?s0\<lparr>ut_teec := t\<rparr>) = Some (0, s1)"
    using connect_example [OF ready_connects, of "?s0\<lparr>ut_teec := t\<rparr>" keymint] t(2,3) assms(2) by (auto simp: set_status_def)
  have c1: "ut_km_connected keymint km_g (set_status km_E st s1)" for st
    unfolding connected_status by (rule connect_ok [OF s1]) (use assms(2) t(4) in \<open>simp_all add: set_status_def\<close>)
  obtain req where req: "BPConfigureRequest km_E = Some req" "length req = 468"
    by (simp add: BPConfigureRequest_def prop_field_def)
  obtain s2 where s2: "ConfigDeviceInfo km_E (set_status km_E ''load_ta_success'' s1) = Some (0, s2)" "ut_km_connected keymint km_g s2"
  proof -
    obtain u where u: "ut_forward keymint km_E (km_code KM_CONFIGURE) req (set_status km_E ''configure'' (set_status km_E ''load_ta_success'' s1)) =
        Some (KM_ERROR_OK, Some (), u)" "ut_km_connected keymint km_g u"
      using forward_example [OF connected_status [THEN iffD2, OF c1], of req "km_code KM_CONFIGURE" km_E "''configure''" "''load_ta_success''"] req by fastforce
    then show thesis using that [of "set_status km_E ''configure_success'' u"] u(2) req
      by (simp add: ConfigDeviceInfo_def)
  qed
  obtain u where u: "ut_forward keymint km_E KM_CONFIGURE_VENDOR_PATCHLEVEL (put_u32 (vendor_patchlevel km_E))
      (set_status km_E ''config_patch_level'' s2) = Some (KM_ERROR_OK, Some (), u)" "ut_km_connected keymint km_g u"
    using forward_example [OF connected_status [THEN iffD2, OF s2(2)], of "put_u32 (vendor_patchlevel km_E)"] by fastforce
  obtain s3 where s3: "ConfigPatchLevel km_E s2 = Some (0, s3)" "ut_km_connected keymint km_g s3"
    using u forward_example [OF u(2), of "put_u32 (os_patchlevel km_E * 100 + 1)" KM_CONFIGURE_BOOT_PATCHLEVEL]
    by (auto simp: ConfigPatchLevel_def)
  show ?thesis using t(1) s1 s2(1) s3 assms(1) by (simp add: keymint_Initialize_def)
qed


end
