(* ===== verification/Km_Service.thy ===== *)
theory Km_Service
  imports Keymaster4_Device Keymint
begin

text \<open>
  The devices on top of the services. What they rely on when an operation is refused for its
  length is a locale; the key master of the lite variant, the key master 4.1 and the key mint
  service of the 400 variant provide it. On this rests that an operation whose input is too
  long does not stay open in the application.
\<close>

section \<open>The interface\<close>

text \<open>The device on a service: requests are written by the library (\<open>ser\<close>).\<close>

definition device_on ::
  "('m \<Rightarrow> bytes \<Rightarrow> 's \<Rightarrow> (keymaster_error_t \<times> km_response option \<times> 's) option) \<Rightarrow> (km_request \<Rightarrow> bytes) \<Rightarrow> km_lib \<Rightarrow> km_response \<Rightarrow>
    ('m, 's) km_hal" where
  "device_on call ser L fresh_r = \<lparr>impl = (\<lambda>m rq s. call m (ser rq) s), lib = L, fresh = fresh_r\<rparr>"

lemma device_on_simps [simp]: "impl (device_on call ser L f) = (\<lambda>m rq s. call m (ser rq) s)"
  "lib (device_on call ser L f) = L" "fresh (device_on call ser L f) = f"
  by (simp_all add: device_on_def)

definition operation_methods :: "km_method set" where
  "operation_methods = {UpdateOperation, FinishOperation, AbortOperation}"

locale km_service =
  fixes call :: "km_method \<Rightarrow> bytes \<Rightarrow> 's \<Rightarrow> (keymaster_error_t \<times> km_response option \<times> 's) option" and limit :: nat
  assumes too_long: "m \<in> operation_methods \<Longrightarrow> limit < length req \<Longrightarrow> call m req s = Some (BEANPOD_KM_INVALID_INPUT_LENGTH, None, s)"
    and fits: "m \<in> operation_methods \<Longrightarrow> call m req s = Some (BEANPOD_KM_INVALID_INPUT_LENGTH, None, s') \<Longrightarrow> limit < length req"
begin

lemma refused_iff:
  "m \<in> operation_methods \<Longrightarrow> (\<exists>s'. call m req s = Some (BEANPOD_KM_INVALID_INPUT_LENGTH, None, s')) \<longleftrightarrow> limit < length req"
  using too_long fits by blast

lemma ask_too_long:
  assumes "m \<in> operation_methods" "limit < length (ser rq)"
  shows "ask (device_on call ser L f) m rq s = Some (BEANPOD_KM_INVALID_INPUT_LENGTH, f, s)"
  using too_long [OF assms] by (simp add: ask_def)

text \<open>An operation that is refused is an abort, with the error that clients know.\<close>

lemma update_is_abort:
  assumes "push_auth_token L tok (KmParamSet L ps) = Some qs" "limit < length (ser (UpdateOperationRequest h input qs))"
  shows "km4_update (device_on call ser L f) h ps input tok s =
    map_option (\<lambda>(e, r, s'). (KM_ERROR_INVALID_INPUT_LENGTH, 0, [], [], s')) (call AbortOperation (ser (AbortOperationRequest h)) s)"
  using assms ask_too_long [of UpdateOperation ser "UpdateOperationRequest h input qs" L f s]
  by (cases "call AbortOperation (ser (AbortOperationRequest h)) s")
    (auto simp: km4_update_def km4_abort_def ask_def [of _ AbortOperation] operation_methods_def)

lemma finish_is_abort:
  assumes "push_auth_token L tok (KmParamSet L ps) = Some qs" "limit < length (ser (FinishOperationRequest h input sig qs))"
  shows "km4_finish (device_on call ser L f) h ps input sig tok s =
    map_option (\<lambda>(e, r, s'). (KM_ERROR_INVALID_INPUT_LENGTH, [], [], s')) (call AbortOperation (ser (AbortOperationRequest h)) s)"
  using assms ask_too_long [of FinishOperation ser "FinishOperationRequest h input sig qs" L f s]
  by (cases "call AbortOperation (ser (AbortOperationRequest h)) s")
    (auto simp: km4_finish_def km4_abort_def ask_def [of _ AbortOperation] operation_methods_def)

end

section \<open>The services provide it\<close>

lemma translate_error_length [simp]: "translate_error e \<noteq> BEANPOD_KM_INVALID_INPUT_LENGTH"
  by (simp add: translate_error_def)

lemma operation_methods_request: "m \<in> operation_methods \<Longrightarrow> \<not> no_request m \<and> m \<noteq> GenerateKey \<and> \<not> initializes (Common m)"
  by (auto simp: operation_methods_def)

lemma ut_forward_refused:
  "unat (buffer_length v) < length req \<Longrightarrow> ut_forward v E cmd req s = Some (BEANPOD_KM_INVALID_INPUT_LENGTH, None, s)"
  by (simp add: ut_forward_def ut_km_send_def)

lemma ut_forward_fits:
  "ut_forward v E cmd req s = Some (BEANPOD_KM_INVALID_INPUT_LENGTH, None, s') \<Longrightarrow> unat (buffer_length v) < length req"
  by (auto simp: ut_forward_def ut_km_send_def ut_km_answer_def bind_eq_Some_conv split: if_splits option.splits)

interpretation lite_service: km_service "km_method_call k dated_f deser_f err_f" BP_KEYMASTER_SEND_BUF_SIZE
proof
  show "km_method_call k dated_f deser_f err_f m req s = Some (BEANPOD_KM_INVALID_INPUT_LENGTH, None, s)"
    if "m \<in> operation_methods" "BP_KEYMASTER_SEND_BUF_SIZE < length req" for m req s
    using that operation_methods_request [OF that(1)]
    by (simp add: km_method_call_def ForwardCommand_def bp_keymaster_send_def)
  show "BP_KEYMASTER_SEND_BUF_SIZE < length req"
    if "m \<in> operation_methods" "km_method_call k dated_f deser_f err_f m req s = Some (BEANPOD_KM_INVALID_INPUT_LENGTH, None, s')" for m req s s'
    using that operation_methods_request [OF that(1)]
    by (auto simp: km_method_call_def ForwardCommand_def bp_keymaster_send_def send_and_read_def bind_eq_Some_conv Let_def
        split: if_splits option.splits prod.splits)
qed

lemma km41_operation:
  "m \<in> operation_methods \<Longrightarrow> km41_method_call E m req s = ut_forward km41 E (km_code (method_command m)) req s"
  using operation_methods_request by (simp add: km41_method_call_def del: km41_def)

lemma keymint_operation:
  "m \<in> operation_methods \<Longrightarrow> keymint_method_call E (Common m) req s =
     map_option (\<lambda>(e, rsp, u). (e, rsp, s\<lparr>link := u\<rparr>)) (ut_forward keymint E (km_code (method_command m)) req (link s))"
  using operation_methods_request [of m]
  by (cases "ut_forward keymint E (km_code (method_command m)) req (link s)")
    (auto simp: keymint_method_call_def keymint_forward_def simp del: keymint_def)

interpretation km41_service: km_service "km41_method_call E" "unat (buffer_length km41)"
  by unfold_locales (auto simp: km41_operation ut_forward_refused dest: ut_forward_fits simp del: km41_def)

interpretation keymint_service: km_service "\<lambda>m. keymint_method_call E (Common m)" "unat (buffer_length keymint)"
  by unfold_locales (auto simp: keymint_operation ut_forward_refused dest: ut_forward_fits simp del: keymint_def)

section \<open>Operations that are too long\<close>

lemma abort_asked:
  assumes "km41_method_call E AbortOperation req s = Some (e, rsp, s')" "km_session (objects E) \<noteq> 0"
  shows "asked (km_code KM_ABORT_OPERATION) (e = KM_ERROR_OK) s s'"
  using assms forward_asked by (fastforce simp: km41_method_call_def simp del: km41_def)

text \<open>C38. On the device of version 4.1 over its service: when the request to update or to finish an
  operation is longer than the shared buffer, the client is told that the length of its input is
  invalid, nothing is consumed or returned, and the application is asked to abort this
  operation, so that it does not stay open.\<close>

theorem oversized_operation_aborted:
  assumes "push_auth_token L tok (KmParamSet L ps) = Some qs"
    and "unat (buffer_length km41) < length (ser (UpdateOperationRequest h input qs))"
    and "unat (buffer_length km41) < length (ser (FinishOperationRequest h input sig qs))"
    and "km41_method_call E AbortOperation (ser (AbortOperationRequest h)) s = Some (e, rsp, s')" "km_session (objects E) \<noteq> 0"
  shows "km4_update (device_on (km41_method_call E) ser L f) h ps input tok s = Some (KM_ERROR_INVALID_INPUT_LENGTH, 0, [], [], s') \<and>
    km4_finish (device_on (km41_method_call E) ser L f) h ps input sig tok s = Some (KM_ERROR_INVALID_INPUT_LENGTH, [], [], s') \<and>
    asked (km_code KM_ABORT_OPERATION) (e = KM_ERROR_OK) s s'"
  using km41_service.update_is_abort [where ser = ser, OF assms(1,2), of E f s]
    km41_service.finish_is_abort [where ser = ser, OF assms(1,3), of E f s]
    abort_asked [OF assms(4,5)] assms(4) by simp

section \<open>Example\<close>

definition blank_token :: "'p VerificationToken" where
  "blank_token = \<lparr>vt_challenge = 0, vt_timestamp = 0, vt_parameters = [], vt_security_level = 0, vt_mac = []\<rparr>"

definition blank :: km_response where
  "blank = \<lparr>rsp_seed = [], rsp_nonce = [], rsp_sharing_check = [], rsp_token = blank_token, rsp_key_blob = [], rsp_enforced = [],
     rsp_unenforced = [], rsp_key_data = [], rsp_chain = None, rsp_upgraded_key = [], rsp_output_params = [], rsp_op_handle = 0,
     rsp_input_consumed = 0, rsp_output = [], rsp_maced_public_key = [], rsp_device_info = [], rsp_protected_data = [],
     rsp_keys_to_sign_mac = []\<rparr>"

text \<open>An application whose responses are all the blank one, without an error.\<close>

definition km4_E :: "km_response km_env" where
  "km4_E = \<lparr>kernel_of = ready_kernel, world = (\<lambda>_ _. []), gptee_of = False, invalid_length_of = - 21, objects = km_g,
     deser = (\<lambda>_ _. Some blank), rsp_error = (\<lambda>_. KM_ERROR_OK), stack_of = [], os_version = 12, os_patchlevel = 202112,
     vendor_patchlevel = 20211205, property_of = (\<lambda>_. [65]), put_vendor = put_u32, put_boot = put_u32, dated = (\<lambda>r. r)\<rparr>"

lemma forward_example_41:
  assumes "ut_km_connected km41 km_g s" "length req \<le> 71680"
  shows "\<exists>s'. ut_forward km41 km4_E cmd req s = Some (KM_ERROR_OK, Some blank, s') \<and> ut_km_connected km41 km_g s'"
proof -
  define buf where "buf = km_ioctl km41 km_g cmd (of_nat (length req)) (ut_teec s)"
  have ps: "get_params 24 buf = km_ioctl_params km41 km_g (of_nat (length req)) (ut_teec s)"
    by (simp add: buf_def km_ioctl_def get_params_invoke km_ioctl_params_def)
  have ia: "ia_ret (get_invoke_arg buf) = 0" by (simp add: buf_def km_ioctl_def)
  have k: "ready_kernel h (Ioctl fd (TEE_IOC_INVOKE buf)) = \<lparr>sr_rc = 0, sr_err = 0, sr_out = []\<rparr>" for h fd by (simp add: ret_def)
  obtain s' out where "ut_km_call km41 ready_kernel (\<lambda>_ _. []) (- 21) km_g cmd req 71680 s = Some (0, Some out, s')"
    "ut_km_connected km41 km_g s'"
    using ut_km_call_run [OF assms(1), where inp = req and cmd = cmd and room = 71680 and k = ready_kernel and w = "\<lambda>_ _. []"
        and invalid_length = "- 21", folded buf_def, unfolded k] assms(2)
    by (auto simp: ps ia km_ioctl_params_def)
  then show ?thesis using assms(2) by (simp add: ut_forward_def ut_km_send_def ut_km_answer_def km4_E_def)
qed

text \<open>A way to write requests in which only their input has a length.\<close>

fun sample_ser :: "km_request \<Rightarrow> bytes" where
  "sample_ser (UpdateOperationRequest h input ps) = put_u64 h @ input"
| "sample_ser (FinishOperationRequest h input sig ps) = put_u64 h @ input @ sig"
| "sample_ser (AbortOperationRequest h) = put_u64 h"
| "sample_ser _ = []"

theorem oversized_operation_aborted_witness:
  "\<exists>s'. km4_update (device_on (km41_method_call km4_E) sample_ser sample_lib blank) 5 [] (replicate 71680 1) sample_token km_connection =
       Some (KM_ERROR_INVALID_INPUT_LENGTH, 0, [], [], s') \<and>
     (\<exists>es. hist (ut_teec s') = hist (ut_teec km_connection) @ es \<and> invoked (km_code KM_ABORT_OPERATION) es)"
proof -
  obtain qs where qs: "push_auth_token sample_lib sample_token (KmParamSet sample_lib []) = Some qs"
    by (simp add: push_auth_token_def auth_token_def sample_lib_def sample_token_def)
  obtain s' where a: "km41_method_call km4_E AbortOperation (sample_ser (AbortOperationRequest 5)) km_connection = Some (KM_ERROR_OK, Some blank, s')"
    using forward_example_41 [OF km_connection_ok, of "put_u64 5"] by (fastforce simp: km41_method_call_def simp del: km41_def)
  have "km_session (objects km4_E) \<noteq> 0" by (simp add: km4_E_def)
  from oversized_operation_aborted [where input = "replicate 71680 1" and sig = "[]" and f = blank and ser = sample_ser and h = 5, OF qs _ _ a this] show ?thesis
    by (auto simp: asked_def)
qed

end
