(* ===== verification/Keymint_Device.thy ===== *)
theory Keymint_Device
  imports Km_Service
begin

text \<open>
  The key mint device of the AIDL interface and the objects beside it
  (\<open>400/keymint1.0/BeanpodKeyMintDevice.cpp\<close>, \<open>BeanpodKeyMintOperation.cpp\<close>, \<open>BeanpodSecureClock.cpp\<close>,
  \<open>BeanpodSharedSecret.cpp\<close>, \<open>BeanpodRemotelyProvisionedComponent.cpp\<close>). The conversions of
  \<open>KeyMintUtils\<close> belong to the AOSP library and are in \<open>km_utils\<close>, with the names of its tags, the
  numbers of its errors and the size of a nonce. A status with an error is \<open>Inl\<close>, the values of the
  output parameters are \<open>Inr\<close>. The status of \<open>KM_ERROR_OK\<close> is the one of success.
\<close>

section \<open>The library\<close>

record 'p km_utils =
  tag_name :: "u32 \<Rightarrow> string option"
  kmParam2Aidl :: "keymaster_key_param_t \<Rightarrow> 'p"
  kmParamSet2Aidl :: "km_params \<Rightarrow> 'p list"
  aidlParamSet2Km :: "'p list \<Rightarrow> km_params"
  authToken2AidlVec :: "HardwareAuthToken option \<Rightarrow> bytes"
  error_code :: "keymaster_error_t \<Rightarrow> int"
  nonce_size :: nat

type_synonym 's keymint_device = "(keymint_method, 's) km_hal"

definition KM_ERROR_OUTPUT_PARAMETER_NULL :: keymaster_error_t where "KM_ERROR_OUTPUT_PARAMETER_NULL = KM_other (- 27)"
definition KM_ERROR_INVALID_ARGUMENT :: keymaster_error_t where "KM_ERROR_INVALID_ARGUMENT = KM_other (- 38)"

section \<open>Characteristics of keys\<close>

text \<open>The cases of the switch: abort, nothing, only if it was requested, for one list, for the other.\<close>

datatype tag_case = Unexpected | Left_out | If_requested | By_keymint | By_keystore

definition unexpected_tags :: "string list" where
  "unexpected_tags = [''KM_TAG_ECIES_SINGLE_HASH_MODE'', ''KM_TAG_INVALID'', ''KM_TAG_KDF'', ''KM_TAG_ROLLBACK_RESISTANCE'']"

text \<open>Tags that are not implemented, not allowed among the characteristics, or none of them.\<close>

definition left_out_tags :: "string list" where
  "left_out_tags =
     [''KM_TAG_ALLOW_WHILE_ON_BODY'', ''KM_TAG_BOOTLOADER_ONLY'', ''KM_TAG_ROLLBACK_RESISTANT'', ''KM_TAG_STORAGE_KEY'',
      ''KM_TAG_APPLICATION_DATA'', ''KM_TAG_ATTESTATION_APPLICATION_ID'',
      ''KM_TAG_ASSOCIATED_DATA'', ''KM_TAG_ATTESTATION_CHALLENGE'', ''KM_TAG_ATTESTATION_ID_BRAND'', ''KM_TAG_ATTESTATION_ID_DEVICE'',
      ''KM_TAG_ATTESTATION_ID_IMEI'', ''KM_TAG_ATTESTATION_ID_MANUFACTURER'', ''KM_TAG_ATTESTATION_ID_MEID'', ''KM_TAG_ATTESTATION_ID_MODEL'',
      ''KM_TAG_ATTESTATION_ID_PRODUCT'', ''KM_TAG_ATTESTATION_ID_SERIAL'', ''KM_TAG_AUTH_TOKEN'', ''KM_TAG_CERTIFICATE_SERIAL'',
      ''KM_TAG_CERTIFICATE_SUBJECT'', ''KM_TAG_CERTIFICATE_NOT_AFTER'', ''KM_TAG_CERTIFICATE_NOT_BEFORE'', ''KM_TAG_CONFIRMATION_TOKEN'',
      ''KM_TAG_DEVICE_UNIQUE_ATTESTATION'', ''KM_TAG_IDENTITY_CREDENTIAL_KEY'', ''KM_TAG_MAC_LENGTH'', ''KM_TAG_NONCE'',
      ''KM_TAG_RESET_SINCE_ID_ROTATION'', ''KM_TAG_ROOT_OF_TRUST'', ''KM_TAG_UNIQUE_ID'']"

definition keymint_tags :: "string list" where
  "keymint_tags =
     [''KM_TAG_ALGORITHM'', ''KM_TAG_APPLICATION_ID'', ''KM_TAG_AUTH_TIMEOUT'', ''KM_TAG_BLOB_USAGE_REQUIREMENTS'', ''KM_TAG_BLOCK_MODE'',
      ''KM_TAG_BOOT_PATCHLEVEL'', ''KM_TAG_CALLER_NONCE'', ''KM_TAG_DIGEST'', ''KM_TAG_EARLY_BOOT_ONLY'', ''KM_TAG_EC_CURVE'', ''KM_TAG_EXPORTABLE'',
      ''KM_TAG_INCLUDE_UNIQUE_ID'', ''KM_TAG_KEY_SIZE'', ''KM_TAG_MAX_USES_PER_BOOT'', ''KM_TAG_MIN_MAC_LENGTH'', ''KM_TAG_MIN_SECONDS_BETWEEN_OPS'',
      ''KM_TAG_NO_AUTH_REQUIRED'', ''KM_TAG_ORIGIN'', ''KM_TAG_OS_PATCHLEVEL'', ''KM_TAG_OS_VERSION'', ''KM_TAG_PADDING'', ''KM_TAG_PURPOSE'',
      ''KM_TAG_RSA_OAEP_MGF_DIGEST'', ''KM_TAG_RSA_PUBLIC_EXPONENT'', ''KM_TAG_TRUSTED_CONFIRMATION_REQUIRED'',
      ''KM_TAG_TRUSTED_USER_PRESENCE_REQUIRED'', ''KM_TAG_UNLOCKED_DEVICE_REQUIRED'', ''KM_TAG_USER_AUTH_TYPE'', ''KM_TAG_USER_SECURE_ID'',
      ''KM_TAG_VENDOR_PATCHLEVEL'']"

definition keystore_tags :: "string list" where
  "keystore_tags =
     [''KM_TAG_ACTIVE_DATETIME'', ''KM_TAG_ALL_APPLICATIONS'', ''KM_TAG_ALL_USERS'', ''KM_TAG_MAX_BOOT_LEVEL'',
      ''KM_TAG_ORIGINATION_EXPIRE_DATETIME'', ''KM_TAG_USAGE_EXPIRE_DATETIME'', ''KM_TAG_USER_ID'', ''KM_TAG_USAGE_COUNT_LIMIT'']"

definition creation_tag :: string where "creation_tag = ''KM_TAG_CREATION_DATETIME''"

definition tag_case_of :: "string \<Rightarrow> tag_case" where
  "tag_case_of t =
     (if t \<in> set unexpected_tags then Unexpected
      else if t \<in> set left_out_tags then Left_out
      else if t = creation_tag then If_requested
      else if t \<in> set keymint_tags then By_keymint
      else if t \<in> set keystore_tags then By_keystore
      else Left_out)"

text \<open>A tag without a case is left out too.\<close>

definition entry_case :: "'p km_utils \<Rightarrow> keymaster_key_param_t \<Rightarrow> tag_case" where
  "entry_case U q = (case tag_name U (km_tag q) of None \<Rightarrow> Left_out | Some t \<Rightarrow> tag_case_of t)"

definition contains_creation :: "'p km_utils \<Rightarrow> km_params \<Rightarrow> bool" where
  "contains_creation U ps \<longleftrightarrow> (\<exists>q \<in> set ps. tag_name U (km_tag q) = Some creation_tag)"

text \<open>The loop; a failed \<open>CHECK\<close> ends the process.\<close>

fun sort_entries :: "'p km_utils \<Rightarrow> km_params \<Rightarrow> km_params \<Rightarrow> 'p list \<times> 'p list \<Rightarrow> ('p list \<times> 'p list) option" where
  "sort_entries U requestParams [] (kms, kss) = Some (kms, kss)"
| "sort_entries U requestParams (q # qs) (kms, kss) =
     (case entry_case U q of
        Unexpected \<Rightarrow> None
      | Left_out \<Rightarrow> sort_entries U requestParams qs (kms, kss)
      | If_requested \<Rightarrow> sort_entries U requestParams qs
          (kms, if contains_creation U requestParams then kss @ [kmParam2Aidl U q] else kss)
      | By_keymint \<Rightarrow> sort_entries U requestParams qs (kms @ [kmParam2Aidl U q], kss)
      | By_keystore \<Rightarrow> sort_entries U requestParams qs (kms, kss @ [kmParam2Aidl U q]))"

definition convertKeyCharacteristics ::
  "'p km_utils \<Rightarrow> SecurityLevel \<Rightarrow> km_params \<Rightarrow> km_params \<Rightarrow> km_params \<Rightarrow> bool \<Rightarrow> (SecurityLevel \<times> 'p list) list option" where
  "convertKeyCharacteristics U level requestParams sw_enforced hw_enforced include_keystore_enforced =
     (if level \<noteq> SOFTWARE then
        Some ((level, kmParamSet2Aidl U hw_enforced) #
          (if include_keystore_enforced \<and> sw_enforced \<noteq> [] then [(KEYSTORE, kmParamSet2Aidl U sw_enforced)] else []))
      else if hw_enforced \<noteq> [] then None
      else do {
        (kms, kss) \<leftarrow> sort_entries U requestParams sw_enforced ([], []);
        Some ((if kms \<noteq> [] then [(level, kms)] else []) @
          (if include_keystore_enforced \<and> kss \<noteq> [] then [(KEYSTORE, kss)] else []))
      })"

section \<open>The device\<close>

definition keymint_level :: SecurityLevel where "keymint_level = TRUSTED_ENVIRONMENT"

definition keymint_getHardwareInfo :: "int \<times> SecurityLevel \<times> string \<times> string \<times> bool" where
  "keymint_getHardwareInfo = (1, keymint_level, ''KeyMint'', ''Beanpod'', False)"

definition keymint_addRngEntropy :: "'s keymint_device \<Rightarrow> bytes \<Rightarrow> 's \<Rightarrow> (keymaster_error_t \<times> 's) option" where
  "keymint_addRngEntropy D dat s =
     (if dat = [] then Some (KM_ERROR_OK, s)
      else do { (e, r, s') \<leftarrow> ask D (Common AddRngEntropy) (AddEntropyRequest dat) s; Some (e, s') })"

text \<open>\<open>KeyCreationResult\<close>: the blob, the characteristics and the chain of certificates.\<close>

type_synonym 'p creation_result = "bytes \<times> (SecurityLevel \<times> 'p list) list \<times> bytes list"

definition convertCertificate :: "bytes \<Rightarrow> bytes" where "convertCertificate cert = cert"

definition convertCertificateChain :: "bytes list option \<Rightarrow> bytes list" where
  "convertCertificateChain chain = (case chain of None \<Rightarrow> [] | Some cs \<Rightarrow> map convertCertificate cs)"

definition created_key ::
  "'p km_utils \<Rightarrow> km_params \<Rightarrow> keymaster_error_t \<times> km_response \<times> 's \<Rightarrow> ((keymaster_error_t + 'p creation_result) \<times> 's) option" where
  "created_key U description a =
     (case a of (e, r, s') \<Rightarrow>
        if e \<noteq> KM_ERROR_OK then Some (Inl e, s')
        else do {
          cs \<leftarrow> convertKeyCharacteristics U keymint_level description (rsp_unenforced r) (rsp_enforced r) (rsp_unenforced r \<noteq> []);
          Some (Inr (rsp_key_blob r, cs, convertCertificateChain (rsp_chain r)), s')
        })"

definition attestation :: "'p km_utils \<Rightarrow> 'p attestation_key option \<Rightarrow> keymaster_key_param_t attestation_key option" where
  "attestation U k = map_option (\<lambda>(kb, ps, issuer). (kb, aidlParamSet2Km U ps, issuer)) k"

definition keymint_generateKey ::
  "'p km_utils \<Rightarrow> 's keymint_device \<Rightarrow> 'p list \<Rightarrow> 'p attestation_key option \<Rightarrow> 's \<Rightarrow> ((keymaster_error_t + 'p creation_result) \<times> 's) option" where
  "keymint_generateKey U D keyParams attestationKey s =
     ask D (Common GenerateKey) (GenerateKeyRequest (aidlParamSet2Km U keyParams) (attestation U attestationKey)) s
     \<bind> created_key U (aidlParamSet2Km U keyParams)"

definition keymint_importKey ::
  "'p km_utils \<Rightarrow> 's keymint_device \<Rightarrow> 'p list \<Rightarrow> u32 \<Rightarrow> bytes \<Rightarrow> 'p attestation_key option \<Rightarrow> 's \<Rightarrow>
    ((keymaster_error_t + 'p creation_result) \<times> 's) option" where
  "keymint_importKey U D keyParams keyFormat keyData attestationKey s =
     ask D (Common ImportKey) (ImportKeyRequest (aidlParamSet2Km U keyParams) keyFormat keyData (attestation U attestationKey)) s
     \<bind> created_key U (aidlParamSet2Km U keyParams)"

definition keymint_importWrappedKey ::
  "'p km_utils \<Rightarrow> 's keymint_device \<Rightarrow> bytes \<Rightarrow> bytes \<Rightarrow> bytes \<Rightarrow> 'p list \<Rightarrow> u64 \<Rightarrow> u64 \<Rightarrow> 's \<Rightarrow>
    ((keymaster_error_t + 'p creation_result) \<times> 's) option" where
  "keymint_importWrappedKey U D wrappedKeyData wrappingKeyBlob maskingKey unwrappingParams passwordSid biometricSid s =
     ask D (Common ImportWrappedKey)
       (ImportWrappedKeyRequest wrappedKeyData wrappingKeyBlob maskingKey (aidlParamSet2Km U unwrappingParams) passwordSid biometricSid) s
     \<bind> created_key U (aidlParamSet2Km U unwrappingParams)"

definition keymint_upgradeKey ::
  "'p km_utils \<Rightarrow> 's keymint_device \<Rightarrow> bytes \<Rightarrow> 'p list \<Rightarrow> 's \<Rightarrow> ((keymaster_error_t + bytes) \<times> 's) option" where
  "keymint_upgradeKey U D keyBlobToUpgrade upgradeParams s =
     do {
       (e, r, s') \<leftarrow> ask D (Common UpgradeKey) (UpgradeKeyRequest keyBlobToUpgrade (aidlParamSet2Km U upgradeParams)) s;
       Some (if e \<noteq> KM_ERROR_OK then Inl e else Inr (rsp_upgraded_key r), s')
     }"

definition keymint_deleteKey :: "'s keymint_device \<Rightarrow> bytes \<Rightarrow> 's \<Rightarrow> (keymaster_error_t \<times> 's) option" where
  "keymint_deleteKey D keyBlob s = do { (e, r, s') \<leftarrow> ask D (Common DeleteKey) (DeleteKeyRequest keyBlob) s; Some (e, s') }"

definition keymint_deleteAllKeys :: "'s keymint_device \<Rightarrow> 's \<Rightarrow> (keymaster_error_t \<times> 's) option" where
  "keymint_deleteAllKeys D s = do { (e, r, s') \<leftarrow> ask D (Common DeleteAllKeys) DeleteAllKeysRequest s; Some (e, s') }"

definition keymint_destroyAttestationIds :: keymaster_error_t where
  "keymint_destroyAttestationIds = KM_ERROR_UNIMPLEMENTED"

definition convertStorageKeyToEphemeral :: "bytes \<Rightarrow> keymaster_error_t" where
  "convertStorageKeyToEphemeral storageKeyBlob = KM_ERROR_UNIMPLEMENTED"

definition keymint_getKeyCharacteristics ::
  "'p km_utils \<Rightarrow> 's keymint_device \<Rightarrow> bytes \<Rightarrow> bytes \<Rightarrow> bytes \<Rightarrow> 's \<Rightarrow> ((keymaster_error_t + (SecurityLevel \<times> 'p list) list) \<times> 's) option" where
  "keymint_getKeyCharacteristics U D keyBlob appId appData s =
     do {
       (e, r, s') \<leftarrow> ask D (Common GetKeyCharacteristics) (GetKeyCharacteristicsRequest keyBlob (addClientAndAppData (lib D) appId appData)) s;
       if e \<noteq> KM_ERROR_OK then Some (Inl e, s')
       else do {
         cs \<leftarrow> convertKeyCharacteristics U keymint_level [] (rsp_unenforced r) (rsp_enforced r) False;
         Some (Inr cs, s')
       }
     }"

text \<open>A token with a time: challenge, time and code.\<close>

type_synonym TimeStampToken = "u64 \<times> u64 \<times> bytes"

definition keymint_deviceLocked :: "'s keymint_device \<Rightarrow> bool \<Rightarrow> TimeStampToken option \<Rightarrow> 's \<Rightarrow> (keymaster_error_t \<times> 's) option" where
  "keymint_deviceLocked D passwordOnly timestampToken s =
     do {
       (e, r, s') \<leftarrow> ask D (Common DeviceLocked) (DeviceLockedTimeRequest passwordOnly timestampToken) s;
       Some (e, s')
     }"

definition keymint_earlyBootEnded :: "'s keymint_device \<Rightarrow> 's \<Rightarrow> (keymaster_error_t \<times> 's) option" where
  "keymint_earlyBootEnded D s = do { (e, r, s') \<leftarrow> ask D (Common EarlyBootEnded) NoRequest s; Some (e, s') }"

section \<open>What is reported of a key\<close>

lemma sort_entries_filter:
  "sort_entries U requestParams qs (kms, kss) =
     (if \<exists>q \<in> set qs. entry_case U q = Unexpected then None
      else Some (kms @ map (kmParam2Aidl U) (filter (\<lambda>q. entry_case U q = By_keymint) qs),
        kss @ map (kmParam2Aidl U)
          (filter (\<lambda>q. entry_case U q = By_keystore \<or> entry_case U q = If_requested \<and> contains_creation U requestParams) qs)))"
  by (induction U requestParams qs "(kms, kss)" arbitrary: kms kss rule: sort_entries.induct) (auto split: tag_case.splits)

lemma convert_on_device:
  "convertKeyCharacteristics U keymint_level requestParams sw hw inc =
     Some ((TRUSTED_ENVIRONMENT, kmParamSet2Aidl U hw) # (if inc \<and> sw \<noteq> [] then [(KEYSTORE, kmParamSet2Aidl U sw)] else []))"
  by (simp add: convertKeyCharacteristics_def keymint_level_def)

end
