(* ===== verification/Keymint_Operation.thy ===== *)
theory Keymint_Operation
  imports Keymint_Device
begin

text \<open>
  Operations of the key mint device (\<open>400/keymint1.0/BeanpodKeyMintOperation.cpp\<close>, the method \<open>begin\<close>
  of the device), and the clock, shared secret and remotely provisioned component beside it. An
  operation is an object with the handle that the application gave it; zero says that there is
  nothing to abort. A pointer for output that may be null is a boolean.
\<close>

section \<open>Operations\<close>

definition op_abort :: "'s keymint_device \<Rightarrow> u64 \<Rightarrow> 's \<Rightarrow> (keymaster_error_t \<times> u64 \<times> 's) option" where
  "op_abort D opHandle s =
     do { (e, r, s') \<leftarrow> ask D (Common AbortOperation) (AbortOperationRequest opHandle) s; Some (e, 0, s') }"

definition op_destructor :: "'s keymint_device \<Rightarrow> u64 \<Rightarrow> 's \<Rightarrow> 's option" where
  "op_destructor D opHandle s = (if opHandle \<noteq> 0 then map_option (\<lambda>(e, h, s'). s') (op_abort D opHandle s) else Some s)"

definition op_updateAad :: "'s keymint_device \<Rightarrow> bytes \<Rightarrow> u64 \<Rightarrow> 's \<Rightarrow> (keymaster_error_t \<times> u64 \<times> 's) option" where
  "op_updateAad D input opHandle s =
     do {
       (e, r, s') \<leftarrow> ask D (Common UpdateOperation)
         (UpdateOperationRequest opHandle [] [\<lparr>km_tag = TAG_ASSOCIATED_DATA (lib D), km_val = Blob input\<rparr>]) s;
       if e = BEANPOD_KM_INVALID_INPUT_LENGTH then do {
         (ea, h, s2) \<leftarrow> op_abort D opHandle s';
         Some (KM_ERROR_INVALID_INPUT_LENGTH, h, s2)
       }
       else Some (e, opHandle, s')
     }"

definition op_token :: "km_lib \<Rightarrow> HardwareAuthToken option \<Rightarrow> km_params option" where
  "op_token L authToken = (case authToken of None \<Rightarrow> Some [] | Some t \<Rightarrow> push_auth_token L t [])"

definition op_update ::
  "'s keymint_device \<Rightarrow> bytes \<Rightarrow> HardwareAuthToken option \<Rightarrow> bool \<Rightarrow> u64 \<Rightarrow> 's \<Rightarrow> ((keymaster_error_t + bytes) \<times> u64 \<times> 's) option" where
  "op_update D input authToken output opHandle s =
     (if \<not> output then Some (Inl KM_ERROR_OUTPUT_PARAMETER_NULL, opHandle, s)
      else do {
        ps \<leftarrow> op_token (lib D) authToken;
        (e, r, s') \<leftarrow> ask D (Common UpdateOperation) (UpdateOperationRequest opHandle input ps) s;
        if e \<noteq> KM_ERROR_OK then
          if e = BEANPOD_KM_INVALID_INPUT_LENGTH then do {
            (ea, h, s2) \<leftarrow> op_abort D opHandle s';
            Some (Inl KM_ERROR_INVALID_INPUT_LENGTH, h, s2)
          }
          else Some (Inl e, opHandle, s')
        else if unat (rsp_input_consumed r) \<noteq> length input then Some (Inl KM_ERROR_UNKNOWN_ERROR, opHandle, s')
        else Some (Inr (rsp_output r), opHandle, s')
      })"

definition op_finish ::
  "'s keymint_device \<Rightarrow> bytes option \<Rightarrow> bytes option \<Rightarrow> HardwareAuthToken option \<Rightarrow> bool \<Rightarrow> u64 \<Rightarrow> 's \<Rightarrow>
    ((keymaster_error_t + bytes) \<times> u64 \<times> 's) option" where
  "op_finish D input signature authToken output opHandle s =
     (if \<not> output then Some (Inl KM_ERROR_OUTPUT_PARAMETER_NULL, opHandle, s)
      else do {
        ps \<leftarrow> op_token (lib D) authToken;
        (e, r, s') \<leftarrow> ask D (Common FinishOperation)
          (FinishOperationRequest opHandle (case input of None \<Rightarrow> [] | Some i \<Rightarrow> i) (case signature of None \<Rightarrow> [] | Some x \<Rightarrow> x) ps) s;
        if e \<noteq> KM_ERROR_OK then
          if e = BEANPOD_KM_INVALID_INPUT_LENGTH then do {
            (ea, h, s2) \<leftarrow> op_abort D opHandle s';
            Some (Inl KM_ERROR_INVALID_INPUT_LENGTH, 0, s2)
          }
          else Some (Inl e, 0, s')
        else Some (Inr (rsp_output r), 0, s')
      })"

text \<open>\<open>BeginResult\<close>: parameters, challenge and the handle of the new operation.\<close>

definition keymint_begin ::
  "'p km_utils \<Rightarrow> 's keymint_device \<Rightarrow> u32 \<Rightarrow> bytes \<Rightarrow> 'p list \<Rightarrow> HardwareAuthToken option \<Rightarrow> 's \<Rightarrow>
    ((keymaster_error_t + 'p list \<times> u64 \<times> u64) \<times> 's) option" where
  "keymint_begin U D purpose keyBlob params authToken s =
     do {
       (e, r, s') \<leftarrow> ask D (Common BeginOperation) (BeginOperationRequest purpose keyBlob
         (aidlParamSet2Km U params @ [\<lparr>km_tag = Km_Params.TAG_AUTH_TOKEN (lib D), km_val = Blob (authToken2AidlVec U authToken)\<rparr>])) s;
       Some (if e \<noteq> KM_ERROR_OK then Inl e else Inr (kmParamSet2Aidl U (rsp_output_params r), rsp_op_handle r, rsp_op_handle r), s')
     }"

section \<open>The objects beside the device\<close>

definition generateTimeStamp :: "'s keymint_device \<Rightarrow> u64 \<Rightarrow> 's \<Rightarrow> ((keymaster_error_t + TimeStampToken) \<times> 's) option" where
  "generateTimeStamp D chall s =
     do {
       (e, r, s') \<leftarrow> ask D GenerateTimestampToken (GenerateTimestampTokenRequest chall) s;
       Some (if e \<noteq> KM_ERROR_OK then Inl e
         else Inr (vt_challenge (rsp_token r), vt_timestamp (rsp_token r), vt_mac (rsp_token r)), s')
     }"

definition getSharedSecretParameters :: "'s keymint_device \<Rightarrow> 's \<Rightarrow> (keymaster_error_t \<times> (bytes \<times> bytes) \<times> 's) option" where
  "getSharedSecretParameters D s =
     do {
       (e, r, s') \<leftarrow> ask D (Common Beanpod_Keymaster.GetHmacSharingParameters) NoRequest s;
       Some (e, (rsp_seed r, rsp_nonce r), s')
     }"

text \<open>The loop that copies the parameters returns at the first nonce of another size.\<close>

fun copy_secret_params :: "nat \<Rightarrow> (bytes \<times> bytes) list \<Rightarrow> (bytes \<times> bytes) list option" where
  "copy_secret_params n [] = Some []"
| "copy_secret_params n ((seed, nonce) # ps) =
     (if n \<noteq> length nonce then None else map_option (\<lambda>rest. (seed, nonce) # rest) (copy_secret_params n ps))"

definition computeSharedSecret ::
  "'p km_utils \<Rightarrow> 's keymint_device \<Rightarrow> (bytes \<times> bytes) list \<Rightarrow> 's \<Rightarrow> ((keymaster_error_t + bytes) \<times> 's) option" where
  "computeSharedSecret U D params s =
     (case copy_secret_params (nonce_size U) params of
        None \<Rightarrow> Some (Inl KM_ERROR_INVALID_ARGUMENT, s)
      | Some ps \<Rightarrow> do {
          (e, r, s') \<leftarrow> ask D (Common ComputeSharedHmac) (ComputeSharedHmacRequest ps) s;
          Some (if e = KM_ERROR_OK then Inr (rsp_sharing_check r) else Inl e, s')
        })"

definition rpc_getHardwareInfo :: "int \<times> string \<times> string" where
  "rpc_getHardwareInfo = (1, ''Beanpod'', ''CURVE_25519'')"

text \<open>The numbers of the errors of this component are those of the key master with the other sign.\<close>

definition generateEcdsaP256KeyPair ::
  "'p km_utils \<Rightarrow> 's keymint_device \<Rightarrow> bool \<Rightarrow> 's \<Rightarrow> ((int + bytes \<times> bytes) \<times> 's) option" where
  "generateEcdsaP256KeyPair U D testMode s =
     do {
       (e, r, s') \<leftarrow> ask D GenerateRkpKey (GenerateRkpKeyRequest testMode) s;
       Some (if e \<noteq> KM_ERROR_OK then Inl (- error_code U e) else Inr (rsp_maced_public_key r, rsp_key_blob r), s')
     }"

definition generateCertificateRequest ::
  "'p km_utils \<Rightarrow> 's keymint_device \<Rightarrow> bool \<Rightarrow> bytes list \<Rightarrow> bytes \<Rightarrow> bytes \<Rightarrow> 's \<Rightarrow> ((int + bytes \<times> bytes \<times> bytes) \<times> 's) option" where
  "generateCertificateRequest U D testMode keysToSign endpointEncCertChain chall s =
     do {
       (e, r, s') \<leftarrow> ask D GenerateCsr (GenerateCsrRequest testMode keysToSign endpointEncCertChain chall) s;
       Some (if e \<noteq> KM_ERROR_OK then Inl (- error_code U e)
         else Inr (rsp_device_info r, rsp_protected_data r, rsp_keys_to_sign_mac r), s')
     }"

section \<open>The life of an operation\<close>

datatype op_call =
    Op_updateAad bytes
  | Op_update bytes "HardwareAuthToken option" bool
  | Op_finish "bytes option" "bytes option" "HardwareAuthToken option" bool
  | Op_abort

fun op_step :: "'s keymint_device \<Rightarrow> op_call \<Rightarrow> u64 \<times> 's \<Rightarrow> (u64 \<times> 's) option" where
  "op_step D (Op_updateAad i) (h, s) = map_option snd (op_updateAad D i h s)"
| "op_step D (Op_update i t out) (h, s) = map_option snd (op_update D i t out h s)"
| "op_step D (Op_finish i sg t out) (h, s) = map_option snd (op_finish D i sg t out h s)"
| "op_step D Op_abort (h, s) = map_option snd (op_abort D h s)"

fun op_run :: "'s keymint_device \<Rightarrow> op_call list \<Rightarrow> u64 \<times> 's \<Rightarrow> (u64 \<times> 's) option" where
  "op_run D [] x = Some x"
| "op_run D (c # cs) x = op_step D c x \<bind> op_run D cs"

text \<open>Any calls, and then the destructor.\<close>

definition op_life :: "'s keymint_device \<Rightarrow> op_call list \<Rightarrow> u64 \<Rightarrow> 's \<Rightarrow> 's option" where
  "op_life D cs h s = do { (h', s') \<leftarrow> op_run D cs (h, s); op_destructor D h' s' }"

text \<open>The same device, with the requests that it hands to the service written down.\<close>

type_synonym km_log = "(keymint_method \<times> km_request) list"

definition recorded :: "'s keymint_device \<Rightarrow> ('s \<times> km_log) keymint_device" where
  "recorded D = \<lparr>impl = (\<lambda>m rq (s, l). map_option (\<lambda>(e, r, s'). (e, r, (s', l @ [(m, rq)]))) (impl D m rq s)), lib = lib D, fresh = fresh D\<rparr>"

definition is_update :: "u64 \<Rightarrow> keymint_method \<times> km_request \<Rightarrow> bool" where
  "is_update h x \<longleftrightarrow> (\<exists>i ps. x = (Common UpdateOperation, UpdateOperationRequest h i ps))"

definition is_finish :: "u64 \<Rightarrow> keymint_method \<times> km_request \<Rightarrow> bool" where
  "is_finish h x \<longleftrightarrow> (\<exists>i sg ps. x = (Common FinishOperation, FinishOperationRequest h i sg ps))"

definition abort_of :: "u64 \<Rightarrow> keymint_method \<times> km_request" where
  "abort_of h = (Common AbortOperation, AbortOperationRequest h)"

definition closing :: "u64 \<Rightarrow> km_log \<Rightarrow> bool" where
  "closing h l \<longleftrightarrow> l = [abort_of h] \<or> (\<exists>f. is_finish h f \<and> (l = [f] \<or> l = [f, abort_of h]))"

text \<open>Requests that end the operation once: updates, the end, and nothing more about this handle.\<close>

definition closed_once :: "u64 \<Rightarrow> km_log \<Rightarrow> bool" where
  "closed_once h l \<longleftrightarrow> (\<exists>pre cl post. l = pre @ cl @ post \<and> (\<forall>x \<in> set pre. is_update h x) \<and> closing h cl \<and>
     (\<forall>x \<in> set post. is_update 0 x \<or> is_finish 0 x \<or> x = abort_of 0))"

lemma ask_recorded:
  "ask (recorded D) m rq (s, l) = map_option (\<lambda>(e, r, s'). (e, r, (s', l @ [(m, rq)]))) (ask D m rq s)"
  by (cases "impl D m rq s") (auto simp: ask_def recorded_def split: option.splits)

lemma lib_recorded [simp]: "lib (recorded D) = lib D"
  by (simp add: recorded_def)

text \<open>The requests of one call, and what becomes of the handle.\<close>

definition step_shape :: "u64 \<Rightarrow> u64 \<Rightarrow> km_log \<Rightarrow> bool" where
  "step_shape h h' l \<longleftrightarrow> h' = h \<and> (\<forall>x \<in> set l. is_update h x) \<or>
     h' = 0 \<and> (\<exists>us cl. l = us @ cl \<and> (\<forall>x \<in> set us. is_update h x) \<and> closing h cl)"

lemma shape_closes: "\<forall>x \<in> set us. is_update h x \<Longrightarrow> closing h cl \<Longrightarrow> step_shape h 0 (us @ cl)"
  by (auto simp: step_shape_def)

lemma closings:
  "closing h [abort_of h]" "is_finish h x \<Longrightarrow> closing h [x]" "is_finish h x \<Longrightarrow> closing h [x, abort_of h]"
  unfolding closing_def by blast+

lemma shapes:
  "step_shape h h []" "is_update h x \<Longrightarrow> step_shape h h [x]" "step_shape h 0 [abort_of h]"
  "is_update h x \<Longrightarrow> step_shape h 0 [x, abort_of h]"
  "is_finish h x \<Longrightarrow> step_shape h 0 [x]" "is_finish h x \<Longrightarrow> step_shape h 0 [x, abort_of h]"
  using shape_closes [of "[]" h, OF _ closings(1)] shape_closes [of "[x]" h, OF _ closings(1)]
    shape_closes [of "[]" h, OF _ closings(2)] shape_closes [of "[]" h, OF _ closings(3)]
  by (simp_all) (simp_all add: step_shape_def)

lemma recorded_requests:
  "is_update h (Common UpdateOperation, UpdateOperationRequest h i ps)"
  "is_finish h (Common FinishOperation, FinishOperationRequest h i sg ps)"
  "(Common AbortOperation, AbortOperationRequest h) = abort_of h"
  by (simp_all add: is_update_def is_finish_def abort_of_def)

lemma op_step_recorded:
  "op_step (recorded D) c (h, (s, l)) = Some (h', (s', l')) \<Longrightarrow>
     op_step D c (h, s) = Some (h', s') \<and> (\<exists>es. l' = l @ es \<and> step_shape h h' es)"
  by (cases c)
    (fastforce simp: op_updateAad_def op_update_def op_finish_def op_abort_def ask_recorded bind_eq_Some_conv
      recorded_requests shapes split: if_splits)+

text \<open>As long as the handle is kept there have only been updates; when it is zero the operation is closed.\<close>

definition op_inv :: "u64 \<Rightarrow> u64 \<Rightarrow> km_log \<Rightarrow> bool" where
  "op_inv h h' l \<longleftrightarrow> h' = h \<and> (\<forall>x \<in> set l. is_update h x) \<or> h' = 0 \<and> closed_once h l"

lemma closed_onceI:
  "\<forall>x \<in> set pre. is_update h x \<Longrightarrow> closing h cl \<Longrightarrow> \<forall>x \<in> set post. is_update 0 x \<or> is_finish 0 x \<or> x = abort_of 0 \<Longrightarrow>
     closed_once h (pre @ cl @ post)"
  unfolding closed_once_def by blast

lemma shape_zero: "step_shape 0 h' es \<Longrightarrow> h' = 0 \<and> (\<forall>x \<in> set es. is_update 0 x \<or> is_finish 0 x \<or> x = abort_of 0)"
  by (auto simp: step_shape_def closing_def)

lemma closed_once_append:
  assumes "closed_once h l" "\<forall>x \<in> set es. is_update 0 x \<or> is_finish 0 x \<or> x = abort_of 0"
  shows "closed_once h (l @ es)"
proof -
  from assms(1) obtain pre cl post where l: "l = pre @ cl @ post" "\<forall>x \<in> set pre. is_update h x" "closing h cl"
    "\<forall>x \<in> set post. is_update 0 x \<or> is_finish 0 x \<or> x = abort_of 0" unfolding closed_once_def by blast
  have "closed_once h (pre @ cl @ (post @ es))"
    by (rule closed_onceI [OF l(2,3)]) (use l(4) assms(2) in auto)
  then show ?thesis by (simp add: l(1))
qed

lemma op_inv_step:
  assumes "op_inv h h1 l" "step_shape h1 h2 es"
  shows "op_inv h h2 (l @ es)"
proof (cases "h1 = h \<and> (\<forall>x \<in> set l. is_update h x)")
  case True
  with assms(2) consider "h2 = h" "\<forall>x \<in> set es. is_update h x"
    | us cl where "h2 = 0" "es = us @ cl" "\<forall>x \<in> set us. is_update h x" "closing h cl"
    unfolding step_shape_def by blast
  then show ?thesis
  proof cases
    case 2
    then show ?thesis using closed_onceI [of "l @ us" h cl "[]"] True by (auto simp: op_inv_def)
  qed (use True in \<open>auto simp: op_inv_def\<close>)
next
  case False
  with assms(1) have "h1 = 0" "closed_once h l" by (auto simp: op_inv_def)
  then show ?thesis using shape_zero [of h2 es] closed_once_append [of h l es] assms(2) by (auto simp: op_inv_def)
qed

lemma op_run_recorded:
  assumes "op_run (recorded D) cs (h1, (s, l)) = Some (h2, (s', l'))" "op_inv h h1 l"
  shows "op_run D cs (h1, s) = Some (h2, s') \<and> op_inv h h2 l'"
  using assms
proof (induction cs arbitrary: h1 s l)
  case (Cons c cs)
  from Cons.prems(1) obtain h3 s3 l3 where st: "op_step (recorded D) c (h1, (s, l)) = Some (h3, (s3, l3))"
    "op_run (recorded D) cs (h3, (s3, l3)) = Some (h2, (s', l'))" by (auto simp: bind_eq_Some_conv)
  from op_step_recorded [OF st(1)] obtain es where es: "op_step D c (h1, s) = Some (h3, s3)" "l3 = l @ es" "step_shape h1 h3 es" by blast
  from Cons.IH [OF st(2)] op_inv_step [OF Cons.prems(2) es(3)] es show ?case by simp
qed simp

text \<open>On the key mint service: an update whose request does not fit is an abort, and the object forgets the handle.\<close>

lemma keymint_update_is_abort:
  assumes "op_token L t = Some ps" "unat (buffer_length keymint) < length (ser (UpdateOperationRequest h i ps))"
  shows "op_update (device_on (keymint_method_call E) ser L f) i t True h s =
    map_option (\<lambda>(e, r, s'). (Inl KM_ERROR_INVALID_INPUT_LENGTH, 0, s'))
      (keymint_method_call E (Common AbortOperation) (ser (AbortOperationRequest h)) s)"
  using assms keymint_service.too_long [of UpdateOperation "ser (UpdateOperationRequest h i ps)" E s]
  by (cases "keymint_method_call E (Common AbortOperation) (ser (AbortOperationRequest h)) s")
    (auto simp: op_update_def op_abort_def ask_def operation_methods_def simp del: keymint_def)

section \<open>Operations return\<close>

definition answers :: "'s keymint_device \<Rightarrow> bool" where
  "answers D \<longleftrightarrow> (\<forall>m rq s. impl D m rq s \<noteq> None)"

fun token_of :: "op_call \<Rightarrow> HardwareAuthToken option" where
  "token_of (Op_update i t out) = t"
| "token_of (Op_finish i sg t out) = t"
| "token_of _ = None"

definition token_fits :: "km_lib \<Rightarrow> op_call \<Rightarrow> bool" where
  "token_fits L c \<longleftrightarrow> (case token_of c of None \<Rightarrow> True | Some t \<Rightarrow> length (mac t) \<le> hmac_size L)"

lemma answers_recorded: "answers D \<Longrightarrow> answers (recorded D)"
  by (auto simp: answers_def recorded_def)

lemma ask_returns:
  assumes "answers D"
  shows "\<exists>e r s'. ask D m rq s = Some (e, r, s')"
proof -
  from assms obtain e r s' where "impl D m rq s = Some (e, r, s')" unfolding answers_def by (metis not_None_eq prod_cases3)
  then show ?thesis by (simp add: ask_def)
qed

lemma op_token_returns: "(case t of None \<Rightarrow> True | Some t \<Rightarrow> length (mac t) \<le> hmac_size L) \<Longrightarrow> \<exists>ps. op_token L t = Some ps"
  by (auto simp: op_token_def push_auth_token_def auth_token_def split: option.splits)

lemma op_abort_returns: "answers D \<Longrightarrow> \<exists>x. op_abort D h s = Some x"
  using ask_returns [of D "Common AbortOperation" "AbortOperationRequest h" s] by (auto simp: op_abort_def)

lemma op_step_returns:
  assumes "answers D" "token_fits (lib D) c"
  shows "\<exists>x. op_step D c (h, s) = Some x"
proof -
  note a = ask_returns [OF assms(1)] and b = op_abort_returns [OF assms(1)]
  show ?thesis
  proof (cases c)
    case (Op_updateAad i)
    obtain e r s' where "ask D (Common UpdateOperation)
      (UpdateOperationRequest h [] [\<lparr>km_tag = TAG_ASSOCIATED_DATA (lib D), km_val = Blob i\<rparr>]) s = Some (e, r, s')" using a by blast
    with b [of h s'] Op_updateAad show ?thesis by (auto simp: op_updateAad_def)
  next
    case (Op_update i t out)
    then obtain ps where ps: "op_token (lib D) t = Some ps" using assms(2) op_token_returns [where t = t and L = "lib D"] by (auto simp: token_fits_def)
    obtain e r s' where "ask D (Common UpdateOperation) (UpdateOperationRequest h i ps) s = Some (e, r, s')" using a by blast
    with b [of h s'] ps Op_update show ?thesis by (auto simp: op_update_def)
  next
    case (Op_finish i sg t out)
    then obtain ps where ps: "op_token (lib D) t = Some ps" using assms(2) op_token_returns [where t = t and L = "lib D"] by (auto simp: token_fits_def)
    obtain e r s' where "ask D (Common FinishOperation)
      (FinishOperationRequest h (case i of None \<Rightarrow> [] | Some i \<Rightarrow> i) (case sg of None \<Rightarrow> [] | Some x \<Rightarrow> x) ps) s = Some (e, r, s')" using a by blast
    with b [of h s'] ps Op_finish show ?thesis by (auto simp: op_finish_def)
  next
    case Op_abort
    with b [of h s] show ?thesis by auto
  qed
qed

lemma op_run_returns:
  assumes "answers D" "\<forall>c \<in> set cs. token_fits (lib D) c"
  shows "\<exists>h' s'. op_run D cs x = Some (h', s')"
  using assms(2)
proof (induction cs arbitrary: x)
  case (Cons c cs)
  obtain y where "op_step D c x = Some y" using op_step_returns [OF assms(1), of c "fst x" "snd x"] Cons.prems by auto
  with Cons show ?case by simp
qed simp


text \<open>An application that takes updates of one byte and refuses everything else.\<close>

definition picky :: "nat keymint_device" where
  "picky = \<lparr>impl = (\<lambda>m rq n. Some (if \<exists>h b ps. rq = UpdateOperationRequest h [b] ps then KM_ERROR_OK else BEANPOD_KM_INVALID_INPUT_LENGTH,
       Some (blank\<lparr>rsp_input_consumed := 1\<rparr>), n + 1)), lib = sample_lib, fresh = blank\<rparr>"


end
