(* ===== verification/Ut_Keybox.thy ===== *)
theory Ut_Keybox
  imports Ut_Keymaster Teec_Calls Teec_Api
begin

text \<open>
  The exchanges with the trusted application that keeps the attestation keys of the 400 variant
  (\<open>400/km4.1/kmsetkey/ut_km_tac.cpp\<close>): each opens a context and a session, shares one block of
  memory, gives one command and closes everything. The objects that the library is passed by
  pointer have the addresses \<open>km_objects\<close>, where \<open>km_input\<close> is \<open>inputSM\<close> and \<open>km_output\<close> is
  \<open>outputSM\<close>; data of the caller, which only the process sees, is given by its bytes and has less
  than \<open>2 ^ 32\<close> of them. \<open>None\<close> is undefined behaviour.
\<close>

section \<open>Constants\<close>

definition GOOGLE_KEY_STATUS :: string where "GOOGLE_KEY_STATUS = ''vendor.soter.teei.googlekey.status''"
definition GOOGLE_KEY_MODEL :: string where "GOOGLE_KEY_MODEL = ''vendor.soter.teei.googlekey.model''"
definition ATTESTKEY_MODEL_INFO_PROPERTY :: string where "ATTESTKEY_MODEL_INFO_PROPERTY = ''ro.product.device''"
definition TEE_PROP_VALUE_MAX :: nat where [simp]: "TEE_PROP_VALUE_MAX = 84"
definition KM_MAGIC :: u32 where "KM_MAGIC = 0xaf015838"
definition CMD_ID_TEE_REE_IMPORT_KEYBOX :: u32 where "CMD_ID_TEE_REE_IMPORT_KEYBOX = 601"

definition KEYBOX_UUID :: TEEC_UUID where
  "KEYBOX_UUID = \<lparr>timeLow = 0xd91f322a, timeMid = 0xd5a4, timeHiAndVersion = 0x41d5,
     clockSeqAndNode = [0x95, 0x51, 0x10, 0xed, 0xa3, 0x27, 0x2f, 0xc0]\<rparr>"

datatype kb_cmd_t = CMD_CA_IMPORT_KEYBOX | CMD_CA_VERIFY_KEYBOX | CMD_TA_GET_KEYBOX | CMD_TA_GET_KEYBOX_STATUS
  | CMD_WRITE_KEYBOX_MODEL_INFO | CMD_CA_TEST

fun kb_code :: "kb_cmd_t \<Rightarrow> u32" where
  "kb_code CMD_CA_IMPORT_KEYBOX = 0"
| "kb_code CMD_CA_VERIFY_KEYBOX = 1"
| "kb_code CMD_TA_GET_KEYBOX = 100"
| "kb_code CMD_TA_GET_KEYBOX_STATUS = 101"
| "kb_code CMD_WRITE_KEYBOX_MODEL_INFO = 102"
| "kb_code CMD_CA_TEST = 1000"

section \<open>One exchange with the application\<close>

text \<open>
  What the three exchanges share: context, session and a block of shared memory of \<open>n\<close> bytes
  around \<open>body\<close>, and the labels \<open>cleanup_4\<close> to \<open>cleanup_1\<close>.
\<close>

definition keybox_session ::
  "kernel \<Rightarrow> secure_world \<Rightarrow> bool \<Rightarrow> km_objects \<Rightarrow> ptr \<Rightarrow> u32 \<Rightarrow> u32 \<Rightarrow> (teec \<Rightarrow> (TEEC_Result \<times> teec) option) \<Rightarrow> teec \<Rightarrow>
    (TEEC_Result \<times> teec) option" where
  "keybox_session k w gptee g m n flags body t =
     (let t0 = km_clear g t;
          (res, t1) = TEEC_InitializeContext k gptee (Some host_name) (km_context g) (t0\<lparr>origins := (origins t0)(km_origin g := 0)\<rparr>) in
      if res \<noteq> TEEC_SUCCESS then Some (res, t1)
      else do {
        (res2, t2) \<leftarrow> TEEC_OpenSession k w (km_context g) (km_session g) (Some KEYBOX_UUID) TEEC_LOGIN_PUBLIC 0 0 (km_origin g) t1;
        (res3, t3) \<leftarrow>
          (if res2 \<noteq> TEEC_SUCCESS then Some (res2, t2)
           else
             let (res, u) = TEEC_AllocateSharedMemory k (km_context g) m
                   (t2\<lparr>shms := (shms t2)(m := (shms t2 m)\<lparr>shm_size := ucast n, shm_flags := flags\<rparr>)\<rparr>) in
             do {
               (res', u1) \<leftarrow>
                 (if res \<noteq> TEEC_SUCCESS \<or> shm_buffer (shms u m) = 0 then Some (res, u)
                  else do { (r, u') \<leftarrow> body u; Some (r, TEEC_ReleaseSharedMemory k m u') });
               u2 \<leftarrow> TEEC_CloseSession k (km_session g) u1;
               Some (res', u2)
             });
        t4 \<leftarrow> TEEC_FinalizeContext k (km_context g) t3;
        Some (res3, t4)
      })"

text \<open>The operation and the command: the result of the library and the value that the application answers.\<close>

definition keybox_invoke ::
  "kernel \<Rightarrow> secure_world \<Rightarrow> km_objects \<Rightarrow> u32 \<Rightarrow> ptr \<Rightarrow> kb_cmd_t \<Rightarrow> teec \<Rightarrow> ((TEEC_Result \<times> u32) \<times> teec) option" where
  "keybox_invoke k w g types m cmd t =
     do {
       (res, t1) \<leftarrow> TEEC_InvokeCommand k w (km_session g) (kb_code cmd) (km_operation g) 0
         (t\<lparr>operations := (operations t)(km_operation g := \<lparr>started = 1, paramTypes = types,
            op_params = [km_parameter 0 0, km_parameter m (shm_size (shms t m)), km_parameter 0 0, km_parameter 0 0], op_session = 0\<rparr>)\<rparr>);
       Some ((res, val_a (value_ab (op_params (operations t1 (km_operation g)) ! 0))), t1)
     }"

definition import_body ::
  "kernel \<Rightarrow> secure_world \<Rightarrow> km_objects \<Rightarrow> kb_cmd_t \<Rightarrow> bytes \<Rightarrow> teec \<Rightarrow> (TEEC_Result \<times> teec) option" where
  "import_body k w g cmd data t =
     (let b = shm_buffer (shms t (km_input g)) in
      do {
        ((res, a), t1) \<leftarrow> keybox_invoke k w g
          (TEEC_PARAM_TYPES TEEC_VALUE_OUTPUT TEEC_MEMREF_PARTIAL_INPUT TEEC_NONE TEEC_NONE) (km_input g) cmd
          (t\<lparr>mem := mem_write b data (mem_write b (replicate (unat (shm_size (shms t (km_input g)))) 0) (mem t))\<rparr>);
        Some (if res \<noteq> TEEC_SUCCESS then res else a, t1)
      })"

text \<open>The two functions that hand over data differ in the command only. A result is a C \<open>int\<close>.\<close>

definition keybox_import ::
  "kernel \<Rightarrow> secure_world \<Rightarrow> bool \<Rightarrow> km_objects \<Rightarrow> kb_cmd_t \<Rightarrow> bytes \<Rightarrow> teec \<Rightarrow> (int \<times> teec) option" where
  "keybox_import k w gptee g cmd data t =
     (if data = [] then Some (- 1, t)
      else map_option (map_prod sint id)
        (keybox_session k w gptee g (km_input g) (of_nat (length data)) TEEC_MEM_INPUT (import_body k w g cmd data) t))"

definition ut_km_import_google_key_model ::
  "kernel \<Rightarrow> secure_world \<Rightarrow> bool \<Rightarrow> km_objects \<Rightarrow> bytes \<Rightarrow> teec \<Rightarrow> (int \<times> teec) option" where
  "ut_km_import_google_key_model k w gptee g = keybox_import k w gptee g CMD_WRITE_KEYBOX_MODEL_INFO"

definition ut_km_import_google_key ::
  "kernel \<Rightarrow> secure_world \<Rightarrow> bool \<Rightarrow> km_objects \<Rightarrow> bytes \<Rightarrow> teec \<Rightarrow> (int \<times> teec) option" where
  "ut_km_import_google_key k w gptee g = keybox_import k w gptee g CMD_CA_IMPORT_KEYBOX"

section \<open>The state of the key box\<close>

definition property_set :: "kernel \<Rightarrow> string \<Rightarrow> string \<Rightarrow> teec \<Rightarrow> teec" where
  "property_set k key v t = snd (sys k (Property_set key v) t)"

text \<open>A C string in an array: \<open>None\<close> when it has no terminator.\<close>

definition c_string :: "bytes \<Rightarrow> string option" where
  "c_string bs = (if 0 \<in> set bs then Some (map (\<lambda>b. char_of (unat b)) (takeWhile (\<lambda>b. b \<noteq> 0) bs)) else None)"

text \<open>\<open>key_status_t\<close>: five numbers, the name of the model and four reserved numbers.\<close>

definition KEY_STATUS_SIZE :: nat where [simp]: "KEY_STATUS_SIZE = 5 * 4 + TEE_PROP_VALUE_MAX + 4 * 4"

text \<open>
  What is done with the status. The condition \<open>TEE_PROP_VALUE_MAX-1 > len > 0\<close> compares the truth
  value of the first comparison with 0, so it is the first comparison.
\<close>

definition report_status :: "kernel \<Rightarrow> bytes \<Rightarrow> teec \<Rightarrow> (TEEC_Result \<times> teec) option" where
  "report_status k status t =
     (if get_u32 status 0 = KM_MAGIC then
        let t1 = property_set k GOOGLE_KEY_STATUS ''ok'' t in
        if get_u32 status 16 < of_nat (TEE_PROP_VALUE_MAX - 1) then do {
          v \<leftarrow> c_string (drop 20 status);
          Some (0, property_set k GOOGLE_KEY_MODEL v t1)
        }
        else Some (0, property_set k GOOGLE_KEY_MODEL ''unknown'' t1)
      else Some (- 1, property_set k GOOGLE_KEY_MODEL ''fail'' (property_set k GOOGLE_KEY_STATUS ''fail'' t)))"

definition check_body :: "kernel \<Rightarrow> secure_world \<Rightarrow> km_objects \<Rightarrow> teec \<Rightarrow> (TEEC_Result \<times> teec) option" where
  "check_body k w g t =
     (let b = shm_buffer (shms t (km_output g)) in
      do {
        ((res, a), t1) \<leftarrow> keybox_invoke k w g
          (TEEC_PARAM_TYPES TEEC_VALUE_OUTPUT TEEC_MEMREF_PARTIAL_OUTPUT TEEC_NONE TEEC_NONE) (km_output g) CMD_TA_GET_KEYBOX_STATUS
          (t\<lparr>mem := mem_write b (replicate (unat (shm_size (shms t (km_output g)))) 0) (mem t)\<rparr>);
        if res \<noteq> TEEC_SUCCESS then Some (res, t1)
        else if a \<noteq> 0 then Some (- 1, t1)
        else report_status k (mem_read b KEY_STATUS_SIZE (mem t1)) t1
      })"

definition ut_km_check_google_key ::
  "kernel \<Rightarrow> secure_world \<Rightarrow> bool \<Rightarrow> km_objects \<Rightarrow> teec \<Rightarrow> (int \<times> teec) option" where
  "ut_km_check_google_key k w gptee g t =
     map_option (map_prod sint id)
       (keybox_session k w gptee g (km_output g) (of_nat KEY_STATUS_SIZE) TEEC_MEM_OUTPUT (check_body k w g)
         (property_set k GOOGLE_KEY_MODEL ''fail'' (property_set k GOOGLE_KEY_STATUS ''fail'' t)))"

section \<open>Key and model\<close>

text \<open>A name of 84 characters or more is cut to 83.\<close>

definition model_info :: "bytes \<Rightarrow> bytes" where
  "model_info v = (if length v < TEE_PROP_VALUE_MAX then v else take (TEE_PROP_VALUE_MAX - 1) v)"

definition ut_km_import_google_key_and_model ::
  "kernel \<Rightarrow> secure_world \<Rightarrow> bool \<Rightarrow> km_objects \<Rightarrow> bytes \<Rightarrow> teec \<Rightarrow> (int \<times> teec) option" where
  "ut_km_import_google_key_and_model k w gptee g data t =
     (if data = [] then Some (- 1, t)
      else do {
        (rv, t1) \<leftarrow> ut_km_import_google_key k w gptee g data t;
        if rv \<noteq> 0 then Some (rv, property_set k GOOGLE_KEY_STATUS ''fail'' t1)
        else
          let (r, t2) = sys k (Property_get ATTESTKEY_MODEL_INFO_PROPERTY) t1; model = model_info (sr_out r) in
          if sr_out r = [] then Some (- 2, t2)
          else do {
            (rv2, t3) \<leftarrow> ut_km_import_google_key_model k w gptee g model t2;
            if rv2 \<noteq> 0 then Some (rv2, t3)
            else Some (rv2, property_set k GOOGLE_KEY_MODEL (map (\<lambda>b. char_of (unat b)) model)
                              (property_set k GOOGLE_KEY_STATUS ''ok'' t3))
          }
      })"

section \<open>States of an exchange\<close>

text \<open>
  Neither context nor session are known to the library; the context is; both are. In all states
  no other session belongs to the context.
\<close>

definition others_apart :: "km_objects \<Rightarrow> teec \<Rightarrow> bool" where
  "others_apart g t \<longleftrightarrow> teec_inv t \<and> (\<forall>p \<in> set (sessionMap t). p \<noteq> km_session g \<longrightarrow> sess_ctx (sessions t p) \<noteq> km_context g)"

definition kb_closed :: "km_objects \<Rightarrow> teec \<Rightarrow> bool" where
  "kb_closed g t \<longleftrightarrow> others_apart g t \<and> km_session g \<notin> set (sessionMap t) \<and> km_context g \<notin> set (contextMap t)"

definition kb_context :: "km_objects \<Rightarrow> teec \<Rightarrow> bool" where
  "kb_context g t \<longleftrightarrow> others_apart g t \<and> km_session g \<notin> set (sessionMap t) \<and> km_context g \<in> set (contextMap t)"

definition kb_open :: "km_objects \<Rightarrow> teec \<Rightarrow> bool" where
  "kb_open g t \<longleftrightarrow> others_apart g t \<and> km_session g \<in> set (sessionMap t) \<and> km_context g \<in> set (contextMap t) \<and>
     sess_ctx (sessions t (km_session g)) = km_context g"

lemma kb_open_cong:
  "kb_open g t \<Longrightarrow> contextMap t' = contextMap t \<Longrightarrow> sessionMap t' = sessionMap t \<Longrightarrow> sessions t' = sessions t \<Longrightarrow>
   teec_mutex t' = teec_mutex t \<Longrightarrow> kb_open g t'"
  by (simp add: kb_open_def others_apart_def teec_inv_def)

lemma kb_closed_cong:
  "kb_closed g t \<Longrightarrow> contextMap t' = contextMap t \<Longrightarrow> sessionMap t' = sessionMap t \<Longrightarrow> sessions t' = sessions t \<Longrightarrow>
   teec_mutex t' = teec_mutex t \<Longrightarrow> kb_closed g t'"
  by (simp add: kb_closed_def others_apart_def teec_inv_def)

lemma kb_open_mutex: "kb_open g t \<Longrightarrow> \<not> teec_mutex t"
  by (simp add: kb_open_def others_apart_def teec_inv_def)

section \<open>The steps of an exchange\<close>

lemma initialize_fails:
  assumes "TEEC_InitializeContext k gptee name ctx t = (res, t')" "res \<noteq> TEEC_SUCCESS" "ctx \<noteq> 0"
  shows "only_calls t t'"
proof -
  have "only_calls t t'" if "init_context_loop k gptee name ctx n t = (res, t')" for n t
    using that
  proof (induction k gptee name ctx n t rule: init_context_loop.induct)
    case (1 k gptee name ctx n t)
    obtain fd t1 where o: "teec_open_dev k gptee (dev_name n) name t = (fd, t1)" by fastforce
    note oc = teec_open_dev_only_calls [OF o]
    with 1(1) [OF _ o [symmetric] refl] 1(2) assms(2) show ?case
      by (auto simp: init_context_loop.simps [of _ _ _ _ n] o intro: only_calls_trans split: if_splits)
  qed
  with assms show ?thesis by (simp add: TEEC_InitializeContext_def)
qed

lemma init_step:
  assumes "kb_closed g t" "km_objects_ok g"
    and "TEEC_InitializeContext k gptee name (km_context g) ((km_clear g t)\<lparr>origins := f\<rparr>) = (res, t')"
  shows "grows t t' \<and> (if res = TEEC_SUCCESS then kb_context g t' else kb_closed g t')"
proof -
  let ?t = "(km_clear g t)\<lparr>origins := f\<rparr>"
  have g: "km_context g \<noteq> 0" using assms(2) by (auto simp: km_objects_ok_def)
  have c: "kb_closed g ?t" using assms(1) by (auto simp: kb_closed_def others_apart_def teec_inv_def km_clear_def)
  have "grows t ?t" by (simp add: grows_def km_clear_def)
  also have "grows ?t t'" using assms(3) by (rule initialize_grows)
  finally have gr: "grows t t'" .
  show ?thesis
  proof (cases "res = TEEC_SUCCESS")
    case True
    have "sorted (map_insert (km_context g) (contextMap ?t)) \<and> distinct (map_insert (km_context g) (contextMap ?t))"
      using c by (intro map_insert_props(1)) (auto simp: kb_closed_def others_apart_def teec_inv_def)
    with initialize_ok [OF assms(3) [unfolded True] g] c g gr True show ?thesis
      by (auto simp: kb_closed_def kb_context_def others_apart_def teec_inv_def)
  next
    case False
    note oc = only_callsD [OF initialize_fails [OF assms(3) False g]]
    have "kb_closed g t'" by (rule kb_closed_cong [OF c]) (simp_all add: oc)
    with gr False show ?thesis by simp
  qed
qed

lemma open_step:
  assumes "kb_context g t" "km_objects_ok g"
  shows "\<exists>res t'. TEEC_OpenSession k w (km_context g) (km_session g) (Some u) TEEC_LOGIN_PUBLIC 0 0 eo t = Some (res, t') \<and>
    grows t t' \<and> (if res = TEEC_SUCCESS then kb_open g t' else kb_context g t')"
proof -
  have g: "km_context g \<noteq> 0" "km_session g \<noteq> 0" using assms(2) by (auto simp: km_objects_ok_def)
  have login: "login_error TEEC_LOGIN_PUBLIC 0 = None" by (simp add: login_error_def)
  have "\<exists>res t'. TEEC_OpenSession k w (km_context g) (km_session g) (Some u) TEEC_LOGIN_PUBLIC 0 0 eo t = Some (res, t') \<and>
     contextMap t' = contextMap t \<and> (\<forall>p. p \<noteq> km_session g \<longrightarrow> sessions t' p = sessions t p) \<and>
     (res \<noteq> TEEC_SUCCESS \<longrightarrow> sessionMap t' = sessionMap t)"
    using g login
    by (auto simp: TEEC_OpenSession_def Let_def teec_pre_process_operation_def teec_post_process_operation_def teec_free_temp_refs_def
        set_origin_def tee_call_def sys_def ioctl_errno_to_res_def split: prod.splits)
  then obtain res t' where o: "TEEC_OpenSession k w (km_context g) (km_session g) (Some u) TEEC_LOGIN_PUBLIC 0 0 eo t = Some (res, t')"
     "contextMap t' = contextMap t" "\<forall>p. p \<noteq> km_session g \<longrightarrow> sessions t' p = sessions t p"
     "res \<noteq> TEEC_SUCCESS \<longrightarrow> sessionMap t' = sessionMap t"
    by blast
  have inv: "teec_inv t'" using open_session_inv [OF o(1)] assms(1) by (simp add: kb_context_def others_apart_def)
  have "if res = TEEC_SUCCESS then kb_open g t' else kb_context g t'"
  proof (cases "res = TEEC_SUCCESS")
    case True
    from open_ok [OF o(1) [unfolded True] login g] True assms(1) o inv show ?thesis
      by (auto simp: kb_open_def kb_context_def others_apart_def)
  next
    case False
    with o assms(1) inv show ?thesis by (auto simp: kb_context_def others_apart_def)
  qed
  with o(1) open_session_grows [OF o(1)] show ?thesis by blast
qed

lemma close_step:
  assumes "kb_open g t" "km_objects_ok g"
  shows "\<exists>t'. TEEC_CloseSession k (km_session g) t = Some t' \<and> grows t t' \<and> kb_context g t'"
proof -
  have g: "km_context g \<noteq> 0" "km_session g \<noteq> 0" using assms(2) by (auto simp: km_objects_ok_def)
  let ?c = "Ioctl (ctx_fd (contexts t (km_context g))) (TEE_IOC_CLOSE_SESSION (session_id (sessions t (km_session g))))"
  let ?t = "(snd (sys k ?c t))\<lparr>sessionMap := remove1 (km_session g) (sessionMap t)\<rparr>"
  have c: "TEEC_CloseSession k (km_session g) t = Some ?t"
    using assms(1) g by (simp add: TEEC_CloseSession_def kb_open_def ut_close_session_def Let_def sys_def)
  have "distinct (sessionMap t)" using assms(1) by (simp add: kb_open_def others_apart_def teec_inv_def)
  then have "set (sessionMap ?t) = set (sessionMap t) - {km_session g}" by (simp add: set_remove1_eq)
  with close_session_inv [OF c] assms(1) have "kb_context g ?t"
    by (auto simp: kb_open_def kb_context_def others_apart_def sys_def Let_def)
  with c close_session_grows [OF c] show ?thesis by blast
qed

lemma finalize_step:
  assumes "kb_context g t"
  shows "\<exists>t'. TEEC_FinalizeContext k (km_context g) t = Some t' \<and> grows t t' \<and> kb_closed g t'"
proof -
  let ?t = "(ut_close_fd k (ctx_fd (contexts t (km_context g))) t)\<lparr>contextMap := remove1 (km_context g) (contextMap t)\<rparr>"
  have "\<forall>p \<in> set (sessionMap t). sess_ctx (sessions t p) \<noteq> km_context g"
    using assms by (auto simp: kb_context_def others_apart_def)
  then have "finalize_sessions k (km_context g) 0 t = Some t" by (intro finalize_sessions_none) simp
  then have f: "TEEC_FinalizeContext k (km_context g) t = Some ?t" using assms by (simp add: TEEC_FinalizeContext_def kb_context_def)
  have "set (contextMap ?t) = set (contextMap t) - {km_context g}"
    using assms by (simp add: set_remove1_eq kb_context_def others_apart_def teec_inv_def)
  with finalize_context_inv [OF f] assms have "kb_closed g ?t"
    by (auto simp: kb_context_def kb_closed_def others_apart_def ut_close_fd_def sys_def Let_def)
  with f finalize_grows [OF f] show ?thesis by blast
qed

text \<open>The block of shared memory when the body of an exchange runs.\<close>

definition kb_shared :: "ptr \<Rightarrow> u32 \<Rightarrow> u32 \<Rightarrow> teec \<Rightarrow> bool" where
  "kb_shared m n flags t \<longleftrightarrow> usable (shm_buffer (shms t m)) \<and> shadow_buffer (shms t m) = 0 \<and> shm_flags (shms t m) = flags \<and>
     shm_size (shms t m) = ucast n"

text \<open>Without \<open>MAP_FIXED\<close> the address of a mapping is not 0.\<close>

definition maps_nonzero :: "kernel \<Rightarrow> bool" where
  "maps_nonzero k \<longleftrightarrow> (\<forall>h n fd. sr_rc (k h (Mmap n fd)) \<noteq> 0)"

lemma mmap_nonzero: "maps_nonzero k \<Longrightarrow> mmap k n fd t = (p, t') \<Longrightarrow> p \<noteq> 0"
  by (auto simp: maps_nonzero_def mmap_def sys_def Let_def MAP_FAILED_def not_less order.order_iff_strict dest: not_sym split: if_splits)

lemma allocate_step:
  assumes "kb_open g t" "km_objects_ok g" "m \<noteq> 0" "flags = TEEC_MEM_INPUT \<or> flags = TEEC_MEM_OUTPUT" "maps_nonzero k"
    and "TEEC_AllocateSharedMemory k (km_context g) m
      (t\<lparr>shms := (shms t)(m := (shms t m)\<lparr>shm_size := ucast n, shm_flags := flags\<rparr>)\<rparr>) = (res, t')"
  shows "grows t t' \<and> kb_open g t' \<and> (res = TEEC_SUCCESS \<longleftrightarrow> kb_shared m n flags t') \<and> shm_buffer (shms t' m) \<noteq> 0"
proof -
  have g: "km_context g \<noteq> 0" using assms(2) by (auto simp: km_objects_ok_def)
  let ?m = "(shms t m)\<lparr>shm_size := ucast n, shm_flags := flags\<rparr>" and ?t = "t\<lparr>shms := (shms t)(m := (shms t m)\<lparr>shm_size := ucast n, shm_flags := flags\<rparr>)\<rparr>"
  obtain res' v u where a: "allocate_shm k (km_context g) ?m ?t = (res', v, u)" by (metis surj_pair)
  have t': "res = res'" "t' = u\<lparr>shms := (shms u)(m := v)\<rparr>"
    using assms(3,6) g a by (simp_all add: TEEC_AllocateSharedMemory_def)
  have ok: "shm_flags_ok ?m" using assms(4) by (auto simp: shm_flags_ok_def)
  let ?n = "if ucast n = (0 :: u64) then 8 else ucast n :: u64" and ?fd = "ctx_fd (contexts t (km_context g))"
  obtain p u1 where mm: "mmap k ?n ?fd ?t = (p, u1)" by fastforce
  have nz: "p \<noteq> 0" by (rule mmap_nonzero [OF assms(5) mm])
  obtain i u2 where id: "teec_shm_get_id k ?fd p u1 = (i, u2)" by fastforce
  have v: "(res', v) = (if p = MAP_FAILED then (TEEC_ERROR_OUT_OF_MEMORY, ?m\<lparr>shm_buffer := p, shm_id := - 1\<rparr>)
      else (TEEC_SUCCESS, ?m\<lparr>shm_buffer := p, shadow_buffer := 0, alloced_size := ?n, registered_fd := ?fd, shm_id := i\<rparr>))"
    using a ok g mm id by (simp add: allocate_shm_def Let_def split: if_splits)
  have oc: "only_calls ?t u" using a by (rule only_calls_allocate)
  have "kb_open g t'" by (rule kb_open_cong [OF assms(1)]) (simp_all add: t' only_callsD [OF oc])
  moreover have "grows t t'" using grows_only_calls [OF oc] by (simp add: grows_def t')
  moreover have "res = TEEC_SUCCESS \<longleftrightarrow> kb_shared m n flags t'" "shm_buffer (shms t' m) \<noteq> 0"
    using v nz by (auto simp: t' kb_shared_def usable_def split: if_splits)
  ultimately show ?thesis by simp
qed

lemma release_step: "kb_open g t \<Longrightarrow> kb_open g (TEEC_ReleaseSharedMemory k m t)"
  by (erule kb_open_cong) (auto simp: TEEC_ReleaseSharedMemory_def only_callsD split: prod.splits dest: only_calls_release)

text \<open>What is expected of the body of an exchange.\<close>

definition kb_body :: "km_objects \<Rightarrow> (teec \<Rightarrow> bool) \<Rightarrow> (teec \<Rightarrow> (TEEC_Result \<times> teec) option) \<Rightarrow> bool" where
  "kb_body g shared body \<longleftrightarrow> (\<forall>u r u'. kb_open g u \<and> shared u \<and> body u = Some (r, u') \<longrightarrow> kb_open g u' \<and> grows u u')"

text \<open>
  An exchange is undefined only when its body is, and leaves nothing open, whatever happens; when
  it succeeds, its body has run and succeeded.
\<close>

lemma keybox_session_run:
  assumes "kb_closed g t" "km_objects_ok g" "m \<noteq> 0" "flags = TEEC_MEM_INPUT \<or> flags = TEEC_MEM_OUTPUT" "maps_nonzero k"
    and body: "kb_body g (kb_shared m n flags) body"
  shows "(\<exists>u. kb_open g u \<and> kb_shared m n flags u \<and> body u = None) \<and> keybox_session k w gptee g m n flags body t = None \<or>
    (\<exists>r t'. keybox_session k w gptee g m n flags body t = Some (r, t') \<and> kb_closed g t' \<and> grows t t' \<and>
    (r = TEEC_SUCCESS \<longrightarrow> (\<exists>u u'. grows t u \<and> kb_open g u \<and> kb_shared m n flags u \<and> body u = Some (TEEC_SUCCESS, u') \<and> grows u' t')))"
proof -
  let ?t = "(km_clear g t)\<lparr>origins := (origins (km_clear g t))(km_origin g := 0)\<rparr>"
  obtain res t1 where 1: "TEEC_InitializeContext k gptee (Some host_name) (km_context g) ?t = (res, t1)" by fastforce
  note i = init_step [OF assms(1,2) 1]
  note def = keybox_session_def [of k w gptee g m n flags body t, unfolded Let_def 1 prod.case]
  show ?thesis
  proof (cases "res = TEEC_SUCCESS")
    case False
    then show ?thesis using i def by auto
  next
    case True
    with i have c: "kb_context g t1" "grows t t1" by simp_all
    obtain res2 t2 where 2: "TEEC_OpenSession k w (km_context g) (km_session g) (Some KEYBOX_UUID) TEEC_LOGIN_PUBLIC 0 0 (km_origin g) t1 = Some (res2, t2)"
      and o: "grows t1 t2" "if res2 = TEEC_SUCCESS then kb_open g t2 else kb_context g t2"
      using open_step [OF c(1) assms(2)] by blast
    show ?thesis
    proof (cases "res2 = TEEC_SUCCESS")
      case False
      with o obtain t3 where 3: "TEEC_FinalizeContext k (km_context g) t2 = Some t3" "grows t2 t3" "kb_closed g t3"
        using finalize_step [of g t2 k] by auto
      have "grows t t3" using c(2) o(1) 3(2) grows_trans by blast
      with 3 def True False 2 show ?thesis by auto
    next
      case res2: True
      let ?t2 = "t2\<lparr>shms := (shms t2)(m := (shms t2 m)\<lparr>shm_size := ucast n, shm_flags := flags\<rparr>)\<rparr>"
      obtain res3 u where 3: "TEEC_AllocateSharedMemory k (km_context g) m ?t2 = (res3, u)" by fastforce
      have kb: "kb_open g t2" using o(2) res2 by simp
      note a = allocate_step [OF kb assms(2-5) 3]
      have gu: "grows t u" using c(2) o(1) a grows_trans by blast
      consider (none) "kb_shared m n flags u" "body u = None" "res3 = TEEC_SUCCESS"
        | (some) r u1 where "(if res3 \<noteq> TEEC_SUCCESS \<or> shm_buffer (shms u m) = 0 then Some (res3, u)
             else do { (r, u') \<leftarrow> body u; Some (r, TEEC_ReleaseSharedMemory k m u') }) = Some (r, u1)" "kb_open g u1" "grows u u1"
            "r = TEEC_SUCCESS \<longrightarrow> kb_shared m n flags u \<and> (\<exists>u'. body u = Some (TEEC_SUCCESS, u') \<and> grows u' u1)"
      proof (cases "res3 = TEEC_SUCCESS")
        case True
        with a have sh: "kb_open g u" "kb_shared m n flags u" by simp_all
        show thesis
        proof (cases "body u")
          case None
          with True sh show thesis by (intro none)
        next
          case (Some x)
          then obtain r u' where b: "body u = Some (r, u')" by (cases x) auto
          have bo: "kb_open g u'" "grows u u'" using body sh b unfolding kb_body_def by blast+
          have "grows u (TEEC_ReleaseSharedMemory k m u')" using bo release_grows grows_trans by blast
          with True a b bo release_grows [of u' k m] release_step [of g u'] show thesis
            by (intro some [of r "TEEC_ReleaseSharedMemory k m u'"]) auto
        qed
      qed (use a some [of res3 u] in auto)
      then show ?thesis
      proof cases
        case none
        then have "keybox_session k w gptee g m n flags body t = None" unfolding def using True res2 2 3 a by simp
        with none a show ?thesis by blast
      next
        case (some r u1)
        obtain u2 where 4: "TEEC_CloseSession k (km_session g) u1 = Some u2" "grows u1 u2" "kb_context g u2"
          using close_step [OF some(2) assms(2)] by blast
        obtain t' where 5: "TEEC_FinalizeContext k (km_context g) u2 = Some t'" "grows u2 t'" "kb_closed g t'"
          using finalize_step [OF 4(3)] by blast
        have run: "keybox_session k w gptee g m n flags body t = Some (r, t')"
          unfolding def using True res2 2 3 some(1) 4(1) 5(1) by simp
        have "grows u1 t'" using 4(2) 5(2) by (rule grows_trans)
        then have "grows t t'" "\<And>u'. grows u' u1 \<Longrightarrow> grows u' t'" using gu some(3) grows_trans by blast+
        with run 5(3) gu some(4) a show ?thesis by blast
      qed
    qed
  qed
qed

section \<open>Data that is handed over\<close>

definition kb_params :: "u64 \<Rightarrow> u64 \<Rightarrow> int \<Rightarrow> tee_ioctl_param list" where
  "kb_params direction n i =
     [\<lparr>attr = ucast TEEC_VALUE_OUTPUT, u0 = 0, u1 = 0, u2 = 0\<rparr>,
      \<lparr>attr = direction, u0 = 0, u1 = n, u2 = word_of_int i\<rparr>, zero_param, zero_param]"

definition kb_ioctl :: "kb_cmd_t \<Rightarrow> u32 \<Rightarrow> u64 \<Rightarrow> u64 \<Rightarrow> int \<Rightarrow> bytes" where
  "kb_ioctl cmd sid direction n i = put_invoke_arg \<lparr>ia_func = kb_code cmd, ia_session = sid, ia_cancel_id = 0,
     ia_ret = 0, ia_ret_origin = 0, ia_num_params = 4\<rparr> @ put_params (kb_params direction n i)"

text \<open>
  Between \<open>t\<close> and \<open>t'\<close> the driver was given the command with a block of shared memory, which held
  exactly the data when it was called, and driver and application answered without error.
\<close>

definition handed :: "kernel \<Rightarrow> ptr \<Rightarrow> kb_cmd_t \<Rightarrow> bytes \<Rightarrow> teec \<Rightarrow> teec \<Rightarrow> bool" where
  "handed k m cmd data t t' \<longleftrightarrow>
     (\<exists>u fd sid. let v = shms u m; buf = kb_ioctl cmd sid TEE_IOCTL_PARAM_ATTR_TYPE_MEMREF_INPUT (of_nat (length data)) (shm_id v); call = Ioctl fd (TEE_IOC_INVOKE buf);
          r = k (hist u) call; back = ioctl_back buf (sr_out r) in
        grows t u \<and> mem_read (shm_buffer v) (length data) (mem u) = data \<and> (\<exists>es. hist t' = hist u @ (call, r) # es) \<and>
        sr_rc r = 0 \<and> ia_ret (get_invoke_arg back) = TEEC_SUCCESS \<and> (ucast (u0 (get_params 24 back ! 0)) :: u32) = 0)"

lemma kb_types:
  "TEEC_PARAM_TYPES 2 0xd 0 0 = 0xd2" "TEEC_PARAM_TYPE_GET 0xd2 0 = 2" "TEEC_PARAM_TYPE_GET 0xd2 (Suc 0) = 0xd"
  "TEEC_PARAM_TYPE_GET 0xd2 2 = 0" "TEEC_PARAM_TYPE_GET 0xd2 3 = 0"
  "TEEC_PARAM_TYPES 2 0xe 0 0 = 0xe2" "TEEC_PARAM_TYPE_GET 0xe2 0 = 2" "TEEC_PARAM_TYPE_GET 0xe2 (Suc 0) = 0xe"
  "TEEC_PARAM_TYPE_GET 0xe2 2 = 0" "TEEC_PARAM_TYPE_GET 0xe2 3 = 0"
  by code_simp+

lemma keybox_invoke_run:
  fixes k w g cmd t m direction
  defines "buf \<equiv> kb_ioctl cmd (session_id (sessions t (km_session g))) direction (shm_size (shms t m)) (shm_id (shms t m))"
  defines "call \<equiv> Ioctl (ctx_fd (contexts t (km_context g))) (TEE_IOC_INVOKE buf)"
  defines "r \<equiv> k (hist t) call"
  assumes "km_objects_ok g" "kb_open g t" "m \<noteq> 0" "shm_flags (shms t m) = flags" "shadow_buffer (shms t m) = 0"
    and "(types, flags, direction) = (0xd2, TEEC_MEM_INPUT, TEE_IOCTL_PARAM_ATTR_TYPE_MEMREF_INPUT) \<or>
      (types, flags, direction) = (0xe2, TEEC_MEM_OUTPUT, TEE_IOCTL_PARAM_ATTR_TYPE_MEMREF_OUTPUT)"
  shows "\<exists>a t'. keybox_invoke k w g types m cmd t =
      Some ((if sr_rc r \<noteq> 0 then ioctl_errno_to_res (errno t') else ia_ret (get_invoke_arg (ioctl_back buf (sr_out r))), a), t') \<and>
    hist t' = hist t @ [(call, r)] \<and> kb_open g t' \<and> (sr_rc r = 0 \<longrightarrow> a = ucast (u0 (get_params 24 (ioctl_back buf (sr_out r)) ! 0)))"
proof -
  have ctx: "sess_ctx (sessions t (km_session g)) = km_context g" using assms(5) by (simp add: kb_open_def)
  have "\<exists>a t'. keybox_invoke k w g types m cmd t =
      Some ((if sr_rc r \<noteq> 0 then ioctl_errno_to_res (errno t') else ia_ret (get_invoke_arg (ioctl_back buf (sr_out r))), a), t') \<and>
    hist t' = hist t @ [(call, r)] \<and> contextMap t' = contextMap t \<and> sessionMap t' = sessionMap t \<and> sessions t' = sessions t \<and>
    teec_mutex t' = teec_mutex t \<and> (sr_rc r = 0 \<longrightarrow> a = ucast (u0 (get_params 24 (ioctl_back buf (sr_out r)) ! 0)))"
    using assms(9)
    by (elim disjE; use assms(4,6-8) ctx kb_open_mutex [OF assms(5)] kb_types in
      \<open>simp add: keybox_invoke_def TEEC_InvokeCommand_def store_op_session_def teec_mutex_lock_def teec_mutex_unlock_def teec_pre_process_operation_def
        param_indices_list replicate_4 pre_process_param_def is_value_type_def temp_type_def partial_type_def teec_pre_process_partial_def
        tee_call_def sys_def teec_post_process_operation_def post_process_param_def km_objects_ok_def buf_def call_def r_def
        teec_post_process_partial_def set_param_def teec_free_temp_refs_def set_origin_def Let_def km_parameter_def
        kb_ioctl_def kb_params_def zero_param_def\<close>)
  then show ?thesis using kb_open_cong [OF assms(5)] by metis
qed

lemma import_body_run:
  assumes "km_objects_ok g" "kb_open g u" "kb_shared (km_input g) (of_nat (length data)) TEEC_MEM_INPUT u" "length data < 2 ^ 32"
  shows "\<exists>r u'. import_body k w g cmd data u = Some (r, u') \<and> kb_open g u' \<and> grows u u' \<and>
    (r = TEEC_SUCCESS \<longrightarrow> handed k (km_input g) cmd data u u')"
proof -
  let ?m = "km_input g" and ?b = "shm_buffer (shms u (km_input g))"
  have nz: "?m \<noteq> 0" using assms(1) by (auto simp: km_objects_ok_def)
  have size: "shm_size (shms u ?m) = of_nat (length data)"
  proof -
    have "unat (shm_size (shms u ?m)) = length data"
      using assms(3,4) by (simp add: kb_shared_def unat_ucast_64 unat_of_nat take_bit_nat_eq_self)
    then show ?thesis by (metis of_nat_unat ucast_id)
  qed
  define t where "t = u\<lparr>mem := mem_write ?b data (mem_write ?b (replicate (unat (shm_size (shms u ?m))) 0) (mem u))\<rparr>"
  have t: "kb_open g t" "shm_flags (shms t ?m) = TEEC_MEM_INPUT" "shadow_buffer (shms t ?m) = 0" "shms t = shms u" "sessions t = sessions u"
    "contexts t = contexts u" "hist t = hist u" "mem_read ?b (length data) (mem t) = data"
    using assms(2,3) by (auto simp: t_def kb_shared_def mem_read_write intro: kb_open_cong)
  define buf where "buf = kb_ioctl cmd (session_id (sessions t (km_session g))) TEE_IOCTL_PARAM_ATTR_TYPE_MEMREF_INPUT
    (of_nat (length data)) (shm_id (shms t ?m))"
  define call where "call = Ioctl (ctx_fd (contexts t (km_context g))) (TEE_IOC_INVOKE buf)"
  define r where "r = k (hist t) call"
  define rsp where "rsp = ioctl_back buf (sr_out r)"
  have sz: "shm_size (shms t ?m) = of_nat (length data)" using size t(4) by simp
  note run = keybox_invoke_run [OF assms(1) t(1) nz t(2,3), where types = "0xd2" and direction = TEE_IOCTL_PARAM_ATTR_TYPE_MEMREF_INPUT and cmd = cmd and k = k and w = w,
      unfolded sz, folded buf_def, folded call_def, folded r_def, folded rsp_def]
  obtain a t' where t': "keybox_invoke k w g 0xd2 ?m cmd t =
      Some ((if sr_rc r \<noteq> 0 then ioctl_errno_to_res (errno t') else ia_ret (get_invoke_arg rsp), a), t')"
    "hist t' = hist t @ [(call, r)]" "kb_open g t'" "sr_rc r = 0 \<longrightarrow> a = ucast (u0 (get_params 24 rsp ! 0))"
    using run by auto
  let ?res = "if sr_rc r \<noteq> 0 then ioctl_errno_to_res (errno t') else ia_ret (get_invoke_arg rsp)"
  have b: "import_body k w g cmd data u = Some (if ?res \<noteq> TEEC_SUCCESS then ?res else a, t')"
    unfolding import_body_def Let_def t_def [symmetric] using t'(1) kb_types(1) by simp
  have "handed k ?m cmd data u t'" if "(if ?res \<noteq> TEEC_SUCCESS then ?res else a) = TEEC_SUCCESS"
  proof -
    have ok: "sr_rc r = 0" "ia_ret (get_invoke_arg rsp) = TEEC_SUCCESS" "(ucast (u0 (get_params 24 rsp ! 0)) :: u32) = 0"
      using that t'(4) errno_no_success by (auto split: if_splits)
    show ?thesis unfolding handed_def Let_def
      by (rule exI [of _ t], rule exI [of _ "ctx_fd (contexts t (km_context g))"], rule exI [of _ "session_id (sessions t (km_session g))"],
          unfold buf_def [symmetric] call_def [symmetric], unfold r_def [symmetric], unfold rsp_def [symmetric])
        (use ok t t'(2) in \<open>simp add: grows_def\<close>)
  qed
  moreover have "grows u t'" using t'(2) t(7) by (simp add: grows_def)
  ultimately show ?thesis using b t'(3) by blast
qed

lemma handed_later: "grows s t \<Longrightarrow> handed k m cmd data t t1 \<Longrightarrow> grows t1 t' \<Longrightarrow> handed k m cmd data s t'"
  unfolding handed_def Let_def by (fastforce simp: grows_def)

lemma keybox_import_run:
  assumes "kb_closed g t" "km_objects_ok g" "maps_nonzero k" "length data < 2 ^ 32"
  shows "\<exists>rv t'. keybox_import k w gptee g cmd data t = Some (rv, t') \<and> kb_closed g t' \<and> grows t t' \<and>
    (rv = 0 \<longrightarrow> data \<noteq> [] \<and> handed k (km_input g) cmd data t t')"
proof (cases "data = []")
  case False
  have nz: "km_input g \<noteq> 0" using assms(2) by (auto simp: km_objects_ok_def)
  note body = import_body_run [OF assms(2) _ _ assms(4), of _ k w cmd]
  let ?sh = "kb_shared (km_input g) (of_nat (length data)) TEEC_MEM_INPUT"
  have frame: "kb_body g ?sh (import_body k w g cmd data)"
    unfolding kb_body_def using body by fastforce
  have total: "import_body k w g cmd data u \<noteq> None" if "kb_open g u" "?sh u" for u
    using body [OF that] by auto
  obtain r t' where s: "keybox_session k w gptee g (km_input g) (of_nat (length data)) TEEC_MEM_INPUT (import_body k w g cmd data) t = Some (r, t')"
      "kb_closed g t'" "grows t t'"
    and ok: "r = TEEC_SUCCESS \<longrightarrow> (\<exists>u u'. grows t u \<and> kb_open g u \<and> kb_shared (km_input g) (of_nat (length data)) TEEC_MEM_INPUT u \<and>
      import_body k w g cmd data u = Some (TEEC_SUCCESS, u') \<and> grows u' t')"
    using keybox_session_run [where w = w and gptee = gptee and n = "of_nat (length data)" and body = "import_body k w g cmd data",
        OF assms(1,2) nz disjI1 [OF refl] assms(3) frame]
    total by blast
  have "handed k (km_input g) cmd data t t'" if "sint r = 0"
  proof -
    have "r = TEEC_SUCCESS" using that sint_nonzero by auto
    with ok obtain u u' where u: "grows t u" "kb_open g u" "kb_shared (km_input g) (of_nat (length data)) TEEC_MEM_INPUT u"
      "import_body k w g cmd data u = Some (TEEC_SUCCESS, u')" "grows u' t'" by blast
    from body [OF u(2,3)] u(4) have "handed k (km_input g) cmd data u u'" by simp
    with u(1,5) show ?thesis by (blast intro: handed_later)
  qed
  with s False show ?thesis by (simp add: keybox_import_def)
qed (use assms in \<open>simp add: keybox_import_def\<close>)

section \<open>Key, model and status\<close>

lemma property_set_closed [simp]: "kb_closed g (property_set k key v t) = kb_closed g t"
  by (simp add: property_set_def sys_def Let_def kb_closed_def others_apart_def teec_inv_def)

lemma property_set_open [simp]: "kb_open g (property_set k key v t) = kb_open g t"
  by (simp add: property_set_def sys_def Let_def kb_open_def others_apart_def teec_inv_def)

lemma property_set_hist [simp]:
  "hist (property_set k key v t) = hist t @ [(Property_set key v, k (hist t) (Property_set key v))]"
  by (simp add: property_set_def sys_def Let_def)

text \<open>The text that is set for a name.\<close>

definition text_of :: "bytes \<Rightarrow> string" where
  "text_of bs = map (\<lambda>b. char_of (unat b)) bs"

text \<open>
  Between \<open>t\<close> and \<open>t'\<close> the data was handed over with the command for the key box, then the
  model that the property service names (cut to 83 bytes) with the command for the model, and
  then both properties were set.
\<close>

definition key_and_model :: "kernel \<Rightarrow> ptr \<Rightarrow> bytes \<Rightarrow> teec \<Rightarrow> teec \<Rightarrow> bool" where
  "key_and_model k m data t t' \<longleftrightarrow>
     (\<exists>t1 t2 t3 r. let model = take 83 (sr_out r) in
        handed k m CMD_CA_IMPORT_KEYBOX data t t1 \<and> hist t2 = hist t1 @ [(Property_get ATTESTKEY_MODEL_INFO_PROPERTY, r)] \<and>
        model \<noteq> [] \<and> handed k m CMD_WRITE_KEYBOX_MODEL_INFO model t2 t3 \<and>
        (\<exists>r1 r2. hist t' = hist t3 @ [(Property_set GOOGLE_KEY_STATUS ''ok'', r1), (Property_set GOOGLE_KEY_MODEL (text_of model), r2)]))"

lemma key_and_model_earlier: "grows s t \<Longrightarrow> key_and_model k m data t t' \<Longrightarrow> key_and_model k m data s t'"
  unfolding key_and_model_def Let_def by (blast intro: handed_later)

lemma model_info_take: "model_info v = take 83 v"
  by (simp add: model_info_def)

lemma import_and_model_run:
  assumes "kb_closed g t" "km_objects_ok g" "maps_nonzero k" "length data < 2 ^ 32"
  shows "\<exists>rv t'. ut_km_import_google_key_and_model k w gptee g data t = Some (rv, t') \<and> kb_closed g t' \<and>
    (rv = 0 \<longrightarrow> key_and_model k (km_input g) data t t')"
proof (cases "data = []")
  case False
  obtain rv t1 where 1: "ut_km_import_google_key k w gptee g data t = Some (rv, t1)" "kb_closed g t1"
      "rv = 0 \<longrightarrow> handed k (km_input g) CMD_CA_IMPORT_KEYBOX data t t1"
    unfolding ut_km_import_google_key_def using keybox_import_run [OF assms] by blast
  obtain r t2 where 2: "sys k (Property_get ATTESTKEY_MODEL_INFO_PROPERTY) t1 = (r, t2)" by fastforce
  have h2: "hist t2 = hist t1 @ [(Property_get ATTESTKEY_MODEL_INFO_PROPERTY, r)]" and c2: "kb_closed g t2"
    using 1(2) 2 by (auto simp: sys_def Let_def intro: kb_closed_cong)
  let ?model = "take 83 (sr_out r)"
  have len: "length ?model < 2 ^ 32" by simp
  obtain rv2 t3 where 3: "ut_km_import_google_key_model k w gptee g ?model t2 = Some (rv2, t3)" "kb_closed g t3"
      "rv2 = 0 \<longrightarrow> ?model \<noteq> [] \<and> handed k (km_input g) CMD_WRITE_KEYBOX_MODEL_INFO ?model t2 t3"
    unfolding ut_km_import_google_key_model_def using keybox_import_run [OF c2 assms(2,3) len] by blast
  note def = ut_km_import_google_key_and_model_def [of k w gptee g data t, unfolded 1(1) if_not_P [OF False] Option.bind.bind_lunit
      prod.case Let_def 2 model_info_take 3(1), folded text_of_def]
  consider "rv \<noteq> 0" | "rv = 0" "sr_out r = []" | "rv = 0" "sr_out r \<noteq> []" "rv2 \<noteq> 0" | "rv = 0" "sr_out r \<noteq> []" "rv2 = 0" by blast
  then show ?thesis
  proof cases
    case 4
    let ?t = "property_set k GOOGLE_KEY_MODEL (text_of ?model) (property_set k GOOGLE_KEY_STATUS ''ok'' t3)"
    have "key_and_model k (km_input g) data t ?t"
      unfolding key_and_model_def Let_def
      by (intro exI [of _ t1] exI [of _ t2] exI [of _ t3] exI [of _ r]) (use 4 1(3) 3(3) h2 in simp)
    with 4 def 3(2) show ?thesis by simp
  qed (use def 1(2) c2 3(2) in simp_all)
qed (use assms(1) in \<open>simp add: ut_km_import_google_key_and_model_def\<close>)

section \<open>The status of the key box\<close>

text \<open>
  Between \<open>t\<close> and \<open>u\<close> the driver was asked for the status with a block of 120 bytes, driver and
  application answered without error, and the block then held \<open>status\<close>.
\<close>

definition status_read :: "kernel \<Rightarrow> ptr \<Rightarrow> bytes \<Rightarrow> teec \<Rightarrow> teec \<Rightarrow> bool" where
  "status_read k m status t u' \<longleftrightarrow>
     (\<exists>u fd sid. let v = shms u m; buf = kb_ioctl CMD_TA_GET_KEYBOX_STATUS sid TEE_IOCTL_PARAM_ATTR_TYPE_MEMREF_OUTPUT 120 (shm_id v);
          call = Ioctl fd (TEE_IOC_INVOKE buf); r = k (hist u) call; back = ioctl_back buf (sr_out r) in
        grows t u \<and> hist u' = hist u @ [(call, r)] \<and> status = mem_read (shm_buffer v) 120 (mem u') \<and>
        sr_rc r = 0 \<and> ia_ret (get_invoke_arg back) = TEEC_SUCCESS \<and> (ucast (u0 (get_params 24 back ! 0)) :: u32) = 0)"

text \<open>The name of the model that is reported for a status.\<close>

definition reported_model :: "bytes \<Rightarrow> string option" where
  "reported_model status = (if get_u32 status 16 < 83 then c_string (drop 20 status) else Some ''unknown'')"

definition status_reported :: "kernel \<Rightarrow> ptr \<Rightarrow> teec \<Rightarrow> teec \<Rightarrow> bool" where
  "status_reported k m t t' \<longleftrightarrow>
     (\<exists>status u model r1 r2 es. status_read k m status t u \<and> get_u32 status 0 = KM_MAGIC \<and> reported_model status = Some model \<and>
        hist t' = hist u @ [(Property_set GOOGLE_KEY_STATUS ''ok'', r1), (Property_set GOOGLE_KEY_MODEL model, r2)] @ es)"

lemma report_status_some:
  assumes "report_status k status t = Some (r, t')"
  shows "(kb_open g t' \<longleftrightarrow> kb_open g t) \<and> grows t t' \<and>
    (r = TEEC_SUCCESS \<longrightarrow> get_u32 status 0 = KM_MAGIC \<and> (\<exists>model r1 r2. reported_model status = Some model \<and>
       hist t' = hist t @ [(Property_set GOOGLE_KEY_STATUS ''ok'', r1), (Property_set GOOGLE_KEY_MODEL model, r2)]))"
  using assms by (auto simp: report_status_def reported_model_def Let_def bind_eq_Some_conv grows_def split: if_splits)

lemma key_status_size: "KEY_STATUS_SIZE = 120"
  by simp

lemma check_body_run:
  assumes "km_objects_ok g" "kb_open g u" "kb_shared (km_output g) 120 TEEC_MEM_OUTPUT u" "check_body k w g u = Some (rv, u')"
  shows "kb_open g u' \<and> grows u u' \<and> (rv = TEEC_SUCCESS \<longrightarrow> status_reported k (km_output g) u u')"
proof -
  let ?m = "km_output g" and ?b = "shm_buffer (shms u (km_output g))"
  have nz: "?m \<noteq> 0" using assms(1) by (auto simp: km_objects_ok_def)
  define t where "t = u\<lparr>mem := mem_write ?b (replicate (unat (shm_size (shms u ?m))) 0) (mem u)\<rparr>"
  have t: "kb_open g t" "shm_flags (shms t ?m) = TEEC_MEM_OUTPUT" "shadow_buffer (shms t ?m) = 0" "shms t = shms u"
    "hist t = hist u" "shm_size (shms t ?m) = 120"
    using assms(2,3) by (auto simp: t_def kb_shared_def intro: kb_open_cong)
  define buf where "buf = kb_ioctl CMD_TA_GET_KEYBOX_STATUS (session_id (sessions t (km_session g))) TEE_IOCTL_PARAM_ATTR_TYPE_MEMREF_OUTPUT
    120 (shm_id (shms t ?m))"
  define call where "call = Ioctl (ctx_fd (contexts t (km_context g))) (TEE_IOC_INVOKE buf)"
  define r where "r = k (hist t) call"
  define rsp where "rsp = ioctl_back buf (sr_out r)"
  note run = keybox_invoke_run [OF assms(1) t(1) nz t(2,3), where types = "0xe2" and direction = TEE_IOCTL_PARAM_ATTR_TYPE_MEMREF_OUTPUT
      and cmd = CMD_TA_GET_KEYBOX_STATUS and k = k and w = w,
      unfolded t(6), folded buf_def, folded call_def, folded r_def, folded rsp_def]
  obtain a t' where t': "keybox_invoke k w g 0xe2 ?m CMD_TA_GET_KEYBOX_STATUS t =
      Some ((if sr_rc r \<noteq> 0 then ioctl_errno_to_res (errno t') else ia_ret (get_invoke_arg rsp), a), t')"
    "hist t' = hist t @ [(call, r)]" "kb_open g t'" "sr_rc r = 0 \<longrightarrow> a = ucast (u0 (get_params 24 rsp ! 0))"
    using run by auto
  let ?res = "if sr_rc r \<noteq> 0 then ioctl_errno_to_res (errno t') else ia_ret (get_invoke_arg rsp)"
  let ?status = "mem_read ?b 120 (mem t')"
  have b: "(if ?res \<noteq> TEEC_SUCCESS then Some (?res, t') else if a \<noteq> 0 then Some (- 1, t') else report_status k ?status t') = Some (rv, u')"
    using assms(4) [unfolded check_body_def Let_def t_def [symmetric] key_status_size] t'(1) kb_types(6) by simp
  have g: "grows u t'" using t'(2) t(5) by (simp add: grows_def)
  show ?thesis
  proof (cases "?res = TEEC_SUCCESS \<and> a = 0")
    case False
    with b have "u' = t'" "rv \<noteq> TEEC_SUCCESS" by (auto split: if_splits)
    with g t'(3) show ?thesis by simp
  next
    case True
    with b have rep: "report_status k ?status t' = Some (rv, u')" by simp
    have ok: "sr_rc r = 0" "ia_ret (get_invoke_arg rsp) = TEEC_SUCCESS" "(ucast (u0 (get_params 24 rsp ! 0)) :: u32) = 0"
      using True t'(4) errno_no_success by (auto split: if_splits)
    have "status_read k ?m ?status u t'" unfolding status_read_def Let_def
      by (rule exI [of _ t], rule exI [of _ "ctx_fd (contexts t (km_context g))"], rule exI [of _ "session_id (sessions t (km_session g))"],
          unfold buf_def [symmetric] call_def [symmetric], unfold r_def [symmetric], unfold rsp_def [symmetric])
        (use ok t t'(2) in \<open>simp add: grows_def\<close>)
    with report_status_some [OF rep, of g] have "rv = TEEC_SUCCESS \<longrightarrow> status_reported k ?m u u'"
      unfolding status_reported_def by (metis append_Nil2)
    with report_status_some [OF rep, of g] grows_trans [OF g] t'(3) show ?thesis by blast
  qed
qed

lemma status_reported_later:
  assumes "grows s t" "status_reported k m t t1" "grows t1 t'"
  shows "status_reported k m s t'"
proof -
  have "status_read k m status s u" if "status_read k m status t u" for status u
    using that grows_trans [OF assms(1)] unfolding status_read_def Let_def by blast
  moreover obtain es where "hist t' = hist t1 @ es" using assms(3) by (auto simp: grows_def)
  ultimately show ?thesis using assms(2) unfolding status_reported_def by (metis append_assoc)
qed

end
