(* ===== verification/Kmsetkey.thy ===== *)
theory Kmsetkey
  imports Tipc_Messages
begin

text \<open>
  The installation of attestation keys (\<open>lite/kmsetkey\<close>): the connection to the service
  \<open>com.mediatek.kmsetkey\<close> (\<open>kmsetkey_ipc.c\<close>) and the library that sends a key box to it in
  pieces (\<open>HalAdaptationLayer.cpp\<close>). The state of a connection is its handle and the process.
\<close>

section \<open>Messages\<close>

definition KMSETKEY_PORT :: bytes where "KMSETKEY_PORT = lit ''com.mediatek.kmsetkey''"
definition MAX_MSG_SIZE :: u32 where [simp]: "MAX_MSG_SIZE = 4096"
definition IPC_MSG_SIZE :: u32 where [simp]: "IPC_MSG_SIZE = 16"
definition RESP_FLAG :: u32 where "RESP_FLAG = 0x80000000"
definition DONE_FLAG :: u32 where "DONE_FLAG = 0x40000000"

definition TRUSTY_DEVICE_NAME :: bytes where "TRUSTY_DEVICE_NAME = lit ''/dev/trusty-ipc-dev0''"

datatype kmsetkey_cmd = KEY_LEN | KEY_BUF | SET_KEY | SET_DECRYPT_KEY

fun cmd_code :: "kmsetkey_cmd \<Rightarrow> u32" where
  "cmd_code KEY_LEN = 0"
| "cmd_code KEY_BUF = 1"
| "cmd_code SET_KEY = 2"
| "cmd_code SET_DECRYPT_KEY = 0x10"

text \<open>\<open>struct kmsetkey_msg\<close>: the command and its payload.\<close>

definition kmsetkey_msg :: "kmsetkey_cmd \<Rightarrow> bytes \<Rightarrow> bytes" where
  "kmsetkey_msg cmd payload = put_u32 (cmd_code cmd) @ payload"

section \<open>Connection\<close>

definition kmsetkey_connect :: "kernel \<Rightarrow> int \<times> 'a proc_scheme \<Rightarrow> int \<times> int \<times> 'a proc_scheme" where
  "kmsetkey_connect k hs =
     (let (rc, s1) = tipc_connect k TRUSTY_DEVICE_NAME KMSETKEY_PORT (snd hs) in
      if rc < 0 then (rc, fst hs, s1) else (0, rc, s1))"

definition kmsetkey_disconnect :: "kernel \<Rightarrow> int \<times> 'a proc_scheme \<Rightarrow> int \<times> 'a proc_scheme" where
  "kmsetkey_disconnect k hs =
     (if fst hs \<noteq> 0 then (0, tipc_close k (fst hs) (snd hs)) else hs)"

text \<open>One call: the answer, what is in the buffer \<open>out\<close> and its size afterwards.\<close>

definition kmsetkey_call ::
  "kernel \<Rightarrow> int \<Rightarrow> kmsetkey_cmd \<Rightarrow> bool \<Rightarrow> bytes \<Rightarrow> u32 \<Rightarrow> 'a proc_scheme \<Rightarrow> (int \<times> bytes \<times> u32) \<times> 'a proc_scheme" where
  "kmsetkey_call k handle cmd finish inp out_size s =
     (if handle \<le> 0 then ((- EINVAL, [], out_size), s)
      else
        let (m, s1) = sys k (Malloc (4 + length inp)) s in
        if sr_rc m < 0 then ((- errno s1, [], out_size), s1)
        else
          let (w, s2) = sys k (Write handle (kmsetkey_msg cmd inp)) s1 in
          if sr_rc w < 0 then ((- errno s2, [], out_size), s2)
          else
            let (r, s3) = sys k (Read handle (unat out_size)) s2; msg_cmd = get_u32 (sr_out r) 0 in
            if sr_rc r < 0 then ((- errno s3, [], out_size), s3)
            else if sr_rc r < 4 then ((- EINVAL, sr_out r, out_size), s3)
            else if finish \<and> msg_cmd \<noteq> cmd_code cmd OR RESP_FLAG OR DONE_FLAG \<or>
              \<not> finish \<and> msg_cmd \<noteq> cmd_code cmd OR RESP_FLAG
            then ((- EINVAL, sr_out r, out_size), s3)
            else ((0, sr_out r, of_int (sr_rc r)), s3))"

section \<open>Installation of a key box\<close>

definition Input_Ekkb_pub :: bytes where
  "Input_Ekkb_pub =
    [84, 203, 205, 179, 255, 205, 204, 221, 163, 255, 93, 48, 149, 3, 45, 42, 42, 18, 230, 144, 11, 63, 247, 133,
     229, 179, 221, 142, 75, 39, 157, 88, 200, 36, 122, 176, 131, 139, 177, 212, 164, 146, 23, 14, 242, 207, 25, 154,
     171, 206, 251, 104, 203, 134, 148, 110, 22, 142, 61, 204, 248, 12, 166, 48, 28, 71, 166, 182, 80, 47, 104, 148,
     35, 12, 98, 175, 225, 68, 164, 39, 216, 121, 5, 104, 81, 137, 4, 73, 97, 147, 122, 239, 181, 185, 23, 114,
     40, 135, 186, 148, 74, 184, 241, 70, 207, 231, 83, 10, 2, 90, 238, 89, 71, 190, 194, 65, 152, 217, 91, 23,
     175, 16, 11, 224, 146, 186, 101, 48, 99, 118, 148, 42, 38, 125, 63, 148, 46, 159, 6, 184, 211, 176, 118, 233,
     189, 186, 7, 110, 225, 61, 31, 198, 219, 127, 52, 193, 180, 237, 139, 0, 54, 174, 30, 187, 101, 129, 56, 148,
     119, 226, 78, 92, 193, 159, 147, 45, 41, 163, 48, 41, 247, 236, 252, 204, 135, 63, 250, 9, 173, 30, 229, 175,
     78, 207, 14, 68, 140, 227, 191, 141, 91, 235, 214, 160, 234, 198, 191, 177, 86, 213, 201, 230, 184, 225, 185, 148,
     133, 173, 56, 56, 221, 226, 87, 204, 254, 237, 240, 42, 16, 182, 142, 60, 162, 77, 151, 96, 62, 236, 146, 226,
     193, 114, 182, 56, 226, 192, 168, 202, 214, 235, 12, 53, 233, 62, 141, 145]"

definition InputPkb :: bytes where
  "InputPkb =
    [0, 5, 20, 36, 20, 47, 225, 252, 97, 177, 11, 151, 175, 92, 102, 176, 246, 21, 38, 246, 28, 150, 200, 186,
     150, 119, 213, 78, 251, 164, 145, 253, 251, 22, 51, 237, 110, 204, 65, 15, 207, 194, 148, 194, 100, 28, 250, 18,
     102, 4, 227, 76, 240, 180, 95, 21, 75, 219, 244, 41, 31, 152, 211, 245, 78, 168, 210, 161, 14, 139, 89, 191,
     23, 222, 183, 167, 80, 2, 47, 20, 156, 122, 229, 36, 109, 14, 159, 222, 69, 77, 106, 117, 6, 179, 218, 136,
     134, 141, 166, 17, 67, 168, 23, 169, 111, 112, 39, 1, 218, 250, 175, 246, 168, 71, 236, 239, 41, 102, 78, 168,
     124, 153, 250, 64, 184, 212, 138, 44, 177]"

definition decrypt_key_install :: "kernel \<Rightarrow> int \<Rightarrow> 'a proc_scheme \<Rightarrow> int \<times> 'a proc_scheme" where
  "decrypt_key_install k handle s =
     (let (m, s1) = sys k (Malloc (length Input_Ekkb_pub + length InputPkb)) s in
      if sr_rc m < 0 then (- 1, s1)
      else
        let ((rc, _), s2) = kmsetkey_call k handle SET_DECRYPT_KEY True (Input_Ekkb_pub @ InputPkb) MAX_MSG_SIZE s1
        in (rc, s2))"

text \<open>The largest piece: what a message of the service has room for besides the two headers.\<close>

definition MAX_PAYLOAD :: u32 where
  "MAX_PAYLOAD = MAX_MSG_SIZE - IPC_MSG_SIZE - 4"

definition payload_size :: "u32 \<Rightarrow> u32 \<Rightarrow> u32" where
  "payload_size peakb_len payload_offset =
     (if peakb_len - payload_offset < MAX_PAYLOAD then peakb_len - payload_offset else MAX_PAYLOAD)"

lemma payload_size_bounds:
  assumes "off < len"
  shows "0 < unat (payload_size len off)" "unat (off + payload_size len off) = unat off + unat (payload_size len off)"
    "unat off + unat (payload_size len off) \<le> unat len" "unat (payload_size len off) \<le> 4076"
    "unat (payload_size len off) = min (unat len - unat off) 4076"
proof -
  have d: "unat (len - off) = unat len - unat off" using assms by (simp add: unat_sub)
  have lt: "unat off < unat len" using assms by (simp add: word_less_nat_alt)
  have m: "unat MAX_PAYLOAD = 4076" by (simp add: MAX_PAYLOAD_def)
  show p: "unat (payload_size len off) = min (unat len - unat off) 4076"
    using d m by (auto simp: payload_size_def word_less_nat_alt)
  then show "0 < unat (payload_size len off)" "unat off + unat (payload_size len off) \<le> unat len"
    "unat (payload_size len off) \<le> 4076"
    using lt by auto
  then have "unat off + unat (payload_size len off) < 2 ^ LENGTH(32)"
    using unat_word_less(2) [of len] by simp
  then show "unat (off + payload_size len off) = unat off + unat (payload_size len off)"
    by (rule iffD1 [OF unat_add_lem])
qed

text \<open>The loop over the pieces; \<open>rc\<close> is the value of the last call.\<close>

function send_key ::
  "kernel \<Rightarrow> int \<Rightarrow> bytes \<Rightarrow> u32 \<Rightarrow> u32 \<Rightarrow> int \<Rightarrow> 'a proc_scheme \<Rightarrow> int \<times> 'a proc_scheme" where
  "send_key k handle peakb peakb_len payload_offset rc s =
     (if payload_offset < peakb_len then
        let payload_len = payload_size peakb_len payload_offset;
            ((rc1, _), s1) = kmsetkey_call k handle KEY_BUF (\<not> payload_offset + payload_len < peakb_len)
               (take (unat payload_len) (drop (unat payload_offset) peakb)) MAX_MSG_SIZE s
        in if rc1 < 0 then (rc1, s1)
           else send_key k handle peakb peakb_len (payload_offset + payload_len) rc1 s1
      else (rc, s))"
  by pat_completeness auto
termination
  by (relation "measure (\<lambda>(k, handle, peakb, len, off, rc, s). unat len - unat off)")
    (use payload_size_bounds in \<open>auto simp: word_less_nat_alt\<close>)

declare send_key.simps [simp del]

text \<open>What is done on an open connection, up to the label \<open>exit\<close>.\<close>

definition install_key :: "kernel \<Rightarrow> int \<Rightarrow> bytes \<Rightarrow> u32 \<Rightarrow> 'a proc_scheme \<Rightarrow> int \<times> 'a proc_scheme" where
  "install_key k handle peakb peakb_len s =
     (let (rc1, s1) = decrypt_key_install k handle s in
      if rc1 < 0 then (rc1, s1)
      else
        let ((rc2, _), s2) = kmsetkey_call k handle KEY_LEN True (put_u32 peakb_len) MAX_MSG_SIZE s1 in
        if rc2 < 0 then (rc2, s2)
        else
          let (rc3, s3) = send_key k handle peakb peakb_len 0 rc2 s2 in
          if rc3 < 0 then (rc3, s3)
          else
            let ((rc4, _), s4) = kmsetkey_call k handle SET_KEY True [] MAX_MSG_SIZE s3
            in (rc4, s4))"

definition attest_key_install :: "kernel \<Rightarrow> bytes \<Rightarrow> u32 \<Rightarrow> 'a proc_scheme \<Rightarrow> int \<times> 'a proc_scheme" where
  "attest_key_install k peakb peakb_len s =
     (let (rc, handle, s1) = kmsetkey_connect k (0, s) in
      if rc < 0 then (rc, s1)
      else
        let (rc2, s2) = install_key k handle peakb peakb_len s1
        in (if rc2 < 0 then rc2 else 0, snd (kmsetkey_disconnect k (handle, s2))))"

section \<open>The hardware module\<close>

text \<open>The constants of \<open>hardware/hardware.h\<close>, which is not part of the repository.\<close>

record android_hw =
  hardware_module_tag :: u32
  hardware_module_api_version :: "u8 \<Rightarrow> u8 \<Rightarrow> u16"
  hardware_hal_api_version :: u16

text \<open>The fields of \<open>hw_module_t\<close> and \<open>hw_device_t\<close> that the sources set.\<close>

record hw_module_t =
  module_tag :: u32
  module_api_version :: u16
  hal_api_version :: u16
  hw_id :: bytes
  hw_name :: bytes
  hw_author :: bytes

record hw_device_t =
  device_tag :: u32
  device_version :: u32
  device_module :: hw_module_t

definition KMSETKEY_HARDWARE_MODULE_NAME :: bytes where
  "KMSETKEY_HARDWARE_MODULE_NAME = lit ''Hardware kmsetkey HAL''"

definition KMSETKEY_HARDWARE_MODULE_ID :: bytes where
  "KMSETKEY_HARDWARE_MODULE_ID = lit ''kmsetkey''"

definition HAL_MODULE_INFO_SYM :: "android_hw \<Rightarrow> hw_module_t" where
  "HAL_MODULE_INFO_SYM a =
     \<lparr>module_tag = hardware_module_tag a, module_api_version = hardware_module_api_version a 0 1,
      hal_api_version = hardware_hal_api_version a, hw_id = KMSETKEY_HARDWARE_MODULE_ID,
      hw_name = KMSETKEY_HARDWARE_MODULE_NAME, hw_author = lit ''MediaTek''\<rparr>"

definition HalAdaptationLayer :: "android_hw \<Rightarrow> hw_module_t \<Rightarrow> hw_device_t" where
  "HalAdaptationLayer a m = \<lparr>device_tag = hardware_module_tag a, device_version = 1, device_module = m\<rparr>"

definition nv_kmsetkey_open :: "android_hw \<Rightarrow> hw_module_t \<Rightarrow> bytes option \<Rightarrow> int + hw_device_t" where
  "nv_kmsetkey_open a m i =
     (let n = length KMSETKEY_HARDWARE_MODULE_NAME; sym = HAL_MODULE_INFO_SYM a in
      if i = None then Inl (- EINVAL)
      else if module_tag m \<noteq> module_tag sym \<or> module_api_version m \<noteq> module_api_version sym \<or>
        hal_api_version m \<noteq> hal_api_version sym \<or> take n (hw_name m) \<noteq> take n (hw_name sym)
      then Inl (- EINVAL)
      else Inr (HalAdaptationLayer a m))"

text \<open>The second test of the source repeats the first; deleting the device has no effect on the process.\<close>

definition nv_kmsetkey_close :: "hw_device_t option \<Rightarrow> int" where
  "nv_kmsetkey_close hw = (if hw = None then 0 else if hw = None then - ENODEV else 0)"

text \<open>A module is accepted exactly when it looks like the module of the library; its identifier is not compared.\<close>

lemma nv_kmsetkey_open_accepts:
  "(\<exists>d. nv_kmsetkey_open a m (Some i) = Inr d) \<longleftrightarrow>
     module_tag m = hardware_module_tag a \<and> module_api_version m = hardware_module_api_version a 0 1 \<and>
     hal_api_version m = hardware_hal_api_version a \<and> prefix KMSETKEY_HARDWARE_MODULE_NAME (hw_name m)"
proof -
  have "take (length KMSETKEY_HARDWARE_MODULE_NAME) (hw_name m) = KMSETKEY_HARDWARE_MODULE_NAME \<longleftrightarrow>
      prefix KMSETKEY_HARDWARE_MODULE_NAME (hw_name m)"
    by (metis append_eq_conv_conj append_take_drop_id prefix_def)
  then show ?thesis by (simp add: nv_kmsetkey_open_def HAL_MODULE_INFO_SYM_def Let_def)
qed

section \<open>What is sent\<close>

lemma kmsetkey_call_sends:
  assumes "kmsetkey_call k handle cmd finish inp n s = ((rc, x), s')" "errno_positive k"
  shows "sends rc [kmsetkey_msg cmd inp] s s' \<and> rc \<le> 0 \<and> proc.more s' = proc.more s"
proof (cases "handle \<le> 0")
  case True
  with assms(1) show ?thesis by (auto simp: kmsetkey_call_def sends_def)
next
  case False
  obtain m s1 where 1: "sys k (Malloc (4 + length inp)) s = (m, s1)" by fastforce
  obtain w s2 where 2: "sys k (Write handle (kmsetkey_msg cmd inp)) s1 = (w, s2)" by fastforce
  obtain r s3 where 3: "sys k (Read handle (unat n)) s2 = (r, s3)" by fastforce
  note e = errno_positiveD [OF assms(2) 1] errno_positiveD [OF assms(2) 2] errno_positiveD [OF assms(2) 3]
  have more: "proc.more s1 = proc.more s" "proc.more s2 = proc.more s" "proc.more s3 = proc.more s"
    by (simp_all add: sys_eqD(3) [OF 1] sys_eqD(3) [OF 2] sys_eqD(3) [OF 3])
  have unsent: "c < 0 \<Longrightarrow> sends c [kmsetkey_msg cmd inp] s s1" for c
    using sends_silent [OF 1, of c "[]" s1] sends_fail [of c "[]" s s1] by simp
  have all: "sends c [kmsetkey_msg cmd inp] s s2" "sends c [kmsetkey_msg cmd inp] s s3" for c
    using sends_write [OF 2] sends_silent [OF 1] sends_silent_end [OF 3] by simp_all
  note step = assms(1) [unfolded kmsetkey_call_def 1 2 3 Let_def prod.case]
  consider "sr_rc m < 0" | "0 \<le> sr_rc m" "sr_rc w < 0" | "0 \<le> sr_rc m" "0 \<le> sr_rc w" by linarith
  then show ?thesis
  proof cases
    case 1
    then have "rc = - errno s1" "s' = s1" using step False by auto
    then have "rc < 0" using e(1) 1 by simp
    have x: "sends rc [kmsetkey_msg cmd inp] s s1" by (rule unsent) fact
    show ?thesis using x more \<open>rc < 0\<close> unfolding \<open>s' = s1\<close> by simp
  next
    case 2
    then have "rc = - errno s2" "s' = s2" using step False by auto
    with all more e(2) 2 show ?thesis by simp
  next
    case 3
    then have "rc \<le> 0" "s' = s3" using step False e(3) by (auto split: if_splits)
    with all more show ?thesis by simp
  qed
qed

lemma decrypt_key_install_sends:
  assumes "decrypt_key_install k handle s = (rc, s')" "errno_positive k"
  shows "sends rc [kmsetkey_msg SET_DECRYPT_KEY (Input_Ekkb_pub @ InputPkb)] s s' \<and> rc \<le> 0"
proof -
  obtain m s1 where 1: "sys k (Malloc (length Input_Ekkb_pub + length InputPkb)) s = (m, s1)" by fastforce
  obtain rc1 x s2 where 2: "kmsetkey_call k handle SET_DECRYPT_KEY True (Input_Ekkb_pub @ InputPkb) MAX_MSG_SIZE s1 = ((rc1, x), s2)"
    by (metis surj_pair)
  note step = assms(1) [unfolded decrypt_key_install_def 1 2 Let_def prod.case]
  show ?thesis
  proof (cases "sr_rc m < 0")
    case True
    with step show ?thesis using sends_silent [OF 1, of "- 1" "[]" s1] sends_fail [of "- 1" "[]" s s1] by auto
  next
    case False
    with step show ?thesis using kmsetkey_call_sends [OF 2 assms(2)] sends_silent [OF 1] by auto
  qed
qed

lemma send_key_sends:
  assumes "send_key k handle peakb len off rc s = (rc', s')" "off \<le> len" "rc \<le> 0"
    and "errno_positive k" "length peakb = unat len"
  shows "sends rc' (map (kmsetkey_msg KEY_BUF) (pieces 4076 (drop (unat off) peakb))) s s' \<and> rc' \<le> 0"
  using assms(1-3)
proof (induction "unat len - unat off" arbitrary: off rc s rule: less_induct)
  case less
  show ?case
  proof (cases "off < len")
    case False
    with less.prems(2) have "off = len" by simp
    with less.prems assms(5) show ?thesis by (simp add: send_key.simps)
  next
    case True
    let ?n = "payload_size len off" and ?rest = "drop (unat off) peakb"
    note b = payload_size_bounds [OF True]
    obtain rc1 x s1 where 1: "kmsetkey_call k handle KEY_BUF (\<not> off + ?n < len) (take (unat ?n) ?rest) MAX_MSG_SIZE s = ((rc1, x), s1)"
      by (metis surj_pair)
    have "take (unat ?n) ?rest = take 4076 ?rest" using b(5) assms(5) by (simp add: min_def)
    moreover have "drop (unat (off + ?n)) peakb = drop 4076 ?rest"
      using b(2,5) assms(5) by (simp add: min_def add.commute)
    moreover have "?rest \<noteq> []" using True assms(5) by (simp add: word_less_nat_alt)
    ultimately have ps: "pieces 4076 ?rest = take (unat ?n) ?rest # pieces 4076 (drop (unat (off + ?n)) peakb)"
      by (subst pieces.simps) simp
    have snd1: "sends rc1 [kmsetkey_msg KEY_BUF (take (unat ?n) ?rest)] s s1" "rc1 \<le> 0"
      using kmsetkey_call_sends [OF 1 assms(4)] by simp_all
    note step = less.prems(1) [unfolded send_key.simps [of k handle peakb len off rc s] Let_def 1 prod.case]
    show ?thesis
    proof (cases "rc1 < 0")
      case neg: True
      with step True have "rc' = rc1" "s' = s1" by simp_all
      with sends_fail [OF neg snd1(1)] snd1(2) show ?thesis by (simp add: ps)
    next
      case False
      with snd1(2) have "rc1 = 0" by simp
      have "off + ?n \<le> len" using b(2,3) by (simp add: word_le_nat_alt)
      moreover have "send_key k handle peakb len (off + ?n) rc1 s1 = (rc', s')" using step True False by simp
      moreover have "unat len - unat (off + ?n) < unat len - unat off" using b(1-3) by simp
      ultimately have "sends rc' (map (kmsetkey_msg KEY_BUF) (pieces 4076 (drop (unat (off + ?n)) peakb))) s1 s' \<and> rc' \<le> 0"
        using less.hyps [of "off + ?n" rc1 s1] snd1(2) by blast
      with sends_trans [OF _ snd1(1)] \<open>rc1 = 0\<close> show ?thesis by (simp add: ps)
    qed
  qed
qed

section \<open>The connection\<close>

lemma kmsetkey_connect_fds:
  assumes "kmsetkey_connect k (h, s) = (rc, h', s')"
  shows "rc \<le> 0"
    and "fresh_fds k \<Longrightarrow> rc = 0 \<Longrightarrow> open_fds (hist s') = insert h' (open_fds (hist s)) \<and> h' \<notin> open_fds (hist s) \<and> 0 \<le> h'"
    and "fresh_fds k \<Longrightarrow> rc < 0 \<Longrightarrow> open_fds (hist s') = open_fds (hist s) \<and> h' = h"
proof -
  obtain r s1 where 1: "tipc_connect k TRUSTY_DEVICE_NAME KMSETKEY_PORT s = (r, s1)" by fastforce
  have *: "(if r < 0 then (r, h, s1) else (0, r, s1)) = (rc, h', s')"
    using assms by (simp only: kmsetkey_connect_def snd_conv fst_conv 1 Let_def prod.case)
  then show "rc \<le> 0" by (simp split: if_splits)
  assume "fresh_fds k"
  note fds = tipc_connect_open_fds [OF 1 this]
  show "open_fds (hist s') = insert h' (open_fds (hist s)) \<and> h' \<notin> open_fds (hist s) \<and> 0 \<le> h'" if "rc = 0"
    using * fds that by (cases "r < 0") simp_all
  show "open_fds (hist s') = open_fds (hist s) \<and> h' = h" if "rc < 0"
    using * fds that by (cases "r < 0") simp_all
qed

interpretation kmsetkey_client: tipc_client kmsetkey_connect kmsetkey_disconnect fst "\<lambda>hs. hist (snd hs)" "\<lambda>hs. True" "\<lambda>hs. fst hs \<noteq> 0"
proof unfold_locales
  fix s s' :: "int \<times> 'a proc_scheme" and k rc
  assume "kmsetkey_connect k s = (rc, s')"
  then have c: "kmsetkey_connect k (fst s, snd s) = (rc, fst s', snd s')" by simp
  show "rc \<le> 0" by (rule kmsetkey_connect_fds(1) [OF c])
  show "fresh_fds k \<Longrightarrow> rc < 0 \<Longrightarrow> open_fds (hist (snd s')) = open_fds (hist (snd s)) \<and> fst s' = fst s"
    by (rule kmsetkey_connect_fds(3) [OF c])
next
  fix s s' :: "int \<times> 'a proc_scheme" and k
  assume "kmsetkey_connect k s = (0, s')" and f: "fresh_fds k"
  then have c: "kmsetkey_connect k (fst s, snd s) = (0, fst s', snd s')" by simp
  show "open_fds (hist (snd s')) = insert (fst s') (open_fds (hist (snd s))) \<and> fst s' \<notin> open_fds (hist (snd s)) \<and> 0 \<le> fst s'"
    by (rule kmsetkey_connect_fds(2) [OF c f refl])
next
  fix s :: "int \<times> 'a proc_scheme" and k
  assume "fst s \<noteq> 0"
  then show "open_fds (hist (snd (kmsetkey_disconnect k s))) = open_fds (hist (snd s)) - {fst s}"
    by (simp add: kmsetkey_disconnect_def tipc_close_def sys_def Let_def)
qed

text \<open>Connecting and disconnecting write nothing.\<close>

lemma tipc_connect_sent: "tipc_connect k dev srv s = (rc, s') \<Longrightarrow> sent (hist s') = sent (hist s)"
  by (erule tipc_connect_cases) simp_all

lemma kmsetkey_connect_sent:
  assumes "kmsetkey_connect k hs = (rc, hs')"
  shows "sent (hist (snd hs')) = sent (hist (snd hs))"
proof -
  obtain r s1 where 1: "tipc_connect k TRUSTY_DEVICE_NAME KMSETKEY_PORT (snd hs) = (r, s1)" by fastforce
  show ?thesis
    using assms tipc_connect_sent [OF 1] by (cases "r < 0") (auto simp: kmsetkey_connect_def 1)
qed

lemma kmsetkey_disconnect_sent: "sent (hist (snd (kmsetkey_disconnect k hs))) = sent (hist (snd hs))"
  by (simp add: kmsetkey_disconnect_def tipc_close_def sys_def Let_def)

section \<open>Property\<close>

text \<open>The messages of an installation, in order.\<close>

definition key_messages :: "bytes \<Rightarrow> bytes list" where
  "key_messages peakb =
     kmsetkey_msg SET_DECRYPT_KEY (Input_Ekkb_pub @ InputPkb) # kmsetkey_msg KEY_LEN (put_u32 (of_nat (length peakb))) #
     map (kmsetkey_msg KEY_BUF) (pieces 4076 peakb) @ [kmsetkey_msg SET_KEY []]"

lemma install_key_sends:
  assumes "install_key k handle peakb len s = (rc, s')" "errno_positive k" "length peakb = unat len"
  shows "sends rc (key_messages peakb) s s' \<and> rc \<le> 0"
proof -
  obtain rc1 s1 where 1: "decrypt_key_install k handle s = (rc1, s1)" by fastforce
  obtain rc2 x2 s2 where 2: "kmsetkey_call k handle KEY_LEN True (put_u32 len) MAX_MSG_SIZE s1 = ((rc2, x2), s2)" by (metis surj_pair)
  obtain rc3 s3 where 3: "send_key k handle peakb len 0 rc2 s2 = (rc3, s3)" by fastforce
  obtain rc4 x4 s4 where 4: "kmsetkey_call k handle SET_KEY True [] MAX_MSG_SIZE s3 = ((rc4, x4), s4)" by (metis surj_pair)
  note step = assms(1) [unfolded install_key_def 1 2 3 4 Let_def prod.case]
  let ?m1 = "[kmsetkey_msg SET_DECRYPT_KEY (Input_Ekkb_pub @ InputPkb)]" and ?m2 = "[kmsetkey_msg KEY_LEN (put_u32 len)]"
    and ?m3 = "map (kmsetkey_msg KEY_BUF) (pieces 4076 peakb)" and ?m4 = "[kmsetkey_msg SET_KEY []]"
  note s1 = decrypt_key_install_sends [OF 1 assms(2)] and s2 = kmsetkey_call_sends [OF 2 assms(2)]
    and s4 = kmsetkey_call_sends [OF 4 assms(2)]
  have s3: "sends rc3 ?m3 s2 s3 \<and> rc3 \<le> 0" using send_key_sends [OF 3 _ _ assms(2,3)] s2 by simp
  have all: "key_messages peakb = ?m1 @ ?m2 @ ?m3 @ ?m4"
    using assms(3) by (simp add: key_messages_def)
  have end3: "sends rc (?m3 @ ?m4) s2 s' \<and> rc \<le> 0" if "0 \<le> rc1" "0 \<le> rc2"
  proof (cases "rc3 < 0")
    case True
    with step that s3 sends_fail [OF True] show ?thesis by auto
  next
    case False
    with step that have "rc = rc4" "s' = s4" by simp_all
    with sends_trans [of rc3 ?m3 s2 s3 rc4 ?m4 s4] False s3 s4 show ?thesis by simp
  qed
  have end2: "sends rc (?m2 @ ?m3 @ ?m4) s1 s' \<and> rc \<le> 0" if "0 \<le> rc1"
  proof (cases "rc2 < 0")
    case True
    with step that have "rc = rc2" "s' = s2" by simp_all
    with s2 sends_fail [OF True, of ?m2 s1 s2 "?m3 @ ?m4"] show ?thesis by simp
  next
    case False
    with sends_trans [of rc2 ?m2 s1 s2 rc "?m3 @ ?m4" s'] end3 that s2 show ?thesis by simp
  qed
  show ?thesis
  proof (cases "rc1 < 0")
    case True
    with step have "rc = rc1" "s' = s1" by simp_all
    with s1 sends_fail [OF True, of ?m1 s s1 "?m2 @ ?m3 @ ?m4"] show ?thesis unfolding all by simp
  next
    case False
    with sends_trans [of rc1 ?m1 s s1 rc "?m2 @ ?m3 @ ?m4" s'] end2 s1 show ?thesis unfolding all by simp
  qed
qed

text \<open>C29. Installing a key box of any size sends the service, in this order, the decryption key,
  the length of the box, the box in pieces and the request to set it. Whatever the kernel
  answers, the messages sent are a prefix of these; the answer 0 means that all of them were
  sent and answered; the pieces put together are the box, and no message is longer than 4080
  bytes; and no descriptor is left open, provided that descriptor 0 is in use.\<close>

theorem attest_key_install_sends:
  assumes "attest_key_install k peakb len s = (rc, s')" "errno_positive k" "fresh_fds k" "length peakb = unat len"
    and "0 \<in> open_fds (hist s)"
  shows "sends rc (key_messages peakb) s s' \<and> rc \<le> 0 \<and> concat (pieces 4076 peakb) = peakb \<and>
    (\<forall>m \<in> set (key_messages peakb). length m \<le> 4080)"
proof -
  obtain rc0 h s0 where 0: "kmsetkey_connect k (0, s) = (rc0, h, s0)" by (metis surj_pair)
  have sent0: "sent (hist s0) = sent (hist s)" using kmsetkey_connect_sent [OF 0] by simp
  have "sends rc (key_messages peakb) s s' \<and> rc \<le> 0"
  proof (cases "rc0 < 0")
    case True
    then have "rc = rc0" "s' = s0" using assms(1) by (simp_all add: attest_key_install_def 0)
    moreover have "open_fds (hist s0) = open_fds (hist s)"
      using kmsetkey_client.connect_fail [OF _ assms(3) 0 True] by simp
    ultimately show ?thesis using True sent0 by (simp add: sends_def)
  next
    case False
    have "rc0 = 0" using False kmsetkey_client.connect_answer [OF _ 0] by simp
    with kmsetkey_client.connect_ok [OF _ assms(3), of "(0, s)" "(h, s0)"] 0
    have fds: "open_fds (hist s0) = insert h (open_fds (hist s))" "h \<notin> open_fds (hist s)" by simp_all
    then have "h \<noteq> 0" using assms(5) by auto
    obtain rc1 s1 where 1: "install_key k h peakb len s0 = (rc1, s1)" by fastforce
    have "rc = (if rc1 < 0 then rc1 else 0)" "s' = snd (kmsetkey_disconnect k (h, s1))"
      using assms(1) False by (auto simp: attest_key_install_def 0 1 Let_def split: prod.splits)
    moreover have b: "sends rc1 (key_messages peakb) s0 s1 \<and> rc1 \<le> 0" by (rule install_key_sends [OF 1 assms(2,4)])
    moreover have "open_fds (hist (snd (kmsetkey_disconnect k (h, s1)))) = open_fds (hist s)"
      using kmsetkey_client.disconnect_closes [of "(h, s1)" k] \<open>h \<noteq> 0\<close> fds b by (simp add: sends_def)
    ultimately show ?thesis
      using kmsetkey_disconnect_sent [of k "(h, s1)"] sent0 by (auto simp: sends_def split: if_splits)
  qed
  moreover have "length m \<le> 4080" if "m \<in> set (key_messages peakb)" for m
  proof -
    have "length (Input_Ekkb_pub @ InputPkb) = 385" by (simp add: Input_Ekkb_pub_def InputPkb_def)
    with that show ?thesis
      using pieces_bound [of _ 4076 peakb] by (auto simp: key_messages_def kmsetkey_msg_def)
  qed
  ultimately show ?thesis using concat_pieces [of 4076 peakb] by simp
qed

text \<open>A service that confirms every message, for a kernel that opens descriptor 5.\<close>

definition confirming :: kernel where
  "confirming h c =
     (case c of
        Open p fl m \<Rightarrow> if 5 \<in> open_fds h then fail ENFILE else ret 5
      | Read fd n \<Rightarrow>
          if sent h = [] then ret 0 else ret_data (put_u32 (get_u32 (last (sent h)) 0 OR RESP_FLAG OR DONE_FLAG))
      | _ \<Rightarrow> ret 0)"

lemma confirming_ok: "fresh_fds confirming" "errno_positive confirming"
proof -
  show "fresh_fds confirming"
  proof -
    have "sr_rc (confirming h (Open p fl m)) \<notin> open_fds h" if "\<forall>fd \<in> open_fds h. 0 \<le> fd" for h p fl m
      using that by (auto simp: confirming_def ret_def fail_def)
    moreover have "0 \<le> fd" if "fd \<in> open_fds h" for fd h
      using that
    proof (induction h rule: rev_induct)
      case (snoc e h)
      then show ?case by (cases "fst e"; cases e) (auto split: if_splits)
    qed simp
    ultimately show ?thesis by (simp add: fresh_fds_def)
  qed
  show "errno_positive confirming"
    by (auto simp: errno_positive_def confirming_def answer_defs split: syscall.splits)
qed

definition stdin_proc :: proc where
  "stdin_proc = \<lparr>hist = [(Open (lit ''/dev/null'') O_RDONLY 0, ret 0)], errno = 0\<rparr>"

theorem attest_key_install_sends_witness:
  "\<exists>s'. attest_key_install confirming [1, 2, 3] 3 stdin_proc = (0, s') \<and> sends 0 (key_messages [1, 2, 3]) stdin_proc s' \<and>
     pieces 4076 [1, 2, 3 :: u8] = [[1, 2, 3]]"
proof -
  have call: "kmsetkey_call confirming 5 cmd True inp n s =
      ((0, put_u32 (cmd_code cmd OR RESP_FLAG OR DONE_FLAG), 4),
        s\<lparr>hist := hist s @ [(Malloc (4 + length inp), ret 0), (Write 5 (kmsetkey_msg cmd inp), ret 0),
          (Read 5 (unat n), ret_data (put_u32 (cmd_code cmd OR RESP_FLAG OR DONE_FLAG)))]\<rparr>)" for cmd inp n and s :: proc
    using get_put_u32 [of _ "[]"]
    by (simp add: kmsetkey_call_def sys_def Let_def confirming_def answer_defs kmsetkey_msg_def)
  have key: "send_key confirming 5 [1, 2, 3] 3 0 rc s =
      (0, snd (kmsetkey_call confirming 5 KEY_BUF True [1, 2, 3] MAX_MSG_SIZE s))" for rc and s :: proc
    by (simp add: send_key.simps payload_size_def MAX_PAYLOAD_def call)
  have conn: "kmsetkey_connect confirming (0, stdin_proc) =
      (0, 5, stdin_proc\<lparr>hist := hist stdin_proc @ [(Open TRUSTY_DEVICE_NAME O_RDWR 0, ret 5), (Ioctl 5 (TIPC_IOC_CONNECT KMSETKEY_PORT), ret 0)]\<rparr>)"
    by (simp add: kmsetkey_connect_def tipc_connect_def sys_def Let_def confirming_def answer_defs stdin_proc_def open_fds_def)
  obtain s' where "attest_key_install confirming [1, 2, 3] 3 stdin_proc = (0, s')"
    by (simp add: attest_key_install_def conn install_key_def decrypt_key_install_def call key sys_def Let_def confirming_def ret_def
        split: prod.splits)
  moreover from attest_key_install_sends [OF this confirming_ok(2,1)] have "sends 0 (key_messages [1, 2, 3]) stdin_proc s'"
    by (simp add: stdin_proc_def open_fds_def ret_def)
  ultimately show ?thesis by (simp add: pieces.simps)
qed

end
