(* ===== verification/Ut_Kmsetkey.thy ===== *)
theory Ut_Kmsetkey
  imports Ut_Keybox Kmsetkey
begin

text \<open>
  The installation of attestation keys in the 400 variant (\<open>400/km4.1/kmsetkey\<close>): the hardware
  module (\<open>ut_kmsetkey.cpp\<close>) with its buffer (\<open>ut_km_ioctl.cpp\<close>), and the program that calls it
  (\<open>kmsetkey_ca.cpp\<close>). The buffer, which only the process sees, is given by its bytes.
\<close>

section \<open>The hardware module\<close>

record kmsetkey_state =
  keymaster_buffer :: "bytes option"
  kb_teec :: teec

definition TEE_Alloc_KM_Buffer_And_Reset :: "km_variant \<Rightarrow> kernel \<Rightarrow> kmsetkey_state \<Rightarrow> int \<times> kmsetkey_state" where
  "TEE_Alloc_KM_Buffer_And_Reset v k s =
     (let zeros = replicate (unat (buffer_length v)) 0 in
      if keymaster_buffer s = None then
        let (m, t) = sys k (Malloc (unat (buffer_length v))) (kb_teec s) in
        if sr_rc m \<le> 0 then (- 1, s\<lparr>kb_teec := t\<rparr>)
        else (0, \<lparr>keymaster_buffer = Some zeros, kb_teec = t\<rparr>)
      else (0, s\<lparr>keymaster_buffer := Some zeros\<rparr>))"

definition TEE_Free_KM_Buffer :: "kmsetkey_state \<Rightarrow> kmsetkey_state" where
  "TEE_Free_KM_Buffer s = s\<lparr>keymaster_buffer := None\<rparr>"

datatype kmsetkey_error_t = KMSK_ERROR_OK | KMSK_ERROR_UNEXPECTED_NULL_POINTER | KMSK_ERROR_MEMORY_ALLOCATION_FAILED
  | KMSK_ERROR_RESPONSE_ERROR | KMSK_ERROR_INVOKE_COMMAND_FAILED | KMSK_ERROR_KEY_NOT_EXIST | KMSK_ERROR_UNKNOWN_ERROR

fun kmsk_code :: "kmsetkey_error_t \<Rightarrow> int" where
  "kmsk_code KMSK_ERROR_OK = 0"
| "kmsk_code KMSK_ERROR_UNEXPECTED_NULL_POINTER = - 1"
| "kmsk_code KMSK_ERROR_MEMORY_ALLOCATION_FAILED = - 2"
| "kmsk_code KMSK_ERROR_RESPONSE_ERROR = - 3"
| "kmsk_code KMSK_ERROR_INVOKE_COMMAND_FAILED = - 4"
| "kmsk_code KMSK_ERROR_KEY_NOT_EXIST = - 100"
| "kmsk_code KMSK_ERROR_UNKNOWN_ERROR = - 1000"

definition inputpkb :: bytes where
  "inputpkb =
    [5, 20, 36, 20, 47, 225, 252, 97, 177, 11, 151, 175, 92, 102, 176, 246, 21, 38, 246, 28, 150, 200, 186, 150,
     119, 213, 78, 251, 164, 145, 253, 251, 22, 51, 237, 110, 204, 65, 15, 207, 194, 148, 194, 100, 28, 250, 18, 102,
     4, 227, 76, 240, 180, 95, 21, 75, 219, 244, 41, 31, 152, 211, 245, 78, 168, 210, 161, 14, 139, 89, 191, 23,
     222, 183, 167, 80, 2, 47, 20, 156, 122, 229, 36, 109, 14, 159, 222, 69, 77, 106, 117, 6, 179, 218, 136, 134,
     141, 166, 17, 67, 168, 23, 169, 111, 112, 39, 1, 218, 250, 175, 246, 168, 71, 236, 239, 41, 102, 78, 168, 124,
     153, 250, 64, 184, 212, 138, 44, 177]"

definition input_ekkb_pub :: bytes where
  "input_ekkb_pub =
    [84, 203, 205, 179, 255, 205, 204, 221, 163, 255, 93, 48, 149, 3, 45, 42, 42, 18, 230, 144, 11, 63, 247, 133,
     229, 179, 221, 142, 75, 39, 157, 88, 200, 36, 122, 176, 131, 139, 177, 212, 164, 146, 23, 14, 242, 207, 25, 154,
     171, 206, 251, 104, 203, 134, 148, 110, 22, 142, 61, 204, 248, 12, 166, 48, 28, 71, 166, 182, 80, 47, 104, 148,
     35, 12, 98, 175, 225, 68, 164, 39, 216, 121, 5, 104, 81, 137, 4, 73, 97, 147, 122, 239, 181, 185, 23, 114,
     40, 135, 186, 148, 74, 184, 241, 70, 207, 231, 83, 10, 2, 90, 238, 89, 71, 190, 194, 65, 152, 217, 91, 23,
     175, 16, 11, 224, 146, 186, 101, 48, 99, 118, 148, 42, 38, 125, 63, 148, 46, 159, 6, 184, 211, 176, 118, 233,
     189, 186, 7, 110, 225, 61, 31, 198, 219, 127, 52, 193, 180, 237, 139, 0, 54, 174, 30, 187, 101, 129, 56, 148,
     119, 226, 78, 92, 193, 159, 147, 45, 41, 163, 48, 41, 247, 236, 252, 204, 135, 63, 250, 9, 173, 30, 229, 175,
     78, 207, 14, 68, 140, 227, 191, 141, 91, 235, 214, 160, 234, 198, 191, 177, 86, 213, 201, 230, 184, 225, 185, 148,
     133, 173, 56, 56, 221, 226, 87, 204, 254, 237, 240, 42, 16, 182, 142, 60, 162, 77, 151, 96, 62, 236, 146, 226,
     193, 114, 182, 56, 226, 192, 168, 202, 214, 235, 12, 53, 233, 62, 141, 145]"

text \<open>\<open>kmsetkey_t\<close>, and what follows the header of the message.\<close>

definition kmsetkey_t :: "u32 \<Rightarrow> u32 \<Rightarrow> u32 \<Rightarrow> u32 \<Rightarrow> bytes" where
  "kmsetkey_t all_len peakb_len inputpkb_len ekkb_pub_len =
     put_u32 all_len @ put_u32 peakb_len @ put_u32 inputpkb_len @ put_u32 ekkb_pub_len @ replicate 16 0"

definition all_len :: "bytes \<Rightarrow> u32" where
  "all_len peakb = of_nat (length peakb) + of_nat (length inputpkb) + of_nat (length input_ekkb_pub) + 32"

definition keybox_data :: "bytes \<Rightarrow> bytes" where
  "keybox_data peakb =
     kmsetkey_t (all_len peakb) (of_nat (length peakb)) (of_nat (length inputpkb)) (of_nat (length input_ekkb_pub)) @
     peakb @ inputpkb @ input_ekkb_pub"

text \<open>\<open>ut_message_t\<close>: command, error of the response, a flag, and the length of the key box.\<close>

definition ut_message_t :: "u32 \<Rightarrow> u32 \<Rightarrow> u32 \<Rightarrow> u32 \<Rightarrow> bytes" where
  "ut_message_t commandId error has_block attest_keybox_len =
     put_u32 commandId @ put_u32 error @ put_u32 has_block @ put_u32 attest_keybox_len"

text \<open>
  The buffer is filled with no test of its size; the error of the response is read from the
  buffer, which is not shared with the application.
\<close>

definition ut_ree_import_attest_keybox ::
  "km_variant \<Rightarrow> kernel \<Rightarrow> secure_world \<Rightarrow> bool \<Rightarrow> km_objects \<Rightarrow> bytes option \<Rightarrow> kmsetkey_state \<Rightarrow>
    (kmsetkey_error_t \<times> kmsetkey_state) option" where
  "ut_ree_import_attest_keybox v k w gptee g peakb s =
     (case peakb of
        None \<Rightarrow> Some (KMSK_ERROR_UNEXPECTED_NULL_POINTER, s)
      | Some p \<Rightarrow>
          let (rc, s1) = TEE_Alloc_KM_Buffer_And_Reset v k s; len = unat (buffer_length v) in
          if rc \<noteq> 0 then Some (KMSK_ERROR_MEMORY_ALLOCATION_FAILED, s1)
          else if length inputpkb \<noteq> 128 \<or> length input_ekkb_pub \<noteq> 256 then Some (KMSK_ERROR_UNKNOWN_ERROR, s1)
          else if len < 16 + length (keybox_data p) then None
          else
            let buf = ut_message_t CMD_ID_TEE_REE_IMPORT_KEYBOX 0 0 (all_len p) @ keybox_data p @
                  replicate (len - (16 + length (keybox_data p))) 0 in
            do {
              (rv, t) \<leftarrow> ut_km_import_google_key_and_model k w gptee g (take (unat (all_len p)) (drop 16 buf)) (kb_teec s1);
              Some (if rv \<noteq> 0 then KMSK_ERROR_INVOKE_COMMAND_FAILED
                    else if get_u32 buf 4 \<noteq> 0 then KMSK_ERROR_RESPONSE_ERROR else KMSK_ERROR_OK,
                    \<lparr>keymaster_buffer = Some buf, kb_teec = t\<rparr>)
            })"

definition ut_ree_check_attest_keybox ::
  "km_variant \<Rightarrow> kernel \<Rightarrow> secure_world \<Rightarrow> bool \<Rightarrow> km_objects \<Rightarrow> kmsetkey_state \<Rightarrow> (kmsetkey_error_t \<times> kmsetkey_state) option" where
  "ut_ree_check_attest_keybox v k w gptee g s =
     (let (rc, s1) = TEE_Alloc_KM_Buffer_And_Reset v k s in
      if rc \<noteq> 0 then Some (KMSK_ERROR_MEMORY_ALLOCATION_FAILED, s1)
      else do {
        (rv, t) \<leftarrow> ut_km_check_google_key k w gptee g (kb_teec s1);
        Some (if rv \<noteq> 0 then KMSK_ERROR_INVOKE_COMMAND_FAILED else KMSK_ERROR_OK, s1\<lparr>kb_teec := t\<rparr>)
      })"

definition ut_module_info :: "android_hw \<Rightarrow> hw_module_t" where
  "ut_module_info a =
     \<lparr>module_tag = hardware_module_tag a, module_api_version = hardware_module_api_version a 0 1,
      hal_api_version = hardware_hal_api_version a, hw_id = KMSETKEY_HARDWARE_MODULE_ID,
      hw_name = KMSETKEY_HARDWARE_MODULE_NAME, hw_author = lit ''Microtrust''\<rparr>"

text \<open>The device is allocated with no test of the result.\<close>

definition ut_kmsetkey_open ::
  "android_hw \<Rightarrow> kernel \<Rightarrow> hw_module_t \<Rightarrow> bytes option \<Rightarrow> kmsetkey_state \<Rightarrow> ((int + hw_device_t) \<times> kmsetkey_state) option" where
  "ut_kmsetkey_open a k m name s =
     (let n = length KMSETKEY_HARDWARE_MODULE_NAME; sym = ut_module_info a in
      if name = None then Some (Inl (- EINVAL), s)
      else if module_tag m \<noteq> module_tag sym \<or> module_api_version m \<noteq> module_api_version sym \<or>
        hal_api_version m \<noteq> hal_api_version sym \<or> take n (hw_name m) \<noteq> take n (hw_name sym)
      then Some (Inl (- EINVAL), s)
      else
        let (r, t) = sys k (Malloc 1) (kb_teec s) in
        if sr_rc r \<le> 0 then None
        else Some (Inr \<lparr>device_tag = hardware_module_tag a, device_version = 1, device_module = m\<rparr>, s\<lparr>kb_teec := t\<rparr>))"

definition ut_kmsetkey_close :: "kmsetkey_state \<Rightarrow> int \<times> kmsetkey_state" where
  "ut_kmsetkey_close s = (0, TEE_Free_KM_Buffer s)"

section \<open>The program\<close>

definition KB_SIZE :: u32 where [simp]: "KB_SIZE = 16384"

text \<open>A character of an argument; behind the last one is the terminator.\<close>

definition char_at :: "bytes \<Rightarrow> nat \<Rightarrow> u8" where
  "char_at arg i = (if i < length arg then arg ! i else 0)"

text \<open>
  The arguments after the name of the program, up to the key box: \<open>Inl\<close> when the program ends,
  otherwise whether to import and the bytes. \<open>file\<close> is what can be read from a path.
\<close>

definition ca_input :: "(bytes \<Rightarrow> bytes option) \<Rightarrow> bytes list \<Rightarrow> int + bool \<times> bytes" where
  "ca_input file args =
     (case args of
        [] \<Rightarrow> Inl (- 1)
      | opt # rest \<Rightarrow>
          let c = char_at opt 1 in
          if char_at opt 0 \<noteq> of_char (CHR ''-'') \<or> c \<notin> set (lit ''iIcC'') then Inl (- 1)
          else if c \<in> set (lit ''iI'') then
            (case rest of
               [path] \<Rightarrow>
                 (case file path of
                    None \<Rightarrow> Inl (- 2)
                  | Some bs \<Rightarrow>
                      let kb_len = (of_nat (length bs) :: u32) in
                      if kb_len = 0 \<or> KB_SIZE < kb_len then Inl (- 3) else Inr (True, take (unat kb_len) bs))
             | _ \<Rightarrow> Inl (- 1))
          else Inr (False, lit ''hello keybox''))"

text \<open>\<open>hw_get\<close> is the result of \<open>hw_get_module_by_class\<close>, which loads the module.\<close>

definition kmsetkey_ca_main ::
  "android_hw \<Rightarrow> (int + hw_module_t) \<Rightarrow> (bytes \<Rightarrow> bytes option) \<Rightarrow> kernel \<Rightarrow> secure_world \<Rightarrow> bool \<Rightarrow> km_objects \<Rightarrow> bytes list \<Rightarrow>
    kmsetkey_state \<Rightarrow> (int \<times> kmsetkey_state) option" where
  "kmsetkey_ca_main a hw_get file k w gptee g args s =
     (case ca_input file args of
        Inl e \<Rightarrow> Some (e, s)
      | Inr (import, kb) \<Rightarrow>
          (case hw_get of
             Inl e \<Rightarrow> Some (- 4, s)
           | Inr m \<Rightarrow> do {
               (d, s1) \<leftarrow> ut_kmsetkey_open a k m (Some (lit ''kmsetkey'')) s;
               (case d of
                  Inl e \<Rightarrow> Some (- 5, s1)
                | Inr dev \<Rightarrow> do {
                    (e, s2) \<leftarrow> (if import then ut_ree_import_attest_keybox km41 k w gptee g (Some kb) s1
                               else ut_ree_check_attest_keybox km41 k w gptee g s1);
                    Some (if kmsk_code e \<noteq> 0 then (- 7, s2) else ut_kmsetkey_close s2)
                  })
             }))"

section \<open>The message of an installation\<close>

lemma key_lengths: "length inputpkb = 128" "length input_ekkb_pub = 256"
  by (simp_all add: inputpkb_def input_ekkb_pub_def)

lemma keybox_data_length: "length (keybox_data p) = 416 + length p"
  by (simp add: keybox_data_def kmsetkey_t_def key_lengths)

lemma unat_of_nat_small: "n < 2 ^ 32 \<Longrightarrow> unat (of_nat n :: u32) = n"
  by (simp add: unat_of_nat take_bit_nat_eq_self)

lemma all_len_unat:
  assumes "length p + 416 < 2 ^ 32"
  shows "unat (all_len p) = length (keybox_data p)"
proof -
  have "unat (of_nat (length p + 416) :: u32) = length p + 416" by (rule unat_of_nat_small) fact
  moreover have "all_len p = of_nat (length p + 416)" by (simp add: all_len_def key_lengths)
  ultimately show ?thesis by (simp only: keybox_data_length add.commute)
qed

text \<open>The fields of the message, read at their offsets.\<close>

lemma keybox_data_fields:
  assumes "length p + 416 < 2 ^ 32"
  shows "unat (get_u32 (keybox_data p) 0) = length (keybox_data p) \<and> unat (get_u32 (keybox_data p) 4) = length p \<and>
    get_u32 (keybox_data p) 8 = 128 \<and> get_u32 (keybox_data p) 12 = 256 \<and> take (length p) (drop 32 (keybox_data p)) = p \<and>
    take 128 (drop (32 + length p) (keybox_data p)) = inputpkb \<and> drop (160 + length p) (keybox_data p) = input_ekkb_pub"
proof -
  have d: "keybox_data p = put_u32 (all_len p) @ put_u32 (of_nat (length p)) @ put_u32 128 @ put_u32 256 @ replicate 16 0 @
      p @ inputpkb @ input_ekkb_pub"
    by (simp add: keybox_data_def kmsetkey_t_def key_lengths)
  have "get_u32 (keybox_data p) 0 = all_len p" "get_u32 (keybox_data p) 4 = of_nat (length p)" "get_u32 (keybox_data p) 8 = 128"
    "get_u32 (keybox_data p) 12 = 256"
    unfolding d by simp_all
  moreover have 32: "drop 32 (keybox_data p) = p @ inputpkb @ input_ekkb_pub" unfolding d by simp
  then have "drop (32 + length p) (keybox_data p) = inputpkb @ input_ekkb_pub" by (simp add: add.commute flip: drop_drop)
  moreover from this have "drop (160 + length p) (keybox_data p) = input_ekkb_pub"
    using drop_drop [of 128 "32 + length p" "keybox_data p"] by (simp add: key_lengths add.commute)
  ultimately show ?thesis using 32 all_len_unat [OF assms] assms
    by (simp add: key_lengths unat_of_nat take_bit_nat_eq_self)
qed

lemma attest_keybox_installed_run:
  assumes "kb_closed g (kb_teec s)" "km_objects_ok g" "maps_nonzero k" "length p + 432 \<le> unat (buffer_length v)"
  shows "\<exists>e s'. ut_ree_import_attest_keybox v k w gptee g (Some p) s = Some (e, s') \<and> kb_closed g (kb_teec s') \<and>
    e \<in> {KMSK_ERROR_OK, KMSK_ERROR_MEMORY_ALLOCATION_FAILED, KMSK_ERROR_INVOKE_COMMAND_FAILED} \<and>
    (e = KMSK_ERROR_OK \<longrightarrow> key_and_model k (km_input g) (keybox_data p) (kb_teec s) (kb_teec s'))"
proof -
  obtain rc s1 where 1: "TEE_Alloc_KM_Buffer_And_Reset v k s = (rc, s1)" by fastforce
  have s1: "kb_closed g (kb_teec s1)" "grows (kb_teec s) (kb_teec s1)"
    using 1 assms(1) by (auto simp: TEE_Alloc_KM_Buffer_And_Reset_def Let_def sys_def grows_def intro: kb_closed_cong split: if_splits)
  note def = ut_ree_import_attest_keybox_def [of v k w gptee g "Some p" s, unfolded option.case 1 Let_def prod.case]
  show ?thesis
  proof (cases "rc = 0")
    case False
    with def s1 show ?thesis by simp
  next
    case True
    have p: "length p + 416 < 2 ^ 32" using assms(4) unat_word_less(2) [of "buffer_length v"] by simp
    have data: "length (keybox_data p) < 2 ^ 32" using p by (simp add: keybox_data_length)
    define buf where "buf = ut_message_t CMD_ID_TEE_REE_IMPORT_KEYBOX 0 0 (all_len p) @ keybox_data p @
      replicate (unat (buffer_length v) - (16 + length (keybox_data p))) 0"
    have b: "take (unat (all_len p)) (drop 16 buf) = keybox_data p" "get_u32 buf 4 = 0"
      by (simp_all add: buf_def ut_message_t_def all_len_unat [OF p])
    obtain rv t where t: "ut_km_import_google_key_and_model k w gptee g (keybox_data p) (kb_teec s1) = Some (rv, t)" "kb_closed g t"
        "rv = 0 \<longrightarrow> key_and_model k (km_input g) (keybox_data p) (kb_teec s1) t"
      using import_and_model_run [OF s1(1) assms(2,3) data] by blast
    have fits: "\<not> unat (buffer_length v) < 16 + length (keybox_data p)" using assms(4) by (simp add: keybox_data_length)
    have run: "ut_ree_import_attest_keybox v k w gptee g (Some p) s =
        Some (if rv \<noteq> 0 then KMSK_ERROR_INVOKE_COMMAND_FAILED else KMSK_ERROR_OK, \<lparr>keymaster_buffer = Some buf, kb_teec = t\<rparr>)"
      unfolding def buf_def [symmetric] b t(1) using True fits by (simp add: key_lengths)
    with run t(2,3) key_and_model_earlier [OF s1(2)] show ?thesis by simp
  qed
qed


text \<open>Checking: context and session are closed afterwards, and success is answered only if the application
  reported the magic number, after which the properties tell so.\<close>

theorem attest_keybox_checked:
  assumes "ut_ree_check_attest_keybox v k w gptee g s = Some (e, s')" "kb_closed g (kb_teec s)" "km_objects_ok g" "maps_nonzero k"
  shows "kb_closed g (kb_teec s') \<and> (e = KMSK_ERROR_OK \<longrightarrow> status_reported k (km_output g) (kb_teec s) (kb_teec s'))"
proof -
  obtain rc s1 where 1: "TEE_Alloc_KM_Buffer_And_Reset v k s = (rc, s1)" by fastforce
  have s1: "kb_closed g (kb_teec s1)" "grows (kb_teec s) (kb_teec s1)"
    using 1 assms(2) by (auto simp: TEE_Alloc_KM_Buffer_And_Reset_def Let_def sys_def grows_def intro: kb_closed_cong split: if_splits)
  note step = assms(1) [unfolded ut_ree_check_attest_keybox_def 1 Let_def prod.case]
  show ?thesis
  proof (cases "rc = 0")
    case False
    with step s1 show ?thesis by auto
  next
    case True
    let ?t = "property_set k GOOGLE_KEY_MODEL ''fail'' (property_set k GOOGLE_KEY_STATUS ''fail'' (kb_teec s1))"
    have c: "kb_closed g ?t" using s1(1) by simp
    have gr: "grows (kb_teec s) ?t" using s1(2) by (auto simp: grows_def)
    have nz: "km_output g \<noteq> 0" using assms(3) by (auto simp: km_objects_ok_def)
    have frame: "kb_body g (kb_shared (km_output g) 120 TEEC_MEM_OUTPUT) (check_body k w g)"
      unfolding kb_body_def using check_body_run [OF assms(3)] by blast
    from step True obtain r t' where r: "keybox_session k w gptee g (km_output g) 120 TEEC_MEM_OUTPUT (check_body k w g) ?t = Some (r, t')"
      "e = (if sint r \<noteq> 0 then KMSK_ERROR_INVOKE_COMMAND_FAILED else KMSK_ERROR_OK)" "s' = s1\<lparr>kb_teec := t'\<rparr>"
      by (auto simp: ut_km_check_google_key_def bind_eq_Some_conv)
    from keybox_session_run [OF c assms(3) nz disjI2 [OF refl] assms(4) frame, of w gptee] r(1)
    have x: "kb_closed g t'" "r = TEEC_SUCCESS \<longrightarrow> (\<exists>u u'. grows ?t u \<and> kb_open g u \<and> kb_shared (km_output g) 120 TEEC_MEM_OUTPUT u \<and>
        check_body k w g u = Some (TEEC_SUCCESS, u') \<and> grows u' t')" by auto
    have "status_reported k (km_output g) (kb_teec s) t'" if "e = KMSK_ERROR_OK"
    proof -
      have "r = TEEC_SUCCESS" using that r(2) sint_nonzero by (auto split: if_splits)
      with x(2) obtain u u' where u: "grows ?t u" "kb_open g u" "kb_shared (km_output g) 120 TEEC_MEM_OUTPUT u"
        "check_body k w g u = Some (TEEC_SUCCESS, u')" "grows u' t'" by blast
      with check_body_run [OF assms(3) u(2-4)] have "status_reported k (km_output g) u u'" by simp
      with status_reported_later grows_trans [OF gr u(1)] u(5) show ?thesis by blast
    qed
    with x(1) r(3) show ?thesis by simp
  qed
qed

section \<open>The program\<close>

lemma open_device:
  assumes "ut_kmsetkey_open a k m name s = Some (d, s1)" "kb_closed g (kb_teec s)"
  shows "kb_closed g (kb_teec s1) \<and> grows (kb_teec s) (kb_teec s1)"
  using assms by (auto simp: ut_kmsetkey_open_def Let_def sys_def grows_def intro: kb_closed_cong split: if_splits)

lemma ca_input_bounds:
  assumes "ca_input file args = Inr (True, kb)"
  shows "\<exists>opt path bs. args = [opt, path] \<and> file path = Some bs \<and> kb = take (length kb) bs \<and> 0 < length kb \<and> length kb \<le> 16384"
proof -
  from assms obtain opt path bs where a: "args = [opt, path]" "file path = Some bs" "kb = take (unat (of_nat (length bs) :: u32)) bs"
      "(of_nat (length bs) :: u32) \<noteq> 0" "\<not> KB_SIZE < of_nat (length bs)"
    by (auto simp: ca_input_def Let_def split: list.splits option.splits if_splits)
  let ?n = "unat (of_nat (length bs) :: u32)"
  have "?n \<le> length bs" by (simp add: unat_of_nat)
  then have n: "length kb = ?n" using a(3) by simp
  moreover have "0 < ?n" using a(4) by (simp add: unat_gt_0)
  moreover have "?n \<le> 16384" using a(5) by (simp add: word_less_nat_alt)
  ultimately show ?thesis using a by simp
qed

text \<open>The program once the module is open.\<close>

lemma ca_main_opened:
  assumes "ca_input file args = Inr (import, kb)" "ut_kmsetkey_open a k m (Some (lit ''kmsetkey'')) s = Some (Inr dev, s1)"
  shows "kmsetkey_ca_main a (Inr m) file k w gptee g args s =
    do {
      (e, s2) \<leftarrow> (if import then ut_ree_import_attest_keybox km41 k w gptee g (Some kb) s1 else ut_ree_check_attest_keybox km41 k w gptee g s1);
      Some (if e \<noteq> KMSK_ERROR_OK then (- 7, s2) else ut_kmsetkey_close s2)
    }"
proof -
  have "kmsk_code e = 0 \<longleftrightarrow> e = KMSK_ERROR_OK" for e by (cases e) simp_all
  then show ?thesis using assms by (simp add: kmsetkey_ca_main_def)
qed

lemma ca_import:
  assumes "ca_input file args = Inr (True, kb)" "ut_kmsetkey_open a k m (Some (lit ''kmsetkey'')) s = Some (Inr dev, s1)"
    and "kb_closed g (kb_teec s)" "km_objects_ok g" "maps_nonzero k"
  shows "\<exists>e s2. kmsetkey_ca_main a (Inr m) file k w gptee g args s = Some (if e \<noteq> KMSK_ERROR_OK then (- 7, s2) else ut_kmsetkey_close s2) \<and>
    kb_closed g (kb_teec s2) \<and> (e = KMSK_ERROR_OK \<longrightarrow> key_and_model k (km_input g) (keybox_data kb) (kb_teec s) (kb_teec s2))"
proof -
  note s1 = open_device [OF assms(2,3)]
  have "length kb + 432 \<le> unat (buffer_length km41)" using ca_input_bounds [OF assms(1)] by auto
  from attest_keybox_installed_run [OF _ assms(4,5) this, of s1 w gptee] s1 obtain e s2 where
    "ut_ree_import_attest_keybox km41 k w gptee g (Some kb) s1 = Some (e, s2)" "kb_closed g (kb_teec s2)"
      "e = KMSK_ERROR_OK \<longrightarrow> key_and_model k (km_input g) (keybox_data kb) (kb_teec s1) (kb_teec s2)"
    by blast
  with ca_main_opened [OF assms(1,2), of w gptee g] key_and_model_earlier [OF conjunct2 [OF s1]] show ?thesis
    by (intro exI [of _ e] exI [of _ s2]) (simp del: km41_def)
qed

lemma ca_check:
  assumes "ca_input file args = Inr (False, kb)" "ut_kmsetkey_open a k m (Some (lit ''kmsetkey'')) s = Some (Inr dev, s1)"
    and "kb_closed g (kb_teec s)" "km_objects_ok g" "maps_nonzero k" "kmsetkey_ca_main a (Inr m) file k w gptee g args s = Some (rc, s')"
  shows "\<exists>e s2. (rc, s') = (if e \<noteq> KMSK_ERROR_OK then (- 7, s2) else ut_kmsetkey_close s2) \<and>
    kb_closed g (kb_teec s2) \<and> (e = KMSK_ERROR_OK \<longrightarrow> status_reported k (km_output g) (kb_teec s) (kb_teec s2))"
proof -
  note s1 = open_device [OF assms(2,3)]
  from assms(6) ca_main_opened [OF assms(1,2), of w gptee g] obtain e s2 where
    e: "ut_ree_check_attest_keybox km41 k w gptee g s1 = Some (e, s2)" "(rc, s') = (if e \<noteq> KMSK_ERROR_OK then (- 7, s2) else ut_kmsetkey_close s2)"
    by (auto simp: bind_eq_Some_conv simp del: km41_def)
  from attest_keybox_checked [OF e(1) _ assms(4,5)] s1 status_reported_later [OF conjunct2 [OF s1]] e(2) show ?thesis
    by (intro exI [of _ e] exI [of _ s2]) auto
qed


section \<open>Examples\<close>

text \<open>The example device, where the property service knows a model.\<close>

definition keybox_kernel :: kernel where
  "keybox_kernel h c = (case c of Property_get key \<Rightarrow> \<lparr>sr_rc = 2, sr_err = 0, sr_out = [77, 49]\<rparr> | _ \<Rightarrow> device_kernel h c)"

lemma keybox_calls [simp]:
  "keybox_kernel h (Property_get key) = \<lparr>sr_rc = 2, sr_err = 0, sr_out = [77, 49]\<rparr>" "keybox_kernel h (Open path fl m) = ret 7"
  "keybox_kernel h (Ioctl fd q) = device_kernel h (Ioctl fd q)" "keybox_kernel h (Mmap n fd) = ret 65536"
  "keybox_kernel h (Malloc n) = ret 8192"
  by (simp_all add: keybox_kernel_def)

lemma keybox_kernel_ok: "connects keybox_kernel" "maps_nonzero keybox_kernel"
  by (simp_all add: connects_def maps_nonzero_def ret_def)

lemma keybox_session_example:
  assumes "kb_closed km_g t" "quiet w" "m \<noteq> 0" "flags = TEEC_MEM_INPUT \<or> flags = TEEC_MEM_OUTPUT"
    and "\<And>u. kb_open km_g u \<Longrightarrow> kb_shared m n flags u \<Longrightarrow> \<exists>u'. body u = Some (TEEC_SUCCESS, u') \<and> kb_open km_g u'"
  shows "\<exists>t'. keybox_session keybox_kernel w False km_g m n flags body t = Some (TEEC_SUCCESS, t')"
proof -
  let ?k = keybox_kernel and ?t = "(km_clear km_g t)\<lparr>origins := (origins (km_clear km_g t))(600 := 0)\<rparr>"
  have uuid: "length (uuid_to_octets KEYBOX_UUID) = 16" by code_simp
  obtain t1 where 1: "TEEC_InitializeContext ?k False (Some host_name) 100 ?t = (TEEC_SUCCESS, t1)" "contexts t1 100 = \<lparr>ctx_fd = 7\<rparr>"
    using device_initialize [OF keybox_kernel_ok(1), of 100 host_name ?t] by auto
  have c1: "kb_context km_g t1" using init_step [OF assms(1) km_g_fields(7), of ?k False "Some host_name"] 1(1) by force
  obtain t2 where 2: "TEEC_OpenSession ?k w 100 200 (Some KEYBOX_UUID) TEEC_LOGIN_PUBLIC 0 0 600 t1 = Some (TEEC_SUCCESS, t2)"
    using device_open_session [OF 1(2) keybox_kernel_ok(1) assms(2) _ _ uuid, of 200 600] by auto
  have c2: "kb_open km_g t2" using open_step [OF c1 km_g_fields(7), of ?k w KEYBOX_UUID 600] 2 by auto
  let ?t2 = "t2\<lparr>shms := (shms t2)(m := (shms t2 m)\<lparr>shm_size := ucast n, shm_flags := flags\<rparr>)\<rparr>"
  obtain u where 3: "TEEC_AllocateSharedMemory ?k 100 m ?t2 = (TEEC_SUCCESS, u)"
    using assms(3,4)
    by (auto simp: TEEC_AllocateSharedMemory_def allocate_shm_def shm_flags_ok_def mmap_def teec_shm_get_id_def sys_def Let_def ret_def
        MAP_FAILED_def)
  have alloc: "TEEC_AllocateSharedMemory ?k (km_context km_g) m ?t2 = (TEEC_SUCCESS, u)" using 3 by simp
  note a = allocate_step [OF c2 km_g_fields(7) assms(3,4) keybox_kernel_ok(2) alloc]
  with assms(5) obtain u' where u': "body u = Some (TEEC_SUCCESS, u')" "kb_open km_g u'" by blast
  obtain t4 where 4: "TEEC_CloseSession ?k 200 (TEEC_ReleaseSharedMemory ?k m u') = Some t4" "kb_context km_g t4"
    using close_step [OF release_step [OF u'(2), of ?k m] km_g_fields(7), of ?k] by auto
  obtain t5 where 5: "TEEC_FinalizeContext ?k 100 t4 = Some t5" using finalize_step [OF 4(2), of ?k] by auto
  show ?thesis using 1(1) 2 3 a u'(1) 4(1) 5 by (simp add: keybox_session_def Let_def)
qed

lemma import_body_example:
  assumes "kb_open km_g u" "kb_shared 300 (of_nat (length data)) TEEC_MEM_INPUT u" "length data < 2 ^ 32"
  shows "\<exists>u'. import_body keybox_kernel w km_g cmd data u = Some (TEEC_SUCCESS, u') \<and> kb_open km_g u'"
proof -
  let ?b = "shm_buffer (shms u 300)"
  define t where "t = u\<lparr>mem := mem_write ?b data (mem_write ?b (replicate (unat (shm_size (shms u 300))) 0) (mem u))\<rparr>"
  have t: "kb_open km_g t" "shm_flags (shms t 300) = TEEC_MEM_INPUT" "shadow_buffer (shms t 300) = 0"
    using assms(1,2) by (auto simp: t_def kb_shared_def intro: kb_open_cong)
  have ans: "ia_ret (get_invoke_arg (kb_ioctl cmd sid d n i)) = 0" "get_params 24 (kb_ioctl cmd sid d n i) = kb_params d n i" for sid d n i
    by (simp_all add: kb_ioctl_def get_params_invoke kb_params_def)
  obtain t' where "keybox_invoke keybox_kernel w km_g 0xd2 300 cmd t = Some ((TEEC_SUCCESS, 0), t')" "kb_open km_g t'"
    using keybox_invoke_run [OF km_g_fields(7) t(1) _ t(2,3), where types = "0xd2" and direction = TEE_IOCTL_PARAM_ATTR_TYPE_MEMREF_INPUT
      and cmd = cmd and k = keybox_kernel and w = w]
    by (auto simp: ret_def ans kb_params_def)
  with kb_types(1) show ?thesis unfolding import_body_def Let_def by (simp add: t_def [symmetric])
qed

lemma keybox_import_example:
  assumes "kb_closed km_g t" "quiet w" "data \<noteq> []" "length data < 2 ^ 32"
  shows "\<exists>t'. keybox_import keybox_kernel w False km_g cmd data t = Some (0, t') \<and> kb_closed km_g t'"
proof -
  obtain t' where "keybox_import keybox_kernel w False km_g cmd data t = Some (0, t')"
    using keybox_session_example [OF assms(1,2), of 300 TEEC_MEM_INPUT "of_nat (length data)" "import_body keybox_kernel w km_g cmd data"]
      import_body_example [OF _ _ assms(4)] assms(3) by (auto simp: keybox_import_def)
  moreover from this have "kb_closed km_g t'" using keybox_import_run [OF assms(1) km_g_fields(7) keybox_kernel_ok(2) assms(4), of w False cmd] by auto
  ultimately show ?thesis by blast
qed

definition kmsetkey_start :: kmsetkey_state where
  "kmsetkey_start = \<lparr>keymaster_buffer = None, kb_teec = tee_initial\<rparr>"

lemma kmsetkey_start_closed: "kb_closed km_g (kb_teec kmsetkey_start)"
  by (simp add: kmsetkey_start_def tee_initial_def kb_closed_def others_apart_def teec_inv_def)

lemma import_example:
  assumes "quiet w" "kb_closed km_g (kb_teec s)" "keymaster_buffer s = None"
  shows "\<exists>s'. ut_ree_import_attest_keybox km41 keybox_kernel w False km_g (Some [1, 2, 3]) s = Some (KMSK_ERROR_OK, s')"
proof -
  define data where "data = keybox_data [1, 2, 3]"
  have data: "length data = 419" "data \<noteq> []" by (auto simp: data_def keybox_data_length dest!: arg_cong [where f = length])
  let ?zeros = "replicate 71680 0 :: bytes" and ?t = "snd (sys keybox_kernel (Malloc 71680) (kb_teec s))"
  have alloc: "TEE_Alloc_KM_Buffer_And_Reset km41 keybox_kernel s = (0, \<lparr>keymaster_buffer = Some ?zeros, kb_teec = ?t\<rparr>)"
    by (simp add: TEE_Alloc_KM_Buffer_And_Reset_def Let_def assms(3) sys_def ret_def)
  have "kb_closed km_g ?t" by (rule kb_closed_cong [OF assms(2)]) (simp_all add: sys_def Let_def)
  then obtain t1 where 1: "ut_km_import_google_key keybox_kernel w False km_g data ?t = Some (0, t1)" "kb_closed km_g t1"
    using keybox_import_example [OF _ assms(1) data(2)] data(1) unfolding ut_km_import_google_key_def by auto
  let ?t2 = "snd (sys keybox_kernel (Property_get ATTESTKEY_MODEL_INFO_PROPERTY) t1)"
  have "kb_closed km_g ?t2" by (rule kb_closed_cong [OF 1(2)]) (simp_all add: sys_def Let_def)
  then obtain t3 where 3: "ut_km_import_google_key_model keybox_kernel w False km_g [77, 49] ?t2 = Some (0, t3)"
    using keybox_import_example [of ?t2 w "[77, 49]"] assms(1) unfolding ut_km_import_google_key_model_def by auto
  obtain t4 where 4: "ut_km_import_google_key_and_model keybox_kernel w False km_g data ?t = Some (0, t4)"
    using 1(1) 3 data(2) by (simp add: ut_km_import_google_key_and_model_def sys_def Let_def model_info_take)
  have len: "unat (all_len [1, 2, 3]) = length data" unfolding data_def by (rule all_len_unat) simp
  show ?thesis
    unfolding ut_ree_import_attest_keybox_def option.case alloc Let_def prod.case data_def [symmetric] len
    using 4 data(1) by (simp add: key_lengths ut_message_t_def)
qed


text \<open>The program with the option \<open>-i\<close> and a file of three bytes.\<close>

definition example_hw :: android_hw where
  "example_hw = \<lparr>hardware_module_tag = 1, hardware_module_api_version = (\<lambda>x y. 1), hardware_hal_api_version = 1\<rparr>"

definition example_file :: "bytes \<Rightarrow> bytes option" where
  "example_file path = (if path = lit ''kb'' then Some [1, 2, 3] else None)"

lemma example_input: "ca_input example_file [lit ''-i'', lit ''kb''] = Inr (True, [1, 2, 3])"
  by code_simp


end
